(* ===== verification/Veery_Prelude.thy ===== *)
theory Veery_Prelude
  imports Main "HOL-Library.AList" "HOL-Library.List_Lexorder" "HOL-Library.Char_ord"
    "HOL-Library.Sublist" "HOL-Library.Word" "HOL-Library.State_Monad" "HOL-Library.Multiset"
begin

text \<open>
  Shared ground of the development: Go errors as values, the functions of Go's
  \<^verbatim>\<open>strings\<close> and \<^verbatim>\<open>strconv\<close> packages that Veery calls, association lists for Go maps,
  and pre/postcondition triples for the state monad in which the Docker manager is written.

  Strings are byte lists, as Go's are. Case mapping and white space are those of ASCII.
\<close>

named_theorems go_simps \<open>characteristic equations of the Go library functions\<close>
named_theorems triple_rules \<open>triples of the monadic operations\<close>

section \<open>Errors\<close>

text \<open>
  The sentinel errors of the repository, errors made from a text, and wrapped errors:
  \<open>Wrap p e q\<close> is \<^verbatim>\<open>fmt.Errorf\<close> of \<open>p\<close>, a wrapped cause (\<^verbatim>\<open>%w\<close>) and \<open>q\<close>.
\<close>

datatype err =
    ErrNotFound | ErrHandedOff | ErrInvalidInvite | ErrCeremonyExpired
  | ErrInvalidState | ErrMissingIDToken | ErrNonceMismatch | ErrMissingSubject
  | ErrEnvManaged | ErrCtxDone | ErrEROFS | ErrPermission | ErrEBUSY
  | Errorf string
  | Wrap string err string
  | Joined "err list"

type_synonym 'a res = "err + 'a"

fun Join :: "string list \<Rightarrow> string \<Rightarrow> string" where
  "Join [] sep = []"
| "Join [x] sep = x"
| "Join (x # y # xs) sep = x @ sep @ Join (y # xs) sep"

fun err_text :: "err \<Rightarrow> string" where
  "err_text ErrNotFound = ''not found''"
| "err_text ErrHandedOff = ''handed off to the updater''"
| "err_text ErrInvalidInvite = ''invalid or expired invite''"
| "err_text ErrCeremonyExpired = ''ceremony expired, try again''"
| "err_text ErrInvalidState = ''login expired or state mismatch''"
| "err_text ErrMissingIDToken = ''provider returned no id token''"
| "err_text ErrNonceMismatch = ''id token nonce mismatch''"
| "err_text ErrMissingSubject = ''id token has no subject''"
| "err_text ErrEnvManaged =
     ''notifications are configured by VEERY_NOTIFY_URLS and cannot be changed here''"
| "err_text ErrCtxDone = ''context canceled''"
| "err_text ErrEROFS = ''read-only file system''"
| "err_text ErrPermission = ''permission denied''"
| "err_text ErrEBUSY = ''device or resource busy''"
| "err_text (Errorf m) = m"
| "err_text (Wrap p e q) = p @ err_text e @ q"
| "err_text (Joined es) = Join (map err_text es) [CHR 0x0A]"

text \<open>\<^verbatim>\<open>errors.Is\<close>: the target occurs on the chain of wrapped causes.\<close>

fun errors_Is :: "err \<Rightarrow> err \<Rightarrow> bool" where
  "errors_Is (Wrap p e q) t = (Wrap p e q = t \<or> errors_Is e t)"
| "errors_Is (Joined es) t = (Joined es = t \<or> (\<exists>e \<in> set es. errors_Is e t))"
| "errors_Is e t = (e = t)"

lemma errors_Is_refl [simp]: "errors_Is e e"
  by (cases e) auto

section \<open>Strings\<close>

definition HasPrefix :: "string \<Rightarrow> string \<Rightarrow> bool" where
  "HasPrefix s p \<longleftrightarrow> take (length p) s = p"

definition HasSuffix :: "string \<Rightarrow> string \<Rightarrow> bool" where
  "HasSuffix s p \<longleftrightarrow> HasPrefix (rev s) (rev p)"

definition TrimPrefix :: "string \<Rightarrow> string \<Rightarrow> string" where
  "TrimPrefix s p = (if HasPrefix s p then drop (length p) s else s)"

definition CutSuffix :: "string \<Rightarrow> string \<Rightarrow> string option" where
  "CutSuffix s p = (if HasSuffix s p then Some (take (length s - length p) s) else None)"

lemma HasPrefix_iff: "HasPrefix s p \<longleftrightarrow> (\<exists>t. s = p @ t)"
  unfolding HasPrefix_def by (metis append_eq_conv_conj append_take_drop_id)

lemma HasPrefix_append [simp]: "HasPrefix (p @ t) p"
  by (simp add: HasPrefix_def)

lemma HasPrefix_prefix: "HasPrefix s p \<longleftrightarrow> prefix p s"
  by (auto simp: HasPrefix_iff prefix_def)

lemma HasSuffix_iff: "HasSuffix s p \<longleftrightarrow> (\<exists>t. s = t @ p)"
  unfolding HasSuffix_def HasPrefix_iff
  by (metis rev_append rev_rev_ident)

lemma HasSuffix_append [simp]: "HasSuffix (t @ p) p"
  by (simp add: HasSuffix_iff)

lemma CutSuffix_eq_Some: "CutSuffix s p = Some t \<longleftrightarrow> s = t @ p"
  by (auto simp: CutSuffix_def HasSuffix_iff split: if_splits)

lemma CutSuffix_append [simp]: "CutSuffix (t @ p) p = Some t"
  by (simp add: CutSuffix_eq_Some)

text \<open>
  \<^verbatim>\<open>strings.Cut\<close>: the text before and after the first occurrence of the separator;
  \<open>None\<close> is the \<^verbatim>\<open>found = false\<close> result.
\<close>

fun Cut :: "string \<Rightarrow> string \<Rightarrow> (string \<times> string) option" where
  "Cut [] sep = (if sep = [] then Some ([], []) else None)"
| "Cut (c # s) sep =
     (if HasPrefix (c # s) sep then Some ([], drop (length sep) (c # s))
      else map_option (\<lambda>(a, b). (c # a, b)) (Cut s sep))"

definition Contains :: "string \<Rightarrow> string \<Rightarrow> bool" where
  "Contains s sub \<longleftrightarrow> Cut s sub \<noteq> None"

lemma Cut_Some_append: "Cut s sep = Some (a, b) \<Longrightarrow> s = a @ sep @ b"
proof (induction s arbitrary: a b)
  case Nil
  then show ?case by (auto split: if_splits)
next
  case (Cons c s)
  then show ?case
    by (auto simp: HasPrefix_iff split: if_splits)
qed

lemma Cut_char: "c \<notin> set a \<Longrightarrow> Cut (a @ c # b) [c] = Some (a, b)"
  by (induction a) (auto simp: HasPrefix_def)

lemma Cut_Some_char: "Cut s [c] = Some (a, b) \<Longrightarrow> c \<notin> set a"
  by (induction s arbitrary: a b) (auto simp: HasPrefix_def split: if_splits)

text \<open>The text before the separator, or the whole string when there is none.\<close>

definition cut_before :: "string \<Rightarrow> string \<Rightarrow> string" where
  "cut_before s sep = (case Cut s sep of None \<Rightarrow> s | Some (a, _) \<Rightarrow> a)"

definition is_space :: "char \<Rightarrow> bool" where
  "is_space c \<longleftrightarrow> c \<in> set [CHR 0x09, CHR 0x0A, CHR 0x0B, CHR 0x0C, CHR 0x0D, CHR '' '']"

definition TrimRightFunc :: "(char \<Rightarrow> bool) \<Rightarrow> string \<Rightarrow> string" where
  "TrimRightFunc p s = rev (dropWhile p (rev s))"

definition TrimSpace :: "string \<Rightarrow> string" where
  "TrimSpace s = TrimRightFunc is_space (dropWhile is_space s)"

definition TrimRight :: "string \<Rightarrow> char \<Rightarrow> string" where
  "TrimRight s c = TrimRightFunc (\<lambda>x. x = c) s"

fun FieldsFunc_aux :: "(char \<Rightarrow> bool) \<Rightarrow> string \<Rightarrow> string \<Rightarrow> string list" where
  "FieldsFunc_aux p cur [] = (if cur = [] then [] else [rev cur])"
| "FieldsFunc_aux p cur (c # s) =
     (if p c then (if cur = [] then FieldsFunc_aux p [] s else rev cur # FieldsFunc_aux p [] s)
      else FieldsFunc_aux p (c # cur) s)"

definition FieldsFunc :: "(char \<Rightarrow> bool) \<Rightarrow> string \<Rightarrow> string list" where
  "FieldsFunc p s = FieldsFunc_aux p [] s"

definition Fields :: "string \<Rightarrow> string list" where
  "Fields s = FieldsFunc is_space s"

text \<open>\<^verbatim>\<open>strings.Split\<close> on a one-character separator.\<close>

fun Split :: "string \<Rightarrow> char \<Rightarrow> string list" where
  "Split [] c = [[]]"
| "Split (x # s) c =
     (if x = c then [] # Split s c
      else (case Split s c of [] \<Rightarrow> [[x]] | y # ys \<Rightarrow> (x # y) # ys))"

definition to_lower_char :: "char \<Rightarrow> char" where
  "to_lower_char c =
     (if 65 \<le> (of_char c :: nat) \<and> (of_char c :: nat) \<le> 90 then char_of ((of_char c :: nat) + 32) else c)"

definition to_upper_char :: "char \<Rightarrow> char" where
  "to_upper_char c =
     (if 97 \<le> (of_char c :: nat) \<and> (of_char c :: nat) \<le> 122 then char_of ((of_char c :: nat) - 32) else c)"

definition ToLower :: "string \<Rightarrow> string" where
  "ToLower s = map to_lower_char s"

definition ToUpper :: "string \<Rightarrow> string" where
  "ToUpper s = map to_upper_char s"

lemma FieldsFunc_aux_nonempty: "f \<in> set (FieldsFunc_aux p cur s) \<Longrightarrow> f \<noteq> []"
  by (induction p cur s rule: FieldsFunc_aux.induct) (auto split: if_splits)

lemma FieldsFunc_aux_no_sep:
  "\<lbrakk>f \<in> set (FieldsFunc_aux p cur s); list_all (\<lambda>c. \<not> p c) cur\<rbrakk> \<Longrightarrow> list_all (\<lambda>c. \<not> p c) f"
proof (induction s arbitrary: cur)
  case Nil
  then show ?case by (auto split: if_splits)
next
  case (Cons c s)
  show ?case
  proof (cases "p c")
    case True
    with Cons.prems have "f = rev cur \<or> f \<in> set (FieldsFunc_aux p [] s)"
      by (auto split: if_splits)
    with Cons.IH [of "[]"] Cons.prems(2) show ?thesis by auto
  next
    case False
    with Cons.IH [of "c # cur"] Cons.prems show ?thesis by simp
  qed
qed

lemma Fields_nonempty: "f \<in> set (Fields s) \<Longrightarrow> f \<noteq> []"
  by (auto simp: Fields_def FieldsFunc_def dest: FieldsFunc_aux_nonempty)

lemma dropWhile_id: "\<forall>c \<in> set s. \<not> p c \<Longrightarrow> dropWhile p s = s"
  by (cases s) auto

lemma TrimSpace_id: "\<forall>c \<in> set s. \<not> is_space c \<Longrightarrow> TrimSpace s = s"
  by (simp add: TrimSpace_def TrimRightFunc_def dropWhile_id)

lemma TrimSpace_idem [simp]: "TrimSpace (TrimSpace s) = TrimSpace s"
proof -
  define t where "t = dropWhile is_space s"
  have ts: "TrimSpace s = rev (dropWhile is_space (rev t))"
    by (simp add: TrimSpace_def TrimRightFunc_def t_def)
  obtain u where u: "t = rev (dropWhile is_space (rev t)) @ u"
    by (metis rev_append rev_rev_ident takeWhile_dropWhile_id)
  have "dropWhile is_space (rev (dropWhile is_space (rev t))) = rev (dropWhile is_space (rev t))"
  proof (cases "rev (dropWhile is_space (rev t))")
    case Nil
    show ?thesis unfolding Nil by simp
  next
    case (Cons a as)
    with u have "t = a # as @ u" by simp
    then have "\<not> is_space a"
      unfolding t_def by (metis hd_dropWhile list.sel(1) list.distinct(1))
    with Cons show ?thesis by simp
  qed
  then show ?thesis
    unfolding ts by (simp add: TrimSpace_def TrimRightFunc_def)
qed

section \<open>Decimal integers\<close>

definition digit_char :: "nat \<Rightarrow> char" where
  "digit_char d = char_of (48 + d)"

fun nat_text :: "nat \<Rightarrow> string" where
  "nat_text n = (if n < 10 then [digit_char n] else nat_text (n div 10) @ [digit_char (n mod 10)])"

declare nat_text.simps [simp del]

definition Itoa :: "int \<Rightarrow> string" where
  "Itoa i = (if i < 0 then CHR ''-'' # nat_text (nat (- i)) else nat_text (nat i))"

definition digit_val :: "char \<Rightarrow> nat option" where
  "digit_val c = (let n = of_char c :: nat in if 48 \<le> n \<and> n \<le> 57 then Some (n - 48) else None)"

fun digits_val :: "nat \<Rightarrow> string \<Rightarrow> nat option" where
  "digits_val acc [] = Some acc"
| "digits_val acc (c # s) =
     (case digit_val c of None \<Rightarrow> None | Some d \<Rightarrow> digits_val (10 * acc + d) s)"

definition ParseUint :: "string \<Rightarrow> nat option" where
  "ParseUint s = (if s = [] then None
     else case digits_val 0 s of None \<Rightarrow> None | Some n \<Rightarrow> if n < 2 ^ 64 then Some n else None)"

text \<open>
  \<^verbatim>\<open>strconv.ParseInt(s, 10, 64)\<close>, and \<^verbatim>\<open>strconv.Atoi\<close> on a 64-bit platform: an optional
  sign, at least one digit, and a value in the range of a signed 64-bit integer.
\<close>

definition ParseInt :: "string \<Rightarrow> int option" where
  "ParseInt s =
     (let (neg, ds) = (case s of
          c # t \<Rightarrow> if c = CHR ''-'' then (True, t) else if c = CHR ''+'' then (False, t) else (False, s)
        | [] \<Rightarrow> (False, []))
      in if ds = [] then None
         else case digits_val 0 ds of
             None \<Rightarrow> None
           | Some n \<Rightarrow>
               let v = (if neg then - int n else int n)
               in if - (2 ^ 63) \<le> v \<and> v < 2 ^ 63 then Some v else None)"

abbreviation Atoi :: "string \<Rightarrow> int option" where
  "Atoi \<equiv> ParseInt"

definition int64_range :: "int \<Rightarrow> bool" where
  "int64_range v \<longleftrightarrow> - (2 ^ 63) \<le> v \<and> v < 2 ^ 63"

lemma of_char_digit: "d < 10 \<Longrightarrow> (of_char (digit_char d) :: nat) = 48 + d"
  by (simp add: digit_char_def)

lemma digit_val_digit_char [simp]: "d < 10 \<Longrightarrow> digit_val (digit_char d) = Some d"
  by (simp add: digit_val_def of_char_digit)

lemma digits_val_append:
  "digits_val acc (s @ t) = (case digits_val acc s of None \<Rightarrow> None | Some n \<Rightarrow> digits_val n t)"
  by (induction acc s rule: digits_val.induct) (auto split: option.splits)

lemma digits_val_nat_text: "digits_val 0 (nat_text n) = Some n"
proof (induction n rule: nat_text.induct)
  case (1 n)
  then show ?case
    by (subst nat_text.simps) (auto simp: digits_val_append)
qed

lemma nat_text_nonempty [simp]: "nat_text n \<noteq> []"
  by (subst nat_text.simps) simp

lemma nat_text_digits: "c \<in> set (nat_text n) \<Longrightarrow> 48 \<le> (of_char c :: nat) \<and> (of_char c :: nat) \<le> 57"
proof (induction n rule: nat_text.induct)
  case (1 n)
  then show ?case
    by (subst (asm) (2) nat_text.simps) (auto simp: of_char_digit split: if_splits)
qed

lemma nat_text_hd: "\<exists>c t. nat_text n = c # t \<and> 48 \<le> (of_char c :: nat) \<and> (of_char c :: nat) \<le> 57"
proof -
  obtain c t where "nat_text n = c # t"
    by (cases "nat_text n") auto
  then show ?thesis using nat_text_digits [of c n] by simp
qed

lemma ParseInt_Itoa: "int64_range i \<Longrightarrow> ParseInt (Itoa i) = Some i"
proof (cases "i < 0")
  case True
  assume "int64_range i"
  with True show ?thesis
    by (simp add: ParseInt_def Itoa_def digits_val_nat_text int64_range_def)
next
  case False
  assume r: "int64_range i"
  obtain c t where c: "nat_text (nat i) = c # t" "48 \<le> (of_char c :: nat)"
    using nat_text_hd by blast
  then have "c \<noteq> CHR ''-''" "c \<noteq> CHR ''+''" by auto
  with c False r show ?thesis
    using digits_val_nat_text [of "nat i"]
    by (simp add: ParseInt_def Itoa_def int64_range_def del: digits_val.simps)
qed

lemma Itoa_no_underscore: "CHR ''_'' \<notin> set (Itoa i)"
  using nat_text_digits [of "CHR ''_''"] by (auto simp: Itoa_def)

section \<open>Maps as association lists\<close>

text \<open>A read of a Go map with a missing key gives the zero value of its element type.\<close>

definition get_str :: "(string \<times> string) list \<Rightarrow> string \<Rightarrow> string" where
  "get_str m k = (case map_of m k of None \<Rightarrow> [] | Some v \<Rightarrow> v)"

definition get_bool :: "('k \<times> bool) list \<Rightarrow> 'k \<Rightarrow> bool" where
  "get_bool m k = (map_of m k = Some True)"

definition get_int :: "('k \<times> int) list \<Rightarrow> 'k \<Rightarrow> int" where
  "get_int m k = (case map_of m k of None \<Rightarrow> 0 | Some v \<Rightarrow> v)"

lemma map_of_update [simp]: "map_of (AList.update k v m) = (map_of m)(k \<mapsto> v)"
  by (rule update_conv')

lemma map_of_delete' [simp]: "map_of (AList.delete k m) = (map_of m)(k := None)"
  by (rule delete_conv')

lemma get_bool_update [simp]:
  "get_bool (AList.update k v m) k' = (if k' = k then v else get_bool m k')"
  by (simp add: get_bool_def)

section \<open>Triples for the state monad\<close>

definition triple :: "('s \<Rightarrow> bool) \<Rightarrow> ('s, 'a) state \<Rightarrow> ('a \<Rightarrow> 's \<Rightarrow> bool) \<Rightarrow> bool" where
  "triple P f Q \<longleftrightarrow> (\<forall>s. P s \<longrightarrow> (case run_state f s of (a, s') \<Rightarrow> Q a s'))"

lemma tripleI: "(\<And>s a s'. \<lbrakk>P s; run_state f s = (a, s')\<rbrakk> \<Longrightarrow> Q a s') \<Longrightarrow> triple P f Q"
  by (auto simp: triple_def)

lemma tripleD: "\<lbrakk>triple P f Q; P s; run_state f s = (a, s')\<rbrakk> \<Longrightarrow> Q a s'"
  by (auto simp: triple_def split: prod.splits)

lemma triple_return: "(\<And>s. P s \<Longrightarrow> Q a s) \<Longrightarrow> triple P (State_Monad.return a) Q"
  by (auto simp: triple_def)

lemma triple_bind:
  "\<lbrakk>triple P f R; \<And>a. triple (R a) (g a) Q\<rbrakk> \<Longrightarrow> triple P (State_Monad.bind f g) Q"
  by (fastforce simp: triple_def split: prod.splits)

lemma triple_conseq:
  "\<lbrakk>triple P' f Q'; \<And>s. P s \<Longrightarrow> P' s; \<And>a s. Q' a s \<Longrightarrow> Q a s\<rbrakk> \<Longrightarrow> triple P f Q"
  unfolding triple_def by (fastforce split: prod.splits)

lemma triple_pre: "\<lbrakk>triple P' f Q; \<And>s. P s \<Longrightarrow> P' s\<rbrakk> \<Longrightarrow> triple P f Q"
  by (auto simp: triple_def)

lemma triple_post: "\<lbrakk>triple P f Q'; \<And>a s. Q' a s \<Longrightarrow> Q a s\<rbrakk> \<Longrightarrow> triple P f Q"
  by (auto simp: triple_def split: prod.splits)

lemma triple_if:
  "\<lbrakk>b \<Longrightarrow> triple P f Q; \<not> b \<Longrightarrow> triple P g Q\<rbrakk> \<Longrightarrow> triple P (if b then f else g) Q"
  by simp

lemma triple_sum:
  "\<lbrakk>\<And>e. r = Inl e \<Longrightarrow> triple P (f e) Q; \<And>x. r = Inr x \<Longrightarrow> triple P (g x) Q\<rbrakk> \<Longrightarrow>
   triple P (case r of Inl e \<Rightarrow> f e | Inr x \<Rightarrow> g x) Q"
  by (cases r) auto

lemma triple_option:
  "\<lbrakk>r = None \<Longrightarrow> triple P f Q; \<And>x. r = Some x \<Longrightarrow> triple P (g x) Q\<rbrakk> \<Longrightarrow>
   triple P (case r of None \<Rightarrow> f | Some x \<Rightarrow> g x) Q"
  by (cases r) auto

lemma triple_conj:
  "\<lbrakk>triple P f Q; triple P f R\<rbrakk> \<Longrightarrow> triple P f (\<lambda>a s. Q a s \<and> R a s)"
  by (auto simp: triple_def split: prod.splits)

text \<open>Run a list of actions one after the other.\<close>

fun for_each :: "('x \<Rightarrow> ('s, unit) state) \<Rightarrow> 'x list \<Rightarrow> ('s, unit) state" where
  "for_each f [] = State_Monad.return ()"
| "for_each f (x # xs) = do { _ \<leftarrow> f x; for_each f xs }"

lemma triple_for_each:
  "(\<And>x. x \<in> set xs \<Longrightarrow> triple P (f x) (\<lambda>_. P)) \<Longrightarrow> triple P (for_each f xs) (\<lambda>_. P)"
proof (induction xs)
  case Nil
  then show ?case by (simp add: triple_return)
next
  case (Cons x xs)
  then show ?case by (auto intro!: triple_bind)
qed

text \<open>Run actions until one fails, and return its error.\<close>

fun try_each :: "('x \<Rightarrow> ('s, unit res) state) \<Rightarrow> 'x list \<Rightarrow> ('s, unit res) state" where
  "try_each f [] = State_Monad.return (Inr ())"
| "try_each f (x # xs) = do {
     r \<leftarrow> f x;
     case r of Inl e \<Rightarrow> State_Monad.return (Inl e) | Inr _ \<Rightarrow> try_each f xs
   }"

lemma triple_try_each:
  "(\<And>x. x \<in> set xs \<Longrightarrow> triple P (f x) (\<lambda>_. P)) \<Longrightarrow> triple P (try_each f xs) (\<lambda>_. P)"
proof (induction xs)
  case Nil
  then show ?case by (simp add: triple_return)
next
  case (Cons x xs)
  then show ?case by (auto intro!: triple_bind triple_sum triple_return)
qed

end
