(* ===== verification/Api_Types.thy ===== *)
theory Api_Types
  imports Veery_Prelude
begin

text \<open>
  The domain and transport types of \<^verbatim>\<open>internal/api/types.go\<close>. A Go struct is a record whose
  fields carry the struct's field names behind a prefix; Go's enumerations over strings are
  datatypes when the set of values is closed. The one open enumeration, the event name, keeps
  unknown names in a constructor of its own.
\<close>

section \<open>Containers and stacks\<close>

datatype container_status =
  StatusRunning | StatusStopped | StatusNeedsAttention | StatusUpdating | StatusMissing

record container =
  c_ID :: string
  c_Name :: string
  c_ContainerName :: string
  c_Image :: string
  c_State :: string
  c_Status :: container_status
  c_Health :: string
  c_Managed :: bool
  c_AutoUpdate :: bool
  c_UpdateAvailable :: bool
  c_RestartCount :: int
  c_CreatedAt :: int

record stack =
  stack_ID :: string
  stack_Name :: string
  stack_Managed :: bool
  stack_Status :: container_status
  stack_Containers :: "container list"

section \<open>Users, invites and credentials\<close>

record user =
  user_ID :: string
  user_Name :: string
  user_IsAdmin :: bool
  user_CreatedAt :: int

record invite =
  inv_Token :: string
  inv_IsAdmin :: bool
  inv_ExpiresAt :: int
  inv_UsedAt :: int
  inv_URL :: string
  inv_ForUserName :: string

section \<open>RAID arrays\<close>

datatype md_array_state = MdHealthy | MdDegraded | MdRecovering | MdFailed

fun md_state_text :: "md_array_state \<Rightarrow> string" where
  "md_state_text MdHealthy = ''healthy''"
| "md_state_text MdDegraded = ''degraded''"
| "md_state_text MdRecovering = ''recovering''"
| "md_state_text MdFailed = ''failed''"

record md_member =
  mem_Device :: string
  mem_Up :: bool

record md_scan_failure =
  fail_Error :: string
  fail_FirstAt :: int
  fail_LastAt :: int
  fail_Attempts :: nat
  fail_NextRetryAt :: int
  fail_Scheduled :: bool

record md_array =
  md_Name :: string
  md_Level :: string
  md_State :: md_array_state
  md_DevicesTotal :: int
  md_DevicesUp :: int
  md_Members :: "md_member list"
  md_SyncAction :: string
  md_SyncPercent :: string
  md_SyncSpeedKBs :: nat
  md_SyncFinish :: string
  md_MismatchCnt :: nat
  md_LastScanAt :: int
  md_ScanFailure :: "md_scan_failure option"

record mdadm_schedule =
  sched_RRule :: string
  sched_Enabled :: bool

section \<open>Jobs\<close>

record job_progress =
  job_ID :: string
  job_Kind :: string
  job_Target :: string
  job_Phase :: string
  job_Message :: string
  job_Done :: bool
  job_Error :: string

section \<open>Notification events and the event log\<close>

datatype notification_event =
    EventUpdateApplied | EventUpdateAvailable | EventContainerStatus | EventContainerMissing
  | EventContainerAdopted | EventAuth | EventRaidScanStarted | EventRaidScanFinished
  | EventRaidUnhealthy | EventRaidDiskOffline | EventRaidScanFailed
  | EventOther string

fun event_name :: "notification_event \<Rightarrow> string" where
  "event_name EventUpdateApplied = ''update_applied''"
| "event_name EventUpdateAvailable = ''update_available''"
| "event_name EventContainerStatus = ''container_status''"
| "event_name EventContainerMissing = ''container_missing''"
| "event_name EventContainerAdopted = ''container_adopted''"
| "event_name EventAuth = ''auth''"
| "event_name EventRaidScanStarted = ''raid_scan_started''"
| "event_name EventRaidScanFinished = ''raid_scan_finished''"
| "event_name EventRaidUnhealthy = ''raid_unhealthy''"
| "event_name EventRaidDiskOffline = ''raid_disk_offline''"
| "event_name EventRaidScanFailed = ''raid_scan_failed''"
| "event_name (EventOther n) = n"

definition AllNotificationEvents :: "notification_event list" where
  "AllNotificationEvents =
     [EventContainerStatus, EventContainerMissing, EventContainerAdopted, EventUpdateApplied,
      EventUpdateAvailable, EventAuth, EventRaidUnhealthy, EventRaidDiskOffline,
      EventRaidScanStarted, EventRaidScanFinished, EventRaidScanFailed]"

text \<open>The Go conversion \<^verbatim>\<open>NotificationEvent(name)\<close>: the known event of that name, if any.\<close>

definition event_of_name :: "string \<Rightarrow> notification_event" where
  "event_of_name n =
     (case find (\<lambda>e. event_name e = n) AllNotificationEvents of Some e \<Rightarrow> e | None \<Rightarrow> EventOther n)"

lemma event_name_of_name [simp]: "event_name (event_of_name n) = n"
proof (cases "find (\<lambda>e. event_name e = n) AllNotificationEvents")
  case None
  then show ?thesis by (simp add: event_of_name_def)
next
  case (Some e)
  then have "event_name e = n" by (metis (mono_tags, lifting) find_Some_iff)
  with Some show ?thesis by (simp add: event_of_name_def)
qed

lemma event_of_name_known:
  assumes "e \<in> set AllNotificationEvents"
  shows "event_of_name (event_name e) = e"
  using assms by (cases e rule: notification_event.exhaust) (simp_all add: AllNotificationEvents_def event_of_name_def)

record event =
  ev_ID :: int
  ev_Event :: notification_event
  ev_Title :: string
  ev_Body :: string
  ev_ContainerName :: string
  ev_StackID :: string
  ev_CreatedAt :: int

record event_meta =
  meta_ContainerName :: string
  meta_StackID :: string

record event_page =
  page_Items :: "event list"
  page_NextCursor :: string

section \<open>Notification targets\<close>

record notification_target =
  tgt_URL :: string
  tgt_Events :: "(notification_event \<times> bool) list"

record notification_config =
  ncfg_Targets :: "notification_target list"
  ncfg_EnvManaged :: bool

definition Enabled :: "notification_target \<Rightarrow> notification_event \<Rightarrow> bool" where
  "Enabled t ev = (case map_of (tgt_Events t) ev of None \<Rightarrow> True | Some on \<Rightarrow> on)"

definition URLs :: "notification_config \<Rightarrow> string list" where
  "URLs c = map tgt_URL (ncfg_Targets c)"

definition URLsFor :: "notification_config \<Rightarrow> notification_event \<Rightarrow> string list" where
  "URLsFor c ev = map tgt_URL (filter (\<lambda>t. Enabled t ev) (ncfg_Targets c))"

lemma set_URLsFor: "u \<in> set (URLsFor c ev) \<longleftrightarrow> (\<exists>t \<in> set (ncfg_Targets c). tgt_URL t = u \<and> Enabled t ev)"
  by (auto simp: URLsFor_def)

section \<open>Settings\<close>

record settings =
  set_PollIntervalSeconds :: int
  set_AutoUpdateDefault :: bool
  set_AutoUpdateIntervalMinutes :: int
  set_EventLogRetentionDays :: int
  set_DiskVisibility :: "(string \<times> bool) list option"

section \<open>Messages pushed to the browser\<close>

text \<open>
  \<^verbatim>\<open>WSMessage\<close>: the type tag and the one payload that is set for it. The metrics payload is
  kept as the text the hub sends, since no operation of the hub looks into it.
\<close>

datatype ws_message =
    WSMetrics string
  | WSStacks "stack list"
  | WSJob job_progress
  | WSJobs "job_progress list"
  | WSEvent event

end
