(* ===== verification/Docker_Types.thy ===== *)
theory Docker_Types
  imports Veery_Prelude
begin

text \<open>
  The values that cross the Docker Engine API, with the fields Veery reads or writes, and the
  \<^verbatim>\<open>Snapshot\<close> of \<^verbatim>\<open>internal/docker/snapshot.go\<close>, which is made of them. Fields of the
  API's configuration structs that Veery only carries along are kept together in one field
  (\<open>_rest\<close>). A container the daemon reports always carries its configuration, so the
  configuration pointers of an inspect answer are plain values here; its state may be absent.
\<close>

record summary =
  sum_ID :: string
  sum_Names :: "string list"
  sum_Image :: string
  sum_Labels :: "(string \<times> string) list"
  sum_State :: string
  sum_Status :: string
  sum_Created :: int

record cstate =
  st_Running :: bool
  st_Restarting :: bool
  st_Dead :: bool
  st_ExitCode :: int
  st_Health :: "string option"

record config =
  cfg_Image :: string
  cfg_Labels :: "(string \<times> string) list"
  cfg_Entrypoint :: "string list"
  cfg_Cmd :: "string list"
  cfg_Env :: "string list"
  cfg_User :: string
  cfg_WorkingDir :: string
  cfg_Healthcheck :: "string list option"
  cfg_rest :: string

record host_config =
  hc_Binds :: "string list"
  hc_Mounts :: "string list"
  hc_VolumesFrom :: "string list"
  hc_GroupAdd :: "string list"
  hc_Privileged :: bool
  hc_RestartPolicy :: string
  hc_rest :: string

record endpoint =
  ep_NetworkID :: string
  ep_EndpointID :: string
  ep_IPAddress :: string
  ep_Gateway :: string
  ep_IPPrefixLen :: int
  ep_MacAddress :: string
  ep_IPv6Gateway :: string
  ep_GlobalIPv6Address :: string
  ep_GlobalIPv6PrefixLen :: int
  ep_IPAMConfig :: string
  ep_Aliases :: "string list"
  ep_rest :: string

text \<open>Endpoints of a container by network name; an endpoint pointer may be nil.\<close>

type_synonym endpoints = "(string \<times> endpoint option) list"

record inspect =
  insp_ID :: string
  insp_Name :: string
  insp_Image :: string
  insp_State :: "cstate option"
  insp_Config :: config
  insp_HostConfig :: host_config
  insp_Networks :: endpoints
  insp_RestartCount :: int

record image_inspect =
  img_ID :: string
  img_RepoDigests :: "string list"

record snapshot =
  snap_Name :: string
  snap_Image :: string
  snap_Project :: string
  snap_Service :: string
  snap_Config :: config
  snap_HostConfig :: host_config
  snap_Networking :: endpoints

text \<open>
  The text of a snapshot column. \<^verbatim>\<open>encoding/json\<close> is represented by its effect on values: a
  text is either the encoding of a snapshot or one that does not decode.
\<close>

datatype snapshot_json = JsonOf snapshot | NotJson string

text \<open>One line of the progress stream of an image pull.\<close>

record pull_event =
  pe_ID :: string
  pe_Status :: string
  pe_Error :: string
  pe_Current :: int
  pe_Total :: int

end
