(* ===== verification/Store_Base.thy ===== *)
theory Store_Base
  imports Api_Types Docker_Types
begin

text \<open>
  The database of \<^verbatim>\<open>internal/store\<close>: one list of rows per table, in insertion order, with the
  constraints of \<^verbatim>\<open>migrations.go\<close> checked by the statements that write. A statement can also
  fail for reasons outside the data (disk, locking): \<open>db_fault\<close> says for which operations it
  does, so every error return of the accessors is reachable. A statement that fails leaves the
  database as it was.

  This theory holds the tables and the key/value settings table with its typed accessors
  (\<^verbatim>\<open>accessors.go\<close>, \<^verbatim>\<open>settings.go\<close>, \<^verbatim>\<open>notifications.go\<close>, \<^verbatim>\<open>mdadm.go\<close>).
\<close>

section \<open>Rows\<close>

text \<open>
  \<^verbatim>\<open>StoredCredential\<close>. The table keeps the transports as one comma-joined text, the struct as
  a list, so the record is polymorphic in that field.
\<close>

record 't credential =
  cr_ID :: string
  cr_UserID :: string
  cr_CredID :: string
  cr_PublicKey :: string
  cr_SignCount :: "32 word"
  cr_Transports :: 't
  cr_AAGUID :: string
  cr_Name :: string
  cr_BackupEligible :: bool
  cr_BackupState :: bool
  cr_CreatedAt :: int

type_synonym stored_credential = "string list credential"
type_synonym credential_row = "string credential"

text \<open>A row of \<^verbatim>\<open>invites\<close>; \<open>None\<close> is SQL's NULL.\<close>

record invite_row =
  ir_Token :: string
  ir_CreatedBy :: "string option"
  ir_ForUser :: "string option"
  ir_IsAdmin :: bool
  ir_ExpiresAt :: int
  ir_UsedAt :: int
  ir_CreatedAt :: int

record session_row =
  se_Token :: string
  se_UserID :: string
  se_ExpiresAt :: int
  se_CreatedAt :: int

record stack_row =
  sk_ID :: string
  sk_Name :: string

record managed_container =
  mc_ID :: string
  mc_StackID :: string
  mc_ContainerName :: string
  mc_SnapshotJSON :: snapshot_json
  mc_ContainerID :: string
  mc_AutoUpdate :: bool
  mc_CreatedAt :: int

record update_job =
  uj_ID :: string
  uj_ContainerName :: string
  uj_Image :: string
  uj_Phase :: string
  uj_Message :: string
  uj_Error :: string
  uj_Self :: bool
  uj_Done :: bool
  uj_StartedAt :: int
  uj_FinishedAt :: int

record oidc_identity =
  oi_ID :: string
  oi_UserID :: string
  oi_Issuer :: string
  oi_Subject :: string
  oi_Email :: string
  oi_CreatedAt :: int

text \<open>Last-seen health of one array (\<^verbatim>\<open>MdArrayBaseline\<close>) and a device's throughput peak.\<close>

record md_baseline =
  bl_State :: md_array_state
  bl_SyncAction :: string
  bl_Members :: "(string \<times> bool) list"

record device_peak =
  peak_Read :: "64 word"
  peak_Write :: "64 word"

section \<open>The settings table\<close>

text \<open>
  The value column. A value is a plain text or the JSON encoding of a Go value; a text of one
  kind does not decode as another.
\<close>

datatype setting =
    Text string
  | JBools "(string \<times> bool) list"
  | JInts "(string \<times> int) list"
  | JPeaks "(string \<times> device_peak) list"
  | JSchedules "(string \<times> mdadm_schedule) list"
  | JBaselines "(string \<times> md_baseline) list"
  | JFailures "(string \<times> md_scan_failure) list"
  | JTargets "notification_target list"
  | JStrings "string list"
  | JEventFlags "(notification_event \<times> bool) list"
  | JStatuses "(string \<times> container_status) list"

record store =
  users :: "user list"
  credentials :: "credential_row list"
  invites :: "invite_row list"
  sessions :: "session_row list"
  stacks :: "stack_row list"
  managed :: "managed_container list"
  settings_tbl :: "(string \<times> setting) list"
  update_jobs :: "update_job list"
  events :: "event list"
  event_seq :: int
  oidc_identities :: "oidc_identity list"
  db_fault :: "string \<Rightarrow> bool"

definition empty_store :: store where
  "empty_store =
     \<lparr>users = [], credentials = [], invites = [], sessions = [], stacks = [], managed = [],
      settings_tbl = [], update_jobs = [], events = [], event_seq = 0, oidc_identities = [],
      db_fault = (\<lambda>_. False)\<rparr>"

abbreviation db_error :: err where
  "db_error \<equiv> Errorf ''database error''"

definition GetSetting :: "string \<Rightarrow> store \<Rightarrow> setting res" where
  "GetSetting key s =
     (if db_fault s ''GetSetting'' then Inl db_error
      else case map_of (settings_tbl s) key of None \<Rightarrow> Inl ErrNotFound | Some v \<Rightarrow> Inr v)"

definition SetSetting :: "string \<Rightarrow> setting \<Rightarrow> store \<Rightarrow> unit res \<times> store" where
  "SetSetting key v s =
     (if db_fault s ''SetSetting'' then (Inl db_error, s)
      else (Inr (), s\<lparr>settings_tbl := AList.update key v (settings_tbl s)\<rparr>))"

text \<open>
  \<^verbatim>\<open>getJSON\<close>: the default when the key is unset or its value does not decode.
  \<^verbatim>\<open>setJSON\<close> encodes and stores.
\<close>

definition getJSON :: "(setting \<Rightarrow> 'a option) \<Rightarrow> 'a \<Rightarrow> string \<Rightarrow> store \<Rightarrow> 'a res" where
  "getJSON dec dst key s =
     (case GetSetting key s of
        Inl e \<Rightarrow> if errors_Is e ErrNotFound then Inr dst else Inl e
      | Inr v \<Rightarrow> Inr (case dec v of None \<Rightarrow> dst | Some x \<Rightarrow> x))"

definition setJSON :: "('a \<Rightarrow> setting) \<Rightarrow> string \<Rightarrow> 'a \<Rightarrow> store \<Rightarrow> unit res \<times> store" where
  "setJSON enc key v s = SetSetting key (enc v) s"

section \<open>The contract of a key/value table\<close>

text \<open>
  What the typed accessors rely on: a value that was written is the one read back, a write
  touches no other key, and a failed write changes nothing. \<open>readable\<close> says that reads do not
  fail.
\<close>

locale kv_table =
  fixes get :: "string \<Rightarrow> 's \<Rightarrow> 'v res"
    and put :: "string \<Rightarrow> 'v \<Rightarrow> 's \<Rightarrow> unit res \<times> 's"
    and readable :: "'s \<Rightarrow> bool"
  assumes get_put_same: "\<lbrakk>readable s; put k v s = (Inr (), s')\<rbrakk> \<Longrightarrow> get k s' = Inr v"
    and get_put_other: "\<lbrakk>put k v s = (r, s'); k' \<noteq> k\<rbrakk> \<Longrightarrow> get k' s' = get k' s"
    and put_failed: "put k v s = (Inl e, s') \<Longrightarrow> s' = s"
    and readable_put: "put k v s = (r, s') \<Longrightarrow> readable s' = readable s"
begin

lemma get_puts_other:
  "k \<notin> fst ` set kvs \<Longrightarrow> get k (fold (\<lambda>(k, v) t. snd (put k v t)) kvs s) = get k s"
proof (induction kvs arbitrary: s)
  case Nil
  then show ?case by simp
next
  case (Cons kv kvs)
  obtain k' v' where kv: "kv = (k', v')" by (cases kv)
  with Cons.prems have "get k (snd (put k' v' s)) = get k s"
    by (metis get_put_other fst_conv image_eqI insertI1 list.simps(15) prod.collapse)
  with Cons kv show ?case by simp
qed

lemma readable_puts: "readable (fold (\<lambda>(k, v) t. snd (put k v t)) kvs s) = readable s"
proof (induction kvs arbitrary: s)
  case (Cons kv kvs)
  obtain k v where kv: "kv = (k, v)" by (cases kv)
  obtain r s' where p: "put k v s = (r, s')" by (cases "put k v s")
  show ?case using Cons.IH [of s'] readable_put [OF p] by (simp add: kv p)
qed simp

lemma get_puts_first:
  assumes "readable s" "put k v s = (Inr (), s')" "k \<notin> fst ` set kvs"
  shows "get k (fold (\<lambda>(k, v) t. snd (put k v t)) kvs s') = Inr v"
  using get_puts_other [OF assms(3)] get_put_same [OF assms(1,2)] by simp

end

definition settings_readable :: "store \<Rightarrow> bool" where
  "settings_readable s \<longleftrightarrow> \<not> db_fault s ''GetSetting''"

interpretation settings_kv: kv_table GetSetting SetSetting settings_readable
  by unfold_locales
    (auto simp: GetSetting_def SetSetting_def settings_readable_def split: if_splits option.splits)

lemma getJSON_setJSON:
  assumes "settings_readable s" "setJSON enc key x s = (Inr (), s')" "dec (enc x) = Some x"
  shows "getJSON dec d key s' = Inr x"
proof -
  have "GetSetting key s' = Inr (enc x)"
    using assms settings_kv.get_put_same by (metis setJSON_def)
  then show ?thesis using assms(3) by (simp add: getJSON_def)
qed

lemma getJSON_setJSON_other:
  assumes "setJSON enc key x s = (r, s')" "key' \<noteq> key"
  shows "getJSON dec d key' s' = getJSON dec d key' s"
proof -
  have "GetSetting key' s' = GetSetting key' s"
    using settings_kv.get_put_other [of key "enc x" s r s' key'] assms by (simp add: setJSON_def)
  then show ?thesis by (simp add: getJSON_def)
qed

lemma setJSON_succeeds: "\<not> db_fault s ''SetSetting'' \<Longrightarrow> \<exists>s'. setJSON enc key x s = (Inr (), s')"
  by (simp add: setJSON_def SetSetting_def)

text \<open>A settings write is invisible to every other table.\<close>

lemma SetSetting_frame [simp]:
  "users (snd (SetSetting key v s)) = users s" "credentials (snd (SetSetting key v s)) = credentials s"
  "invites (snd (SetSetting key v s)) = invites s" "sessions (snd (SetSetting key v s)) = sessions s"
  "stacks (snd (SetSetting key v s)) = stacks s" "managed (snd (SetSetting key v s)) = managed s"
  "update_jobs (snd (SetSetting key v s)) = update_jobs s" "events (snd (SetSetting key v s)) = events s"
  "event_seq (snd (SetSetting key v s)) = event_seq s"
  "oidc_identities (snd (SetSetting key v s)) = oidc_identities s"
  "db_fault (snd (SetSetting key v s)) = db_fault s"
  by (simp_all add: SetSetting_def)

end
