(* ===== verification/Store_Settings.thy ===== *)
theory Store_Settings
  imports Store_Base
begin

text \<open>
  Typed access to the settings table: application settings and disk settings
  (\<^verbatim>\<open>settings.go\<close>), the notification configuration with its legacy form and the notifier's
  memory (\<^verbatim>\<open>notifications.go\<close>), and the RAID watcher's records (\<^verbatim>\<open>mdadm.go\<close>).
\<close>

section \<open>Decoders\<close>

fun dec_bools :: "setting \<Rightarrow> (string \<times> bool) list option" where
  "dec_bools (JBools m) = Some m" | "dec_bools _ = None"

fun dec_ints :: "setting \<Rightarrow> (string \<times> int) list option" where
  "dec_ints (JInts m) = Some m" | "dec_ints _ = None"

fun dec_peaks :: "setting \<Rightarrow> (string \<times> device_peak) list option" where
  "dec_peaks (JPeaks m) = Some m" | "dec_peaks _ = None"

fun dec_schedules :: "setting \<Rightarrow> (string \<times> mdadm_schedule) list option" where
  "dec_schedules (JSchedules m) = Some m" | "dec_schedules _ = None"

fun dec_baselines :: "setting \<Rightarrow> (string \<times> md_baseline) list option" where
  "dec_baselines (JBaselines m) = Some m" | "dec_baselines _ = None"

fun dec_failures :: "setting \<Rightarrow> (string \<times> md_scan_failure) list option" where
  "dec_failures (JFailures m) = Some m" | "dec_failures _ = None"

fun dec_targets :: "setting \<Rightarrow> notification_target list option" where
  "dec_targets (JTargets m) = Some m" | "dec_targets _ = None"

fun dec_strings :: "setting \<Rightarrow> string list option" where
  "dec_strings (JStrings m) = Some m" | "dec_strings _ = None"

fun dec_event_flags :: "setting \<Rightarrow> (notification_event \<times> bool) list option" where
  "dec_event_flags (JEventFlags m) = Some m" | "dec_event_flags _ = None"

fun dec_statuses :: "setting \<Rightarrow> (string \<times> container_status) list option" where
  "dec_statuses (JStatuses m) = Some m" | "dec_statuses _ = None"

section \<open>Application settings\<close>

abbreviation keyPollInterval :: string where "keyPollInterval \<equiv> ''poll_interval_seconds''"
abbreviation keyAutoUpdateDefault :: string where "keyAutoUpdateDefault \<equiv> ''auto_update_default''"
abbreviation keyAutoUpdateInterval :: string where
  "keyAutoUpdateInterval \<equiv> ''auto_update_interval_minutes''"
abbreviation keyEventRetention :: string where "keyEventRetention \<equiv> ''event_log_retention_days''"
abbreviation keyDiskVisibility :: string where "keyDiskVisibility \<equiv> ''disk_visibility''"
abbreviation keyDiskPeaks :: string where "keyDiskPeaks \<equiv> ''disk_io_peaks''"

definition DefaultPollIntervalSeconds :: int where "DefaultPollIntervalSeconds = 5"

definition default_settings :: settings where
  "default_settings =
     \<lparr>set_PollIntervalSeconds = DefaultPollIntervalSeconds, set_AutoUpdateDefault = False,
      set_AutoUpdateIntervalMinutes = 60, set_EventLogRetentionDays = 30,
      set_DiskVisibility = Some []\<rparr>"

definition getInt :: "string \<Rightarrow> store \<Rightarrow> int res" where
  "getInt key s =
     (case GetSetting key s of
        Inl e \<Rightarrow> Inl e
      | Inr v \<Rightarrow>
          (case v of
             Text t \<Rightarrow> (case Atoi t of None \<Rightarrow> Inl (Errorf ''strconv.Atoi: invalid syntax'') | Some n \<Rightarrow> Inr n)
           | _ \<Rightarrow> Inl (Errorf ''strconv.Atoi: invalid syntax'')))"

definition LoadDiskVisibility :: "store \<Rightarrow> (string \<times> bool) list res" where
  "LoadDiskVisibility s = getJSON dec_bools [] keyDiskVisibility s"

definition SaveDiskVisibility :: "(string \<times> bool) list \<Rightarrow> store \<Rightarrow> unit res \<times> store" where
  "SaveDiskVisibility vis s = setJSON JBools keyDiskVisibility vis s"

definition LoadDiskPeaks :: "store \<Rightarrow> (string \<times> device_peak) list res" where
  "LoadDiskPeaks s = getJSON dec_peaks [] keyDiskPeaks s"

definition SaveDiskPeaks :: "(string \<times> device_peak) list \<Rightarrow> store \<Rightarrow> unit res \<times> store" where
  "SaveDiskPeaks peaks s = setJSON JPeaks keyDiskPeaks peaks s"

text \<open>The pattern of \<^verbatim>\<open>LoadSettings\<close>: an unset key keeps the default, other errors end the load.\<close>

definition or_default :: "'a res \<Rightarrow> 'a \<Rightarrow> 'a res" where
  "or_default r d = (case r of Inr v \<Rightarrow> Inr v | Inl e \<Rightarrow> if errors_Is e ErrNotFound then Inr d else Inl e)"

definition LoadSettings :: "store \<Rightarrow> settings res" where
  "LoadSettings s =
     (case or_default (getInt keyPollInterval s) (set_PollIntervalSeconds default_settings) of
        Inl e \<Rightarrow> Inl e
      | Inr poll \<Rightarrow>
     (case or_default (map_sum id (\<lambda>v. v = Text ''1'') (GetSetting keyAutoUpdateDefault s))
             (set_AutoUpdateDefault default_settings) of
        Inl e \<Rightarrow> Inl e
      | Inr auto_def \<Rightarrow>
     (case or_default (getInt keyAutoUpdateInterval s) (set_AutoUpdateIntervalMinutes default_settings) of
        Inl e \<Rightarrow> Inl e
      | Inr auto_int \<Rightarrow>
     (case or_default (getInt keyEventRetention s) (set_EventLogRetentionDays default_settings) of
        Inl e \<Rightarrow> Inl e
      | Inr ret \<Rightarrow>
     (case LoadDiskVisibility s of
        Inl e \<Rightarrow> Inl e
      | Inr vis \<Rightarrow>
          Inr \<lparr>set_PollIntervalSeconds = poll, set_AutoUpdateDefault = auto_def,
               set_AutoUpdateIntervalMinutes = auto_int, set_EventLogRetentionDays = ret,
               set_DiskVisibility = Some vis\<rparr>)))))"

lemma or_default_Inr [simp]: "or_default (Inr v) d = Inr v"
  by (simp add: or_default_def)

text \<open>Go's sequence of writes that returns at the first error.\<close>

definition and_then :: "unit res \<times> 's \<Rightarrow> ('s \<Rightarrow> 'a res \<times> 's) \<Rightarrow> 'a res \<times> 's" where
  "and_then p f = (case p of (Inl e, s) \<Rightarrow> (Inl e, s) | (Inr _, s) \<Rightarrow> f s)"

lemma and_then_simps [simp]:
  "and_then (Inl e, s) f = (Inl e, s)" "and_then (Inr u, s) f = f s"
  by (simp_all add: and_then_def)

definition SaveSettings :: "settings \<Rightarrow> store \<Rightarrow> unit res \<times> store" where
  "SaveSettings cfg s =
     and_then (SetSetting keyPollInterval (Text (Itoa (set_PollIntervalSeconds cfg))) s) (\<lambda>s.
     and_then (SetSetting keyAutoUpdateInterval (Text (Itoa (set_AutoUpdateIntervalMinutes cfg))) s) (\<lambda>s.
     and_then (SetSetting keyEventRetention (Text (Itoa (set_EventLogRetentionDays cfg))) s) (\<lambda>s.
     and_then (SetSetting keyAutoUpdateDefault (Text (if set_AutoUpdateDefault cfg then ''1'' else ''0'')) s) (\<lambda>s.
       case set_DiskVisibility cfg of None \<Rightarrow> (Inr (), s) | Some vis \<Rightarrow> SaveDiskVisibility vis s))))"

section \<open>Notification configuration\<close>

abbreviation keyNotifyTargets :: string where "keyNotifyTargets \<equiv> ''notify_targets''"
abbreviation keyNotifyURLs :: string where "keyNotifyURLs \<equiv> ''notify_urls''"
abbreviation keyNotifyEvents :: string where "keyNotifyEvents \<equiv> ''notify_events''"

definition legacyNotificationConfig :: "store \<Rightarrow> notification_config res" where
  "legacyNotificationConfig s =
     (case getJSON dec_strings [] keyNotifyURLs s of
        Inl e \<Rightarrow> Inl e
      | Inr urls \<Rightarrow>
     (case getJSON dec_event_flags [] keyNotifyEvents s of
        Inl e \<Rightarrow> Inl e
      | Inr evs \<Rightarrow>
          Inr \<lparr>ncfg_Targets = map (\<lambda>u. \<lparr>tgt_URL = u, tgt_Events = evs\<rparr>) urls, ncfg_EnvManaged = False\<rparr>))"

definition LoadNotificationConfig :: "store \<Rightarrow> notification_config res" where
  "LoadNotificationConfig s =
     (case getJSON dec_targets [] keyNotifyTargets s of
        Inl e \<Rightarrow> Inl e
      | Inr ts \<Rightarrow>
          if ts \<noteq> [] then Inr \<lparr>ncfg_Targets = ts, ncfg_EnvManaged = False\<rparr>
          else legacyNotificationConfig s)"

definition SaveNotificationConfig :: "notification_config \<Rightarrow> store \<Rightarrow> unit res \<times> store" where
  "SaveNotificationConfig cfg s =
     and_then (setJSON JTargets keyNotifyTargets (ncfg_Targets cfg) s) (\<lambda>s.
     and_then (setJSON JStrings keyNotifyURLs [] s) (\<lambda>s.
       setJSON JEventFlags keyNotifyEvents [] s))"

definition LoadNotifiedStatuses :: "store \<Rightarrow> (string \<times> container_status) list res" where
  "LoadNotifiedStatuses s = getJSON dec_statuses [] ''notify_last_statuses'' s"

definition SaveNotifiedStatuses :: "(string \<times> container_status) list \<Rightarrow> store \<Rightarrow> unit res \<times> store" where
  "SaveNotifiedStatuses m s = setJSON JStatuses ''notify_last_statuses'' m s"

definition LoadNotifiedUpdates :: "store \<Rightarrow> (string \<times> bool) list res" where
  "LoadNotifiedUpdates s = getJSON dec_bools [] ''notify_last_update_available'' s"

definition SaveNotifiedUpdates :: "(string \<times> bool) list \<Rightarrow> store \<Rightarrow> unit res \<times> store" where
  "SaveNotifiedUpdates m s = setJSON JBools ''notify_last_update_available'' m s"

section \<open>Records of the RAID watcher\<close>

definition LoadMdadmSchedules :: "store \<Rightarrow> (string \<times> mdadm_schedule) list res" where
  "LoadMdadmSchedules s = getJSON dec_schedules [] ''mdadm_schedules'' s"

definition SaveMdadmSchedules :: "(string \<times> mdadm_schedule) list \<Rightarrow> store \<Rightarrow> unit res \<times> store" where
  "SaveMdadmSchedules m s = setJSON JSchedules ''mdadm_schedules'' m s"

definition LoadMdadmLastScan :: "store \<Rightarrow> (string \<times> int) list res" where
  "LoadMdadmLastScan s = getJSON dec_ints [] ''mdadm_last_scan'' s"

definition SaveMdadmLastScan :: "(string \<times> int) list \<Rightarrow> store \<Rightarrow> unit res \<times> store" where
  "SaveMdadmLastScan m s = setJSON JInts ''mdadm_last_scan'' m s"

definition LoadMdadmLastRun :: "store \<Rightarrow> (string \<times> int) list res" where
  "LoadMdadmLastRun s = getJSON dec_ints [] ''mdadm_last_run'' s"

definition SaveMdadmLastRun :: "(string \<times> int) list \<Rightarrow> store \<Rightarrow> unit res \<times> store" where
  "SaveMdadmLastRun m s = setJSON JInts ''mdadm_last_run'' m s"

definition LoadMdadmBaseline :: "store \<Rightarrow> (string \<times> md_baseline) list res" where
  "LoadMdadmBaseline s = getJSON dec_baselines [] ''mdadm_notify_baseline'' s"

definition SaveMdadmBaseline :: "(string \<times> md_baseline) list \<Rightarrow> store \<Rightarrow> unit res \<times> store" where
  "SaveMdadmBaseline m s = setJSON JBaselines ''mdadm_notify_baseline'' m s"

definition LoadMdadmScanFailures :: "store \<Rightarrow> (string \<times> md_scan_failure) list res" where
  "LoadMdadmScanFailures s = getJSON dec_failures [] ''mdadm_scan_failures'' s"

definition SaveMdadmScanFailures :: "(string \<times> md_scan_failure) list \<Rightarrow> store \<Rightarrow> unit res \<times> store" where
  "SaveMdadmScanFailures m s = setJSON JFailures ''mdadm_scan_failures'' m s"

lemmas kv_accessors = LoadDiskVisibility_def SaveDiskVisibility_def LoadDiskPeaks_def SaveDiskPeaks_def
  LoadNotifiedStatuses_def SaveNotifiedStatuses_def LoadNotifiedUpdates_def SaveNotifiedUpdates_def
  LoadMdadmSchedules_def SaveMdadmSchedules_def LoadMdadmLastScan_def SaveMdadmLastScan_def
  LoadMdadmLastRun_def SaveMdadmLastRun_def LoadMdadmBaseline_def SaveMdadmBaseline_def
  LoadMdadmScanFailures_def SaveMdadmScanFailures_def

section \<open>Round trips\<close>

text \<open>The saved value is the loaded one, for each of the records kept as JSON.\<close>

lemma json_records_roundtrip:
  assumes "settings_readable s"
  shows "SaveDiskVisibility v1 s = (Inr (), s') \<Longrightarrow> LoadDiskVisibility s' = Inr v1"
    and "SaveDiskPeaks v2 s = (Inr (), s') \<Longrightarrow> LoadDiskPeaks s' = Inr v2"
    and "SaveNotifiedStatuses v3 s = (Inr (), s') \<Longrightarrow> LoadNotifiedStatuses s' = Inr v3"
    and "SaveNotifiedUpdates v1 s = (Inr (), s') \<Longrightarrow> LoadNotifiedUpdates s' = Inr v1"
    and "SaveMdadmSchedules v4 s = (Inr (), s') \<Longrightarrow> LoadMdadmSchedules s' = Inr v4"
    and "SaveMdadmLastScan v5 s = (Inr (), s') \<Longrightarrow> LoadMdadmLastScan s' = Inr v5"
    and "SaveMdadmLastRun v5 s = (Inr (), s') \<Longrightarrow> LoadMdadmLastRun s' = Inr v5"
    and "SaveMdadmBaseline v6 s = (Inr (), s') \<Longrightarrow> LoadMdadmBaseline s' = Inr v6"
    and "SaveMdadmScanFailures v7 s = (Inr (), s') \<Longrightarrow> LoadMdadmScanFailures s' = Inr v7"
  unfolding kv_accessors by (rule getJSON_setJSON [OF assms], assumption, simp)+

lemma GetSetting_SetSetting:
  "\<lbrakk>settings_readable s; \<not> db_fault s ''SetSetting''\<rbrakk> \<Longrightarrow>
   GetSetting k' (s\<lparr>settings_tbl := AList.update k v t\<rparr>) =
     (if k' = k then Inr v else GetSetting k' (s\<lparr>settings_tbl := t\<rparr>))"
  by (simp add: GetSetting_def settings_readable_def)

lemma getInt_Text: "\<lbrakk>GetSetting k s = Inr (Text (Itoa i)); int64_range i\<rbrakk> \<Longrightarrow> getInt k s = Inr i"
  by (simp add: getInt_def ParseInt_Itoa)

lemma SaveSettings_tbl:
  assumes "\<not> db_fault s ''SetSetting''" "set_DiskVisibility cfg = Some vis"
  shows "SaveSettings cfg s = (Inr (), s\<lparr>settings_tbl :=
     AList.update keyDiskVisibility (JBools vis)
    (AList.update keyAutoUpdateDefault (Text (if set_AutoUpdateDefault cfg then ''1'' else ''0''))
    (AList.update keyEventRetention (Text (Itoa (set_EventLogRetentionDays cfg)))
    (AList.update keyAutoUpdateInterval (Text (Itoa (set_AutoUpdateIntervalMinutes cfg)))
    (AList.update keyPollInterval (Text (Itoa (set_PollIntervalSeconds cfg))) (settings_tbl s)))))\<rparr>)"
  using assms by (simp add: SaveSettings_def SetSetting_def SaveDiskVisibility_def setJSON_def)

lemma LoadSettings_of_cells:
  assumes "getInt keyPollInterval s = Inr p"
    and "GetSetting keyAutoUpdateDefault s = Inr (Text (if d then ''1'' else ''0''))"
    and "getInt keyAutoUpdateInterval s = Inr i"
    and "getInt keyEventRetention s = Inr r"
    and "LoadDiskVisibility s = Inr vis"
  shows "LoadSettings s = Inr \<lparr>set_PollIntervalSeconds = p, set_AutoUpdateDefault = d,
               set_AutoUpdateIntervalMinutes = i, set_EventLogRetentionDays = r,
               set_DiskVisibility = Some vis\<rparr>"
  by (simp add: LoadSettings_def assms)

text \<open>
  Settings survive a save: what \<^verbatim>\<open>SaveSettings\<close> stored, with the disk overrides given
  and the numbers in the range of a Go int, is exactly what \<^verbatim>\<open>LoadSettings\<close> returns, and no
  other key of the settings table moved.
\<close>

theorem settings_roundtrip:
  assumes "settings_readable s" "\<not> db_fault s ''SetSetting''"
    and "int64_range (set_PollIntervalSeconds cfg)" "int64_range (set_AutoUpdateIntervalMinutes cfg)"
      "int64_range (set_EventLogRetentionDays cfg)"
    and "set_DiskVisibility cfg = Some vis"
  shows "\<exists>s'. SaveSettings cfg s = (Inr (), s') \<and> LoadSettings s' = Inr cfg \<and>
    (\<forall>k. k \<notin> {keyPollInterval, keyAutoUpdateDefault, keyAutoUpdateInterval, keyEventRetention,
       keyDiskVisibility} \<longrightarrow> GetSetting k s' = GetSetting k s)"
proof -
  let ?s' = "snd (SaveSettings cfg s)"
  have cells: "GetSetting keyPollInterval ?s' = Inr (Text (Itoa (set_PollIntervalSeconds cfg)))"
    "GetSetting keyAutoUpdateInterval ?s' = Inr (Text (Itoa (set_AutoUpdateIntervalMinutes cfg)))"
    "GetSetting keyEventRetention ?s' = Inr (Text (Itoa (set_EventLogRetentionDays cfg)))"
    "GetSetting keyAutoUpdateDefault ?s' = Inr (Text (if set_AutoUpdateDefault cfg then ''1'' else ''0''))"
    "GetSetting keyDiskVisibility ?s' = Inr (JBools vis)"
    by (simp_all add: SaveSettings_tbl [OF assms(2,6)] GetSetting_SetSetting [OF assms(1,2)])
  have "LoadDiskVisibility ?s' = Inr vis"
    by (simp add: LoadDiskVisibility_def getJSON_def cells)
  then have L: "LoadSettings ?s' =
    Inr \<lparr>set_PollIntervalSeconds = set_PollIntervalSeconds cfg,
         set_AutoUpdateDefault = set_AutoUpdateDefault cfg,
         set_AutoUpdateIntervalMinutes = set_AutoUpdateIntervalMinutes cfg,
         set_EventLogRetentionDays = set_EventLogRetentionDays cfg, set_DiskVisibility = Some vis\<rparr>"
    by (intro LoadSettings_of_cells getInt_Text cells assms)
  moreover have "\<lparr>set_PollIntervalSeconds = set_PollIntervalSeconds cfg,
         set_AutoUpdateDefault = set_AutoUpdateDefault cfg,
         set_AutoUpdateIntervalMinutes = set_AutoUpdateIntervalMinutes cfg,
         set_EventLogRetentionDays = set_EventLogRetentionDays cfg, set_DiskVisibility = Some vis\<rparr> = cfg"
    using assms(6) by (cases cfg) simp
  moreover have "k \<notin> {keyPollInterval, keyAutoUpdateDefault, keyAutoUpdateInterval, keyEventRetention,
       keyDiskVisibility} \<Longrightarrow> GetSetting k ?s' = GetSetting k s" for k
    by (simp add: SaveSettings_tbl [OF assms(2,6)] GetSetting_SetSetting [OF assms(1,2)])
  ultimately show ?thesis
    using SaveSettings_tbl [OF assms(2,6)] by (intro exI [of _ ?s']) simp
qed

theorem settings_roundtrip_witness:
  "\<exists>s'. SaveSettings (default_settings\<lparr>set_PollIntervalSeconds := 30\<rparr>) empty_store = (Inr (), s') \<and>
    LoadSettings s' = Inr (default_settings\<lparr>set_PollIntervalSeconds := 30\<rparr>)"
  using settings_roundtrip [of empty_store "default_settings\<lparr>set_PollIntervalSeconds := 30\<rparr>" "[]"]
  by (auto simp: settings_readable_def empty_store_def default_settings_def
      DefaultPollIntervalSeconds_def int64_range_def)

lemma SaveNotificationConfig_load:
  assumes "settings_readable s" "\<not> db_fault s ''SetSetting''"
  shows "\<exists>s'. SaveNotificationConfig cfg s = (Inr (), s') \<and>
    LoadNotificationConfig s' = Inr \<lparr>ncfg_Targets = ncfg_Targets cfg, ncfg_EnvManaged = False\<rparr>"
proof -
  define s' where "s' = s\<lparr>settings_tbl := AList.update keyNotifyEvents (JEventFlags [])
    (AList.update keyNotifyURLs (JStrings [])
    (AList.update keyNotifyTargets (JTargets (ncfg_Targets cfg)) (settings_tbl s)))\<rparr>"
  have saved: "SaveNotificationConfig cfg s = (Inr (), s')"
    by (simp add: SaveNotificationConfig_def setJSON_def SetSetting_def assms(2) s'_def)
  have cells: "GetSetting keyNotifyTargets s' = Inr (JTargets (ncfg_Targets cfg))"
    "GetSetting keyNotifyURLs s' = Inr (JStrings [])" "GetSetting keyNotifyEvents s' = Inr (JEventFlags [])"
    by (simp_all add: s'_def GetSetting_SetSetting [OF assms])
  have "LoadNotificationConfig s' = Inr \<lparr>ncfg_Targets = ncfg_Targets cfg, ncfg_EnvManaged = False\<rparr>"
    by (simp add: LoadNotificationConfig_def legacyNotificationConfig_def getJSON_def cells)
  with saved show ?thesis by blast
qed

text \<open>
  Saving the notification configuration replaces every earlier form of it: the load
  that follows returns the saved targets, also when none is left, so the URLs of the legacy
  keys cannot come back.
\<close>

theorem notification_config_roundtrip:
  assumes "settings_readable s" "\<not> db_fault s ''SetSetting''"
  shows "\<exists>s'. SaveNotificationConfig cfg s = (Inr (), s') \<and>
    LoadNotificationConfig s' = Inr \<lparr>ncfg_Targets = ncfg_Targets cfg, ncfg_EnvManaged = False\<rparr>"
  using assms by (rule SaveNotificationConfig_load)

theorem notification_config_roundtrip_witness:
  "\<exists>s'. SaveNotificationConfig \<lparr>ncfg_Targets = [], ncfg_EnvManaged = False\<rparr>
      (empty_store\<lparr>settings_tbl := [(keyNotifyURLs, JStrings [''ntfy://old''])]\<rparr>) = (Inr (), s') \<and>
    LoadNotificationConfig s' = Inr \<lparr>ncfg_Targets = [], ncfg_EnvManaged = False\<rparr>"
  using notification_config_roundtrip
    [of "empty_store\<lparr>settings_tbl := [(keyNotifyURLs, JStrings [''ntfy://old''])]\<rparr>"
      "\<lparr>ncfg_Targets = [], ncfg_EnvManaged = False\<rparr>"]
  by (simp add: settings_readable_def empty_store_def)

end
