(* ===== verification/Store_Docker.thy ===== *)
theory Store_Docker
  imports Store_Base
begin

text \<open>
  Stacks, managed containers (\<^verbatim>\<open>internal/store/docker_store.go\<close>) and update jobs
  (\<^verbatim>\<open>internal/store/update_jobs.go\<close>).
\<close>

section \<open>Stacks and managed containers\<close>

definition UpsertStack :: "string \<Rightarrow> store \<Rightarrow> stack_row res \<times> store" where
  "UpsertStack name s =
     (if db_fault s ''UpsertStack'' then (Inl db_error, s)
      else if name \<in> sk_ID ` set (stacks s) then (Inr \<lparr>sk_ID = name, sk_Name = name\<rparr>, s)
      else if name \<in> sk_Name ` set (stacks s) then (Inl db_error, s)
      else (Inr \<lparr>sk_ID = name, sk_Name = name\<rparr>,
            s\<lparr>stacks := stacks s @ [\<lparr>sk_ID = name, sk_Name = name\<rparr>]\<rparr>))"

definition StackExists :: "string \<Rightarrow> store \<Rightarrow> bool res" where
  "StackExists sid s =
     (if db_fault s ''StackExists'' then Inl db_error else Inr (sid \<in> sk_ID ` set (stacks s)))"

text \<open>
  An insert, or, when a row with the same id exists, an update of its stack, snapshot and
  container id; the name, the auto-update flag and the creation time of that row stay.
\<close>

definition AddManagedContainer :: "int \<Rightarrow> managed_container \<Rightarrow> store \<Rightarrow> unit res \<times> store" where
  "AddManagedContainer now mc s =
     (let mc = (if mc_CreatedAt mc = 0 then mc\<lparr>mc_CreatedAt := now\<rparr> else mc) in
      if db_fault s ''AddManagedContainer'' \<or> mc_StackID mc \<notin> sk_ID ` set (stacks s) then (Inl db_error, s)
      else if mc_ID mc \<in> mc_ID ` set (managed s)
      then (Inr (), s\<lparr>managed := map (\<lambda>r. if mc_ID r = mc_ID mc
              then r\<lparr>mc_StackID := mc_StackID mc, mc_SnapshotJSON := mc_SnapshotJSON mc,
                     mc_ContainerID := mc_ContainerID mc\<rparr> else r) (managed s)\<rparr>)
      else (Inr (), s\<lparr>managed := managed s @ [mc]\<rparr>))"

definition find_managed :: "(managed_container \<Rightarrow> bool) \<Rightarrow> string \<Rightarrow> store \<Rightarrow> managed_container res" where
  "find_managed p stmt s =
     (if db_fault s stmt then Inl db_error
      else case find p (managed s) of None \<Rightarrow> Inl ErrNotFound | Some mc \<Rightarrow> Inr mc)"

definition ManagedByName :: "string \<Rightarrow> store \<Rightarrow> managed_container res" where
  "ManagedByName name s = find_managed (\<lambda>r. mc_ContainerName r = name) ''ManagedByName'' s"

definition ManagedByID :: "string \<Rightarrow> store \<Rightarrow> managed_container res" where
  "ManagedByID mid s = find_managed (\<lambda>r. mc_ID r = mid) ''ManagedByID'' s"

definition ResolveManaged :: "string \<Rightarrow> store \<Rightarrow> managed_container res" where
  "ResolveManaged idOrName s =
     (case ManagedByID idOrName s of Inr mc \<Rightarrow> Inr mc | Inl _ \<Rightarrow> ManagedByName idOrName s)"

definition ManagedByStack :: "string \<Rightarrow> store \<Rightarrow> managed_container list res" where
  "ManagedByStack stackID s =
     (if db_fault s ''ManagedByStack'' then Inl db_error
      else Inr (sort_key mc_ContainerName (filter (\<lambda>r. mc_StackID r = stackID) (managed s))))"

definition AllManaged :: "store \<Rightarrow> managed_container list res" where
  "AllManaged s = (if db_fault s ''AllManaged'' then Inl db_error else Inr (managed s))"

definition AutoUpdateContainers :: "store \<Rightarrow> managed_container list res" where
  "AutoUpdateContainers s =
     (if db_fault s ''AutoUpdateContainers'' then Inl db_error else Inr (filter mc_AutoUpdate (managed s)))"

definition SetAutoUpdate :: "string \<Rightarrow> bool \<Rightarrow> store \<Rightarrow> unit res \<times> store" where
  "SetAutoUpdate mid on s =
     (if db_fault s ''SetAutoUpdate'' then (Inl db_error, s)
      else if mid \<notin> mc_ID ` set (managed s) then (Inl ErrNotFound, s)
      else (Inr (), s\<lparr>managed := map (\<lambda>r. if mc_ID r = mid then r\<lparr>mc_AutoUpdate := on\<rparr> else r) (managed s)\<rparr>))"

definition UpdateSnapshot :: "string \<Rightarrow> snapshot_json \<Rightarrow> string \<Rightarrow> store \<Rightarrow> unit res \<times> store" where
  "UpdateSnapshot mid js cid s =
     (if db_fault s ''UpdateSnapshot'' then (Inl db_error, s)
      else (Inr (), s\<lparr>managed :=
        map (\<lambda>r. if mc_ID r = mid then r\<lparr>mc_SnapshotJSON := js, mc_ContainerID := cid\<rparr> else r) (managed s)\<rparr>))"

text \<open>
  One transaction: any statement of it that fails rolls the whole of it back, so one fault stands
  for all of them. The stack goes with its last container; the cascade of that delete finds no
  rows.
\<close>

definition DeleteManagedContainer :: "string \<Rightarrow> store \<Rightarrow> unit res \<times> store" where
  "DeleteManagedContainer mid s =
     (if db_fault s ''DeleteManagedContainer'' then (Inl db_error, s)
      else case find (\<lambda>r. mc_ID r = mid) (managed s) of
          None \<Rightarrow> (Inl ErrNotFound, s)
        | Some r \<Rightarrow>
            let rest = filter (\<lambda>x. mc_ID x \<noteq> mid) (managed s);
                left = length (filter (\<lambda>x. mc_StackID x = mc_StackID r) rest);
                s1 = s\<lparr>managed := rest\<rparr>
            in (Inr (), if left = 0
                  then s1\<lparr>stacks := filter (\<lambda>k. sk_ID k \<noteq> mc_StackID r) (stacks s)\<rparr> else s1))"

definition Unadopt :: "string \<Rightarrow> store \<Rightarrow> unit res \<times> store" where
  "Unadopt stackID s =
     (if db_fault s ''Unadopt'' then (Inl db_error, s)
      else (Inr (), s\<lparr>stacks := filter (\<lambda>k. sk_ID k \<noteq> stackID) (stacks s),
                     managed := (if stackID \<in> sk_ID ` set (stacks s)
                       then filter (\<lambda>r. mc_StackID r \<noteq> stackID) (managed s) else managed s)\<rparr>))"

section \<open>Update jobs\<close>

definition StartUpdateJob :: "int \<Rightarrow> update_job \<Rightarrow> store \<Rightarrow> unit res \<times> store" where
  "StartUpdateJob now j s =
     (let j = (if uj_StartedAt j = 0 then j\<lparr>uj_StartedAt := now\<rparr> else j) in
      if db_fault s ''StartUpdateJob'' then (Inl db_error, s)
      else if uj_ID j \<in> uj_ID ` set (update_jobs s)
      then (Inr (), s\<lparr>update_jobs := map (\<lambda>r. if uj_ID r = uj_ID j
              then r\<lparr>uj_Phase := uj_Phase j, uj_Message := uj_Message j\<rparr> else r) (update_jobs s)\<rparr>)
      else (Inr (), s\<lparr>update_jobs := update_jobs s @
              [j\<lparr>uj_Error := '''', uj_Done := False, uj_FinishedAt := 0\<rparr>]\<rparr>))"

definition SetUpdateJobPhase :: "string \<Rightarrow> string \<Rightarrow> string \<Rightarrow> store \<Rightarrow> unit res \<times> store" where
  "SetUpdateJobPhase jid phase message s =
     (if db_fault s ''SetUpdateJobPhase'' then (Inl db_error, s)
      else (Inr (), s\<lparr>update_jobs := map (\<lambda>r. if uj_ID r = jid \<and> \<not> uj_Done r
              then r\<lparr>uj_Phase := phase, uj_Message := message\<rparr> else r) (update_jobs s)\<rparr>))"

definition MarkUpdateJobSelf :: "string \<Rightarrow> store \<Rightarrow> unit res \<times> store" where
  "MarkUpdateJobSelf jid s =
     (if db_fault s ''MarkUpdateJobSelf'' then (Inl db_error, s)
      else (Inr (), s\<lparr>update_jobs :=
        map (\<lambda>r. if uj_ID r = jid then r\<lparr>uj_Self := True\<rparr> else r) (update_jobs s)\<rparr>))"

definition finished_row :: "int \<Rightarrow> string \<Rightarrow> string \<Rightarrow> string \<Rightarrow> update_job \<Rightarrow> update_job" where
  "finished_row now phase message errMsg r =
     r\<lparr>uj_Phase := phase, uj_Message := message, uj_Error := errMsg, uj_Done := True, uj_FinishedAt := now\<rparr>"

definition FinishUpdateJob :: "int \<Rightarrow> string \<Rightarrow> string \<Rightarrow> string \<Rightarrow> string \<Rightarrow> store \<Rightarrow> unit res \<times> store" where
  "FinishUpdateJob now jid phase message errMsg s =
     (if db_fault s ''FinishUpdateJob'' then (Inl db_error, s)
      else (Inr (), s\<lparr>update_jobs :=
        map (\<lambda>r. if uj_ID r = jid then finished_row now phase message errMsg r else r) (update_jobs s)\<rparr>))"

definition UpdateJobByID :: "string \<Rightarrow> store \<Rightarrow> update_job res" where
  "UpdateJobByID jid s =
     (if db_fault s ''UpdateJobByID'' then Inl db_error
      else case find (\<lambda>r. uj_ID r = jid) (update_jobs s) of None \<Rightarrow> Inl ErrNotFound | Some j \<Rightarrow> Inr j)"

definition ActiveUpdateJobs :: "store \<Rightarrow> update_job list res" where
  "ActiveUpdateJobs s =
     (if db_fault s ''ActiveUpdateJobs'' then Inl db_error
      else Inr (sort_key uj_StartedAt (filter (\<lambda>j. \<not> uj_Done j) (update_jobs s))))"

definition RecentUpdateJobs :: "int \<Rightarrow> store \<Rightarrow> update_job list res" where
  "RecentUpdateJobs since s =
     (if db_fault s ''RecentUpdateJobs'' then Inl db_error
      else Inr (sort_key uj_FinishedAt (filter (\<lambda>j. uj_Done j \<and> uj_FinishedAt j \<ge> since) (update_jobs s))))"

lemmas managed_ops = UpsertStack_def AddManagedContainer_def SetAutoUpdate_def UpdateSnapshot_def
  DeleteManagedContainer_def Unadopt_def

lemmas job_ops = StartUpdateJob_def SetUpdateJobPhase_def MarkUpdateJobSelf_def FinishUpdateJob_def

section \<open>Integrity\<close>

text \<open>
  Stack names equal their ids, ids are unique, and a managed container belongs to a stack that
  exists.
\<close>

definition managed_ok :: "store \<Rightarrow> bool" where
  "managed_ok s \<longleftrightarrow>
     distinct (map sk_ID (stacks s)) \<and> (\<forall>k \<in> set (stacks s). sk_Name k = sk_ID k) \<and>
     distinct (map mc_ID (managed s)) \<and> distinct (map uj_ID (update_jobs s)) \<and>
     mc_StackID ` set (managed s) \<subseteq> sk_ID ` set (stacks s)"

lemma finished_row_simps [simp]:
  "uj_ID (finished_row now p m e r) = uj_ID r" "uj_Phase (finished_row now p m e r) = p"
  "uj_Error (finished_row now p m e r) = e" "uj_Done (finished_row now p m e r)"
  "uj_Message (finished_row now p m e r) = m" "uj_FinishedAt (finished_row now p m e r) = now"
  by (simp_all add: finished_row_def)

lemma map_mc_ID_update [simp]:
  "map (mc_ID \<circ> (\<lambda>r. if P r then r\<lparr>mc_AutoUpdate := a\<rparr> else r)) rs = map mc_ID rs"
  "map (mc_ID \<circ> (\<lambda>r. if P r then r\<lparr>mc_SnapshotJSON := j, mc_ContainerID := c\<rparr> else r)) rs = map mc_ID rs"
  "map (mc_ID \<circ> (\<lambda>r. if P r then r\<lparr>mc_StackID := t, mc_SnapshotJSON := j, mc_ContainerID := c\<rparr> else r)) rs
     = map mc_ID rs"
  "map (uj_ID \<circ> (\<lambda>r. if Q r then r\<lparr>uj_Phase := p, uj_Message := m\<rparr> else r)) js = map uj_ID js"
  "map (uj_ID \<circ> (\<lambda>r. if Q r then r\<lparr>uj_Self := b\<rparr> else r)) js = map uj_ID js"
  "map (uj_ID \<circ> (\<lambda>r. if Q r then finished_row now p m e r else r)) js = map uj_ID js"
  by simp_all

lemma managed_ok_stacks:
  assumes "managed_ok s"
  shows "managed_ok (snd (UpsertStack n s))" "managed_ok (snd (Unadopt n s))"
    "managed_ok (snd (DeleteManagedContainer i s))"
proof -
  show "managed_ok (snd (UpsertStack n s))"
    using assms by (auto simp: UpsertStack_def managed_ok_def)
  show "managed_ok (snd (Unadopt n s))"
  proof (cases "n \<in> sk_ID ` set (stacks s)")
    case True
    with assms show ?thesis
      by (auto simp: Unadopt_def managed_ok_def distinct_map_filter image_subset_iff image_iff)
        metis
  next
    case False
    then have "filter (\<lambda>k. sk_ID k \<noteq> n) (stacks s) = stacks s"
      by (auto simp: filter_id_conv)
    with assms False show ?thesis by (simp add: Unadopt_def managed_ok_def)
  qed
  show "managed_ok (snd (DeleteManagedContainer i s))"
  proof (cases "find (\<lambda>r. mc_ID r = i) (managed s)")
    case (Some r)
    with assms show ?thesis
      by (auto simp: DeleteManagedContainer_def managed_ok_def Let_def distinct_map_filter filter_empty_conv
          image_subset_iff image_iff) metis
  qed (use assms in \<open>simp add: DeleteManagedContainer_def\<close>)
qed

lemma managed_ok_containers:
  assumes "managed_ok s"
  shows "managed_ok (snd (AddManagedContainer now mc s))" "managed_ok (snd (SetAutoUpdate i b s))"
    "managed_ok (snd (UpdateSnapshot i js c s))"
proof -
  show "managed_ok (snd (AddManagedContainer now mc s))"
    using assms by (auto simp: AddManagedContainer_def managed_ok_def Let_def image_subset_iff)
  show "managed_ok (snd (SetAutoUpdate i b s))"
    using assms by (auto simp: SetAutoUpdate_def managed_ok_def image_subset_iff)
  show "managed_ok (snd (UpdateSnapshot i js c s))"
    using assms by (auto simp: UpdateSnapshot_def managed_ok_def image_subset_iff)
qed

lemma managed_ok_jobs:
  assumes "managed_ok s"
  shows "managed_ok (snd (StartUpdateJob now j s))" "managed_ok (snd (SetUpdateJobPhase i p m s))"
    "managed_ok (snd (MarkUpdateJobSelf i s))" "managed_ok (snd (FinishUpdateJob now i p m e s))"
proof -
  have jobs: "managed_ok (s\<lparr>update_jobs := js\<rparr>)" if "distinct (map uj_ID js)" for js
    using assms that by (simp add: managed_ok_def)
  have d: "distinct (map uj_ID (update_jobs s))"
    using assms by (simp add: managed_ok_def)
  show "managed_ok (snd (StartUpdateJob now j s))"
    using assms d by (auto simp: StartUpdateJob_def Let_def intro!: jobs)
  show "managed_ok (snd (SetUpdateJobPhase i p m s))"
    using assms d by (simp add: SetUpdateJobPhase_def jobs)
  show "managed_ok (snd (MarkUpdateJobSelf i s))"
    using assms d by (simp add: MarkUpdateJobSelf_def jobs)
  show "managed_ok (snd (FinishUpdateJob now i p m e s))"
    using assms d by (simp add: FinishUpdateJob_def jobs)
qed

lemmas managed_ok_step = managed_ok_stacks managed_ok_containers managed_ok_jobs

text \<open>An update job row that is finished stays finished, with its outcome.\<close>

definition job_settled :: "string \<Rightarrow> string \<Rightarrow> string \<Rightarrow> store \<Rightarrow> bool" where
  "job_settled jid phase errMsg s \<longleftrightarrow>
     (\<forall>r \<in> set (update_jobs s). uj_ID r = jid \<longrightarrow> uj_Done r \<and> uj_Phase r = phase \<and> uj_Error r = errMsg)"

lemma job_settled_map:
  assumes "\<And>r. \<lbrakk>r \<in> set (update_jobs s); uj_ID (f r) = jid\<rbrakk> \<Longrightarrow>
      uj_Done (f r) \<and> uj_Phase (f r) = p \<and> uj_Error (f r) = e"
  shows "job_settled jid p e (s\<lparr>update_jobs := map f (update_jobs s)\<rparr>)"
  using assms by (simp add: job_settled_def)

lemma job_settled_finish:
  assumes "\<not> db_fault s ''FinishUpdateJob''"
  shows "job_settled jid p e (snd (FinishUpdateJob now jid p m e s))"
proof -
  have "job_settled jid p e (s\<lparr>update_jobs :=
      map (\<lambda>r. if uj_ID r = jid then finished_row now p m e r else r) (update_jobs s)\<rparr>)"
    by (rule job_settled_map) (auto split: if_splits)
  with assms show ?thesis by (simp only: FinishUpdateJob_def if_False snd_conv)
qed

lemma job_settled_phase:
  assumes "job_settled jid p e s"
  shows "job_settled jid p e (snd (SetUpdateJobPhase j q m s))"
proof -
  have "job_settled jid p e (s\<lparr>update_jobs := map (\<lambda>r. if uj_ID r = j \<and> \<not> uj_Done r
      then r\<lparr>uj_Phase := q, uj_Message := m\<rparr> else r) (update_jobs s)\<rparr>)"
    using assms by (intro job_settled_map) (auto simp: job_settled_def split: if_splits)
  with assms show ?thesis by (simp only: SetUpdateJobPhase_def snd_conv split: if_split) blast
qed

end
