(* ===== verification/Docker_Env.thy ===== *)
theory Docker_Env
  imports Store_Settings Store_Docker
begin

text \<open>
  The ground of \<^verbatim>\<open>internal/docker\<close>: the Docker daemon as Veery sees it, the state of the
  \<^verbatim>\<open>Manager\<close>, and the small operations of \<^verbatim>\<open>client.go\<close> and \<^verbatim>\<open>self.go\<close>.

  The daemon is code outside the repository. It is a parameter: a record of functions on an
  opaque daemon state, one per call of the Docker client that Veery makes, each returning its
  answer, the new daemon state and the time it took in nanoseconds. Cancellation of the context,
  the surplus time of a sleep, random identifiers, the environment and \<^verbatim>\<open>/proc\<close> come from
  the same record. What Veery relies on of the daemon is stated as the predicate
  \<open>docker_laws\<close> in theory \<open>Docker_Laws\<close>.

  The manager runs in the state monad. Log lines are left out. A lock that is taken is entered in
  \<open>mg_locks\<close> while it is held; the list can also hold the locks of other goroutines.
\<close>

section \<open>The daemon\<close>

text \<open>
  The stream of an image pull: the decoded lines, each with the time it took to arrive, and how
  the stream ends (\<open>None\<close> is end of file, \<open>Some e\<close> a read or decoding error).
\<close>

type_synonym pull_stream = "(nat \<times> pull_event) list \<times> err option"

record 'd docker_env =
  ContainerList :: "bool \<Rightarrow> 'd \<Rightarrow> summary list res \<times> 'd \<times> nat"
  ContainerInspect :: "string \<Rightarrow> 'd \<Rightarrow> inspect res \<times> 'd \<times> nat"
  ContainerCreate :: "config \<Rightarrow> host_config \<Rightarrow> endpoints \<Rightarrow> string \<Rightarrow> 'd \<Rightarrow> string res \<times> 'd \<times> nat"
  ContainerStart :: "string \<Rightarrow> 'd \<Rightarrow> unit res \<times> 'd \<times> nat"
  ContainerStop :: "string \<Rightarrow> 'd \<Rightarrow> unit res \<times> 'd \<times> nat"
  ContainerRestart :: "string \<Rightarrow> 'd \<Rightarrow> unit res \<times> 'd \<times> nat"
  ContainerRemove :: "string \<Rightarrow> 'd \<Rightarrow> unit res \<times> 'd \<times> nat"
  ContainerRename :: "string \<Rightarrow> string \<Rightarrow> 'd \<Rightarrow> unit res \<times> 'd \<times> nat"
  ContainerWait :: "string \<Rightarrow> 'd \<Rightarrow> unit res \<times> 'd \<times> nat"
  NetworkConnect :: "string \<Rightarrow> string \<Rightarrow> endpoint option \<Rightarrow> 'd \<Rightarrow> unit res \<times> 'd \<times> nat"
  ImagePull :: "string \<Rightarrow> 'd \<Rightarrow> pull_stream res \<times> 'd \<times> nat"
  ImageInspect :: "string \<Rightarrow> 'd \<Rightarrow> image_inspect res \<times> 'd \<times> nat"
  ImageRemove :: "string \<Rightarrow> 'd \<Rightarrow> unit res \<times> 'd \<times> nat"
  DistributionInspect :: "string \<Rightarrow> 'd \<Rightarrow> string res \<times> 'd \<times> nat"
  PingDaemon :: "'d \<Rightarrow> unit res \<times> 'd \<times> nat"
  ctx_done :: "'d \<Rightarrow> bool"
  oversleep :: "nat \<Rightarrow> 'd \<Rightarrow> unit \<times> 'd \<times> nat"
  rand_id :: "'d \<Rightarrow> string \<times> 'd \<times> nat"
  env_container :: string
  proc_files :: "string list list"
  env_hostname :: "string res"

section \<open>The manager's state\<close>

text \<open>What the manager hands to its publisher and its notifier, in order.\<close>

datatype out =
    Broadcast ws_message
  | Notified notification_event string string event_meta

record 'd mgr =
  mg_st :: store
  mg_docker :: 'd
  mg_clock :: nat
  mg_updateAvail :: "(string \<times> bool) list"
  mg_availBaseline :: bool
  mg_lastStatus :: "(string \<times> container_status) list"
  mg_statusBaseline :: bool
  mg_locks :: "string list"
  mg_activeJobs :: "(string \<times> job_progress) list"
  mg_selfID :: "string option"
  mg_pub :: bool
  mg_notif :: bool
  mg_outs :: "out list"

type_synonym ('d, 'a) op = "('d mgr, 'a) state"

definition NewManager :: "store \<Rightarrow> 'd \<Rightarrow> nat \<Rightarrow> bool \<Rightarrow> 'd mgr" where
  "NewManager st d clock pub =
     \<lparr>mg_st = st, mg_docker = d, mg_clock = clock, mg_updateAvail = [], mg_availBaseline = False,
      mg_lastStatus = [], mg_statusBaseline = False, mg_locks = [], mg_activeJobs = [],
      mg_selfID = None, mg_pub = pub, mg_notif = False, mg_outs = []\<rparr>"

definition SetNotifier :: "bool \<Rightarrow> 'd mgr \<Rightarrow> 'd mgr" where
  "SetNotifier on m = m\<lparr>mg_notif := on\<rparr>"

section \<open>Primitive actions\<close>

text \<open>A call of the Docker client: time passes while it runs.\<close>

definition call :: "('d \<Rightarrow> 'a \<times> 'd \<times> nat) \<Rightarrow> ('d, 'a) op" where
  "call f = State (\<lambda>m. case f (mg_docker m) of
     (r, d, t) \<Rightarrow> (r, m\<lparr>mg_docker := d, mg_clock := mg_clock m + t\<rparr>))"

definition db :: "(store \<Rightarrow> 'a \<times> store) \<Rightarrow> ('d, 'a) op" where
  "db f = State (\<lambda>m. case f (mg_st m) of (r, s) \<Rightarrow> (r, m\<lparr>mg_st := s\<rparr>))"

definition db_read :: "(store \<Rightarrow> 'a) \<Rightarrow> ('d, 'a) op" where
  "db_read f = State (\<lambda>m. (f (mg_st m), m))"

definition reads :: "('d mgr \<Rightarrow> 'a) \<Rightarrow> ('d, 'a) op" where
  "reads f = State (\<lambda>m. (f m, m))"

definition modify :: "('d mgr \<Rightarrow> 'd mgr) \<Rightarrow> ('d, unit) op" where
  "modify f = State (\<lambda>m. ((), f m))"

definition second :: nat where "second = 1000000000"

definition now_ns :: "('d, nat) op" where
  "now_ns = reads mg_clock"

definition now_unix :: "('d, int) op" where
  "now_unix = reads (\<lambda>m. int (mg_clock m div second))"

text \<open>A sleep lasts at least as long as asked for; the surplus is the environment's.\<close>

definition sleep :: "'d docker_env \<Rightarrow> nat \<Rightarrow> ('d, unit) op" where
  "sleep e ns = State (\<lambda>m. case oversleep e ns (mg_docker m) of
     (_, d, t) \<Rightarrow> ((), m\<lparr>mg_docker := d, mg_clock := mg_clock m + ns + t\<rparr>))"

definition genID :: "'d docker_env \<Rightarrow> ('d, string) op" where
  "genID e = call (rand_id e)"

definition Ping :: "'d docker_env \<Rightarrow> ('d, unit res) op" where
  "Ping e = call (PingDaemon e)"

lemma run_call [simp]:
  "run_state (call f) m = (case f (mg_docker m) of
     (r, d, t) \<Rightarrow> (r, m\<lparr>mg_docker := d, mg_clock := mg_clock m + t\<rparr>))"
  by (simp add: call_def)

lemma run_db [simp]: "run_state (db f) m = (case f (mg_st m) of (r, s) \<Rightarrow> (r, m\<lparr>mg_st := s\<rparr>))"
  by (simp add: db_def)

lemma run_db_read [simp]: "run_state (db_read f) m = (f (mg_st m), m)"
  by (simp add: db_read_def)

lemma run_reads [simp]: "run_state (reads f) m = (f m, m)"
  by (simp add: reads_def)

lemma run_modify [simp]: "run_state (modify f) m = ((), f m)"
  by (simp add: modify_def)

section \<open>Outputs and jobs in flight\<close>

definition publish :: "job_progress \<Rightarrow> ('d, unit) op" where
  "publish j = modify (\<lambda>m. if mg_pub m then m\<lparr>mg_outs := mg_outs m @ [Broadcast (WSJob j)]\<rparr> else m)"

definition notify :: "notification_event \<Rightarrow> string \<Rightarrow> string \<Rightarrow> event_meta \<Rightarrow> ('d, unit) op" where
  "notify ev title body meta =
     modify (\<lambda>m. if mg_notif m then m\<lparr>mg_outs := mg_outs m @ [Notified ev title body meta]\<rparr> else m)"

definition track :: "job_progress \<Rightarrow> ('d, unit) op" where
  "track j = do {
     _ \<leftarrow> modify (\<lambda>m. m\<lparr>mg_activeJobs := AList.update (job_ID j) j (mg_activeJobs m)\<rparr>);
     publish j
   }"

definition forget :: "string \<Rightarrow> ('d, unit) op" where
  "forget jid = modify (\<lambda>m. m\<lparr>mg_activeJobs := AList.delete jid (mg_activeJobs m)\<rparr>)"

section \<open>Locks and flags (client.go)\<close>

text \<open>
  \<^verbatim>\<open>Lock\<close> waits for whoever holds the lock and then holds it; \<^verbatim>\<open>Unlock\<close> gives it back.
\<close>

definition Lock :: "string \<Rightarrow> ('d, unit) op" where
  "Lock name = modify (\<lambda>m. m\<lparr>mg_locks := name # removeAll name (mg_locks m)\<rparr>)"

definition Unlock :: "string \<Rightarrow> ('d, unit) op" where
  "Unlock name = modify (\<lambda>m. m\<lparr>mg_locks := removeAll name (mg_locks m)\<rparr>)"

definition TryLock :: "string \<Rightarrow> ('d, bool) op" where
  "TryLock name = State (\<lambda>m.
     if name \<in> set (mg_locks m) then (False, m) else (True, m\<lparr>mg_locks := name # mg_locks m\<rparr>))"

definition with_lock :: "string \<Rightarrow> ('d, 'a) op \<Rightarrow> ('d, 'a) op" where
  "with_lock name fn = do {
     _ \<leftarrow> Lock name;
     r \<leftarrow> fn;
     _ \<leftarrow> Unlock name;
     State_Monad.return r
   }"

definition withContainerLock :: "'d docker_env \<Rightarrow> string \<Rightarrow> ('d, 'a) op \<Rightarrow> ('d, 'a) op" where
  "withContainerLock e ref fn = do {
     r \<leftarrow> call (ContainerInspect e ref);
     with_lock (case r of Inr insp \<Rightarrow> TrimPrefix (insp_Name insp) ''/'' | Inl _ \<Rightarrow> ref) fn
   }"

definition setUpdateAvailable :: "string \<Rightarrow> bool \<Rightarrow> ('d, unit) op" where
  "setUpdateAvailable name avail =
     modify (\<lambda>m. m\<lparr>mg_updateAvail := AList.update name avail (mg_updateAvail m)\<rparr>)"

definition updateAvailableFor :: "string \<Rightarrow> ('d, bool) op" where
  "updateAvailableFor name = reads (\<lambda>m. get_bool (mg_updateAvail m) name)"

section \<open>Veery's own container (self.go)\<close>

abbreviation updaterLabel :: string where "updaterLabel \<equiv> ''veery.role''"
abbreviation updaterRole :: string where "updaterRole \<equiv> ''updater''"

definition is_word_char :: "char \<Rightarrow> bool" where
  "is_word_char c \<longleftrightarrow>
     (let n = of_char c :: nat in 48 \<le> n \<and> n \<le> 57 \<or> 65 \<le> n \<and> n \<le> 90 \<or> 97 \<le> n \<and> n \<le> 122 \<or> n = 95)"

definition is_hex_char :: "char \<Rightarrow> bool" where
  "is_hex_char c \<longleftrightarrow> (let n = of_char c :: nat in 48 \<le> n \<and> n \<le> 57 \<or> 97 \<le> n \<and> n \<le> 102)"

text \<open>
  The matches of \<^verbatim>\<open>\b[0-9a-f]{64}\b\<close>: a match starts and ends at a word boundary and consists
  of word characters, so it is a maximal run of them that is 64 hexadecimal digits long.
\<close>

definition containerIDPattern_FindAll :: "string \<Rightarrow> string list" where
  "containerIDPattern_FindAll line =
     filter (\<lambda>w. length w = 64 \<and> list_all is_hex_char w) (FieldsFunc (\<lambda>c. \<not> is_word_char c) line)"

definition procContainerIDs :: "'d docker_env \<Rightarrow> string list" where
  "procContainerIDs e = concat (map (\<lambda>ls. concat (map containerIDPattern_FindAll ls)) (proc_files e))"

text \<open>The first reference that the daemon knows, as the full id it resolves to.\<close>

fun first_inspected :: "'d docker_env \<Rightarrow> string list \<Rightarrow> ('d, string option) op" where
  "first_inspected e [] = State_Monad.return None"
| "first_inspected e (ref # refs) = do {
     r \<leftarrow> call (ContainerInspect e ref);
     case r of Inr insp \<Rightarrow> State_Monad.return (Some (insp_ID insp)) | Inl _ \<Rightarrow> first_inspected e refs
   }"

definition resolveSelf :: "'d docker_env \<Rightarrow> ('d, string) op" where
  "resolveSelf e = do {
     r \<leftarrow> first_inspected e ((if env_container e \<noteq> '''' then [env_container e] else []) @ procContainerIDs e);
     case r of
       Some cid \<Rightarrow> State_Monad.return cid
     | None \<Rightarrow>
         (case env_hostname e of
            Inl _ \<Rightarrow> State_Monad.return ''''
          | Inr host \<Rightarrow>
              if host = '''' then State_Monad.return ''''
              else do {
                r \<leftarrow> call (ContainerInspect e host);
                case r of
                  Inl _ \<Rightarrow> State_Monad.return ''''
                | Inr insp \<Rightarrow> State_Monad.return
                    (if HasPrefix (insp_ID insp) host then insp_ID insp else '''')
              })
   }"

text \<open>\<^verbatim>\<open>sync.Once\<close>: resolved on first use, whatever the outcome.\<close>

definition SelfContainerID :: "'d docker_env \<Rightarrow> ('d, string) op" where
  "SelfContainerID e = do {
     known \<leftarrow> reads mg_selfID;
     case known of
       Some cid \<Rightarrow> State_Monad.return cid
     | None \<Rightarrow> do {
         cid \<leftarrow> resolveSelf e;
         _ \<leftarrow> modify (\<lambda>m. m\<lparr>mg_selfID := Some cid\<rparr>);
         State_Monad.return cid
       }
   }"

definition IsSelf :: "'d docker_env \<Rightarrow> string \<Rightarrow> ('d, bool) op" where
  "IsSelf e cid = do {
     self \<leftarrow> SelfContainerID e;
     State_Monad.return (self \<noteq> '''' \<and> self = cid)
   }"

end
