(* ===== verification/Docker_Stacks.thy ===== *)
theory Docker_Stacks
  imports Docker_Env
begin

text \<open>
  What the manager shows of the host: the stacks with their statuses
  (\<^verbatim>\<open>lifecycle.go\<close>, the reading half), the notifications about status changes
  (\<^verbatim>\<open>notify.go\<close>), and the predicates that tell services from scaffolding
  (\<^verbatim>\<open>reconcile.go\<close>). Go's \<^verbatim>\<open>sort.Slice\<close> leaves the order of equal keys open; the model
  keeps them in their original order.
\<close>

section \<open>Names and labels\<close>

abbreviation projectLabel :: string where "projectLabel \<equiv> ''com.docker.compose.project''"
abbreviation serviceLabel :: string where "serviceLabel \<equiv> ''com.docker.compose.service''"
abbreviation composeReplaceLabel :: string where "composeReplaceLabel \<equiv> ''com.docker.compose.replace''"
abbreviation oldSuffix :: string where "oldSuffix \<equiv> ''__veery_old''"

definition containerName :: "string list \<Rightarrow> string" where
  "containerName names = (case names of [] \<Rightarrow> '''' | n # _ \<Rightarrow> TrimPrefix n ''/'')"

definition isComposeTemp :: "string \<Rightarrow> string \<Rightarrow> (string \<times> string) list \<Rightarrow> bool" where
  "isComposeTemp name cid labels =
     (case Cut name ''_'' of
        None \<Rightarrow> False
      | Some (pre, _) \<Rightarrow>
          length pre = 12 \<and> (HasPrefix cid pre \<or> HasPrefix (get_str labels composeReplaceLabel) pre))"

definition isService :: "summary \<Rightarrow> bool" where
  "isService c =
     (let name = containerName (sum_Names c)
      in get_str (sum_Labels c) updaterLabel \<noteq> updaterRole \<and> \<not> HasSuffix name oldSuffix \<and>
         \<not> isComposeTemp name (sum_ID c) (sum_Labels c))"

section \<open>Statuses\<close>

text \<open>
  \<^verbatim>\<open>exitCodeFromStatus\<close>: the number between the first opening parenthesis and the first
  closing one after it, or -1.
\<close>

definition exitCodeFromStatus :: "string \<Rightarrow> int" where
  "exitCodeFromStatus status =
     (case Cut status ''('' of
        None \<Rightarrow> -1
      | Some (_, rest) \<Rightarrow>
          (case Cut rest '')'' of
             None \<Rightarrow> -1
           | Some (inner, _) \<Rightarrow> (case Atoi (TrimSpace inner) of None \<Rightarrow> -1 | Some code \<Rightarrow> code)))"

definition mapStatus :: "string \<Rightarrow> string \<Rightarrow> int \<Rightarrow> container_status" where
  "mapStatus state health exitCode =
     (if state = ''running'' then
        (if health = ''unhealthy'' then StatusNeedsAttention else StatusRunning)
      else if state = ''restarting'' \<or> state = ''dead'' then StatusNeedsAttention
      else if state = ''exited'' then (if exitCode > 0 then StatusNeedsAttention else StatusStopped)
      else StatusStopped)"

definition buildContainer :: "summary \<Rightarrow> string \<Rightarrow> managed_container option \<Rightarrow> container" where
  "buildContainer c name mc =
     (let svc = get_str (sum_Labels c) serviceLabel;
          lower = ToLower (sum_Status c);
          health = (if Contains lower ''unhealthy'' then ''unhealthy''
                    else if Contains lower ''healthy'' then ''healthy'' else '''')
      in \<lparr>c_ID = sum_ID c, c_Name = (if svc \<noteq> '''' then svc else name), c_ContainerName = name,
          c_Image = sum_Image c, c_State = sum_State c,
          c_Status = mapStatus (sum_State c) health (exitCodeFromStatus (sum_Status c)),
          c_Health = health, c_Managed = (mc \<noteq> None),
          c_AutoUpdate = (case mc of None \<Rightarrow> False | Some r \<Rightarrow> mc_AutoUpdate r),
          c_UpdateAvailable = False, c_RestartCount = 0, c_CreatedAt = sum_Created c\<rparr>)"

definition count_status :: "container_status \<Rightarrow> container list \<Rightarrow> nat" where
  "count_status x cs = length (filter (\<lambda>c. c_Status c = x) cs)"

definition finalizeStack :: "stack \<Rightarrow> stack" where
  "finalizeStack st =
     (let cs = sort_key c_Name (stack_Containers st);
          total = length cs;
          missing = count_status StatusMissing cs;
          running = count_status StatusRunning cs;
          needsAttention = (count_status StatusNeedsAttention cs > 0);
          updating = (count_status StatusUpdating cs > 0)
      in st\<lparr>stack_Containers := cs, stack_Managed := list_ex c_Managed cs,
            stack_Status :=
              (if total > 0 \<and> missing = total then StatusMissing
               else if needsAttention \<or> missing > 0 then StatusNeedsAttention
               else if updating then StatusUpdating
               else if total > 0 \<and> running = total then StatusRunning
               else StatusStopped)\<rparr>)"

section \<open>Listing the stacks\<close>

definition updatingContainers :: "'d mgr \<Rightarrow> string list" where
  "updatingContainers m =
     map (job_Target \<circ> snd) (filter (\<lambda>(_, j). job_Kind j = ''update'') (mg_activeJobs m))"

text \<open>Append a container to its stack, creating the stack at its first container.\<close>

fun add_to_stack :: "string \<Rightarrow> container \<Rightarrow> stack list \<Rightarrow> stack list" where
  "add_to_stack sid c [] =
     [\<lparr>stack_ID = sid, stack_Name = sid, stack_Managed = False, stack_Status = StatusStopped,
       stack_Containers = [c]\<rparr>]"
| "add_to_stack sid c (st # sts) =
     (if stack_ID st = sid then st\<lparr>stack_Containers := stack_Containers st @ [c]\<rparr> # sts
      else st # add_to_stack sid c sts)"

text \<open>\<^verbatim>\<open>managedByName\<close>: of several rows with one name, the last one listed.\<close>

definition managedByName :: "managed_container list \<Rightarrow> string \<Rightarrow> managed_container option" where
  "managedByName rows name = find (\<lambda>r. mc_ContainerName r = name) (rev rows)"

definition stack_of :: "summary \<Rightarrow> managed_container option \<Rightarrow> string" where
  "stack_of c mc =
     (let proj = get_str (sum_Labels c) projectLabel
      in if proj \<noteq> '''' then proj
         else case mc of Some r \<Rightarrow> mc_StackID r | None \<Rightarrow> containerName (sum_Names c))"

text \<open>One pass of the loop over the live containers.\<close>

definition live_container ::
  "'d docker_env \<Rightarrow> managed_container list \<Rightarrow> string list \<Rightarrow> summary \<Rightarrow> ('d, container) op" where
  "live_container e rows updating c = do {
     avail \<leftarrow> updateAvailableFor (containerName (sum_Names c));
     let name = containerName (sum_Names c);
     let mc = managedByName rows name;
     let cont = buildContainer c name mc;
     let cont = (if mc \<noteq> None then cont\<lparr>c_UpdateAvailable := avail,
                    c_Status := (if name \<in> set updating then StatusUpdating else c_Status cont)\<rparr>
                 else cont);
     if c_Status cont = StatusNeedsAttention then do {
       r \<leftarrow> call (ContainerInspect e (sum_ID c));
       State_Monad.return (case r of Inr insp \<Rightarrow> cont\<lparr>c_RestartCount := insp_RestartCount insp\<rparr> | Inl _ \<Rightarrow> cont)
     } else State_Monad.return cont
   }"

fun live_stacks ::
  "'d docker_env \<Rightarrow> managed_container list \<Rightarrow> string list \<Rightarrow> summary list \<Rightarrow> stack list \<Rightarrow> ('d, stack list) op" where
  "live_stacks e rows updating [] sts = State_Monad.return sts"
| "live_stacks e rows updating (c # cs) sts = do {
     cont \<leftarrow> live_container e rows updating c;
     live_stacks e rows updating cs
       (add_to_stack (stack_of c (managedByName rows (containerName (sum_Names c)))) cont sts)
   }"

definition missing_container :: "string list \<Rightarrow> managed_container \<Rightarrow> container" where
  "missing_container updating mc =
     (let up = mc_ContainerName mc \<in> set updating
      in \<lparr>c_ID = mc_ID mc, c_Name = mc_ContainerName mc, c_ContainerName = mc_ContainerName mc,
          c_Image = '''', c_State = (if up then ''updating'' else ''missing''),
          c_Status = (if up then StatusUpdating else StatusMissing), c_Health = '''', c_Managed = True,
          c_AutoUpdate = mc_AutoUpdate mc, c_UpdateAvailable = False, c_RestartCount = 0,
          c_CreatedAt = 0\<rparr>)"

definition add_missing :: "managed_container list \<Rightarrow> string list \<Rightarrow> string list \<Rightarrow> stack list \<Rightarrow> stack list" where
  "add_missing rows live updating sts =
     fold (\<lambda>mc. if mc_ContainerName mc \<in> set live then id
                else add_to_stack (mc_StackID mc) (missing_container updating mc)) rows sts"

definition ListStacks :: "'d docker_env \<Rightarrow> ('d, stack list res) op" where
  "ListStacks e = do {
     r \<leftarrow> call (ContainerList e True);
     case r of
       Inl err \<Rightarrow> State_Monad.return (Inl err)
     | Inr summaries \<Rightarrow> do {
         rows \<leftarrow> db_read AllManaged;
         case rows of
           Inl err \<Rightarrow> State_Monad.return (Inl err)
         | Inr managedAll \<Rightarrow> do {
             updating \<leftarrow> reads updatingContainers;
             let services = filter isService summaries;
             sts \<leftarrow> live_stacks e managedAll updating services [];
             State_Monad.return (Inr (sort_key stack_Name (map finalizeStack
               (add_missing managedAll (map (containerName \<circ> sum_Names) services) updating sts))))
           }
       }
   }"

section \<open>Status notifications (notify.go)\<close>

definition friendlyStatus :: "container_status \<Rightarrow> string" where
  "friendlyStatus s =
     (case s of StatusNeedsAttention \<Rightarrow> ''in trouble'' | StatusMissing \<Rightarrow> ''missing'' | _ \<Rightarrow> ''stopped'')"

definition statusMessage :: "container \<Rightarrow> container_status \<Rightarrow> string \<times> string" where
  "statusMessage c prev =
     (case c_Status c of
        StatusNeedsAttention \<Rightarrow>
          (c_ContainerName c @ '' needs attention'',
           if c_Health c = ''unhealthy'' then ''The container is running but its health check is failing.''
           else if c_RestartCount c > 0
           then ''The container is crash-looping ('' @ Itoa (c_RestartCount c) @ '' restarts). Last state: ''
                @ c_State c @ ''.''
           else ''The container stopped unexpectedly. Last state: '' @ c_State c @ ''.'')
      | StatusStopped \<Rightarrow> (c_ContainerName c @ '' stopped'', ''The container is no longer running.'')
      | StatusRunning \<Rightarrow>
          (c_ContainerName c @ '' is running'',
           ''The container is back up, after being '' @ friendlyStatus prev @ ''.'')
      | _ \<Rightarrow> ('''', ''''))"

record message =
  msg_title :: string
  msg_body :: string
  msg_containerName :: string

definition removalMessages :: "stack \<Rightarrow> container list \<Rightarrow> nat \<Rightarrow> message list" where
  "removalMessages st gone n_managed =
     (if gone = [] then []
      else if length gone > 1 \<and> length gone = n_managed
      then [\<lparr>msg_title = stack_Name st @ '' was taken down'',
             msg_body = ''All '' @ Itoa (int (length gone)) @ '' of its containers were removed from this machine. ''
               @ ''Bring it back up to recreate them, or forget it if you meant to get rid of it.'',
             msg_containerName = ''''\<rparr>]
      else map (\<lambda>c. \<lparr>msg_title = c_ContainerName c @ '' was removed'',
             msg_body = ''The container no longer exists on this machine. It may have been removed outside Veery. ''
               @ ''Bring it back up to recreate it, or forget it if you meant to remove it.'',
             msg_containerName = c_ContainerName c\<rparr>) gone)"

text \<open>
  Whether a container's status now counts as a transition worth looking at, given the statuses of
  the sweep before.
\<close>

definition transition :: "(string \<times> container_status) list \<Rightarrow> container \<Rightarrow> bool" where
  "transition prevs c =
     (c_Managed c \<and>
      (case map_of prevs (c_ContainerName c) of
         None \<Rightarrow> False
       | Some prev \<Rightarrow> prev \<noteq> c_Status c \<and> prev \<noteq> StatusUpdating \<and> c_Status c \<noteq> StatusUpdating))"

definition zero_status :: "(string \<times> container_status) list \<Rightarrow> string \<Rightarrow> container_status" where
  "zero_status prevs name = (case map_of prevs name of Some p \<Rightarrow> p | None \<Rightarrow> StatusStopped)"

definition note_stack :: "(string \<times> container_status) list \<Rightarrow> stack \<Rightarrow> ('d, unit) op" where
  "note_stack prevs st = do {
     let managed_cs = filter c_Managed (stack_Containers st);
     let moved = filter (transition prevs) (stack_Containers st);
     let gone = filter (\<lambda>c. c_Status c = StatusMissing) moved;
     let changed = filter (\<lambda>c. c_Status c \<noteq> StatusMissing) moved;
     _ \<leftarrow> for_each (\<lambda>c. case statusMessage c (zero_status prevs (c_ContainerName c)) of
            (title, body) \<Rightarrow>
              if title \<noteq> ''''
              then notify EventContainerStatus title body
                     \<lparr>meta_ContainerName = c_ContainerName c, meta_StackID = stack_ID st\<rparr>
              else State_Monad.return ()) changed;
     for_each (\<lambda>msg. notify EventContainerMissing (msg_title msg) (msg_body msg)
            \<lparr>meta_ContainerName = msg_containerName msg, meta_StackID = stack_ID st\<rparr>)
       (removalMessages st gone (length managed_cs))
   }"

definition seen_statuses :: "stack list \<Rightarrow> (string \<times> container_status) list" where
  "seen_statuses sts =
     fold (\<lambda>c m. AList.update (c_ContainerName c) (c_Status c) m)
       (filter c_Managed (concat (map stack_Containers sts))) []"

definition sameStatuses :: "(string \<times> container_status) list \<Rightarrow> (string \<times> container_status) list \<Rightarrow> bool" where
  "sameStatuses a b =
     (length a = length b \<and> list_all (\<lambda>(k, v). map_of b k = Some v) a)"

text \<open>The statuses of the previous sweep: loaded once, and no sweep is made when that fails.\<close>

definition status_baseline :: "('d, (string \<times> container_status) list option) op" where
  "status_baseline = do {
     loaded \<leftarrow> reads mg_statusBaseline;
     if loaded then do { prevs \<leftarrow> reads mg_lastStatus; State_Monad.return (Some prevs) }
     else do {
       r \<leftarrow> db_read LoadNotifiedStatuses;
       case r of
         Inl _ \<Rightarrow> State_Monad.return None
       | Inr saved \<Rightarrow> do {
           _ \<leftarrow> modify (\<lambda>m. m\<lparr>mg_lastStatus := saved, mg_statusBaseline := True\<rparr>);
           State_Monad.return (Some saved)
         }
     }
   }"

definition noteStatuses :: "stack list \<Rightarrow> ('d, unit) op" where
  "noteStatuses sts = do {
     base \<leftarrow> status_baseline;
     case base of
       None \<Rightarrow> State_Monad.return ()
     | Some prevs \<Rightarrow> do {
         _ \<leftarrow> for_each (note_stack prevs) sts;
         let seen = seen_statuses sts;
         if sameStatuses prevs seen then State_Monad.return ()
         else do {
           _ \<leftarrow> modify (\<lambda>m. m\<lparr>mg_lastStatus := seen\<rparr>);
           _ \<leftarrow> db (SaveNotifiedStatuses seen);
           State_Monad.return ()
         }
       }
   }"

definition BroadcastStacks :: "'d docker_env \<Rightarrow> ('d, unit) op" where
  "BroadcastStacks e = do {
     r \<leftarrow> ListStacks e;
     case r of
       Inl _ \<Rightarrow> State_Monad.return ()
     | Inr sts \<Rightarrow> do {
         _ \<leftarrow> noteStatuses sts;
         modify (\<lambda>m. if mg_pub m then m\<lparr>mg_outs := mg_outs m @ [Broadcast (WSStacks sts)]\<rparr> else m)
       }
   }"

end
