(* ===== verification/Docker_Ops.thy ===== *)
theory Docker_Ops
  imports Docker_Stacks
begin

text \<open>
  The operations of the manager other than updates: recreating a container from its snapshot
  (\<^verbatim>\<open>snapshot.go\<close>), jobs (\<^verbatim>\<open>jobs.go\<close>, \<^verbatim>\<open>actions.go\<close>), adoption and lifecycle
  (\<^verbatim>\<open>lifecycle.go\<close>), reconciliation with the host (\<^verbatim>\<open>reconcile.go\<close>) and the check for newer
  images (\<^verbatim>\<open>updatecheck.go\<close>).
\<close>

section \<open>Snapshots\<close>

text \<open>A nil pointer dereference ends the goroutine; it is an error of its own here.\<close>

definition nil_deref :: err where
  "nil_deref = Errorf ''panic: nil pointer dereference''"

definition snapshotFromInspect :: "inspect \<Rightarrow> snapshot" where
  "snapshotFromInspect insp =
     (let labels = cfg_Labels (insp_Config insp)
      in \<lparr>snap_Name = TrimPrefix (insp_Name insp) ''/'', snap_Image = cfg_Image (insp_Config insp),
          snap_Project = get_str labels projectLabel, snap_Service = get_str labels serviceLabel,
          snap_Config = insp_Config insp, snap_HostConfig = insp_HostConfig insp,
          snap_Networking = insp_Networks insp\<rparr>)"

definition parseSnapshot :: "snapshot_json \<Rightarrow> snapshot res" where
  "parseSnapshot js =
     (case js of JsonOf snap \<Rightarrow> Inr snap | NotJson t \<Rightarrow> Inl (Errorf (''invalid character in '' @ t)))"

definition primaryNetwork :: "snapshot \<Rightarrow> string list \<Rightarrow> string" where
  "primaryNetwork snap names =
     (if names = [] then ''''
      else if snap_Project snap \<noteq> '''' \<and> snap_Project snap @ ''_default'' \<in> fst ` set (snap_Networking snap)
      then snap_Project snap @ ''_default''
      else case find (\<lambda>n. n = ''default'' \<or> HasSuffix n ''_default'') names of
          Some n \<Rightarrow> n
        | None \<Rightarrow> hd names)"

definition sanitizeEndpoint :: "endpoint option \<Rightarrow> endpoint option" where
  "sanitizeEndpoint ep =
     map_option (\<lambda>ep. ep\<lparr>ep_NetworkID := '''', ep_EndpointID := '''', ep_IPAddress := '''',
       ep_Gateway := '''', ep_IPPrefixLen := 0, ep_MacAddress := '''', ep_IPv6Gateway := '''',
       ep_GlobalIPv6Address := '''', ep_GlobalIPv6PrefixLen := 0\<rparr>) ep"

definition recreate_networks :: "snapshot \<Rightarrow> endpoints \<times> endpoints" where
  "recreate_networks snap =
     (let names = sort (map fst (snap_Networking snap));
          primaryName = primaryNetwork snap names;
          ep = (\<lambda>n. sanitizeEndpoint (Option.bind (map_of (snap_Networking snap) n) (\<lambda>x. x)));
          all = map (\<lambda>n. (n, ep n)) names
      in (filter (\<lambda>(n, _). n = primaryName) all, filter (\<lambda>(n, _). n \<noteq> primaryName) all))"

text \<open>
  \<^verbatim>\<open>recreate\<close> returns an id and an error: the id is set when the container was created but
  could not be started.
\<close>

definition recreate :: "'d docker_env \<Rightarrow> snapshot \<Rightarrow> string \<Rightarrow> ('d, string \<times> err option) op" where
  "recreate e snap newImage = do {
     let cfg = (if newImage \<noteq> '''' then (snap_Config snap)\<lparr>cfg_Image := newImage\<rparr> else snap_Config snap);
     r \<leftarrow> call (ContainerCreate e cfg (snap_HostConfig snap) (fst (recreate_networks snap)) (snap_Name snap));
     case r of
       Inl err \<Rightarrow> State_Monad.return ('''', Some err)
     | Inr newID \<Rightarrow> do {
         _ \<leftarrow> for_each (\<lambda>(n, ep). do { _ \<leftarrow> call (NetworkConnect e n newID ep); State_Monad.return () })
                (snd (recreate_networks snap));
         s \<leftarrow> call (ContainerStart e newID);
         State_Monad.return (newID, case s of Inl err \<Rightarrow> Some err | Inr _ \<Rightarrow> None)
       }
   }"

section \<open>Jobs\<close>

definition running_job :: "string \<Rightarrow> string \<Rightarrow> string \<Rightarrow> string \<Rightarrow> string \<Rightarrow> job_progress" where
  "running_job jid kind target phase msg =
     \<lparr>job_ID = jid, job_Kind = kind, job_Target = target, job_Phase = phase, job_Message = msg,
      job_Done = False, job_Error = ''''\<rparr>"

definition failed_job :: "string \<Rightarrow> string \<Rightarrow> string \<Rightarrow> string \<Rightarrow> job_progress" where
  "failed_job jid kind target errMsg =
     \<lparr>job_ID = jid, job_Kind = kind, job_Target = target, job_Phase = ''failed'', job_Message = '''',
      job_Done = True, job_Error = errMsg\<rparr>"

definition done_job :: "string \<Rightarrow> string \<Rightarrow> string \<Rightarrow> string \<Rightarrow> job_progress" where
  "done_job jid kind target msg =
     \<lparr>job_ID = jid, job_Kind = kind, job_Target = target, job_Phase = ''done'', job_Message = msg,
      job_Done = True, job_Error = ''''\<rparr>"

type_synonym 'd emitter = "string \<Rightarrow> string \<Rightarrow> ('d, unit) op"

definition job_emit :: "string \<Rightarrow> string \<Rightarrow> string \<Rightarrow> 'd emitter" where
  "job_emit jid kind target phase msg = track (running_job jid kind target phase msg)"

definition jobWithID ::
  "'d docker_env \<Rightarrow> string \<Rightarrow> string \<Rightarrow> string \<Rightarrow> ('d emitter \<Rightarrow> ('d, unit res) op) \<Rightarrow> ('d, unit) op" where
  "jobWithID e jid kind target fn = do {
     _ \<leftarrow> job_emit jid kind target ''start'' (kind @ '' '' @ target);
     r \<leftarrow> fn (job_emit jid kind target);
     case r of
       Inl err \<Rightarrow>
         if errors_Is err ErrHandedOff then State_Monad.return ()
         else do {
           _ \<leftarrow> forget jid;
           publish (failed_job jid kind target (err_text err))
         }
     | Inr _ \<Rightarrow> do {
         _ \<leftarrow> forget jid;
         _ \<leftarrow> publish (done_job jid kind target ''Done'');
         BroadcastStacks e
       }
   }"

definition job :: "'d docker_env \<Rightarrow> string \<Rightarrow> string \<Rightarrow> ('d emitter \<Rightarrow> ('d, unit res) op) \<Rightarrow> ('d, unit) op" where
  "job e kind target fn = do { jid \<leftarrow> genID e; jobWithID e jid kind target fn }"

definition ActiveJobs :: "'d mgr \<Rightarrow> job_progress list" where
  "ActiveJobs m = sort_key job_ID (map snd (mg_activeJobs m))"

definition recentWindow :: int where "recentWindow = 300"

definition finished_progress :: "update_job \<Rightarrow> job_progress" where
  "finished_progress j =
     \<lparr>job_ID = uj_ID j, job_Kind = ''update'', job_Target = uj_ContainerName j, job_Phase = uj_Phase j,
      job_Message = uj_Message j, job_Done = True, job_Error = uj_Error j\<rparr>"

definition JobSnapshot :: "'d mgr \<Rightarrow> job_progress list" where
  "JobSnapshot m =
     (let out = ActiveJobs m;
          now = int (mg_clock m div second)
      in case RecentUpdateJobs (now - recentWindow) (mg_st m) of
           Inl _ \<Rightarrow> out
         | Inr recent \<Rightarrow>
             out @ map finished_progress (filter (\<lambda>j. uj_ID j \<notin> job_ID ` set out) recent))"

section \<open>Lifecycle\<close>

definition Start :: "'d docker_env \<Rightarrow> string \<Rightarrow> ('d, unit res) op" where
  "Start e cid = call (ContainerStart e cid)"

definition awaitStopTimeout :: nat where "awaitStopTimeout = 30 * second"

text \<open>Whichever comes first: the daemon's answer, the time limit, or the end of the context.\<close>

definition awaitNotRunning :: "'d docker_env \<Rightarrow> string \<Rightarrow> ('d, unit res) op" where
  "awaitNotRunning e cid = call (\<lambda>d. case ContainerWait e cid d of (r, d', t) \<Rightarrow>
     if awaitStopTimeout < t \<or> ctx_done e d' then (Inl ErrCtxDone, d', min t awaitStopTimeout)
     else (r, d', t))"

definition Stop :: "'d docker_env \<Rightarrow> string \<Rightarrow> ('d, unit res) op" where
  "Stop e cid = do {
     r \<leftarrow> call (ContainerStop e cid);
     case r of Inl err \<Rightarrow> State_Monad.return (Inl err) | Inr _ \<Rightarrow> awaitNotRunning e cid
   }"

definition Restart :: "'d docker_env \<Rightarrow> string \<Rightarrow> ('d, unit res) op" where
  "Restart e cid = call (ContainerRestart e cid)"

definition containerIDsInStack :: "'d docker_env \<Rightarrow> string \<Rightarrow> ('d, string list res) op" where
  "containerIDsInStack e stackID = do {
     r \<leftarrow> call (ContainerList e True);
     State_Monad.return (map_sum id (\<lambda>cs. map sum_ID (filter (\<lambda>c. stack_of c None = stackID) cs)) r)
   }"

definition on_stack :: "'d docker_env \<Rightarrow> (string \<Rightarrow> ('d, unit res) op) \<Rightarrow> string \<Rightarrow> ('d, unit res) op" where
  "on_stack e act stackID = do {
     r \<leftarrow> containerIDsInStack e stackID;
     case r of Inl err \<Rightarrow> State_Monad.return (Inl err) | Inr ids \<Rightarrow> try_each act ids
   }"

definition StartStack :: "'d docker_env \<Rightarrow> string \<Rightarrow> ('d, unit res) op" where
  "StartStack e = on_stack e (\<lambda>cid. call (ContainerStart e cid))"

definition StopStack :: "'d docker_env \<Rightarrow> string \<Rightarrow> ('d, unit res) op" where
  "StopStack e = on_stack e (Stop e)"

definition RestartStack :: "'d docker_env \<Rightarrow> string \<Rightarrow> ('d, unit res) op" where
  "RestartStack e = on_stack e (\<lambda>cid. call (ContainerRestart e cid))"

definition bring_up_one :: "'d docker_env \<Rightarrow> managed_container \<Rightarrow> ('d, unit res) op" where
  "bring_up_one e mc = do {
     r \<leftarrow> call (ContainerInspect e (mc_ContainerName mc));
     case r of
       Inl _ \<Rightarrow>
         (case parseSnapshot (mc_SnapshotJSON mc) of
            Inl perr \<Rightarrow> State_Monad.return (Inl perr)
          | Inr snap \<Rightarrow> do {
              (newID, rerr) \<leftarrow> recreate e snap '''';
              case rerr of
                Some err \<Rightarrow> State_Monad.return (Inl (Wrap (''recreate '' @ mc_ContainerName mc @ '': '') err ''''))
              | None \<Rightarrow> do {
                  _ \<leftarrow> db (UpdateSnapshot (mc_ID mc) (mc_SnapshotJSON mc) newID);
                  State_Monad.return (Inr ())
                }
            })
     | Inr insp \<Rightarrow>
         (case insp_State insp of
            None \<Rightarrow> State_Monad.return (Inl nil_deref)
          | Some st \<Rightarrow>
              if st_Running st then State_Monad.return (Inr ())
              else do {
                s \<leftarrow> call (ContainerStart e (insp_ID insp));
                State_Monad.return (case s of
                    Inl err \<Rightarrow> Inl (Wrap (''start '' @ mc_ContainerName mc @ '': '') err '''')
                  | Inr _ \<Rightarrow> Inr ())
              })
   }"

definition BringUpStack :: "'d docker_env \<Rightarrow> string \<Rightarrow> ('d, unit res) op" where
  "BringUpStack e stackID = do {
     rows \<leftarrow> db_read (ManagedByStack stackID);
     case rows of
       Inl err \<Rightarrow> State_Monad.return (Inl err)
     | Inr mcs \<Rightarrow>
         if mcs = [] then State_Monad.return (Inl (Errorf (''stack '' @ stackID @ '' is not managed'')))
         else do {
           r \<leftarrow> try_each (bring_up_one e) mcs;
           case r of
             Inl err \<Rightarrow> State_Monad.return (Inl err)
           | Inr _ \<Rightarrow> do { _ \<leftarrow> BroadcastStacks e; State_Monad.return (Inr ()) }
         }
   }"

definition adopt_one :: "'d docker_env \<Rightarrow> string \<Rightarrow> summary \<Rightarrow> ('d, unit res) op" where
  "adopt_one e stackID c = do {
     let name = containerName (sum_Names c);
     r \<leftarrow> call (ContainerInspect e (sum_ID c));
     case r of
       Inl err \<Rightarrow> State_Monad.return (Inl err)
     | Inr insp \<Rightarrow> do {
         fresh \<leftarrow> genID e;
         existing \<leftarrow> db_read (ManagedByName name);
         now \<leftarrow> now_unix;
         db (AddManagedContainer now
           \<lparr>mc_ID = (case existing of Inr r \<Rightarrow> mc_ID r | Inl _ \<Rightarrow> fresh), mc_StackID = stackID,
            mc_ContainerName = name, mc_SnapshotJSON = JsonOf (snapshotFromInspect insp),
            mc_ContainerID = insp_ID insp, mc_AutoUpdate = False, mc_CreatedAt = now\<rparr>)
       }
   }"

definition Adopt :: "'d docker_env \<Rightarrow> string \<Rightarrow> ('d, unit res) op" where
  "Adopt e stackID = do {
     r \<leftarrow> call (ContainerList e True);
     case r of
       Inl err \<Rightarrow> State_Monad.return (Inl err)
     | Inr summaries \<Rightarrow> do {
         u \<leftarrow> db (UpsertStack stackID);
         case u of
           Inl err \<Rightarrow> State_Monad.return (Inl err)
         | Inr stk \<Rightarrow> do {
             let mine = filter (\<lambda>c. isService c \<and> stack_of c None = stackID) summaries;
             a \<leftarrow> try_each (adopt_one e (sk_ID stk)) mine;
             case a of
               Inl err \<Rightarrow> State_Monad.return (Inl err)
             | Inr _ \<Rightarrow>
                 if mine = []
                 then State_Monad.return (Inl (Errorf (''no containers found for stack '' @ stackID)))
                 else do { _ \<leftarrow> BroadcastStacks e; State_Monad.return (Inr ()) }
           }
       }
   }"

section \<open>Job-wrapped actions (actions.go)\<close>

definition StartJob :: "'d docker_env \<Rightarrow> string \<Rightarrow> ('d, unit) op" where
  "StartJob e cid = job e ''start'' cid (\<lambda>_. withContainerLock e cid (Start e cid))"

definition StopJob :: "'d docker_env \<Rightarrow> string \<Rightarrow> ('d, unit) op" where
  "StopJob e cid = job e ''stop'' cid (\<lambda>_. withContainerLock e cid (Stop e cid))"

definition RestartJob :: "'d docker_env \<Rightarrow> string \<Rightarrow> ('d, unit) op" where
  "RestartJob e cid = job e ''restart'' cid (\<lambda>_. withContainerLock e cid (Restart e cid))"

definition StartStackJob :: "'d docker_env \<Rightarrow> string \<Rightarrow> ('d, unit) op" where
  "StartStackJob e stackID = job e ''start'' stackID (\<lambda>_. StartStack e stackID)"

definition StopStackJob :: "'d docker_env \<Rightarrow> string \<Rightarrow> ('d, unit) op" where
  "StopStackJob e stackID = job e ''stop'' stackID (\<lambda>_. StopStack e stackID)"

definition RestartStackJob :: "'d docker_env \<Rightarrow> string \<Rightarrow> ('d, unit) op" where
  "RestartStackJob e stackID = job e ''restart'' stackID (\<lambda>_. RestartStack e stackID)"

definition BringUpStackJob :: "'d docker_env \<Rightarrow> string \<Rightarrow> ('d, unit) op" where
  "BringUpStackJob e stackID = job e ''bringup'' stackID (\<lambda>_. BringUpStack e stackID)"

section \<open>Checking for newer images (updatecheck.go)\<close>

definition remoteHasNewImage :: "'d docker_env \<Rightarrow> managed_container \<Rightarrow> ('d, bool) op" where
  "remoteHasNewImage e mc =
     (case parseSnapshot (mc_SnapshotJSON mc) of
        Inl _ \<Rightarrow> State_Monad.return False
      | Inr snap \<Rightarrow>
          if snap_Image snap = '''' then State_Monad.return False
          else do {
            dist \<leftarrow> call (DistributionInspect e (snap_Image snap));
            case dist of
              Inl _ \<Rightarrow> State_Monad.return False
            | Inr remote \<Rightarrow>
                if remote = '''' then State_Monad.return False
                else do {
                  r \<leftarrow> call (ContainerInspect e (mc_ContainerName mc));
                  case r of
                    Inl _ \<Rightarrow> State_Monad.return False
                  | Inr insp \<Rightarrow> do {
                      i \<leftarrow> call (ImageInspect e (insp_Image insp));
                      State_Monad.return (case i of
                          Inl _ \<Rightarrow> False
                        | Inr img \<Rightarrow> img_RepoDigests img \<noteq> [] \<and>
                            \<not> list_ex (\<lambda>rd. case Cut rd ''@'' of None \<Rightarrow> False | Some (_, digest) \<Rightarrow> digest = remote)
                                (img_RepoDigests img))
                    }
                }
          })"

definition seedUpdateAvail :: "('d, unit) op" where
  "seedUpdateAvail = do {
     loaded \<leftarrow> reads mg_availBaseline;
     if loaded then State_Monad.return ()
     else do {
       r \<leftarrow> db_read LoadNotifiedUpdates;
       case r of
         Inl _ \<Rightarrow> State_Monad.return ()
       | Inr saved \<Rightarrow> modify (\<lambda>m. m\<lparr>mg_updateAvail := saved, mg_availBaseline := True\<rparr>)
     }
   }"

definition persistUpdateAvail :: "('d, unit) op" where
  "persistUpdateAvail = do {
     flags \<leftarrow> reads mg_updateAvail;
     _ \<leftarrow> db (SaveNotifiedUpdates flags);
     State_Monad.return ()
   }"

definition check_one :: "'d docker_env \<Rightarrow> managed_container \<Rightarrow> ('d, bool \<times> bool) op" where
  "check_one e mc = do {
     avail \<leftarrow> remoteHasNewImage e mc;
     was \<leftarrow> updateAvailableFor (mc_ContainerName mc);
     _ \<leftarrow> (if was \<noteq> avail \<and> avail \<and> \<not> mc_AutoUpdate mc
           then notify EventUpdateAvailable (''Update available for '' @ mc_ContainerName mc)
                  (''A newer image has been published. Auto-update is off for this container, so it will keep ''
                   @ ''running the current image until you update it.'')
                  \<lparr>meta_ContainerName = mc_ContainerName mc, meta_StackID = mc_StackID mc\<rparr>
           else State_Monad.return ());
     _ \<leftarrow> setUpdateAvailable (mc_ContainerName mc) avail;
     State_Monad.return (avail, was \<noteq> avail)
   }"

text \<open>The loop: the count, whether a flag changed, and whether the context ended it early.\<close>

fun check_loop :: "'d docker_env \<Rightarrow> managed_container list \<Rightarrow> nat \<Rightarrow> bool \<Rightarrow> ('d, nat \<times> bool \<times> bool) op" where
  "check_loop e [] n changed = State_Monad.return (n, changed, False)"
| "check_loop e (mc # mcs) n changed = do {
     over \<leftarrow> reads (\<lambda>m. ctx_done e (mg_docker m));
     if over then State_Monad.return (n, changed, True)
     else do {
       (avail, c) \<leftarrow> check_one e mc;
       check_loop e mcs (if avail then n + 1 else n) (changed \<or> c)
     }
   }"

definition checkUpdates :: "'d docker_env \<Rightarrow> managed_container list \<Rightarrow> ('d, nat) op" where
  "checkUpdates e mcs = do {
     _ \<leftarrow> seedUpdateAvail;
     (available, changed, aborted) \<leftarrow> check_loop e mcs 0 False;
     if changed \<and> \<not> aborted then do {
       _ \<leftarrow> persistUpdateAvail;
       _ \<leftarrow> BroadcastStacks e;
       State_Monad.return available
     } else State_Monad.return available
   }"

definition CheckUpdates :: "'d docker_env \<Rightarrow> ('d, unit) op" where
  "CheckUpdates e = do {
     rows \<leftarrow> db_read AllManaged;
     case rows of
       Inl _ \<Rightarrow> State_Monad.return ()
     | Inr mcs \<Rightarrow> do { _ \<leftarrow> checkUpdates e mcs; State_Monad.return () }
   }"

definition CheckContainerUpdates :: "'d docker_env \<Rightarrow> string \<Rightarrow> ('d, nat res) op" where
  "CheckContainerUpdates e idOrName = do {
     r \<leftarrow> db_read (ResolveManaged idOrName);
     case r of
       Inl err \<Rightarrow> State_Monad.return (Inl err)
     | Inr mc \<Rightarrow> do { n \<leftarrow> checkUpdates e [mc]; State_Monad.return (Inr n) }
   }"

definition CheckStackUpdates :: "'d docker_env \<Rightarrow> string \<Rightarrow> ('d, nat res) op" where
  "CheckStackUpdates e stackID = do {
     rows \<leftarrow> db_read AllManaged;
     case rows of
       Inl err \<Rightarrow> State_Monad.return (Inl err)
     | Inr mcs \<Rightarrow> do {
         n \<leftarrow> checkUpdates e (filter (\<lambda>mc. mc_StackID mc = stackID) mcs);
         State_Monad.return (Inr n)
       }
   }"

definition CheckAllUpdates :: "'d docker_env \<Rightarrow> ('d, nat res) op" where
  "CheckAllUpdates e = do {
     rows \<leftarrow> db_read AllManaged;
     case rows of
       Inl err \<Rightarrow> State_Monad.return (Inl err)
     | Inr mcs \<Rightarrow> do { n \<leftarrow> checkUpdates e mcs; State_Monad.return (Inr n) }
   }"

section \<open>Reconciliation (reconcile.go)\<close>

definition recordSpec :: "managed_container \<Rightarrow> inspect \<Rightarrow> ('d, managed_container res) op" where
  "recordSpec mc insp = do {
     let js = JsonOf (snapshotFromInspect insp);
     r \<leftarrow> db (UpdateSnapshot (mc_ID mc) js (insp_ID insp));
     State_Monad.return (case r of
         Inl err \<Rightarrow> Inl err
       | Inr _ \<Rightarrow> Inr (mc\<lparr>mc_SnapshotJSON := js, mc_ContainerID := insp_ID insp\<rparr>))
   }"

definition refreshIfRecreated ::
  "managed_container \<Rightarrow> inspect \<Rightarrow> ('d, (managed_container \<times> snapshot) res) op" where
  "refreshIfRecreated mc insp = do {
     r \<leftarrow> (if insp_ID insp \<noteq> mc_ContainerID mc then recordSpec mc insp else State_Monad.return (Inr mc));
     State_Monad.return (case r of
         Inl err \<Rightarrow> Inl err
       | Inr mc' \<Rightarrow> map_sum id (\<lambda>snap. (mc', snap)) (parseSnapshot (mc_SnapshotJSON mc')))
   }"

definition settled :: "inspect \<Rightarrow> bool" where
  "settled insp =
     (case insp_State insp of
        None \<Rightarrow> False
      | Some st \<Rightarrow>
          if st_Restarting st \<or> st_Dead st then False
          else if st_Running st then
            (case st_Health st of None \<Rightarrow> True | Some h \<Rightarrow> h = ''healthy'' \<or> h = ''none'')
          else st_ExitCode st = 0)"

definition rerecord :: "'d docker_env \<Rightarrow> managed_container \<Rightarrow> string \<Rightarrow> ('d, bool) op" where
  "rerecord e mc liveID = do {
     got \<leftarrow> TryLock (mc_ContainerName mc);
     if \<not> got then State_Monad.return False
     else do {
       row \<leftarrow> db_read (ManagedByName (mc_ContainerName mc));
       res \<leftarrow> (case row of
           Inl _ \<Rightarrow> State_Monad.return False
         | Inr mc \<Rightarrow>
             if mc_ContainerID mc = liveID then State_Monad.return False
             else do {
               r \<leftarrow> call (ContainerInspect e liveID);
               case r of
                 Inl _ \<Rightarrow> State_Monad.return False
               | Inr insp \<Rightarrow>
                   if \<not> settled insp then State_Monad.return False
                   else do {
                     u \<leftarrow> recordSpec mc insp;
                     case u of
                       Inl _ \<Rightarrow> State_Monad.return False
                     | Inr updated \<Rightarrow> do {
                         avail \<leftarrow> remoteHasNewImage e updated;
                         _ \<leftarrow> setUpdateAvailable (mc_ContainerName mc) avail;
                         State_Monad.return True
                       }
                   }
             });
       _ \<leftarrow> Unlock (mc_ContainerName mc);
       State_Monad.return res
     }
   }"

definition adoptNew :: "'d docker_env \<Rightarrow> summary \<Rightarrow> string \<Rightarrow> ('d, bool) op" where
  "adoptNew e c name = do {
     let stackID = (let p = get_str (sum_Labels c) projectLabel in if p = '''' then name else p);
     ex \<leftarrow> db_read (StackExists stackID);
     if ex \<noteq> Inr True then State_Monad.return False
     else do {
       r \<leftarrow> call (ContainerInspect e (sum_ID c));
       case r of
         Inl _ \<Rightarrow> State_Monad.return False
       | Inr insp \<Rightarrow> do {
           rid \<leftarrow> genID e;
           now \<leftarrow> now_unix;
           a \<leftarrow> db (AddManagedContainer now
             \<lparr>mc_ID = rid, mc_StackID = stackID, mc_ContainerName = name,
              mc_SnapshotJSON = JsonOf (snapshotFromInspect insp), mc_ContainerID = insp_ID insp,
              mc_AutoUpdate = False, mc_CreatedAt = now\<rparr>);
           case a of
             Inl _ \<Rightarrow> State_Monad.return False
           | Inr _ \<Rightarrow> do {
               _ \<leftarrow> notify EventContainerAdopted (''Now managing '' @ name)
                 (''It showed up in '' @ stackID @ '', which Veery manages, so Veery is watching it too. ''
                  @ ''Auto-update is off for it until you turn it on.'')
                 \<lparr>meta_ContainerName = name, meta_StackID = stackID\<rparr>;
               State_Monad.return True
             }
         }
     }
   }"

definition forgetComposeTemp :: "managed_container \<Rightarrow> ('d, bool) op" where
  "forgetComposeTemp mc =
     (case parseSnapshot (mc_SnapshotJSON mc) of
        Inl _ \<Rightarrow> State_Monad.return False
      | Inr snap \<Rightarrow>
          if \<not> isComposeTemp (mc_ContainerName mc) (mc_ContainerID mc) (cfg_Labels (snap_Config snap))
          then State_Monad.return False
          else do {
            r \<leftarrow> db (DeleteManagedContainer (mc_ID mc));
            State_Monad.return (case r of Inl _ \<Rightarrow> False | Inr _ \<Rightarrow> True)
          })"

text \<open>Run boolean actions over a list, all of them, and report whether one returned true.\<close>

fun any_each :: "('x \<Rightarrow> ('d, bool) op) \<Rightarrow> 'x list \<Rightarrow> ('d, bool) op" where
  "any_each f [] = State_Monad.return False"
| "any_each f (x # xs) = do { a \<leftarrow> f x; b \<leftarrow> any_each f xs; State_Monad.return (a \<or> b) }"

definition reconcile_live :: "'d docker_env \<Rightarrow> managed_container list \<Rightarrow> summary \<Rightarrow> ('d, bool) op" where
  "reconcile_live e rows c =
     (let name = containerName (sum_Names c) in
      if \<not> isService c then State_Monad.return False
      else case managedByName rows name of
          None \<Rightarrow> adoptNew e c name
        | Some mc \<Rightarrow> if mc_ContainerID mc = sum_ID c then State_Monad.return False
                     else rerecord e mc (sum_ID c))"

definition Reconcile :: "'d docker_env \<Rightarrow> ('d, unit) op" where
  "Reconcile e = do {
     r \<leftarrow> call (ContainerList e True);
     case r of
       Inl _ \<Rightarrow> State_Monad.return ()
     | Inr summaries \<Rightarrow> do {
         rows \<leftarrow> db_read AllManaged;
         case rows of
           Inl _ \<Rightarrow> State_Monad.return ()
         | Inr mcs \<Rightarrow> do {
             c1 \<leftarrow> any_each (reconcile_live e mcs) summaries;
             let live = map (containerName \<circ> sum_Names) summaries;
             c2 \<leftarrow> any_each forgetComposeTemp (filter (\<lambda>mc. mc_ContainerName mc \<notin> set live) mcs);
             if c1 \<or> c2 then BroadcastStacks e else State_Monad.return ()
           }
       }
   }"

end
