(* ===== verification/Docker_Update.thy ===== *)
theory Docker_Update
  imports Docker_Ops
begin

text \<open>
  Updating containers: pulling with progress, the transactional swap with verification and
  rollback (\<^verbatim>\<open>update.go\<close>), Veery's update of itself through a helper container
  (\<^verbatim>\<open>selfupdate.go\<close>), recovery at startup (\<^verbatim>\<open>recover.go\<close>) and the automatic updates
  (\<^verbatim>\<open>autoupdate.go\<close>).
\<close>

section \<open>Progress messages\<close>

text \<open>
  \<^verbatim>\<open>%.1f\<close> of a quotient of two \<^verbatim>\<open>float64\<close> values that is at least one. \<open>to_double a b\<close>
  is the 53-bit floating point number nearest to \<open>a / b\<close>, ties to even, as a fraction.
\<close>

definition round_half_even :: "nat \<Rightarrow> nat \<Rightarrow> nat" where
  "round_half_even a b =
     (let q = a div b; r = a mod b
      in if 2 * r < b then q else if 2 * r > b then q + 1 else if even q then q else q + 1)"

fun bit_length :: "nat \<Rightarrow> nat" where
  "bit_length n = (if n = 0 then 0 else Suc (bit_length (n div 2)))"

declare bit_length.simps [simp del]

definition to_double :: "nat \<Rightarrow> nat \<Rightarrow> nat \<times> nat" where
  "to_double a b =
     (let k = bit_length (a div b)
      in if k \<le> 53 then (round_half_even (a * 2 ^ (53 - k)) b, 2 ^ (53 - k))
         else (round_half_even a (b * 2 ^ (k - 53)) * 2 ^ (k - 53), 1))"

definition one_decimal :: "nat \<Rightarrow> nat \<Rightarrow> string" where
  "one_decimal a b =
     (let (p, q) = to_double (fst (to_double a 1)) b;
          tenths = round_half_even (10 * p) q
      in nat_text (tenths div 10) @ ''.'' @ nat_text (tenths mod 10))"

text \<open>The loop of \<^verbatim>\<open>formatBytes\<close> that finds the unit: divisor and exponent.\<close>

fun unit_loop :: "int \<Rightarrow> int \<Rightarrow> nat \<Rightarrow> int \<times> nat" where
  "unit_loop v dv ex =
     (if v \<ge> 1000 \<and> ex < 3 then unit_loop (v div 1000) (dv * 1000) (ex + 1) else (dv, ex))"

declare unit_loop.simps [simp del]

definition formatBytes :: "int \<Rightarrow> string" where
  "formatBytes n =
     (if n < 1000 then Itoa n @ '' B''
      else let (dv, ex) = unit_loop (n div 1000) 1000 0
           in one_decimal (nat n) (nat dv) @ '' '' @ [''kMGT'' ! ex] @ ''B'')"

record layerProgress =
  lp_status :: string
  lp_downloaded :: int
  lp_size :: int

definition pullMessage :: "(string \<times> layerProgress) list \<Rightarrow> string" where
  "pullMessage layers =
     (let downloaded = sum_list (map (lp_downloaded \<circ> snd) layers);
          size = sum_list (map (lp_size \<circ> snd) layers);
          complete = length (filter (\<lambda>(_, l). lp_status l = ''Pull complete'' \<or> lp_status l = ''Already exists'') layers)
      in if size > 0 \<and> downloaded < size
         then ''Downloading '' @ formatBytes downloaded @ '' / '' @ formatBytes size
         else if complete < length layers
         then ''Extracting '' @ nat_text complete @ '' / '' @ nat_text (length layers) @ '' layers''
         else '''')"

definition layer_event :: "pull_event \<Rightarrow> layerProgress \<Rightarrow> layerProgress" where
  "layer_event ev l =
     (let l = l\<lparr>lp_status := pe_Status ev\<rparr>
      in if pe_Status ev = ''Downloading''
         then l\<lparr>lp_downloaded := pe_Current ev,
                lp_size := (if pe_Total ev > 0 then pe_Total ev else lp_size l)\<rparr>
         else if pe_Status ev \<in> {''Download complete'', ''Already exists'', ''Pull complete''}
         then l\<lparr>lp_downloaded := lp_size l\<rparr>
         else l)"

definition update_layers :: "pull_event \<Rightarrow> (string \<times> layerProgress) list \<Rightarrow> (string \<times> layerProgress) list" where
  "update_layers ev layers =
     AList.update (pe_ID ev)
       (layer_event ev (case map_of layers (pe_ID ev) of
          Some l \<Rightarrow> l | None \<Rightarrow> \<lparr>lp_status = '''', lp_downloaded = 0, lp_size = 0\<rparr>)) layers"

definition pullInterval :: nat where "pullInterval = 300000000"

text \<open>
  The loop of \<^verbatim>\<open>drainPull\<close>. \<open>lastAt\<close> is \<open>None\<close> before the first message, when the
  time since the zero time is longer than any interval.
\<close>

fun drain_loop ::
  "'d emitter \<Rightarrow> err option \<Rightarrow> (nat \<times> pull_event) list \<Rightarrow> (string \<times> layerProgress) list \<Rightarrow> string \<Rightarrow> string \<Rightarrow>
   nat option \<Rightarrow> ('d, unit res) op" where
  "drain_loop emit ending [] layers pending emitted lastAt =
     (case ending of
        Some err \<Rightarrow> State_Monad.return (Inl err)
      | None \<Rightarrow>
          if pending \<noteq> '''' then do { _ \<leftarrow> emit ''pulling'' pending; State_Monad.return (Inr ()) }
          else State_Monad.return (Inr ()))"
| "drain_loop emit ending ((delay, ev) # evs) layers pending emitted lastAt = do {
     _ \<leftarrow> modify (\<lambda>m. m\<lparr>mg_clock := mg_clock m + delay\<rparr>);
     if pe_Error ev \<noteq> '''' then State_Monad.return (Inl (Errorf (''pull: '' @ pe_Error ev)))
     else if pe_ID ev = '''' then drain_loop emit ending evs layers pending emitted lastAt
     else do {
       let layers' = update_layers ev layers;
       let msg = pullMessage layers';
       if msg = '''' \<or> msg = emitted then drain_loop emit ending evs layers' pending emitted lastAt
       else do {
         now \<leftarrow> now_ns;
         if (case lastAt of None \<Rightarrow> False | Some t \<Rightarrow> now - t < pullInterval)
         then drain_loop emit ending evs layers' msg emitted lastAt
         else do {
           _ \<leftarrow> emit ''pulling'' msg;
           now' \<leftarrow> now_ns;
           drain_loop emit ending evs layers' '''' msg (Some now')
         }
       }
     }
   }"

definition drainPull :: "pull_stream \<Rightarrow> 'd emitter \<Rightarrow> ('d, unit res) op" where
  "drainPull rc emit = drain_loop emit (snd rc) (fst rc) [] '''' '''' None"

definition pullImage :: "'d docker_env \<Rightarrow> string \<Rightarrow> 'd emitter \<Rightarrow> ('d, image_inspect res) op" where
  "pullImage e ref emit = do {
     _ \<leftarrow> emit ''pulling'' (''Downloading '' @ ref);
     r \<leftarrow> call (ImagePull e ref);
     case r of
       Inl err \<Rightarrow> State_Monad.return (Inl (Wrap (''pull '' @ ref @ '': '') err ''''))
     | Inr rc \<Rightarrow> do {
         p \<leftarrow> drainPull rc emit;
         case p of
           Inl err \<Rightarrow> State_Monad.return (Inl err)
         | Inr _ \<Rightarrow> do {
             i \<leftarrow> call (ImageInspect e ref);
             State_Monad.return (case i of
                 Inl err \<Rightarrow> Inl (Wrap (''inspect image '' @ ref @ '': '') err '''')
               | Inr img \<Rightarrow> Inr img)
           }
       }
   }"

definition trimDigestPrefix :: "string \<Rightarrow> string" where
  "trimDigestPrefix x = (if length x > 7 \<and> HasPrefix x ''sha256:'' then drop 7 x else x)"

definition shortID :: "string \<Rightarrow> string" where
  "shortID x = take 12 (trimDigestPrefix x)"

section \<open>Verification\<close>

definition verifyTimeout :: nat where "verifyTimeout = 15 * second"

text \<open>What one look at the new container decides: an outcome, or \<open>None\<close> to go on waiting.\<close>

definition exited_error :: "cstate \<Rightarrow> err" where
  "exited_error st = Errorf (''new container exited (exit code '' @ Itoa (st_ExitCode st) @ '')'')"

definition verify_state :: "cstate \<Rightarrow> unit res option" where
  "verify_state st =
     (if st_Restarting st then None
      else if \<not> st_Running st then Some (Inl (exited_error st))
      else if st_Health st = Some ''healthy'' then Some (Inr ())
      else if st_Health st = Some ''unhealthy'' then Some (Inl (Errorf ''new container became unhealthy''))
      else None)"

definition verify_deadline :: "cstate \<Rightarrow> unit res" where
  "verify_deadline st =
     (if st_Health st \<noteq> None \<and> st_Health st \<noteq> Some ''healthy''
      then Inl (Errorf ''new container did not become healthy within 15s'')
      else if \<not> st_Running st then Inl (exited_error st)
      else Inr ())"

text \<open>
  The polling loop. Every round sleeps for a second on a clock that only moves forward, so it ends
  once the deadline has passed.
\<close>

function verify_loop :: "'d docker_env \<Rightarrow> string \<Rightarrow> nat \<Rightarrow> 'd mgr \<Rightarrow> unit res \<times> 'd mgr" where
  "verify_loop e cid deadline m =
     (case run_state (call (ContainerInspect e cid)) m of (r, m1) \<Rightarrow>
        (case r of
           Inl err \<Rightarrow> (Inl (Wrap ''inspect new container: '' err ''''), m1)
         | Inr insp \<Rightarrow>
             (case insp_State insp of
                None \<Rightarrow> (Inl (Errorf ''new container has no state''), m1)
              | Some st \<Rightarrow>
                  (case verify_state st of
                     Some out \<Rightarrow> (out, m1)
                   | None \<Rightarrow>
                       if mg_clock m1 > deadline then (verify_deadline st, m1)
                       else if ctx_done e (mg_docker m1) then (Inl ErrCtxDone, m1)
                       else
                         (case run_state (sleep e second) m1 of (_, m2) \<Rightarrow>
                            if ctx_done e (mg_docker m2) then (Inl ErrCtxDone, m2)
                            else verify_loop e cid deadline m2)))))"
  by pat_completeness auto
termination
  by (relation "measure (\<lambda>(e, cid, deadline, m). Suc deadline - mg_clock m)")
    (auto simp: sleep_def second_def split: prod.splits)

declare verify_loop.simps [simp del]

definition verifyHealthy :: "'d docker_env \<Rightarrow> string \<Rightarrow> ('d, unit res) op" where
  "verifyHealthy e cid = State (\<lambda>m. verify_loop e cid (mg_clock m + verifyTimeout) m)"

section \<open>The swap\<close>

definition rollback ::
  "'d docker_env \<Rightarrow> string \<Rightarrow> string \<Rightarrow> string \<Rightarrow> 'd emitter \<Rightarrow> ('d, unit res) op" where
  "rollback e newID oldID name emit = do {
     _ \<leftarrow> emit ''rollback'' (''Update failed, rolling back '' @ name);
     _ \<leftarrow> (if newID \<noteq> '''' then do { _ \<leftarrow> call (ContainerRemove e newID); State_Monad.return () }
           else State_Monad.return ());
     r \<leftarrow> call (ContainerRename e oldID name);
     case r of
       Inl err \<Rightarrow> do {
         _ \<leftarrow> emit ''rollback'' (''restore rename failed: '' @ err_text err);
         State_Monad.return (Inl (Wrap ''restore name: '' err ''''))
       }
     | Inr _ \<Rightarrow> do {
         s \<leftarrow> call (ContainerStart e oldID);
         case s of
           Inl err \<Rightarrow> do {
             _ \<leftarrow> emit ''rollback'' (''restart failed: '' @ err_text err);
             State_Monad.return (Inl (Wrap (''restart '' @ name @ '': '') err ''''))
           }
         | Inr _ \<Rightarrow> State_Monad.return (Inr ())
       }
   }"

definition rolledBack :: "unit res \<Rightarrow> string \<Rightarrow> err \<Rightarrow> err" where
  "rolledBack rb name cause =
     (case rb of
        Inl rbErr \<Rightarrow> Wrap (''update failed and '' @ name @ '' is down: rollback could not restart it (''
            @ err_text rbErr @ ''); update error: '') cause ''''
      | Inr _ \<Rightarrow> Wrap ''update failed, rolled back: '' cause '''')"

text \<open>The last part of a swap, once the new container has been verified.\<close>

definition swap_commit ::
  "'d docker_env \<Rightarrow> managed_container \<Rightarrow> inspect \<Rightarrow> string \<Rightarrow> string \<Rightarrow> 'd emitter \<Rightarrow> ('d, unit res) op" where
  "swap_commit e mc oldInsp newID newImageID emit = do {
     _ \<leftarrow> call (ContainerRemove e (insp_ID oldInsp));
     r \<leftarrow> call (ContainerInspect e newID);
     _ \<leftarrow> (case r of
            Inr insp \<Rightarrow> do { _ \<leftarrow> recordSpec mc insp; State_Monad.return () }
          | Inl _ \<Rightarrow> State_Monad.return ());
     _ \<leftarrow> call (ImageRemove e (insp_Image oldInsp));
     _ \<leftarrow> setUpdateAvailable (mc_ContainerName mc) False;
     _ \<leftarrow> emit ''updated'' (''Updated to '' @ shortID newImageID);
     State_Monad.return (Inr ())
   }"

definition swap ::
  "'d docker_env \<Rightarrow> managed_container \<Rightarrow> snapshot \<Rightarrow> string \<Rightarrow> inspect \<Rightarrow> string \<Rightarrow> 'd emitter \<Rightarrow>
   ('d, unit res) op" where
  "swap e mc snap ref oldInsp newImageID emit = do {
     let name = mc_ContainerName mc;
     let oldID = insp_ID oldInsp;
     _ \<leftarrow> call (ContainerRemove e (name @ oldSuffix));
     p \<leftarrow> call (ContainerRename e oldID (name @ oldSuffix));
     case p of
       Inl err \<Rightarrow> State_Monad.return (Inl (Wrap ''park old container: '' err ''''))
     | Inr _ \<Rightarrow> do {
         _ \<leftarrow> (case insp_State oldInsp of
                Some st \<Rightarrow> if st_Running st
                  then do { _ \<leftarrow> call (ContainerStop e oldID); State_Monad.return () }
                  else State_Monad.return ()
              | None \<Rightarrow> State_Monad.return ());
         _ \<leftarrow> emit ''recreating'' ''Installing the new image'';
         (newID, rerr) \<leftarrow> recreate e snap ref;
         case rerr of
           Some err \<Rightarrow> do {
             rb \<leftarrow> rollback e newID oldID name emit;
             State_Monad.return (Inl (rolledBack rb name (Wrap ''recreate on new image: '' err '''')))
           }
         | None \<Rightarrow> do {
             _ \<leftarrow> emit ''verifying'' ''Restarting and waiting for it to come up'';
             v \<leftarrow> verifyHealthy e newID;
             case v of
               Inl verr \<Rightarrow> do {
                 rb \<leftarrow> rollback e newID oldID name emit;
                 State_Monad.return (Inl (rolledBack rb name verr))
               }
             | Inr _ \<Rightarrow> swap_commit e mc oldInsp newID newImageID emit
           }
       }
   }"

section \<open>Handing Veery's own update to a helper (selfupdate.go)\<close>

abbreviation jobLabel :: string where "jobLabel \<equiv> ''veery.job''"

definition updaterName :: "string \<Rightarrow> string" where
  "updaterName jobID = ''veery-updater-'' @ jobID"

definition updater_config :: "inspect \<Rightarrow> string \<Rightarrow> config" where
  "updater_config selfInsp jobID =
     (let c = insp_Config selfInsp
      in \<lparr>cfg_Image = insp_Image selfInsp,
          cfg_Labels = [(updaterLabel, updaterRole), (jobLabel, jobID)],
          cfg_Entrypoint = cfg_Entrypoint c,
          cfg_Cmd = [''apply-update'', ''--container'', containerName [insp_Name selfInsp], ''--job'', jobID],
          cfg_Env = cfg_Env c, cfg_User = cfg_User c, cfg_WorkingDir = cfg_WorkingDir c,
          cfg_Healthcheck = Some [''NONE''], cfg_rest = ''''\<rparr>)"

definition updater_host_config :: "inspect \<Rightarrow> host_config" where
  "updater_host_config selfInsp =
     (let h = insp_HostConfig selfInsp
      in \<lparr>hc_Binds = hc_Binds h, hc_Mounts = hc_Mounts h, hc_VolumesFrom = hc_VolumesFrom h,
          hc_GroupAdd = hc_GroupAdd h, hc_Privileged = hc_Privileged h, hc_RestartPolicy = ''no'',
          hc_rest = ''''\<rparr>)"

definition handOff :: "'d docker_env \<Rightarrow> inspect \<Rightarrow> string \<Rightarrow> 'd emitter \<Rightarrow> ('d, unit res) op" where
  "handOff e selfInsp jobID emit = do {
     _ \<leftarrow> db (MarkUpdateJobSelf jobID);
     _ \<leftarrow> call (ContainerRemove e (updaterName jobID));
     r \<leftarrow> call (ContainerCreate e (updater_config selfInsp jobID) (updater_host_config selfInsp) [] (updaterName jobID));
     case r of
       Inl err \<Rightarrow> State_Monad.return (Inl (Wrap ''create updater: '' err ''''))
     | Inr newID \<Rightarrow> do {
         s \<leftarrow> call (ContainerStart e newID);
         case s of
           Inl err \<Rightarrow> do {
             _ \<leftarrow> call (ContainerRemove e newID);
             State_Monad.return (Inl (Wrap ''start updater: '' err ''''))
           }
         | Inr _ \<Rightarrow> do {
             _ \<leftarrow> emit ''handoff'' ''Veery is restarting to finish its own update'';
             State_Monad.return (Inr ())
           }
       }
   }"

section \<open>Updating (update.go)\<close>

definition do_update_locked ::
  "'d docker_env \<Rightarrow> managed_container \<Rightarrow> string \<Rightarrow> 'd emitter \<Rightarrow> ('d, bool res) op" where
  "do_update_locked e mc jobID emit = do {
     let name = mc_ContainerName mc;
     r \<leftarrow> call (ContainerInspect e name);
     case r of
       Inl err \<Rightarrow> State_Monad.return (Inl (Wrap (''inspect '' @ name @ '': '') err ''''))
     | Inr oldInsp \<Rightarrow> do {
         f \<leftarrow> refreshIfRecreated mc oldInsp;
         case f of
           Inl err \<Rightarrow> State_Monad.return (Inl err)
         | Inr (mc, snap) \<Rightarrow>
             if snap_Image snap = '''' then State_Monad.return (Inl (Errorf ''snapshot has no image reference''))
             else do {
               p \<leftarrow> pullImage e (snap_Image snap) emit;
               case p of
                 Inl err \<Rightarrow> State_Monad.return (Inl err)
               | Inr newImg \<Rightarrow>
                   if img_ID newImg = insp_Image oldInsp then do {
                     _ \<leftarrow> emit ''up-to-date'' ''Already up to date'';
                     _ \<leftarrow> setUpdateAvailable name False;
                     State_Monad.return (Inr False)
                   } else do {
                     self \<leftarrow> IsSelf e (insp_ID oldInsp);
                     if self then do {
                       h \<leftarrow> handOff e oldInsp jobID emit;
                       State_Monad.return (case h of Inl err \<Rightarrow> Inl err | Inr _ \<Rightarrow> Inl ErrHandedOff)
                     } else do {
                       s \<leftarrow> swap e mc snap (snap_Image snap) oldInsp (img_ID newImg) emit;
                       State_Monad.return (case s of Inl err \<Rightarrow> Inl err | Inr _ \<Rightarrow> Inr True)
                     }
                   }
             }
       }
   }"

definition doUpdate ::
  "'d docker_env \<Rightarrow> managed_container \<Rightarrow> string \<Rightarrow> 'd emitter \<Rightarrow> ('d, bool res) op" where
  "doUpdate e mc jobID emit = with_lock (mc_ContainerName mc) (do_update_locked e mc jobID emit)"

text \<open>Progress of an update goes to the clients and to the job's row.\<close>

definition record_emit :: "string \<Rightarrow> 'd emitter \<Rightarrow> 'd emitter" where
  "record_emit jid emit phase msg = do {
     _ \<leftarrow> emit phase msg;
     _ \<leftarrow> db (SetUpdateJobPhase jid phase msg);
     State_Monad.return ()
   }"

definition finish_job :: "string \<Rightarrow> string \<Rightarrow> string \<Rightarrow> string \<Rightarrow> ('d, unit) op" where
  "finish_job jid phase msg errMsg = do {
     now \<leftarrow> now_unix;
     _ \<leftarrow> db (FinishUpdateJob now jid phase msg errMsg);
     State_Monad.return ()
   }"

definition update_body :: "'d docker_env \<Rightarrow> managed_container \<Rightarrow> string \<Rightarrow> 'd emitter \<Rightarrow> ('d, unit res) op" where
  "update_body e mc jid emit = do {
     r \<leftarrow> doUpdate e mc jid (record_emit jid emit);
     let meta = \<lparr>meta_ContainerName = mc_ContainerName mc, meta_StackID = mc_StackID mc\<rparr>;
     case r of
       Inl err \<Rightarrow>
         if errors_Is err ErrHandedOff then State_Monad.return (Inl err)
         else do {
           _ \<leftarrow> finish_job jid ''failed'' '''' (err_text err);
           _ \<leftarrow> notify EventUpdateApplied (''Update failed: '' @ mc_ContainerName mc) (err_text err) meta;
           State_Monad.return (Inl err)
         }
     | Inr updated \<Rightarrow>
         if updated then do {
           _ \<leftarrow> finish_job jid ''done'' ''Updated'' '''';
           _ \<leftarrow> notify EventUpdateApplied (''Updated '' @ mc_ContainerName mc)
                  ''The container is running a newer image and came up healthy.'' meta;
           State_Monad.return (Inr ())
         } else do {
           _ \<leftarrow> finish_job jid ''done'' ''Already up to date'' '''';
           State_Monad.return (Inr ())
         }
   }"

definition new_update_job :: "string \<Rightarrow> string \<Rightarrow> update_job" where
  "new_update_job jid name =
     \<lparr>uj_ID = jid, uj_ContainerName = name, uj_Image = '''', uj_Phase = ''start'', uj_Message = '''',
      uj_Error = '''', uj_Self = False, uj_Done = False, uj_StartedAt = 0, uj_FinishedAt = 0\<rparr>"

definition Update :: "'d docker_env \<Rightarrow> string \<Rightarrow> ('d, unit) op" where
  "Update e managedID = do {
     row \<leftarrow> db_read (ResolveManaged managedID);
     case row of
       Inl _ \<Rightarrow> job e ''update'' managedID
         (\<lambda>_. State_Monad.return (Inl (Errorf (''not a managed container: '' @ managedID))))
     | Inr mc \<Rightarrow> do {
         jid \<leftarrow> genID e;
         now \<leftarrow> now_unix;
         _ \<leftarrow> db (StartUpdateJob now (new_update_job jid (mc_ContainerName mc)));
         jobWithID e jid ''update'' (mc_ContainerName mc) (update_body e mc jid)
       }
   }"

section \<open>The helper's side of a self-update\<close>

definition finishApply :: "string \<Rightarrow> string \<Rightarrow> unit res \<Rightarrow> ('d, unit res) op" where
  "finishApply jobID name r =
     (let meta = \<lparr>meta_ContainerName = name, meta_StackID = ''''\<rparr> in
      case r of
        Inl err \<Rightarrow> do {
          _ \<leftarrow> (if jobID \<noteq> '''' then finish_job jobID ''failed'' '''' (err_text err) else State_Monad.return ());
          _ \<leftarrow> notify EventUpdateApplied (''Update failed: '' @ name) (err_text err) meta;
          State_Monad.return (Inl err)
        }
      | Inr _ \<Rightarrow> do {
          _ \<leftarrow> (if jobID \<noteq> '''' then finish_job jobID ''done'' ''Updated'' '''' else State_Monad.return ());
          _ \<leftarrow> notify EventUpdateApplied (''Updated '' @ name)
                 ''The container is running a newer image and came up healthy.'' meta;
          State_Monad.return (Inr ())
        })"

definition apply_emit :: "string \<Rightarrow> 'd emitter" where
  "apply_emit jobID phase msg =
     (if jobID \<noteq> '''' then do { _ \<leftarrow> db (SetUpdateJobPhase jobID phase msg); State_Monad.return () }
      else State_Monad.return ())"

definition ApplyUpdate :: "'d docker_env \<Rightarrow> string \<Rightarrow> string \<Rightarrow> ('d, unit res) op" where
  "ApplyUpdate e name jobID = do {
     row \<leftarrow> db_read (ManagedByName name);
     case row of
       Inl _ \<Rightarrow> State_Monad.return (Inl (Errorf (''not a managed container: '' @ name)))
     | Inr mc \<Rightarrow> do {
         r \<leftarrow> call (ContainerInspect e name);
         case r of
           Inl err \<Rightarrow> State_Monad.return (Inl (Wrap (''inspect '' @ name @ '': '') err ''''))
         | Inr oldInsp \<Rightarrow> do {
             f \<leftarrow> refreshIfRecreated mc oldInsp;
             case f of
               Inl err \<Rightarrow> State_Monad.return (Inl err)
             | Inr (mc, snap) \<Rightarrow>
                 if snap_Image snap = '''' then State_Monad.return (Inl (Errorf ''snapshot has no image reference''))
                 else do {
                   i \<leftarrow> call (ImageInspect e (snap_Image snap));
                   p \<leftarrow> (case i of
                       Inr img \<Rightarrow> State_Monad.return (Inr img)
                     | Inl _ \<Rightarrow> pullImage e (snap_Image snap) (apply_emit jobID));
                   case p of
                     Inl err \<Rightarrow> finishApply jobID name (Inl err)
                   | Inr newImg \<Rightarrow>
                       if img_ID newImg = insp_Image oldInsp then do {
                         _ \<leftarrow> apply_emit jobID ''up-to-date'' ''Already up to date'';
                         finishApply jobID name (Inr ())
                       } else do {
                         s \<leftarrow> swap e mc snap (snap_Image snap) oldInsp (img_ID newImg) (apply_emit jobID);
                         finishApply jobID name s
                       }
                 }
           }
       }
   }"

definition is_updater :: "summary \<Rightarrow> bool" where
  "is_updater c \<longleftrightarrow> get_str (sum_Labels c) updaterLabel = updaterRole"

definition runningUpdaters :: "'d docker_env \<Rightarrow> ('d, (string \<times> summary) list res) op" where
  "runningUpdaters e = do {
     r \<leftarrow> call (ContainerList e True);
     State_Monad.return (map_sum id (\<lambda>cs.
       fold (\<lambda>c m. AList.update (get_str (sum_Labels c) jobLabel) c m)
         (filter (\<lambda>c. is_updater c \<and> sum_State c = ''running'') cs) []) r)
   }"

definition pruneUpdaters :: "'d docker_env \<Rightarrow> ('d, unit) op" where
  "pruneUpdaters e = do {
     r \<leftarrow> call (ContainerList e True);
     case r of
       Inl _ \<Rightarrow> State_Monad.return ()
     | Inr cs \<Rightarrow> for_each (\<lambda>c. do { _ \<leftarrow> call (ContainerRemove e (sum_ID c)); State_Monad.return () })
         (filter (\<lambda>c. is_updater c \<and> sum_State c \<noteq> ''running'') cs)
   }"

section \<open>Recovery at startup (recover.go)\<close>

definition healthy :: "'d docker_env \<Rightarrow> string \<Rightarrow> ('d, bool) op" where
  "healthy e cid = do {
     r \<leftarrow> call (ContainerInspect e cid);
     State_Monad.return (case r of
         Inl _ \<Rightarrow> False
       | Inr insp \<Rightarrow>
           (case insp_State insp of
              None \<Rightarrow> False
            | Some st \<Rightarrow> st_Running st \<and> st_Health st \<noteq> Some ''unhealthy''))
   }"

definition quiet_emit :: "'d emitter" where
  "quiet_emit phase msg = State_Monad.return ()"

definition reconcileOne :: "'d docker_env \<Rightarrow> string \<Rightarrow> summary \<Rightarrow> summary option \<Rightarrow> ('d, unit res) op" where
  "reconcileOne e orig parked fresh = do {
     self \<leftarrow> SelfContainerID e;
     if (case fresh of Some f \<Rightarrow> sum_ID f = self | None \<Rightarrow> False)
     then call (ContainerRemove e (sum_ID parked))
     else if sum_ID parked = self then
       (case fresh of
          None \<Rightarrow> call (ContainerRename e (sum_ID parked) orig)
        | Some f \<Rightarrow> do {
            ok \<leftarrow> (if sum_State f = ''running'' then healthy e (sum_ID f) else State_Monad.return False);
            if ok then State_Monad.return (Inr ())
            else do {
              r \<leftarrow> call (ContainerRemove e (sum_ID f));
              case r of
                Inl err \<Rightarrow> State_Monad.return (Inl (Wrap ''remove failed replacement: '' err ''''))
              | Inr _ \<Rightarrow> call (ContainerRename e (sum_ID parked) orig)
            }
          })
     else
       (case fresh of
          None \<Rightarrow> do {
            r \<leftarrow> call (ContainerRename e (sum_ID parked) orig);
            case r of
              Inl err \<Rightarrow> State_Monad.return (Inl (Wrap ''restore name: '' err ''''))
            | Inr _ \<Rightarrow> call (ContainerStart e (sum_ID parked))
          }
        | Some f \<Rightarrow> do {
            v \<leftarrow> verifyHealthy e (sum_ID f);
            case v of
              Inl _ \<Rightarrow> do {
                _ \<leftarrow> rollback e (sum_ID f) (sum_ID parked) orig quiet_emit;
                State_Monad.return (Inr ())
              }
            | Inr _ \<Rightarrow> call (ContainerRemove e (sum_ID parked))
          })
   }"

text \<open>
  The loop over the map of containers by name (of several containers with one name the last one
  listed). The order in which Go visits a map is open; here it is the order of the listing.
\<close>

definition summaries_by_name :: "summary list \<Rightarrow> (string \<times> summary) list" where
  "summaries_by_name cs = fold (\<lambda>c m. AList.update (containerName (sum_Names c)) c m) cs []"

definition reconcileParked :: "'d docker_env \<Rightarrow> ('d, unit res) op" where
  "reconcileParked e = do {
     r \<leftarrow> call (ContainerList e True);
     case r of
       Inl err \<Rightarrow> State_Monad.return (Inl (Wrap ''list containers: '' err ''''))
     | Inr cs \<Rightarrow> do {
         let byName = summaries_by_name cs;
         _ \<leftarrow> for_each (\<lambda>(name, parked).
                case CutSuffix name oldSuffix of
                  None \<Rightarrow> State_Monad.return ()
                | Some orig \<Rightarrow> do {
                    _ \<leftarrow> reconcileOne e orig parked (map_of byName orig);
                    State_Monad.return ()
                  }) byName;
         State_Monad.return (Inr ())
       }
   }"

definition onSnapshotImage :: "'d docker_env \<Rightarrow> string \<Rightarrow> ('d, bool res) op" where
  "onSnapshotImage e name = do {
     row \<leftarrow> db_read (ManagedByName name);
     case row of
       Inl _ \<Rightarrow> State_Monad.return (Inl (Errorf (''no longer managed: '' @ name)))
     | Inr mc \<Rightarrow>
         (case parseSnapshot (mc_SnapshotJSON mc) of
            Inl err \<Rightarrow> State_Monad.return (Inl err)
          | Inr snap \<Rightarrow> do {
              r \<leftarrow> call (ContainerInspect e name);
              case r of
                Inl _ \<Rightarrow> State_Monad.return (Inl (Errorf (''container is gone: '' @ name)))
              | Inr insp \<Rightarrow> do {
                  i \<leftarrow> call (ImageInspect e (snap_Image snap));
                  State_Monad.return (case i of
                      Inl _ \<Rightarrow> Inr False
                    | Inr img \<Rightarrow> Inr (img_ID img = insp_Image insp))
                }
            })
   }"

definition left_behind_text :: string where
  "left_behind_text =
     ''Veery restarted before the update finished; the container was left on its previous image''"

definition settleJob :: "'d docker_env \<Rightarrow> string \<Rightarrow> string \<Rightarrow> ('d, unit) op" where
  "settleJob e jid name = do {
     _ \<leftarrow> forget jid;
     r \<leftarrow> onSnapshotImage e name;
     case r of
       Inl err \<Rightarrow> do {
         _ \<leftarrow> finish_job jid ''failed'' '''' (err_text err);
         publish (failed_job jid ''update'' name (err_text err))
       }
     | Inr onNewImage \<Rightarrow>
         if onNewImage then do {
           _ \<leftarrow> finish_job jid ''done'' ''Updated'' '''';
           publish (done_job jid ''update'' name ''Updated'')
         } else do {
           _ \<leftarrow> finish_job jid ''failed'' '''' left_behind_text;
           publish (failed_job jid ''update'' name left_behind_text)
         }
   }"

definition updaterFor :: "'d docker_env \<Rightarrow> string \<Rightarrow> ('d, summary option res) op" where
  "updaterFor e jobID = do {
     r \<leftarrow> runningUpdaters e;
     State_Monad.return (map_sum id (\<lambda>us. map_of us jobID) r)
   }"

text \<open>
  One round of \<^verbatim>\<open>watchJob\<close> after its tick; it returns whether the watch is over. The watch
  itself runs rounds a second apart until one is over or the context ends; \<open>n\<close> bounds the
  number of rounds looked at.
\<close>

definition watch_round :: "'d docker_env \<Rightarrow> string \<Rightarrow> string \<Rightarrow> ('d, bool) op" where
  "watch_round e jid name = do {
     row \<leftarrow> db_read (UpdateJobByID jid);
     case row of
       Inl _ \<Rightarrow> State_Monad.return True
     | Inr j \<Rightarrow>
         if \<not> uj_Done j then do {
           u \<leftarrow> updaterFor e jid;
           case u of
             Inr (Some _) \<Rightarrow> do {
               _ \<leftarrow> track (running_job jid ''update'' name (uj_Phase j) (uj_Message j));
               State_Monad.return False
             }
           | _ \<Rightarrow> do { _ \<leftarrow> settleJob e jid name; State_Monad.return True }
         } else do {
           _ \<leftarrow> forget jid;
           _ \<leftarrow> publish \<lparr>job_ID = jid, job_Kind = ''update'', job_Target = name, job_Phase = uj_Phase j,
                  job_Message = (if uj_Error j \<noteq> '''' then '''' else uj_Message j), job_Done = True,
                  job_Error = uj_Error j\<rparr>;
           _ \<leftarrow> BroadcastStacks e;
           State_Monad.return True
         }
   }"

fun watchJob :: "nat \<Rightarrow> 'd docker_env \<Rightarrow> string \<Rightarrow> string \<Rightarrow> ('d, bool) op" where
  "watchJob 0 e jid name = State_Monad.return False"
| "watchJob (Suc n) e jid name = do {
     _ \<leftarrow> sleep e second;
     over \<leftarrow> reads (\<lambda>m. ctx_done e (mg_docker m));
     if over then State_Monad.return True
     else do {
       fin \<leftarrow> watch_round e jid name;
       if fin then State_Monad.return True else watchJob n e jid name
     }
   }"

text \<open>The jobs for which \<^verbatim>\<open>resumeJobs\<close> starts a watcher are its result.\<close>

fun resume_each :: "'d docker_env \<Rightarrow> (string \<times> summary) list \<Rightarrow> update_job list \<Rightarrow> ('d, (string \<times> string) list) op" where
  "resume_each e updaters [] = State_Monad.return []"
| "resume_each e updaters (j # js) =
     (if map_of updaters (uj_ID j) \<noteq> None then do {
        _ \<leftarrow> track (running_job (uj_ID j) ''update'' (uj_ContainerName j) (uj_Phase j) (uj_Message j));
        ws \<leftarrow> resume_each e updaters js;
        State_Monad.return ((uj_ID j, uj_ContainerName j) # ws)
      } else do {
        _ \<leftarrow> settleJob e (uj_ID j) (uj_ContainerName j);
        resume_each e updaters js
      })"

definition resumeJobs :: "'d docker_env \<Rightarrow> (string \<times> summary) list \<Rightarrow> ('d, (string \<times> string) list) op" where
  "resumeJobs e updaters = do {
     rows \<leftarrow> db_read ActiveUpdateJobs;
     case rows of
       Inl _ \<Rightarrow> State_Monad.return []
     | Inr js \<Rightarrow> resume_each e updaters js
   }"

definition Recover :: "'d docker_env \<Rightarrow> ('d, (string \<times> string) list) op" where
  "Recover e = do {
     r \<leftarrow> runningUpdaters e;
     case r of
       Inl _ \<Rightarrow> State_Monad.return []
     | Inr updaters \<Rightarrow> do {
         _ \<leftarrow> (if updaters = [] then do { _ \<leftarrow> reconcileParked e; pruneUpdaters e }
               else State_Monad.return ());
         resumeJobs e updaters
       }
   }"

section \<open>Automatic updates (autoupdate.go)\<close>

text \<open>A \<^verbatim>\<open>time.Duration\<close> is a signed 64-bit number of nanoseconds; the product wraps around.\<close>

definition autoUpdateInterval :: "store \<Rightarrow> int" where
  "autoUpdateInterval s =
     (let minutes = (case LoadSettings s of
            Inr cfg \<Rightarrow> if set_AutoUpdateIntervalMinutes cfg > 0 then set_AutoUpdateIntervalMinutes cfg else 60
          | Inl _ \<Rightarrow> 60)
      in signed_take_bit 63 (minutes * 60000000000))"

fun auto_update_each :: "'d docker_env \<Rightarrow> managed_container list \<Rightarrow> ('d, unit) op" where
  "auto_update_each e [] = State_Monad.return ()"
| "auto_update_each e (mc # mcs) = do {
     over \<leftarrow> reads (\<lambda>m. ctx_done e (mg_docker m));
     if over then State_Monad.return ()
     else do {
       r \<leftarrow> call (ContainerInspect e (mc_ContainerName mc));
       _ \<leftarrow> (case r of Inl _ \<Rightarrow> State_Monad.return () | Inr _ \<Rightarrow> Update e (mc_ID mc));
       auto_update_each e mcs
     }
   }"

definition runAutoUpdates :: "'d docker_env \<Rightarrow> ('d, unit) op" where
  "runAutoUpdates e = do {
     rows \<leftarrow> db_read AutoUpdateContainers;
     case rows of Inl _ \<Rightarrow> State_Monad.return () | Inr mcs \<Rightarrow> auto_update_each e mcs
   }"

end
