(* ===== verification/Docker_Laws.thy ===== *)
theory Docker_Laws
  imports Docker_Update
begin

text \<open>
  What Veery relies on of the Docker daemon, and the calculus in which the safety of its container
  operations is proved.

  A \<open>view\<close> abstracts a daemon state to the containers it has (id to name), the containers that
  run, and the resolution of a reference. The laws say how the calls change the view. They state
  the documented behaviour of the Engine API for containers that are not removed when they stop;
  between Veery's calls nobody else creates, renames or removes a container.
\<close>

record 'd view =
  dv_names :: "'d \<Rightarrow> string \<Rightarrow> string option"
  dv_running :: "'d \<Rightarrow> string set"
  dv_resolve :: "'d \<Rightarrow> string \<Rightarrow> string option"

section \<open>The laws\<close>

text \<open>
  Ids are 64 hexadecimal digits and names are unique. A reference is a full id, else a name, else
  a prefix of an id.
\<close>

definition refs_law :: "'d view \<Rightarrow> bool" where
  "refs_law v \<longleftrightarrow>
     (\<forall>d i n. dv_names v d i = Some n \<longrightarrow> length i = 64 \<and> list_all is_hex_char i) \<and>
     (\<forall>d i j n. dv_names v d i = Some n \<longrightarrow> dv_names v d j = Some n \<longrightarrow> i = j) \<and>
     (\<forall>d i n. dv_names v d i = Some n \<longrightarrow> dv_resolve v d i = Some i) \<and>
     (\<forall>d i n. dv_names v d i = Some n \<longrightarrow> dv_names v d n = None \<longrightarrow> dv_resolve v d n = Some i) \<and>
     (\<forall>d r i. dv_resolve v d r = Some i \<longrightarrow>
        dv_names v d i \<noteq> None \<and> (i = r \<or> dv_names v d i = Some r \<or> prefix r i))"

text \<open>Calls that neither create, rename nor remove containers.\<close>

definition keeps :: "'d view \<Rightarrow> ('d \<Rightarrow> 'a \<times> 'd \<times> nat) \<Rightarrow> bool" where
  "keeps v f \<longleftrightarrow> (\<forall>d. dv_names v (fst (snd (f d))) = dv_names v d)"

definition steady_law :: "'d docker_env \<Rightarrow> 'd view \<Rightarrow> bool" where
  "steady_law e v \<longleftrightarrow>
     (\<forall>b. keeps v (ContainerList e b)) \<and> (\<forall>r. keeps v (ContainerInspect e r)) \<and>
     (\<forall>r. keeps v (ContainerStart e r)) \<and> (\<forall>r. keeps v (ContainerStop e r)) \<and>
     (\<forall>r. keeps v (ContainerRestart e r)) \<and> (\<forall>r. keeps v (ContainerWait e r)) \<and>
     (\<forall>n r ep. keeps v (NetworkConnect e n r ep)) \<and> (\<forall>r. keeps v (ImagePull e r)) \<and>
     (\<forall>r. keeps v (ImageInspect e r)) \<and> (\<forall>r. keeps v (ImageRemove e r)) \<and>
     (\<forall>r. keeps v (DistributionInspect e r)) \<and> keeps v (PingDaemon e) \<and>
     (\<forall>t. keeps v (oversleep e t)) \<and> keeps v (rand_id e)"

definition rename_law :: "'d docker_env \<Rightarrow> 'd view \<Rightarrow> bool" where
  "rename_law e v \<longleftrightarrow>
     (\<forall>ref n d r d' t. ContainerRename e ref n d = (r, d', t) \<longrightarrow>
        (case r of
           Inl _ \<Rightarrow> dv_names v d' = dv_names v d
         | Inr _ \<Rightarrow> \<exists>i. dv_resolve v d ref = Some i \<and> dv_names v d' = (dv_names v d)(i \<mapsto> n)))"

text \<open>A forced removal that reports an error may have happened or not.\<close>

definition remove_law :: "'d docker_env \<Rightarrow> 'd view \<Rightarrow> bool" where
  "remove_law e v \<longleftrightarrow>
     (\<forall>ref d r d' t. ContainerRemove e ref d = (r, d', t) \<longrightarrow>
        (dv_names v d' = dv_names v d \<and> r \<noteq> Inr ()) \<or>
        (\<exists>i. dv_resolve v d ref = Some i \<and> dv_names v d' = (dv_names v d)(i := None)))"

definition create_law :: "'d docker_env \<Rightarrow> 'd view \<Rightarrow> bool" where
  "create_law e v \<longleftrightarrow>
     (\<forall>c h eps n d r d' t. ContainerCreate e c h eps n d = (r, d', t) \<longrightarrow>
        (case r of
           Inl _ \<Rightarrow> dv_names v d' = dv_names v d
         | Inr i \<Rightarrow> dv_names v d i = None \<and> n \<notin> ran (dv_names v d) \<and>
             dv_names v d' = (dv_names v d)(i \<mapsto> n)))"

definition start_law :: "'d docker_env \<Rightarrow> 'd view \<Rightarrow> bool" where
  "start_law e v \<longleftrightarrow>
     (\<forall>ref d d' t. ContainerStart e ref d = (Inr (), d', t) \<longrightarrow>
        (\<exists>i. dv_resolve v d ref = Some i \<and> i \<in> dv_running v d'))"

definition inspect_law :: "'d docker_env \<Rightarrow> 'd view \<Rightarrow> bool" where
  "inspect_law e v \<longleftrightarrow>
     (\<forall>ref d insp d' t. ContainerInspect e ref d = (Inr insp, d', t) \<longrightarrow>
        dv_resolve v d ref = Some (insp_ID insp) \<and>
        dv_names v d (insp_ID insp) = Some (TrimPrefix (insp_Name insp) ''/''))"

definition docker_laws :: "'d docker_env \<Rightarrow> 'd view \<Rightarrow> bool" where
  "docker_laws e v \<longleftrightarrow>
     refs_law v \<and> steady_law e v \<and> rename_law e v \<and> remove_law e v \<and> create_law e v \<and>
     start_law e v \<and> inspect_law e v"

lemma docker_lawsD:
  assumes "docker_laws e v"
  shows "refs_law v" "steady_law e v" "rename_law e v" "remove_law e v" "create_law e v"
    "start_law e v" "inspect_law e v"
  using assms by (simp_all add: docker_laws_def)

section \<open>Consequences for references\<close>

lemma resolve_full_id:
  assumes "docker_laws e v" "dv_names v d i = Some n"
  shows "dv_resolve v d i = Some i"
  using assms by (auto simp: docker_laws_def refs_law_def)

lemma names_unique:
  assumes "docker_laws e v" "dv_names v d i = Some n" "dv_names v d j = Some n"
  shows "i = j"
  using assms docker_lawsD(1) unfolding refs_law_def by blast

lemma not_hex_not_prefix:
  assumes "docker_laws e v" "dv_names v d i = Some n" "c \<in> set r" "\<not> is_hex_char c"
  shows "\<not> prefix r i"
proof
  assume "prefix r i"
  then have "c \<in> set i" using assms(3) by (auto simp: prefix_def)
  moreover have "list_all is_hex_char i"
    using assms(1,2) docker_lawsD(1) unfolding refs_law_def by blast
  ultimately show False using assms(4) by (simp add: list_all_iff)
qed

text \<open>A reference with a character that no id has resolves by name.\<close>

lemma resolve_by_name:
  assumes "docker_laws e v" "dv_resolve v d r = Some i" "c \<in> set r" "\<not> is_hex_char c"
  shows "dv_names v d i = Some r"
proof -
  from assms(1,2) have i: "dv_names v d i \<noteq> None" "i = r \<or> dv_names v d i = Some r \<or> prefix r i"
    using docker_lawsD(1) unfolding refs_law_def by blast+
  then obtain n where n: "dv_names v d i = Some n" by blast
  have "\<not> prefix r i" using not_hex_not_prefix [OF assms(1) n assms(3,4)] .
  with i show ?thesis by auto
qed

lemma resolve_name:
  assumes "docker_laws e v" "dv_names v d i = Some n" "dv_names v d n = None"
  shows "dv_resolve v d n = Some i"
  using assms docker_lawsD(1) unfolding refs_law_def by blast

section \<open>Operations that leave the containers alone\<close>

text \<open>
  \<open>quiet\<close>: an operation that makes no call of the daemon. \<open>steady\<close>: one that makes calls but
  none that creates, renames or removes containers.
\<close>

definition quiet :: "('d, 'a) op \<Rightarrow> bool" where
  "quiet f \<longleftrightarrow> (\<forall>m. mg_docker (snd (run_state f m)) = mg_docker m)"

definition steady :: "'d view \<Rightarrow> ('d, 'a) op \<Rightarrow> bool" where
  "steady v f \<longleftrightarrow> (\<forall>m. dv_names v (mg_docker (snd (run_state f m))) = dv_names v (mg_docker m))"

named_theorems quiet_rules \<open>operations that make no call\<close>
named_theorems steady_rules \<open>operations that leave the containers alone\<close>

lemma run_return_simp [simp]: "run_state (State_Monad.return a) m = (a, m)"
  by (simp add: State_Monad.return_def)

lemma quiet_basic [quiet_rules]:
  "quiet (State_Monad.return a)" "quiet (db_read g)" "quiet (reads h)" "quiet (db k)"
  by (simp_all add: quiet_def split: prod.splits)

lemma quiet_modify: "(\<And>m. mg_docker (f m) = mg_docker m) \<Longrightarrow> quiet (modify f)"
  by (simp add: quiet_def)

lemma quiet_bind [quiet_rules]: "quiet f \<Longrightarrow> (\<And>a. quiet (g a)) \<Longrightarrow> quiet (State_Monad.bind f g)"
  by (simp add: quiet_def split: prod.splits) (metis prod.collapse snd_conv)

lemma quiet_branches [quiet_rules]:
  "quiet f \<Longrightarrow> quiet g \<Longrightarrow> quiet (if b then f else g)"
  "(\<And>x. quiet (h x)) \<Longrightarrow> (\<And>y. quiet (k y)) \<Longrightarrow> quiet (case s of Inl x \<Rightarrow> h x | Inr y \<Rightarrow> k y)"
  "quiet f \<Longrightarrow> (\<And>x. quiet (h x)) \<Longrightarrow> quiet (case opt of None \<Rightarrow> f | Some x \<Rightarrow> h x)"
  "(\<And>x y. quiet (p x y)) \<Longrightarrow> quiet (case pr of (x, y) \<Rightarrow> p x y)"
  by (auto split: sum.splits option.splits prod.splits)

lemma quiet_for_each [quiet_rules]: "(\<And>x. quiet (f x)) \<Longrightarrow> quiet (for_each f xs)"
  by (induction xs) (auto intro!: quiet_rules)

lemma quiet_steady: "quiet f \<Longrightarrow> steady v f"
  by (simp add: quiet_def steady_def)

lemmas steady_basic [steady_rules] = quiet_basic [THEN quiet_steady]

lemma steady_call: "keeps v f \<Longrightarrow> steady v (call f)"
  by (auto simp: keeps_def steady_def split: prod.splits) (metis fst_conv snd_conv)

lemma steady_bind [steady_rules]: "steady v f \<Longrightarrow> (\<And>a. steady v (g a)) \<Longrightarrow> steady v (State_Monad.bind f g)"
  by (simp add: steady_def split: prod.splits) (metis prod.collapse snd_conv)

lemma steady_branches [steady_rules]:
  "steady v f \<Longrightarrow> steady v g \<Longrightarrow> steady v (if b then f else g)"
  "(\<And>x. steady v (h x)) \<Longrightarrow> (\<And>y. steady v (k y)) \<Longrightarrow> steady v (case s of Inl x \<Rightarrow> h x | Inr y \<Rightarrow> k y)"
  "steady v f \<Longrightarrow> (\<And>x. steady v (h x)) \<Longrightarrow> steady v (case opt of None \<Rightarrow> f | Some x \<Rightarrow> h x)"
  "(\<And>x y. steady v (p x y)) \<Longrightarrow> steady v (case pr of (x, y) \<Rightarrow> p x y)"
  by (auto split: sum.splits option.splits prod.splits)

lemma steady_for_each [steady_rules]: "(\<And>x. steady v (f x)) \<Longrightarrow> steady v (for_each f xs)"
  by (induction xs) (auto intro!: steady_rules)

lemma steady_calls [steady_rules]:
  assumes "docker_laws e v"
  shows "steady v (call (ContainerList e b))" "steady v (call (ContainerInspect e r))"
    "steady v (call (ContainerStart e r))" "steady v (call (ContainerStop e r))"
    "steady v (call (ContainerRestart e r))" "steady v (call (NetworkConnect e n r ep))"
    "steady v (call (ImagePull e r))" "steady v (call (ImageInspect e r))"
    "steady v (call (ImageRemove e r))" "steady v (call (DistributionInspect e r))"
    "steady v (call (rand_id e))"
  using docker_lawsD(2) [OF assms] by (auto simp: steady_law_def intro: steady_call)

lemma steady_sleep [steady_rules]: "docker_laws e v \<Longrightarrow> steady v (sleep e t)"
  using docker_lawsD(2) [of e v]
  by (auto simp: steady_def sleep_def steady_law_def keeps_def split: prod.splits)
    (metis fst_conv snd_conv)

text \<open>The operations built from them.\<close>

lemma quiet_ops [quiet_rules]:
  "quiet (publish j)" "quiet (notify ev ti bo me)" "quiet (track j)" "quiet (forget i)"
  "quiet (setUpdateAvailable nm b)" "quiet (updateAvailableFor nm)" "quiet (Lock nm)" "quiet (Unlock nm)"
  "quiet (job_emit i k t ph ms)" "quiet now_unix" "quiet now_ns"
  by (auto simp: publish_def notify_def track_def forget_def setUpdateAvailable_def updateAvailableFor_def
      Lock_def Unlock_def job_emit_def now_unix_def now_ns_def intro!: quiet_rules quiet_modify)

lemmas steady_ops [steady_rules] = quiet_ops [THEN quiet_steady]

lemma quiet_db_ops [quiet_rules]:
  "quiet (finish_job i ph ms er)" "quiet (recordSpec mc insp)" "quiet (refreshIfRecreated mc insp)"
  "quiet (apply_emit i ph ms)" "quiet (quiet_emit ph ms)" "quiet (finishApply i nm r)"
  by (auto simp: finish_job_def recordSpec_def refreshIfRecreated_def apply_emit_def quiet_emit_def
      finishApply_def Let_def intro!: quiet_rules)

lemma quiet_record_emit [quiet_rules]: "(\<And>ph ms. quiet (emit ph ms)) \<Longrightarrow> quiet (record_emit i emit ph ms)"
  by (auto simp: record_emit_def intro!: quiet_rules)

lemmas steady_db_ops [steady_rules] = quiet_db_ops [THEN quiet_steady] quiet_record_emit [THEN quiet_steady]

lemma quiet_noteStatuses [quiet_rules]: "quiet (noteStatuses sts)"
  by (auto simp: noteStatuses_def status_baseline_def note_stack_def Let_def intro!: quiet_rules quiet_modify)

lemmas steady_noteStatuses [steady_rules] = quiet_noteStatuses [THEN quiet_steady]

lemma steady_modify: "(\<And>m. mg_docker (f m) = mg_docker m) \<Longrightarrow> steady v (modify f)"
  by (rule quiet_steady) (rule quiet_modify)

lemma steady_live_stacks: "docker_laws e v \<Longrightarrow> steady v (live_stacks e rows upd cs sts)"
  by (induction cs arbitrary: sts) (auto simp: live_container_def Let_def intro!: steady_rules)

lemma steady_BroadcastStacks [steady_rules]: "docker_laws e v \<Longrightarrow> steady v (BroadcastStacks e)"
  by (auto simp: BroadcastStacks_def ListStacks_def Let_def intro!: steady_rules steady_live_stacks steady_modify)

lemma steady_first_inspected: "docker_laws e v \<Longrightarrow> steady v (first_inspected e refs)"
  by (induction refs) (auto intro!: steady_rules)

lemma steady_SelfContainerID [steady_rules]:
  "docker_laws e v \<Longrightarrow> steady v (SelfContainerID e)" "docker_laws e v \<Longrightarrow> steady v (IsSelf e cid)"
  by (auto simp: IsSelf_def SelfContainerID_def resolveSelf_def intro!: steady_rules steady_first_inspected steady_modify)

lemma quiet_drain_loop:
  assumes "\<And>ph ms. quiet (emit ph ms)"
  shows "quiet (drain_loop emit en evs ls p q t)"
proof (induction evs arbitrary: ls p q t)
  case Nil
  show ?case using assms by (auto intro!: quiet_rules)
next
  case (Cons x evs)
  show ?case using assms Cons by (cases x) (auto simp: Let_def intro!: quiet_rules quiet_modify)
qed

lemma steady_pullImage [steady_rules]:
  assumes "docker_laws e v" "\<And>ph ms. quiet (emit ph ms)"
  shows "steady v (pullImage e ref emit)"
  unfolding pullImage_def drainPull_def
  using assms by (auto intro!: steady_rules intro: quiet_steady quiet_drain_loop)

text \<open>The state a step of the loop leaves behind.\<close>

lemma steadyD: "steady v f \<Longrightarrow> run_state f m = (a, m') \<Longrightarrow> dv_names v (mg_docker m') = dv_names v (mg_docker m)"
  unfolding steady_def by (metis snd_conv)

lemma steady_verify_loop:
  assumes "docker_laws e v"
  shows "dv_names v (mg_docker (snd (verify_loop e cid dl m))) = dv_names v (mg_docker m)"
  using assms
proof (induction e cid dl m rule: verify_loop.induct)
  case (1 e cid dl m)
  obtain r m1 where i: "run_state (call (ContainerInspect e cid)) m = (r, m1)"
    by (cases "run_state (call (ContainerInspect e cid)) m")
  obtain u m2 where sl: "run_state (sleep e second) m1 = (u, m2)"
    by (cases "run_state (sleep e second) m1")
  have n1: "dv_names v (mg_docker m1) = dv_names v (mg_docker m)"
    using steadyD [OF steady_calls(2) [OF 1(2)] i] .
  have n2: "dv_names v (mg_docker m2) = dv_names v (mg_docker m1)"
    using steadyD [OF steady_sleep [OF 1(2)] sl] .
  show ?case
    using 1(1) [OF i [symmetric] _ _ _ _ _ sl [symmetric]] 1(2) n1 n2
    by (subst verify_loop.simps) (auto simp: i sl simp del: run_call split: sum.splits option.splits)
qed

lemma steady_verifyHealthy [steady_rules]: "docker_laws e v \<Longrightarrow> steady v (verifyHealthy e cid)"
  by (simp add: steady_def verifyHealthy_def steady_verify_loop)

end
