(* ===== verification/Docker_Safety.thy ===== *)
theory Docker_Safety
  imports Docker_Laws
begin

text \<open>
  Safety of the container operations, under the laws of the daemon: what a swap, its rollback and
  the recovery after a crash can do to the containers of the host.
\<close>

section \<open>Triples about the containers\<close>

abbreviation NM :: "'d view \<Rightarrow> 'd mgr \<Rightarrow> string \<Rightarrow> string option" where
  "NM v m \<equiv> dv_names v (mg_docker m)"

lemma steady_triple: "steady v f \<Longrightarrow> triple (\<lambda>m. NM v m = N) f (\<lambda>_ m. NM v m = N)"
  by (auto simp: triple_def steady_def split: prod.splits) (metis snd_conv)

lemma steady_triple_and:
  assumes "steady v f" "triple (\<lambda>_. True) f (\<lambda>a _. Q a)"
  shows "triple (\<lambda>m. NM v m = N) f (\<lambda>a m. NM v m = N \<and> Q a)"
  using steady_triple [OF assms(1), of N] assms(2) unfolding triple_def by (auto split: prod.splits)

lemma triple_post_eq:
  "triple P f (\<lambda>a s. Q a s) \<Longrightarrow> (\<And>a s. Q a s \<Longrightarrow> Q' a s) \<Longrightarrow> triple P f Q'"
  by (rule triple_post)

text \<open>A fact about the states of the precondition that no state contradicts may be assumed.\<close>

lemma triple_assume: "(\<And>m. P m \<Longrightarrow> C) \<Longrightarrow> (C \<Longrightarrow> triple P f Q) \<Longrightarrow> triple P f Q"
  by (auto simp: triple_def)

lemma triple_disj: "triple P f R \<Longrightarrow> triple Q f R \<Longrightarrow> triple (\<lambda>m. P m \<or> Q m) f R"
  by (auto simp: triple_def)

lemma triple_ex:
  assumes "\<And>x. triple (P x) f R"
  shows "triple (\<lambda>m. \<exists>x. P x m) f R"
proof (rule tripleI)
  fix s a s'
  assume "\<exists>x. P x s" "run_state f s = (a, s')"
  then show "R a s'" using tripleD [OF assms] by blast
qed

lemma triple_call:
  "(\<And>m r d t. \<lbrakk>P m; f (mg_docker m) = (r, d, t)\<rbrakk> \<Longrightarrow> Q r (m\<lparr>mg_docker := d, mg_clock := mg_clock m + t\<rparr>)) \<Longrightarrow>
   triple P (call f) Q"
  by (auto simp: triple_def split: prod.splits)

lemma rename_triple:
  assumes "docker_laws e v" "N i = Some n"
  shows "triple (\<lambda>m. NM v m = N) (call (ContainerRename e i nm))
    (\<lambda>r m. case r of Inl _ \<Rightarrow> NM v m = N | Inr _ \<Rightarrow> NM v m = N(i \<mapsto> nm))"
proof (rule triple_call)
  fix m :: "'a mgr" and r d t
  assume N: "NM v m = N" and f: "ContainerRename e i nm (mg_docker m) = (r, d, t)"
  have "dv_resolve v (mg_docker m) i = Some i"
    using resolve_full_id [OF assms(1), of "mg_docker m" i n] N assms(2) by simp
  moreover have "case r of Inl _ \<Rightarrow> dv_names v d = NM v m
    | Inr _ \<Rightarrow> \<exists>j. dv_resolve v (mg_docker m) i = Some j \<and> dv_names v d = (NM v m)(j \<mapsto> nm)"
    using docker_lawsD(3) [OF assms(1)] f unfolding rename_law_def by blast
  ultimately show "case r of Inl _ \<Rightarrow> NM v (m\<lparr>mg_docker := d, mg_clock := mg_clock m + t\<rparr>) = N
      | Inr _ \<Rightarrow> NM v (m\<lparr>mg_docker := d, mg_clock := mg_clock m + t\<rparr>) = N(i \<mapsto> nm)"
    using N f by (auto split: sum.splits)
qed

lemma remove_triple:
  assumes "docker_laws e v" "N i = Some n"
  shows "triple (\<lambda>m. NM v m = N) (call (ContainerRemove e i))
    (\<lambda>r m. NM v m = N(i := None) \<or> NM v m = N \<and> r \<noteq> Inr ())"
proof (rule triple_call)
  fix m :: "'a mgr" and r d t
  assume N: "NM v m = N" and f: "ContainerRemove e i (mg_docker m) = (r, d, t)"
  have "dv_resolve v (mg_docker m) i = Some i"
    using resolve_full_id [OF assms(1), of "mg_docker m" i n] N assms(2) by simp
  then show "NM v (m\<lparr>mg_docker := d, mg_clock := mg_clock m + t\<rparr>) = N(i := None) \<or>
      NM v (m\<lparr>mg_docker := d, mg_clock := mg_clock m + t\<rparr>) = N \<and> r \<noteq> Inr ()"
    using docker_lawsD(4) [OF assms(1)] N f unfolding remove_law_def by force
qed

lemma start_triple:
  assumes "docker_laws e v" "N i = Some n"
  shows "triple (\<lambda>m. NM v m = N) (call (ContainerStart e i))
    (\<lambda>r m. NM v m = N \<and> (r = Inr () \<longrightarrow> i \<in> dv_running v (mg_docker m)))"
proof (rule triple_call)
  fix m :: "'a mgr" and r d t
  assume N: "NM v m = N" and f: "ContainerStart e i (mg_docker m) = (r, d, t)"
  have "dv_resolve v (mg_docker m) i = Some i"
    using resolve_full_id [OF assms(1), of "mg_docker m" i n] N assms(2) by simp
  moreover have "dv_names v d = N"
    using docker_lawsD(2) [OF assms(1)] N f unfolding steady_law_def keeps_def by (metis fst_conv snd_conv)
  ultimately show "NM v (m\<lparr>mg_docker := d, mg_clock := mg_clock m + t\<rparr>) = N \<and>
      (r = Inr () \<longrightarrow> i \<in> dv_running v (mg_docker (m\<lparr>mg_docker := d, mg_clock := mg_clock m + t\<rparr>)))"
    using docker_lawsD(6) [OF assms(1)] f unfolding start_law_def by fastforce
qed

lemma create_triple:
  assumes "docker_laws e v"
  shows "triple (\<lambda>m. NM v m = N) (call (ContainerCreate e c h eps n))
    (\<lambda>r m. case r of
       Inl _ \<Rightarrow> NM v m = N
     | Inr i \<Rightarrow> i \<noteq> '''' \<and> N i = None \<and> n \<notin> ran N \<and> NM v m = N(i \<mapsto> n))"
proof (rule triple_call)
  fix m :: "'a mgr" and r d t
  assume N: "NM v m = N" and f: "ContainerCreate e c h eps n (mg_docker m) = (r, d, t)"
  have c: "case r of Inl _ \<Rightarrow> dv_names v d = N
      | Inr i \<Rightarrow> N i = None \<and> n \<notin> ran N \<and> dv_names v d = N(i \<mapsto> n)"
    using docker_lawsD(5) [OF assms] f unfolding create_law_def N [symmetric] by blast
  have "i \<noteq> ''''" if "dv_names v d i = Some n" for i
    using that docker_lawsD(1) [OF assms] unfolding refs_law_def by (metis list.size(3) zero_neq_numeral)
  with c show "case r of Inl _ \<Rightarrow> NM v (m\<lparr>mg_docker := d, mg_clock := mg_clock m + t\<rparr>) = N
      | Inr i \<Rightarrow> i \<noteq> '''' \<and> N i = None \<and> n \<notin> ran N \<and>
          NM v (m\<lparr>mg_docker := d, mg_clock := mg_clock m + t\<rparr>) = N(i \<mapsto> n)"
    by (auto split: sum.splits)
qed

section \<open>Recreating and rolling back\<close>

lemma recreate_triple:
  assumes "docker_laws e v"
  shows "triple (\<lambda>m. NM v m = N) (recreate e snap img)
    (\<lambda>(newID, er) m. (newID = '''' \<and> er \<noteq> None \<and> NM v m = N) \<or>
       (newID \<noteq> '''' \<and> N newID = None \<and> snap_Name snap \<notin> ran N \<and> NM v m = N(newID \<mapsto> snap_Name snap)))"
  unfolding recreate_def Let_def
proof (rule triple_bind [OF create_triple [OF assms]], rule triple_sum, goal_cases)
  case (1 r err)
  then show ?case by (intro triple_return) simp
next
  case (2 r newID)
  show ?case
  proof (rule triple_assume [where C = "newID \<noteq> '''' \<and> N newID = None \<and> snap_Name snap \<notin> ran N"])
    assume C: "newID \<noteq> '''' \<and> N newID = None \<and> snap_Name snap \<notin> ran N"
    let ?N = "N(newID \<mapsto> snap_Name snap)"
    have conn: "triple (\<lambda>m. NM v m = ?N)
        (for_each (\<lambda>(n, ep). do { _ \<leftarrow> call (NetworkConnect e n newID ep); State_Monad.return () }) xs)
        (\<lambda>_ m. NM v m = ?N)" for xs
      using assms by (intro steady_triple steady_rules)
    have start: "triple (\<lambda>m. NM v m = ?N) (call (ContainerStart e newID)) (\<lambda>_ m. NM v m = ?N)"
      using assms by (intro steady_triple steady_rules)
    show ?thesis
      by (rule triple_pre [where P' = "\<lambda>m. NM v m = ?N"], rule triple_bind [OF conn], rule triple_bind [OF start],
          rule triple_return) (use C in \<open>auto simp: 2\<close>)
  qed (auto simp: 2)
qed

text \<open>The second half of a rollback: the old container gets its name back and is started.\<close>

lemma rollback_restores:
  assumes laws: "docker_laws e v" and st: "\<And>ph ms. steady v (emit ph ms)" and old: "N old = Some p"
  shows "triple (\<lambda>m. NM v m = N)
     (do {
       r \<leftarrow> call (ContainerRename e old name);
       case r of
         Inl err \<Rightarrow> do {
           _ \<leftarrow> emit ''rollback'' (''restore rename failed: '' @ err_text err);
           State_Monad.return (Inl (Wrap ''restore name: '' err ''''))
         }
       | Inr _ \<Rightarrow> do {
           s \<leftarrow> call (ContainerStart e old);
           case s of
             Inl err \<Rightarrow> do {
               _ \<leftarrow> emit ''rollback'' (''restart failed: '' @ err_text err);
               State_Monad.return (Inl (Wrap (''restart '' @ name @ '': '') err ''''))
             }
           | Inr _ \<Rightarrow> State_Monad.return (Inr ())
         }
     }) (\<lambda>r m. case r of
       Inr _ \<Rightarrow> NM v m = N(old \<mapsto> name) \<and> old \<in> dv_running v (mg_docker m)
     | Inl _ \<Rightarrow> NM v m = N \<or> NM v m = N(old \<mapsto> name))"
proof (rule triple_bind [OF rename_triple [OF laws, of N old p, OF old]], rule triple_sum, goal_cases)
  case (1 r err)
  show ?case
    by (rule triple_pre [where P' = "\<lambda>m. NM v m = N"], rule triple_bind [OF steady_triple [OF st]])
      (auto simp: 1 intro: triple_return)
next
  case (2 r u)
  have i: "(N(old \<mapsto> name)) old = Some name" by simp
  show ?case
  proof (rule triple_pre [where P' = "\<lambda>m. NM v m = N(old \<mapsto> name)"],
      rule triple_bind [OF start_triple [OF laws, of "N(old \<mapsto> name)" old name, OF i]], rule triple_sum, goal_cases)
    case (1 s err)
    show ?case
      by (rule triple_pre [where P' = "\<lambda>m. NM v m = N(old \<mapsto> name)"],
          rule triple_bind [OF steady_triple [OF st]]) (auto intro: triple_return)
  next
    case (2 s u)
    then show ?case by (intro triple_return) simp
  qed (simp add: 2)
qed

lemma rollback_triple:
  assumes laws: "docker_laws e v" and emit: "\<And>ph ms. quiet (emit ph ms)"
    and old: "N old = Some p" and new: "new = '''' \<or> N new \<noteq> None \<and> new \<noteq> old"
  shows "triple (\<lambda>m. NM v m = N) (rollback e new old name emit)
    (\<lambda>r m. \<exists>N'. (N' = N \<or> new \<noteq> '''' \<and> N' = N(new := None)) \<and>
       (case r of
          Inr _ \<Rightarrow> NM v m = N'(old \<mapsto> name) \<and> old \<in> dv_running v (mg_docker m)
        | Inl _ \<Rightarrow> NM v m = N' \<or> NM v m = N'(old \<mapsto> name)))"
proof -
  define Q where "Q = (\<lambda>N' (r :: unit res) m. case r of
      Inr _ \<Rightarrow> NM v m = N'(old \<mapsto> name) \<and> old \<in> dv_running v (mg_docker m)
    | Inl _ \<Rightarrow> NM v m = N' \<or> NM v m = N'(old \<mapsto> name))"
  have st: "steady v (emit ph ms)" for ph ms
    using emit by (rule quiet_steady)
  have rm: "triple (\<lambda>m. NM v m = N)
      (if new \<noteq> '''' then do { _ \<leftarrow> call (ContainerRemove e new); State_Monad.return () } else State_Monad.return ())
      (\<lambda>_ m. NM v m = N \<or> new \<noteq> '''' \<and> NM v m = N(new := None))"
    using new remove_triple [OF laws, of N new]
    by (auto intro!: triple_if triple_return triple_bind intro: triple_post)
  have "triple (\<lambda>m. NM v m = N) (rollback e new old name emit)
      (\<lambda>r m. \<exists>N'. (N' = N \<or> new \<noteq> '''' \<and> N' = N(new := None)) \<and> Q N' r m)"
    unfolding rollback_def
  proof (rule triple_bind [OF steady_triple [OF st]], rule triple_bind [OF rm], rule triple_disj, goal_cases)
    case 1
    show ?case by (rule triple_post [OF rollback_restores [OF laws st, of N old p, OF old]]) (auto simp: Q_def)
  next
    case 2
    show ?case
    proof (rule triple_assume [where C = "new \<noteq> ''''"])
      assume ne: "new \<noteq> ''''"
      have o: "(N(new := None)) old = Some p" using old new ne by auto
      from ne show ?thesis
        by (intro triple_conseq [OF rollback_restores [OF laws st, of "N(new := None)" old p, OF o]]) (auto simp: Q_def)
    qed blast
  qed
  then show ?thesis by (simp add: Q_def)
qed

section \<open>The swap\<close>

text \<open>
  The outcome of a swap of the container \<open>old\<close>, called \<open>name\<close> in the containers \<open>N\<close>.
  On success another container has the name. On failure the old container still exists; it has
  its own name and was started unless the error says that the service is down, in which case it
  may still be parked. Every other container is as before, but for a leftover under the parked
  name.
\<close>

definition is_rolled_back :: "err \<Rightarrow> bool" where
  "is_rolled_back err \<longleftrightarrow> (\<exists>c. err = Wrap ''update failed, rolled back: '' c '''')"

definition is_down :: "err \<Rightarrow> bool" where
  "is_down err \<longleftrightarrow> (\<exists>p c. err = Wrap (''update failed and '' @ p) c '''')"

definition swap_outcome ::
  "'d view \<Rightarrow> (string \<Rightarrow> string option) \<Rightarrow> string \<Rightarrow> string \<Rightarrow> unit res \<Rightarrow> 'd \<Rightarrow> bool" where
  "swap_outcome v N old name r d \<longleftrightarrow>
     (case r of
        Inr _ \<Rightarrow> \<exists>newID. newID \<noteq> old \<and> dv_names v d newID = Some name
      | Inl err \<Rightarrow>
          dv_names v d old \<in> {Some name, Some (name @ oldSuffix)} \<and>
          (\<not> is_down err \<longrightarrow> dv_names v d old = Some name) \<and>
          (is_rolled_back err \<longrightarrow> old \<in> dv_running v d)) \<and>
     (\<forall>i n. N i = Some n \<longrightarrow> i \<noteq> old \<longrightarrow> n \<noteq> name @ oldSuffix \<longrightarrow> dv_names v d i = Some n)"

lemma rolledBack_kind [simp]:
  "is_rolled_back (rolledBack rb name c) \<longleftrightarrow> rb = Inr ()"
  "is_down (rolledBack rb name c) \<longleftrightarrow> rb \<noteq> Inr ()"
  by (auto simp: is_rolled_back_def is_down_def rolledBack_def split: sum.splits)

lemma park_error_kind [simp]:
  "\<not> is_rolled_back (Wrap ''park old container: '' c '''')" "\<not> is_down (Wrap ''park old container: '' c '''')"
  by (auto simp: is_rolled_back_def is_down_def)

text \<open>Clearing a leftover under the parked name touches no other container.\<close>

lemma clear_parked_triple:
  assumes "docker_laws e v" "ContainerRemove e = rmv"
  shows "triple (\<lambda>m. NM v m = N) (call (rmv (name @ oldSuffix)))
    (\<lambda>_ m. NM v m = N \<or> (\<exists>i. N i = Some (name @ oldSuffix) \<and> NM v m = N(i := None)))"
proof (rule triple_call)
  fix m :: "'a mgr" and r d t
  assume N: "NM v m = N" and f: "rmv (name @ oldSuffix) (mg_docker m) = (r, d, t)"
  have "dv_names v (mg_docker m) i = Some (name @ oldSuffix)"
    if "dv_resolve v (mg_docker m) (name @ oldSuffix) = Some i" for i
    using resolve_by_name [OF assms(1) that, of "CHR ''_''"] by (simp add: is_hex_char_def)
  then show "NM v (m\<lparr>mg_docker := d, mg_clock := mg_clock m + t\<rparr>) = N \<or>
      (\<exists>i. N i = Some (name @ oldSuffix) \<and> NM v (m\<lparr>mg_docker := d, mg_clock := mg_clock m + t\<rparr>) = N(i := None))"
    using docker_lawsD(4) [OF assms(1)] f N unfolding remove_law_def assms(2) by fastforce
qed

lemma rollback_outcome:
  assumes laws: "docker_laws e v" and emit: "\<And>ph ms. quiet (emit ph ms)"
    and M: "M old = Some (name @ oldSuffix)" and new: "new = '''' \<or> M new \<noteq> None \<and> new \<noteq> old"
    and N: "\<And>i n. N i = Some n \<Longrightarrow> i \<noteq> old \<Longrightarrow> n \<noteq> name @ oldSuffix \<Longrightarrow> M i = Some n \<and> (new = '''' \<or> i \<noteq> new)"
  shows "triple (\<lambda>m. NM v m = M)
    (do { rb \<leftarrow> rollback e new old name emit; State_Monad.return (Inl (rolledBack rb name c)) })
    (\<lambda>r m. swap_outcome v N old name r (mg_docker m))"
proof (rule triple_bind [OF rollback_triple [OF laws emit, of M old "name @ oldSuffix" new, OF M new]],
    rule triple_return)
  fix a :: "unit res" and m :: "'a mgr"
  assume "\<exists>N'. (N' = M \<or> new \<noteq> [] \<and> N' = M(new := None)) \<and>
      (case a of Inl _ \<Rightarrow> NM v m = N' \<or> NM v m = N'(old \<mapsto> name)
       | Inr _ \<Rightarrow> NM v m = N'(old \<mapsto> name) \<and> old \<in> dv_running v (mg_docker m))"
  then obtain N' where N': "N' = M \<or> new \<noteq> [] \<and> N' = M(new := None)"
    and a: "case a of Inl _ \<Rightarrow> NM v m = N' \<or> NM v m = N'(old \<mapsto> name)
       | Inr _ \<Rightarrow> NM v m = N'(old \<mapsto> name) \<and> old \<in> dv_running v (mg_docker m)"
    by blast
  have "N' old = Some (name @ oldSuffix)"
    using N' M new by auto
  moreover have "N' i = Some n" if "N i = Some n" "i \<noteq> old" "n \<noteq> name @ oldSuffix" for i n
    using N [OF that] N' by auto
  ultimately show "swap_outcome v N old name (Inl (rolledBack a name c)) (mg_docker m)"
    using a by (cases a) (auto simp: swap_outcome_def)
qed

lemma commit_outcome:
  assumes laws: "docker_laws e v" and emit: "\<And>ph ms. quiet (emit ph ms)"
    and M: "M (insp_ID oldInsp) \<noteq> None" "M new = Some name" "new \<noteq> insp_ID oldInsp"
    and N: "\<And>i n. N i = Some n \<Longrightarrow> i \<noteq> insp_ID oldInsp \<Longrightarrow> n \<noteq> name @ oldSuffix \<Longrightarrow> M i = Some n"
  shows "triple (\<lambda>m. NM v m = M) (swap_commit e mc oldInsp new img emit)
    (\<lambda>r m. swap_outcome v N (insp_ID oldInsp) name r (mg_docker m))"
proof -
  let ?old = "insp_ID oldInsp"
  define tail where "tail = do {
     r \<leftarrow> call (ContainerInspect e new);
     _ \<leftarrow> (case r of
            Inr insp \<Rightarrow> do { _ \<leftarrow> recordSpec mc insp; State_Monad.return () }
          | Inl _ \<Rightarrow> State_Monad.return ());
     _ \<leftarrow> call (ImageRemove e (insp_Image oldInsp));
     _ \<leftarrow> setUpdateAvailable (mc_ContainerName mc) False;
     _ \<leftarrow> emit ''updated'' (''Updated to '' @ shortID img);
     State_Monad.return (Inr () :: unit res)
   }"
  have "steady v tail"
    unfolding tail_def using laws emit by (intro steady_rules quiet_steady) auto
  moreover have "triple (\<lambda>_. True) tail (\<lambda>r _. r = Inr ())"
    unfolding tail_def by (intro triple_bind [where R = "\<lambda>_ _. True"] triple_return) (auto simp: triple_def)
  ultimately have t: "triple (\<lambda>m. NM v m = M') tail (\<lambda>r m. NM v m = M' \<and> r = Inr ())" for M'
    by (rule steady_triple_and)
  obtain p where p: "M ?old = Some p" using M(1) by blast
  have fin: "swap_outcome v N ?old name r (mg_docker m)"
    if "r = Inr ()" "NM v m = M \<or> NM v m = M(?old := None)" for r and m :: "'a mgr"
    using that M N by (auto simp: swap_outcome_def)
  show ?thesis
    unfolding swap_commit_def tail_def [symmetric]
  proof (rule triple_bind [OF remove_triple [OF laws, of M ?old p, OF p]], rule triple_disj, goal_cases)
    case 1
    show ?case by (rule triple_post [OF t]) (auto intro: fin)
  next
    case 2
    show ?case by (rule triple_conseq [OF t]) (auto intro: fin)
  qed
qed

text \<open>What is known of the containers once the old one is parked.\<close>

definition parked_names :: "(string \<Rightarrow> string option) \<Rightarrow> string \<Rightarrow> string \<Rightarrow> (string \<Rightarrow> string option) \<Rightarrow> bool" where
  "parked_names N old name M \<longleftrightarrow>
     M old = Some (name @ oldSuffix) \<and>
     (\<forall>i n. N i = Some n \<longrightarrow> i \<noteq> old \<longrightarrow> n \<noteq> name @ oldSuffix \<longrightarrow> M i = Some n)"

lemma swap_undone:
  assumes laws: "docker_laws e v" and emit: "\<And>ph ms. quiet (emit ph ms)" and M: "parked_names N old name M"
    and new: "new = '''' \<and> M' = M \<or> M new = None \<and> M' = M(new \<mapsto> name)"
  shows "triple (\<lambda>m. NM v m = M')
    (do { rb \<leftarrow> rollback e new old name emit; State_Monad.return (Inl (rolledBack rb name c)) })
    (\<lambda>r m. swap_outcome v N old name r (mg_docker m))"
  using laws emit M new by (intro rollback_outcome) (fastforce simp: parked_names_def)+

lemma swap_judged:
  assumes laws: "docker_laws e v" and emit: "\<And>ph ms. quiet (emit ph ms)"
    and M: "parked_names N (insp_ID oldInsp) name M" and new: "M new = None"
  shows "triple (\<lambda>m. NM v m = M(new \<mapsto> name))
    (do {
       _ \<leftarrow> emit ''verifying'' ''Restarting and waiting for it to come up'';
       vr \<leftarrow> verifyHealthy e new;
       case vr of
         Inl verr \<Rightarrow> do {
           rb \<leftarrow> rollback e new (insp_ID oldInsp) name emit;
           State_Monad.return (Inl (rolledBack rb name verr))
         }
       | Inr _ \<Rightarrow> swap_commit e mc oldInsp new img emit
     }) (\<lambda>r m. swap_outcome v N (insp_ID oldInsp) name r (mg_docker m))"
proof -
  let ?old = "insp_ID oldInsp"
  have em: "triple (\<lambda>m. NM v m = M') (emit ph ms) (\<lambda>_ m. NM v m = M')" for M' ph ms
    using emit by (intro steady_triple quiet_steady)
  have ver: "triple (\<lambda>m. NM v m = M') (verifyHealthy e i) (\<lambda>_ m. NM v m = M')" for M' i
    using laws by (intro steady_triple steady_rules)
  have commit: "triple (\<lambda>m. NM v m = M(new \<mapsto> name)) (swap_commit e mc oldInsp new img emit)
      (\<lambda>r m. swap_outcome v N ?old name r (mg_docker m))"
    using laws emit M new by (intro commit_outcome) (fastforce simp: parked_names_def)+
  show ?thesis
    by (rule triple_bind [OF em], rule triple_bind [OF ver], rule triple_sum)
      (rule swap_undone [OF laws emit M], use new in simp, rule commit)
qed

lemma swap_after_park:
  assumes laws: "docker_laws e v" and emit: "\<And>ph ms. quiet (emit ph ms)"
    and M: "parked_names N (insp_ID oldInsp) name M" and nm: "snap_Name snap = name"
  shows "triple (\<lambda>m. NM v m = M)
    (do {
       (newID, rerr) \<leftarrow> recreate e snap ref;
       case rerr of
         Some err \<Rightarrow> do {
           rb \<leftarrow> rollback e newID (insp_ID oldInsp) name emit;
           State_Monad.return (Inl (rolledBack rb name (Wrap ''recreate on new image: '' err '''')))
         }
       | None \<Rightarrow> do {
           _ \<leftarrow> emit ''verifying'' ''Restarting and waiting for it to come up'';
           vr \<leftarrow> verifyHealthy e newID;
           case vr of
             Inl verr \<Rightarrow> do {
               rb \<leftarrow> rollback e newID (insp_ID oldInsp) name emit;
               State_Monad.return (Inl (rolledBack rb name verr))
             }
           | Inr _ \<Rightarrow> swap_commit e mc oldInsp newID img emit
         }
     }) (\<lambda>r m. swap_outcome v N (insp_ID oldInsp) name r (mg_docker m))"
proof (rule triple_bind [OF recreate_triple [OF laws, of M snap ref]], goal_cases)
  case (1 a)
  obtain new er where a: "a = (new, er)" by (cases a)
  note undone = swap_undone [of e v emit N "insp_ID oldInsp" name M, OF laws emit M]
  show ?case
    unfolding a prod.case nm
  proof (rule triple_disj, goal_cases)
    case 1
    show ?case
    proof (cases er)
      case None
      then show ?thesis by (simp add: triple_def)
    next
      case (Some err)
      show ?thesis
        by (rule triple_assume [where C = "new = ''''"]) (auto simp: Some intro!: triple_pre [OF undone])
    qed
  next
    case 2
    show ?case
    proof (rule triple_assume [where C = "M new = None"])
      assume new: "M new = None"
      show ?thesis
        by (rule triple_pre [where P' = "\<lambda>m. NM v m = M(new \<mapsto> name)"], rule triple_option)
          (rule swap_judged [OF laws emit M new], rule undone, use new in simp, blast)
    qed blast
  qed
qed

lemma swap_triple:
  assumes laws: "docker_laws e v" and emit: "\<And>ph ms. quiet (emit ph ms)"
    and old: "N (insp_ID oldInsp) = Some (mc_ContainerName mc)" and nm: "snap_Name snap = mc_ContainerName mc"
  shows "triple (\<lambda>m. NM v m = N) (swap e mc snap ref oldInsp img emit)
    (\<lambda>r m. swap_outcome v N (insp_ID oldInsp) (mc_ContainerName mc) r (mg_docker m))"
proof -
  let ?old = "insp_ID oldInsp" and ?name = "mc_ContainerName mc"
  define N1ok where "N1ok = (\<lambda>N1. N1 = N \<or> (\<exists>i. N i = Some (?name @ oldSuffix) \<and> N1 = N(i := None)))"
  have clear: "triple (\<lambda>m. NM v m = N) (call (ContainerRemove e (?name @ oldSuffix)))
      (\<lambda>_ m. \<exists>N1. NM v m = N1 \<and> N1ok N1)"
    by (rule triple_post [OF clear_parked_triple [OF laws refl]]) (auto simp: N1ok_def)
  have N1_old: "N1 ?old = Some ?name" if "N1ok N1" for N1
    using that old by (auto simp: N1ok_def)
  have N1_frame: "N1 i = Some n" if "N1ok N1" "N i = Some n" "n \<noteq> ?name @ oldSuffix" for N1 i n
    using that by (auto simp: N1ok_def)
  have parked: "parked_names N ?old ?name (N1(?old \<mapsto> ?name @ oldSuffix))" if "N1ok N1" for N1
    using that old by (auto simp: N1ok_def parked_names_def split: if_splits)
  show ?thesis
    unfolding swap_def Let_def
  proof (rule triple_bind [OF clear], rule triple_ex, goal_cases)
    case (1 u N1)
    show ?case
    proof (rule triple_assume [where C = "N1ok N1"])
      assume ok: "N1ok N1"
      let ?M = "N1(?old \<mapsto> ?name @ oldSuffix)"
      have stop: "triple (\<lambda>m. NM v m = ?M)
          (case insp_State oldInsp of
             Some st \<Rightarrow> if st_Running st
               then do { _ \<leftarrow> call (ContainerStop e ?old); State_Monad.return () } else State_Monad.return ()
           | None \<Rightarrow> State_Monad.return ()) (\<lambda>_ m. NM v m = ?M)"
        using laws by (intro steady_triple steady_rules)
      have em: "triple (\<lambda>m. NM v m = ?M) (emit ph ms) (\<lambda>_ m. NM v m = ?M)" for ph ms
        using emit by (intro steady_triple quiet_steady)
      note rest = triple_bind [OF stop triple_bind [OF em swap_after_park [OF laws emit parked [OF ok] nm]]]
      show ?thesis
      proof (rule triple_pre [where P' = "\<lambda>m. NM v m = N1"],
          rule triple_bind [OF rename_triple [OF laws, of N1 ?old ?name, OF N1_old [OF ok]]],
          rule triple_sum, goal_cases)
        case (1 p err)
        then show ?case
          using ok by (intro triple_return) (auto simp: swap_outcome_def N1_old N1_frame)
      next
        case (2 p u)
        then show ?case by (intro triple_pre [OF rest]) simp
      qed blast
    qed blast
  qed
qed

section \<open>The whole update of one container\<close>

lemma inspect_triple:
  assumes laws: "docker_laws e v" and old: "N old = Some name" "N name = None"
  shows "triple (\<lambda>m. NM v m = N) (call (ContainerInspect e name))
    (\<lambda>r m. NM v m = N \<and> (\<forall>insp. r = Inr insp \<longrightarrow> insp_ID insp = old \<and> TrimPrefix (insp_Name insp) ''/'' = name))"
proof (rule triple_call)
  fix m :: "'a mgr" and r d t
  assume N: "NM v m = N" and f: "ContainerInspect e name (mg_docker m) = (r, d, t)"
  have "dv_names v d = N"
    using docker_lawsD(2) [OF laws] N f unfolding steady_law_def keeps_def by (metis fst_conv snd_conv)
  moreover have "dv_resolve v (mg_docker m) name = Some old"
    using resolve_name [OF laws, of "mg_docker m" old name] N old by simp
  moreover have "dv_resolve v (mg_docker m) name = Some (insp_ID insp) \<and>
      NM v m (insp_ID insp) = Some (TrimPrefix (insp_Name insp) ''/'')" if "r = Inr insp" for insp
    using docker_lawsD(7) [OF laws] f that unfolding inspect_law_def by blast
  ultimately show "NM v (m\<lparr>mg_docker := d, mg_clock := mg_clock m + t\<rparr>) = N \<and>
      (\<forall>insp. r = Inr insp \<longrightarrow> insp_ID insp = old \<and> TrimPrefix (insp_Name insp) ''/'' = name)"
    using N old(1) by fastforce
qed

text \<open>The snapshot an update works from carries the name of the container it updates.\<close>

definition snapshot_named :: "managed_container \<Rightarrow> bool" where
  "snapshot_named mc \<longleftrightarrow> (\<forall>snap. mc_SnapshotJSON mc = JsonOf snap \<longrightarrow> snap_Name snap = mc_ContainerName mc)"

lemma refresh_result:
  assumes "snapshot_named mc" "TrimPrefix (insp_Name insp) ''/'' = mc_ContainerName mc"
  shows "triple (\<lambda>_. True) (refreshIfRecreated mc insp)
    (\<lambda>r _. \<forall>mc' snap. r = Inr (mc', snap) \<longrightarrow> mc_ContainerName mc' = mc_ContainerName mc \<and> snap_Name snap = mc_ContainerName mc)"
  using assms
  by (auto simp: triple_def refreshIfRecreated_def recordSpec_def parseSnapshot_def snapshotFromInspect_def
      snapshot_named_def Let_def split: sum.splits snapshot_json.splits prod.splits if_splits)

text \<open>Handing off adds the helper container and touches no other.\<close>

definition others_kept :: "string \<Rightarrow> (string \<Rightarrow> string option) \<Rightarrow> (string \<Rightarrow> string option) \<Rightarrow> bool" where
  "others_kept jid N M \<longleftrightarrow> (\<forall>i n. N i = Some n \<longrightarrow> n \<noteq> updaterName jid \<longrightarrow> M i = Some n)"

lemma handOff_clears:
  assumes laws: "docker_laws e v"
  shows "triple (\<lambda>m. others_kept jid N (NM v m)) (call (ContainerRemove e (updaterName jid)))
    (\<lambda>_ m. others_kept jid N (NM v m))"
proof (rule triple_call)
  fix m :: "'a mgr" and r d t
  assume Q: "others_kept jid N (NM v m)" and f: "ContainerRemove e (updaterName jid) (mg_docker m) = (r, d, t)"
  have "NM v m i = Some (updaterName jid)" if "dv_resolve v (mg_docker m) (updaterName jid) = Some i" for i
    using resolve_by_name [OF laws that, of "CHR ''v''"] by (simp add: is_hex_char_def updaterName_def)
  with Q show "others_kept jid N (NM v (m\<lparr>mg_docker := d, mg_clock := mg_clock m + t\<rparr>))"
    using docker_lawsD(4) [OF laws] f unfolding remove_law_def others_kept_def by fastforce
qed

lemma handOff_starts:
  assumes laws: "docker_laws e v" and emit: "\<And>ph ms. quiet (emit ph ms)"
    and M: "M = M0(new \<mapsto> updaterName jid)" "M0 new = None" "others_kept jid N M0"
  shows "triple (\<lambda>m. NM v m = M)
     (do {
       s \<leftarrow> call (ContainerStart e new);
       case s of
         Inl err \<Rightarrow> do {
           _ \<leftarrow> call (ContainerRemove e new);
           State_Monad.return (Inl (Wrap ''start updater: '' err ''''))
         }
       | Inr _ \<Rightarrow> do {
           _ \<leftarrow> emit ''handoff'' ''Veery is restarting to finish its own update'';
           State_Monad.return (Inr ())
         }
     }) (\<lambda>_ m. others_kept jid N (NM v m))"
proof -
  have n: "M new = Some (updaterName jid)" using M by simp
  have st: "steady v (emit ph ms)" for ph ms using emit by (rule quiet_steady)
  have "N new = Some n \<Longrightarrow> n = updaterName jid" for n
    using M(2,3) by (metis option.distinct(1) others_kept_def)
  then have Q: "others_kept jid N M" "others_kept jid N (M(new := None))" using M by (auto simp: others_kept_def)
  show ?thesis
  proof (rule triple_bind [OF steady_triple [OF steady_calls(3) [OF laws]]], rule triple_sum, goal_cases)
    case (1 s err)
    show ?case
      by (rule triple_bind [OF remove_triple [OF laws, of M new, OF n]], rule triple_return)
        (use Q in auto)
  next
    case (2 s u)
    show ?case
      by (rule triple_bind [OF steady_triple [OF st]], rule triple_return) (use Q in auto)
  qed
qed

lemma handOff_triple:
  assumes laws: "docker_laws e v" and emit: "\<And>ph ms. quiet (emit ph ms)"
  shows "triple (\<lambda>m. NM v m = N) (handOff e insp jid emit)
    (\<lambda>_ m. others_kept jid N (NM v m))"
proof -
  let ?Q = "others_kept jid N"
  have Q0: "?Q N" by (simp add: others_kept_def)
  show ?thesis
    unfolding handOff_def
  proof (rule triple_bind [OF steady_triple [OF steady_basic(4)]], rule triple_bind [where R = "\<lambda>_ m. ?Q (NM v m)"],
      goal_cases)
    case (1 a)
    show ?case by (rule triple_pre [OF handOff_clears [OF laws]]) (simp add: Q0)
  next
    case (2 a b)
    show ?case
    proof (rule triple_pre [where P' = "\<lambda>m. \<exists>M. ?Q M \<and> NM v m = M"], rule triple_ex, goal_cases)
      case (1 M)
      show ?case
      proof (rule triple_assume [where C = "?Q M"])
        assume QM: "?Q M"
        show ?thesis
        proof (rule triple_pre [where P' = "\<lambda>m. NM v m = M"], rule triple_bind [OF create_triple [OF laws, of M]],
            rule triple_sum, goal_cases)
          case (1 r err)
          then show ?case using QM by (intro triple_return) simp
        next
          case (2 r new)
          show ?case
          proof (rule triple_assume [where C = "M new = None"])
            assume "M new = None"
            show ?thesis
              by (rule triple_pre [OF handOff_starts [OF laws emit refl \<open>M new = None\<close> QM]]) (simp add: 2)
          qed (simp add: 2)
        qed blast
      qed blast
    qed blast
  qed
qed

lemma triple_with_lock:
  assumes "triple (\<lambda>m. P (mg_docker m)) fn (\<lambda>r m. Q r (mg_docker m))"
  shows "triple (\<lambda>m. P (mg_docker m)) (with_lock name fn) (\<lambda>r m. Q r (mg_docker m))"
proof -
  have q: "triple (\<lambda>m. R (mg_docker m)) f (\<lambda>_ m. R (mg_docker m))" if "quiet f" for R and f :: "('a, 'c) op"
    using that by (auto simp: triple_def quiet_def split: prod.splits) (metis snd_conv)
  show ?thesis
    unfolding with_lock_def
    by (rule triple_bind [OF q [OF quiet_ops(7)]], rule triple_bind [OF assms],
        rule triple_bind [OF q [OF quiet_ops(8)]], rule triple_return)
qed

text \<open>
  The outcome of \<^verbatim>\<open>doUpdate\<close>: what a swap promises, and when nothing was updated the
  containers are as before but for a helper.
\<close>

definition update_outcome ::
  "'d view \<Rightarrow> (string \<Rightarrow> string option) \<Rightarrow> string \<Rightarrow> string \<Rightarrow> string \<Rightarrow> bool res \<Rightarrow> 'd \<Rightarrow> bool" where
  "update_outcome v N old name jid r d \<longleftrightarrow>
     (r = Inr True \<longrightarrow> (\<exists>newID. newID \<noteq> old \<and> dv_names v d newID = Some name)) \<and>
     (r = Inr False \<longrightarrow> dv_names v d = N) \<and>
     (\<forall>err. r = Inl err \<longrightarrow>
        dv_names v d old \<in> {Some name, Some (name @ oldSuffix)} \<and>
        (\<not> is_down err \<longrightarrow> dv_names v d old = Some name)) \<and>
     (\<forall>i n. N i = Some n \<longrightarrow> i \<noteq> old \<longrightarrow> n \<notin> {name @ oldSuffix, updaterName jid} \<longrightarrow> dv_names v d i = Some n)"

lemma update_outcome_same:
  assumes "N old = Some name" "dv_names v d = N" "r \<noteq> Inr True"
  shows "update_outcome v N old name jid r d"
  using assms by (auto simp: update_outcome_def)

lemma update_outcome_swap:
  assumes "swap_outcome v N old name s d"
  shows "update_outcome v N old name jid (case s of Inl err \<Rightarrow> Inl err | Inr _ \<Rightarrow> Inr True) d"
  using assms by (cases s) (auto simp: update_outcome_def swap_outcome_def)

lemma do_update_swapped:
  assumes laws: "docker_laws e v" and emit: "\<And>ph ms. quiet (emit ph ms)" and old: "N old = Some name"
    and mc: "insp_ID insp = old" "mc_ContainerName mc = name" "snap_Name sn = name"
  shows "triple (\<lambda>m. NM v m = N)
      (do { s \<leftarrow> swap e mc sn ref insp img emit;
            State_Monad.return (case s of Inl err \<Rightarrow> Inl err | Inr _ \<Rightarrow> Inr True) })
      (\<lambda>r m. update_outcome v N old name jid r (mg_docker m))"
  by (rule triple_bind [OF swap_triple [OF laws emit]])
    (auto simp: old mc intro!: triple_return update_outcome_swap)

lemma do_update_handed:
  assumes laws: "docker_laws e v" and emit: "\<And>ph ms. quiet (emit ph ms)" and old: "N old = Some name"
    and jid: "name \<noteq> updaterName jid"
  shows "triple (\<lambda>m. NM v m = N)
      (do { h \<leftarrow> handOff e insp jid emit;
            State_Monad.return (case h of Inl err \<Rightarrow> Inl err | Inr _ \<Rightarrow> Inl ErrHandedOff) })
      (\<lambda>r m. update_outcome v N old name jid r (mg_docker m))"
  by (rule triple_bind [OF handOff_triple [OF laws emit]], rule triple_return)
    (use old jid in \<open>auto simp: update_outcome_def others_kept_def split: sum.splits\<close>)

lemma do_update_triple:
  assumes laws: "docker_laws e v" and emit: "\<And>ph ms. quiet (emit ph ms)"
    and old: "N old = Some (mc_ContainerName mc)" "N (mc_ContainerName mc) = None"
    and snap: "snapshot_named mc" and jid: "mc_ContainerName mc \<noteq> updaterName jid"
  shows "triple (\<lambda>m. NM v m = N) (do_update_locked e mc jid emit)
    (\<lambda>r m. update_outcome v N old (mc_ContainerName mc) jid r (mg_docker m))"
proof -
  let ?name = "mc_ContainerName mc"
  have same: "triple (\<lambda>m. NM v m = N) (State_Monad.return r) (\<lambda>r m. update_outcome v N old ?name jid r (mg_docker m))"
    if "r \<noteq> Inr True" for r
    using that old(1) by (intro triple_return update_outcome_same) auto
  have em: "triple (\<lambda>m. NM v m = N) (emit ph ms) (\<lambda>_ m. NM v m = N)" for ph ms
    using emit by (intro steady_triple quiet_steady)
  show ?thesis
    unfolding do_update_locked_def Let_def
  proof (rule triple_bind [OF inspect_triple [OF laws old]], rule triple_sum, goal_cases)
    case (1 r err)
    show ?case by (rule triple_pre [OF same]) auto
  next
    case (2 r insp)
    show ?case
    proof (rule triple_assume [where C = "insp_ID insp = old \<and> TrimPrefix (insp_Name insp) ''/'' = ?name"])
      assume i: "insp_ID insp = old \<and> TrimPrefix (insp_Name insp) ''/'' = ?name"
      have refresh: "triple (\<lambda>m. NM v m = N) (refreshIfRecreated mc insp)
          (\<lambda>r m. NM v m = N \<and> (\<forall>mc' sn. r = Inr (mc', sn) \<longrightarrow> mc_ContainerName mc' = ?name \<and> snap_Name sn = ?name))"
        using i by (intro steady_triple_and steady_rules refresh_result snap) simp
      show ?thesis
      proof (rule triple_pre [where P' = "\<lambda>m. NM v m = N"], rule triple_bind [OF refresh], rule triple_sum, goal_cases)
        case (1 f err)
        show ?case by (rule triple_pre [OF same]) auto
      next
        case (2 f ms)
        obtain mc' sn where ms: "ms = (mc', sn)" by (cases ms)
        show ?case
        proof (rule triple_assume [where C = "mc_ContainerName mc' = ?name \<and> snap_Name sn = ?name"])
          assume n: "mc_ContainerName mc' = ?name \<and> snap_Name sn = ?name"
          have pull: "triple (\<lambda>m. NM v m = N) (pullImage e ref emit) (\<lambda>_ m. NM v m = N)" for ref
            using laws emit by (intro steady_triple steady_rules)
          have self: "triple (\<lambda>m. NM v m = N) (IsSelf e cid) (\<lambda>_ m. NM v m = N)" for cid
            using laws by (intro steady_triple steady_rules)
          have flag: "triple (\<lambda>m. NM v m = N) (setUpdateAvailable nm b) (\<lambda>_ m. NM v m = N)" for nm b
            by (intro steady_triple steady_rules)
          note swapped = do_update_swapped [of e v emit N old ?name, OF laws emit old(1)]
            and handed = do_update_handed [of e v emit N old ?name, OF laws emit old(1) jid]
          show ?thesis
            unfolding ms prod.case using i n
            by (intro triple_pre [where P = "\<lambda>m. NM v m = N \<and> _ m" and P' = "\<lambda>m. NM v m = N"] triple_if
                triple_bind [OF pull] triple_sum triple_bind [OF em] triple_bind [OF flag] triple_bind [OF self]
                same swapped handed) auto
        qed (simp add: 2 ms)
      qed auto
    qed (simp add: 2)
  qed
qed

section \<open>Recovery\<close>

text \<open>
  What recovery does to a container found parked: afterwards it exists (with its own name or
  still parked), or the replacement has the name; with no replacement and no error it has its
  name back. No other container is touched.
\<close>

definition recover_outcome ::
  "'d view \<Rightarrow> (string \<Rightarrow> string option) \<Rightarrow> string \<Rightarrow> string \<Rightarrow> string option \<Rightarrow> unit res \<Rightarrow> 'd \<Rightarrow> bool" where
  "recover_outcome v N orig pid fid r d \<longleftrightarrow>
     (dv_names v d pid \<in> {Some orig, Some (orig @ oldSuffix)} \<or> (\<exists>f. fid = Some f \<and> dv_names v d f = Some orig)) \<and>
     (fid = None \<longrightarrow> r = Inr () \<longrightarrow> dv_names v d pid = Some orig) \<and>
     (\<forall>i. i \<noteq> pid \<longrightarrow> fid \<noteq> Some i \<longrightarrow> dv_names v d i = N i)"

text \<open>
  The parked container is given up only for a replacement that is accepted: the process that runs
  the recovery, or a container that has just passed the check a completed update makes.
\<close>

definition parked_kept :: "'d view \<Rightarrow> string \<Rightarrow> string \<Rightarrow> 'd \<Rightarrow> bool" where
  "parked_kept v orig pid d \<longleftrightarrow> dv_names v d pid \<in> {Some orig, Some (orig @ oldSuffix)}"

definition replacement_accepted :: "'d docker_env \<Rightarrow> 'd mgr \<Rightarrow> summary option \<Rightarrow> bool" where
  "replacement_accepted e m fresh \<longleftrightarrow>
     (case (fresh, run_state (SelfContainerID e) m) of
        (None, _) \<Rightarrow> False
      | (Some f, self, m1) \<Rightarrow> sum_ID f = self \<or> fst (run_state (verifyHealthy e (sum_ID f)) m1) = Inr ())"

lemmas recover_defs = recover_outcome_def parked_kept_def

lemma recover_drop_parked:
  assumes "docker_laws e v" "N pid = Some (orig @ oldSuffix)" "N fid = Some orig"
  shows "triple (\<lambda>m. NM v m = N) (call (ContainerRemove e pid))
    (\<lambda>r m. recover_outcome v N orig pid (Some fid) r (mg_docker m))"
  by (rule triple_post [OF remove_triple [OF assms(1), of N pid, OF assms(2)]])
    (use assms in \<open>auto simp: recover_outcome_def split: if_splits\<close>)

lemma recover_take_name:
  assumes "docker_laws e v" "M pid = Some (orig @ oldSuffix)" "\<And>i. i \<noteq> pid \<Longrightarrow> fid \<noteq> Some i \<Longrightarrow> M i = N i"
  shows "triple (\<lambda>m. NM v m = M) (call (ContainerRename e pid orig))
    (\<lambda>r m. recover_outcome v N orig pid fid r (mg_docker m) \<and> parked_kept v orig pid (mg_docker m))"
  by (rule triple_post [OF rename_triple [OF assms(1), of M pid, OF assms(2)]])
    (use assms in \<open>auto simp: recover_defs split: sum.splits\<close>)

lemma recover_restore:
  assumes laws: "docker_laws e v" and p: "N pid = Some (orig @ oldSuffix)"
  shows "triple (\<lambda>m. NM v m = N)
    (do {
       r \<leftarrow> call (ContainerRename e pid orig);
       case r of
         Inl err \<Rightarrow> State_Monad.return (Inl (Wrap ''restore name: '' err ''''))
       | Inr _ \<Rightarrow> call (ContainerStart e pid)
     }) (\<lambda>r m. recover_outcome v N orig pid None r (mg_docker m) \<and> parked_kept v orig pid (mg_docker m))"
proof (rule triple_bind [OF rename_triple [OF laws, of N pid, OF p]], rule triple_sum, goal_cases)
  case (1 r err)
  then show ?case using p by (intro triple_return) (auto simp: recover_defs)
next
  case (2 r u)
  have "triple (\<lambda>m. NM v m = N(pid \<mapsto> orig)) (call (ContainerStart e pid)) (\<lambda>_ m. NM v m = N(pid \<mapsto> orig))"
    using laws by (intro steady_triple steady_rules)
  then show ?case
    by (rule triple_conseq) (auto simp: 2 recover_defs)
qed

lemma recover_roll:
  assumes laws: "docker_laws e v" and p: "N pid = Some (orig @ oldSuffix)" and f: "N fid = Some orig"
  shows "triple (\<lambda>m. NM v m = N)
    (do { _ \<leftarrow> rollback e fid pid orig quiet_emit; State_Monad.return (Inr ()) })
    (\<lambda>r m. recover_outcome v N orig pid (Some fid) r (mg_docker m) \<and> parked_kept v orig pid (mg_docker m))"
proof -
  have ne: "fid \<noteq> pid" using p f by auto
  then have new: "fid = '''' \<or> N fid \<noteq> None \<and> fid \<noteq> pid" using f by simp
  note rb = rollback_triple [OF laws quiet_db_ops(5), of N pid "orig @ oldSuffix" fid, OF p new]
  show ?thesis
  proof (rule triple_bind [OF rb], rule triple_return, goal_cases)
    case (1 a m)
    then show ?case using p ne by (cases a) (auto simp: recover_defs)
  qed
qed

lemma recover_own:
  assumes laws: "docker_laws e v" and p: "N pid = Some (orig @ oldSuffix)" and f: "N (sum_ID g) = Some orig"
  shows "triple (\<lambda>m. NM v m = N)
    (do {
       ok \<leftarrow> (if sum_State g = ''running'' then healthy e (sum_ID g) else State_Monad.return False);
       if ok then State_Monad.return (Inr ())
       else do {
         r \<leftarrow> call (ContainerRemove e (sum_ID g));
         case r of
           Inl err \<Rightarrow> State_Monad.return (Inl (Wrap ''remove failed replacement: '' err ''''))
         | Inr _ \<Rightarrow> call (ContainerRename e pid orig)
       }
     }) (\<lambda>r m. recover_outcome v N orig pid (Some (sum_ID g)) r (mg_docker m) \<and> parked_kept v orig pid (mg_docker m))"
proof (rule triple_bind [where R = "\<lambda>_ m. NM v m = N"], goal_cases)
  case 1
  show ?case unfolding healthy_def using laws by (intro steady_triple steady_rules)
next
  case (2 ok)
  have ne: "sum_ID g \<noteq> pid" using p f by auto
  show ?case
  proof (rule triple_if, goal_cases)
    case 1
    show ?case using p by (intro triple_return) (auto simp: recover_defs)
  next
    case 2
    show ?case
    proof (rule triple_bind [OF remove_triple [OF laws, of N "sum_ID g", OF f]], rule triple_sum, goal_cases)
      case (1 r err)
      then show ?case using p ne by (intro triple_return) (auto simp: recover_defs)
    next
      case (2 r u)
      show ?case
        by (rule triple_pre [OF recover_take_name [of e v "N(sum_ID g := None)"]]) (use 2 laws p ne in auto)
    qed
  qed
qed

lemma reconcileOne_outcome:
  assumes laws: "docker_laws e v" and p: "NM v m (sum_ID parked) = Some (orig @ oldSuffix)"
    and f: "\<And>f. fresh = Some f \<Longrightarrow> NM v m (sum_ID f) = Some orig"
    and run: "run_state (reconcileOne e orig parked fresh) m = (r, m')"
  shows "recover_outcome v (NM v m) orig (sum_ID parked) (map_option sum_ID fresh) r (mg_docker m') \<and>
    (parked_kept v orig (sum_ID parked) (mg_docker m') \<or> replacement_accepted e m fresh)"
proof -
  let ?p = "sum_ID parked" and ?N = "NM v m"
  obtain self m1 where self: "run_state (SelfContainerID e) m = (self, m1)" by fastforce
  have m1: "NM v m1 = ?N"
    using tripleD [OF steady_triple [OF steady_SelfContainerID(1) [OF laws]] refl self] .
  show ?thesis
  proof (cases fresh)
    case None
    then show ?thesis
      using run self tripleD [OF recover_take_name [of e v ?N ?p orig None ?N, OF laws p refl] m1, of r m']
        tripleD [OF recover_restore [of e v ?N ?p orig, OF laws p] m1, of r m']
      by (auto simp: reconcileOne_def split: if_splits)
  next
    case (Some g)
    note g = f [OF Some]
    obtain vr m2 where ver: "run_state (verifyHealthy e (sum_ID g)) m1 = (vr, m2)" by fastforce
    have m2: "NM v m2 = ?N"
      using tripleD [OF steady_triple [OF steady_verifyHealthy [OF laws]] m1 ver] .
    consider "sum_ID g = self" | "sum_ID g \<noteq> self" "?p = self" | "sum_ID g \<noteq> self" "?p \<noteq> self" by blast
    then show ?thesis
    proof cases
      case 1
      then show ?thesis
        using run self Some tripleD [OF recover_drop_parked [of e v ?N ?p orig, OF laws p g] m1, of r m']
        by (auto simp: reconcileOne_def replacement_accepted_def)
    next
      case 2
      then show ?thesis
        using run self Some tripleD [OF recover_own [of e v ?N ?p orig, OF laws p g] m1, of r m']
        by (auto simp: reconcileOne_def)
    next
      case 3
      then show ?thesis
        using run self Some ver tripleD [OF recover_roll [of e v ?N ?p orig, OF laws p g] m2, of r m']
          tripleD [OF recover_drop_parked [of e v ?N ?p orig, OF laws p g] m2, of r m']
        by (cases vr) (auto simp: reconcileOne_def replacement_accepted_def)
    qed
  qed
qed

end
