(* ===== verification/Docker_Sim.thy ===== *)
theory Docker_Sim
  imports Docker_Laws
begin

text \<open>
  A small daemon that obeys the laws: it keeps the containers as an association list of ids and
  names, the ids that run, and a supply of ids for new containers. Every container reports itself
  healthy, the registry always has a newer image, and calls take no time. It shows that the laws
  can hold, and the theorems about containers are applied to it.
\<close>

record sim =
  sim_names :: "(string \<times> string) list"
  sim_running :: "string list"
  sim_ids :: "string list"

definition sim_wf :: "sim \<Rightarrow> bool" where
  "sim_wf d \<longleftrightarrow> distinct (map fst (sim_names d)) \<and> distinct (map snd (sim_names d)) \<and>
     list_all (\<lambda>(i, _). length i = 64 \<and> list_all is_hex_char i) (sim_names d)"

definition sim_view_names :: "sim \<Rightarrow> string \<Rightarrow> string option" where
  "sim_view_names d = (if sim_wf d then map_of (sim_names d) else (\<lambda>_. None))"

definition sim_resolve :: "sim \<Rightarrow> string \<Rightarrow> string option" where
  "sim_resolve d r =
     (if \<not> sim_wf d then None
      else if map_of (sim_names d) r \<noteq> None then Some r
      else map_of (map (\<lambda>(i, n). (n, i)) (sim_names d)) r)"

text \<open>A change of the container list is refused when the result would not be well formed.\<close>

definition sim_change :: "sim \<Rightarrow> 'a \<Rightarrow> sim \<Rightarrow> 'a res \<times> sim \<times> nat" where
  "sim_change d x d' = (if sim_wf d' then (Inr x, d', 0) else (Inl (Errorf ''conflict''), d, 0))"

definition on_ref :: "(string \<Rightarrow> sim \<Rightarrow> 'a res \<times> sim \<times> nat) \<Rightarrow> string \<Rightarrow> sim \<Rightarrow> 'a res \<times> sim \<times> nat" where
  "on_ref f ref d = (case sim_resolve d ref of
     None \<Rightarrow> (Inl (Errorf ''no such container''), d, 0) | Some i \<Rightarrow> f i d)"

definition sim_inspect :: "string \<Rightarrow> sim \<Rightarrow> inspect" where
  "sim_inspect i d =
     \<lparr>insp_ID = i, insp_Name = CHR ''/'' # (case map_of (sim_names d) i of Some n \<Rightarrow> n | None \<Rightarrow> ''''),
      insp_Image = ''sha256:old'',
      insp_State = Some \<lparr>st_Running = True, st_Restarting = False, st_Dead = False, st_ExitCode = 0,
        st_Health = Some ''healthy''\<rparr>,
      insp_Config = \<lparr>cfg_Image = ''app:1'', cfg_Labels = [], cfg_Entrypoint = [], cfg_Cmd = [], cfg_Env = [],
        cfg_User = '''', cfg_WorkingDir = '''', cfg_Healthcheck = None, cfg_rest = ''''\<rparr>,
      insp_HostConfig = \<lparr>hc_Binds = [], hc_Mounts = [], hc_VolumesFrom = [], hc_GroupAdd = [],
        hc_Privileged = False, hc_RestartPolicy = '''', hc_rest = ''''\<rparr>,
      insp_Networks = [], insp_RestartCount = 0\<rparr>"

definition sim_summary :: "sim \<Rightarrow> string \<times> string \<Rightarrow> summary" where
  "sim_summary d c =
     \<lparr>sum_ID = fst c, sum_Names = [CHR ''/'' # snd c], sum_Image = ''app:1'', sum_Labels = [],
      sum_State = (if fst c \<in> set (sim_running d) then ''running'' else ''exited''), sum_Status = '''', sum_Created = 0\<rparr>"

definition sim_env :: "sim docker_env" where
  "sim_env =
     \<lparr>ContainerList = (\<lambda>_ d. (Inr (map (sim_summary d) (sim_names d)), d, 0)),
      ContainerInspect = on_ref (\<lambda>i d. (Inr (sim_inspect i d), d, 0)),
      ContainerCreate = (\<lambda>_ _ _ n d. case sim_ids d of
          [] \<Rightarrow> (Inl (Errorf ''no space''), d, 0)
        | i # is \<Rightarrow>
            if map_of (sim_names d) i = None \<and> n \<notin> snd ` set (sim_names d) \<and> sim_wf d
            then sim_change d i (d\<lparr>sim_names := AList.update i n (sim_names d), sim_ids := is\<rparr>)
            else (Inl (Errorf ''conflict''), d, 0)),
      ContainerStart = on_ref (\<lambda>i d. (Inr (), d\<lparr>sim_running := i # sim_running d\<rparr>, 0)),
      ContainerStop = on_ref (\<lambda>i d. (Inr (), d\<lparr>sim_running := removeAll i (sim_running d)\<rparr>, 0)),
      ContainerRestart = on_ref (\<lambda>i d. (Inr (), d\<lparr>sim_running := i # sim_running d\<rparr>, 0)),
      ContainerRemove = on_ref (\<lambda>i d. sim_change d () (d\<lparr>sim_names := AList.delete i (sim_names d)\<rparr>)),
      ContainerRename = (\<lambda>ref n. on_ref (\<lambda>i d. sim_change d () (d\<lparr>sim_names := AList.update i n (sim_names d)\<rparr>)) ref),
      ContainerWait = on_ref (\<lambda>i d. (Inr (), d, 0)),
      NetworkConnect = (\<lambda>_ _ _ d. (Inr (), d, 0)),
      ImagePull = (\<lambda>_ d. (Inr ([], None), d, 0)),
      ImageInspect = (\<lambda>_ d. (Inr \<lparr>img_ID = ''sha256:new'', img_RepoDigests = []\<rparr>, d, 0)),
      ImageRemove = (\<lambda>_ d. (Inr (), d, 0)),
      DistributionInspect = (\<lambda>_ d. (Inr '''', d, 0)),
      PingDaemon = (\<lambda>d. (Inr (), d, 0)),
      ctx_done = (\<lambda>_. False),
      oversleep = (\<lambda>_ d. ((), d, 0)),
      rand_id = (\<lambda>d. (''job'', d, 0)),
      env_container = '''', proc_files = [], env_hostname = Inl (Errorf ''no hostname'')\<rparr>"

definition sim_view :: "sim view" where
  "sim_view = \<lparr>dv_names = sim_view_names, dv_running = (\<lambda>d. set (sim_running d)), dv_resolve = sim_resolve\<rparr>"

lemma sim_wf_frame [simp]:
  "sim_wf (d\<lparr>sim_running := r\<rparr>) = sim_wf d" "sim_wf (d\<lparr>sim_ids := is\<rparr>) = sim_wf d"
  by (simp_all add: sim_wf_def)

lemma sim_names_frame [simp]: "sim_view_names (d\<lparr>sim_running := r\<rparr>) = sim_view_names d"
  by (simp add: sim_view_names_def)

lemma sim_resolve_Some:
  assumes "sim_resolve d r = Some i"
  shows "sim_wf d" "sim_view_names d i \<noteq> None" "i = r \<or> sim_view_names d i = Some r"
proof -
  show wf: "sim_wf d" using assms by (auto simp: sim_resolve_def split: if_splits)
  have "i = r \<and> sim_view_names d i \<noteq> None \<or> sim_view_names d i = Some r"
  proof (cases "map_of (sim_names d) r")
    case None
    with assms wf have "(r, i) \<in> set (map (\<lambda>(i, n). (n, i)) (sim_names d))"
      by (auto simp: sim_resolve_def dest: map_of_SomeD)
    then have "(i, r) \<in> set (sim_names d)" by auto
    with wf show ?thesis by (simp add: sim_view_names_def sim_wf_def)
  qed (use assms wf in \<open>simp add: sim_resolve_def sim_view_names_def\<close>)
  then show "sim_view_names d i \<noteq> None" "i = r \<or> sim_view_names d i = Some r" by auto
qed

lemma sim_refs: "refs_law sim_view"
proof -
  have hex: "length i = 64 \<and> list_all is_hex_char i" if "sim_view_names d i = Some n" for d i n
    using that by (auto simp: sim_view_names_def sim_wf_def list_all_iff split: if_splits dest!: map_of_SomeD)
  have inj: "i = j" if "sim_view_names d i = Some n" "sim_view_names d j = Some n" for d i j n
  proof -
    have "(i, n) \<in> set (sim_names d)" "(j, n) \<in> set (sim_names d)" "distinct (map snd (sim_names d))"
      using that by (auto simp: sim_view_names_def sim_wf_def split: if_splits dest: map_of_SomeD)
    then show ?thesis by (metis (no_types, lifting) distinct_map inj_onD prod.inject snd_conv)
  qed
  have full: "sim_resolve d i = Some i" if "sim_view_names d i = Some n" for d i n
    using that by (auto simp: sim_view_names_def sim_resolve_def split: if_splits)
  have byname: "sim_resolve d n = Some i" if i: "sim_view_names d i = Some n" "sim_view_names d n = None" for d i n
  proof -
    have "sim_wf d" "(i, n) \<in> set (sim_names d)"
      using i by (auto simp: sim_view_names_def split: if_splits dest: map_of_SomeD)
    moreover from this have "map_of (map (\<lambda>(i, n). (n, i)) (sim_names d)) n = Some i"
      by (intro map_of_is_SomeI) (force simp: sim_wf_def comp_def case_prod_unfold)+
    ultimately show ?thesis
      using i by (simp add: sim_resolve_def sim_view_names_def)
  qed
  show ?thesis
    unfolding refs_law_def sim_view_def view.simps
    by (intro conjI allI impI) (blast dest: hex inj full byname sim_resolve_Some)+
qed

lemma sim_steady: "steady_law sim_env sim_view"
  by (auto simp: steady_law_def keeps_def sim_env_def sim_view_def on_ref_def split: option.splits)

lemma sim_changes:
  "rename_law sim_env sim_view" "remove_law sim_env sim_view" "create_law sim_env sim_view"
proof -
  have fresh: "n \<notin> snd ` set xs \<Longrightarrow> map_of xs a \<noteq> Some n" for n :: string and xs :: "(string \<times> string) list" and a
    by (metis image_eqI map_of_SomeD snd_conv)
  show "rename_law sim_env sim_view"
    using sim_resolve_Some(1)
    by (fastforce simp: rename_law_def sim_env_def sim_view_def on_ref_def sim_change_def sim_view_names_def
        split: option.splits if_splits)
  show "remove_law sim_env sim_view"
    using sim_resolve_Some(1)
    by (fastforce simp: remove_law_def sim_env_def sim_view_def on_ref_def sim_change_def sim_view_names_def
        split: option.splits if_splits)
  show "create_law sim_env sim_view"
    by (auto simp: create_law_def sim_env_def sim_view_def sim_change_def sim_view_names_def ran_def fresh
        split: list.splits if_splits)
qed

lemma sim_start: "start_law sim_env sim_view"
  by (auto simp: start_law_def sim_env_def sim_view_def on_ref_def split: option.splits)

lemma sim_inspects: "inspect_law sim_env sim_view"
proof -
  have "sim_view_names d i = Some (TrimPrefix (insp_Name (sim_inspect i d)) ''/'')"
    if "sim_resolve d ref = Some i" for d ref i
    using sim_resolve_Some [OF that]
    by (auto simp: sim_inspect_def sim_view_names_def TrimPrefix_def HasPrefix_def split: if_splits)
  then show ?thesis
    by (auto simp: inspect_law_def sim_env_def sim_view_def on_ref_def sim_inspect_def split: option.splits)
qed

lemma sim_laws: "docker_laws sim_env sim_view"
  by (simp add: docker_laws_def sim_refs sim_steady sim_changes sim_start sim_inspects)

text \<open>A manager on a host with one container, called app.\<close>

definition sim_id :: "char \<Rightarrow> string" where
  "sim_id c = replicate 64 c"

definition app_row :: managed_container where
  "app_row = \<lparr>mc_ID = ''m1'', mc_StackID = ''app'', mc_ContainerName = ''app'', mc_SnapshotJSON = NotJson '''',
     mc_ContainerID = '''', mc_AutoUpdate = False, mc_CreatedAt = 1\<rparr>"

definition sim_host :: sim where
  "sim_host = \<lparr>sim_names = [(sim_id CHR ''a'', ''app'')], sim_running = [sim_id CHR ''a''], sim_ids = [sim_id CHR ''b'']\<rparr>"

definition sim_mgr :: "sim mgr" where
  "sim_mgr = NewManager (empty_store\<lparr>stacks := [\<lparr>sk_ID = ''app'', sk_Name = ''app''\<rparr>], managed := [app_row]\<rparr>)
     sim_host 0 False"

lemma sim_host_wf: "sim_wf sim_host"
  by (simp add: sim_wf_def sim_host_def sim_id_def is_hex_char_def list_all_iff)

end
