(* ===== verification/Docker_Theorems.thy ===== *)
theory Docker_Theorems
  imports Docker_Safety Docker_Sim
begin

text \<open>
  The properties of the Docker manager: the update is a transaction, recovery keeps the service,
  verification accepts only what it has seen running, notifications follow transitions, jobs are
  settled.
\<close>

section \<open>Updates are transactions\<close>

text \<open>
  \<^bold>\<open>C1\<close>: A swap never loses the service. Whatever calls fail: if \<^verbatim>\<open>swap\<close> reports success,
  a different container has the old container's name; if it reports an error, the old container
  still exists, and it has its own name unless the error says that the service is down; after a
  clean rollback it has also been started again. No container besides a leftover under the parked
  name is touched.
\<close>

theorem swap_transactional:
  assumes laws: "docker_laws e v" and quiet: "\<forall>ph ms. quiet (emit ph ms)"
    and old: "dv_names v (mg_docker m) (insp_ID oldInsp) = Some (mc_ContainerName mc)"
    and snap: "snap_Name snap = mc_ContainerName mc"
    and run: "run_state (swap e mc snap ref oldInsp img emit) m = (r, m')"
  shows "swap_outcome v (dv_names v (mg_docker m)) (insp_ID oldInsp) (mc_ContainerName mc) r (mg_docker m')"
proof -
  have "quiet (emit ph ms)" for ph ms using quiet by blast
  note swap_triple [OF laws this, of "NM v m" oldInsp mc snap ref img, OF old snap]
  then show ?thesis by (rule tripleD [OF _ refl run])
qed

lemma sim_names_at: "dv_names sim_view (mg_docker sim_mgr) = [sim_id CHR ''a'' \<mapsto> ''app'']"
  using sim_host_wf
  by (simp add: sim_view_def sim_view_names_def sim_mgr_def NewManager_def) (simp add: sim_host_def)

lemma sim_id_not_app: "sim_id c \<noteq> ''app''"
  by (auto simp: sim_id_def dest: arg_cong [where f = length])

theorem swap_transactional_witness:
  "\<exists>r m'. run_state (swap sim_env app_row (snapshotFromInspect (sim_inspect (sim_id CHR ''a'') sim_host)) ''app:1''
       (sim_inspect (sim_id CHR ''a'') sim_host) ''sha256:new'' (apply_emit ''job'')) sim_mgr = (r, m') \<and>
     swap_outcome sim_view [sim_id CHR ''a'' \<mapsto> ''app''] (sim_id CHR ''a'') ''app'' r (mg_docker m')"
proof -
  let ?i = "sim_inspect (sim_id CHR ''a'') sim_host"
  obtain r m' where run: "run_state (swap sim_env app_row (snapshotFromInspect ?i) ''app:1'' ?i ''sha256:new''
      (apply_emit ''job'')) sim_mgr = (r, m')" by (meson surj_pair)
  have "swap_outcome sim_view (dv_names sim_view (mg_docker sim_mgr)) (insp_ID ?i) (mc_ContainerName app_row) r (mg_docker m')"
    by (rule swap_transactional [OF sim_laws _ _ _ run])
      (auto simp: quiet_db_ops sim_names_at app_row_def sim_inspect_def sim_host_def snapshotFromInspect_def
        TrimPrefix_def HasPrefix_def)
  with run show ?thesis
    by (auto simp: sim_names_at app_row_def sim_inspect_def)
qed

text \<open>
  \<^bold>\<open>C2\<close>: The whole of \<^verbatim>\<open>doUpdate\<close> (inspect, refresh of the recorded spec, pull, hand-off
  or swap) keeps that promise for the container it was asked to update: when it reports an
  update another container has the name; when it reports that there was nothing to update, every
  container is as before; when it fails, the old container is still there, under its own name
  unless the error says the service is down. Other containers are untouched, but for leftovers
  under the parked name or the helper's name.
\<close>

theorem update_transactional:
  assumes laws: "docker_laws e v" and old: "dv_names v (mg_docker m) old = Some (mc_ContainerName mc)"
    and name: "dv_names v (mg_docker m) (mc_ContainerName mc) = None" "mc_ContainerName mc \<noteq> updaterName jid"
    and snap: "snapshot_named mc"
    and run: "run_state (doUpdate e mc jid (record_emit jid (job_emit jid ''update'' (mc_ContainerName mc)))) m = (r, m')"
  shows "update_outcome v (dv_names v (mg_docker m)) old (mc_ContainerName mc) jid r (mg_docker m')"
proof -
  have "quiet (record_emit jid (job_emit jid ''update'' (mc_ContainerName mc)) ph ms)" for ph ms
    by (intro quiet_rules)
  from do_update_triple [OF laws this old name(1) snap name(2)]
  have "triple (\<lambda>x. NM v x = NM v m)
      (doUpdate e mc jid (record_emit jid (job_emit jid ''update'' (mc_ContainerName mc))))
      (\<lambda>r x. update_outcome v (NM v m) old (mc_ContainerName mc) jid r (mg_docker x))"
    unfolding doUpdate_def
    using triple_with_lock [where P = "\<lambda>d. dv_names v d = NM v m"] by fast
  then show ?thesis by (rule tripleD [OF _ refl run])
qed

theorem update_transactional_witness:
  "\<exists>r m'. run_state (doUpdate sim_env app_row ''job'' (record_emit ''job'' (job_emit ''job'' ''update'' ''app''))) sim_mgr
       = (r, m') \<and>
     update_outcome sim_view [sim_id CHR ''a'' \<mapsto> ''app''] (sim_id CHR ''a'') ''app'' ''job'' r (mg_docker m')"
proof -
  have n: "mc_ContainerName app_row = ''app''" by (simp add: app_row_def)
  obtain r m' where run: "run_state (doUpdate sim_env app_row ''job''
      (record_emit ''job'' (job_emit ''job'' ''update'' (mc_ContainerName app_row)))) sim_mgr = (r, m')" by (meson surj_pair)
  have "update_outcome sim_view (dv_names sim_view (mg_docker sim_mgr)) (sim_id CHR ''a'') (mc_ContainerName app_row)
      ''job'' r (mg_docker m')"
    by (rule update_transactional [OF sim_laws _ _ _ _ run])
      (auto simp: sim_names_at n sim_id_not_app [symmetric] updaterName_def snapshot_named_def,
       simp add: app_row_def)
  with run show ?thesis by (auto simp: sim_names_at n)
qed

section \<open>Recovery after a crash\<close>

text \<open>
  \<^bold>\<open>C3\<close>: Recovery never loses the service. For a container found parked after an interrupted
  swap, with or without a replacement under the original name, \<^verbatim>\<open>reconcileOne\<close> ends with the
  parked container still on the host (under its own name, or still parked) or with the
  replacement holding the name; it never removes both. The parked container is given up only for
  a replacement that is the process running the recovery or that has just passed
  \<^verbatim>\<open>verifyHealthy\<close>. When there is no replacement and no error is reported, the parked container
  has its name back. No other container is touched.
\<close>

theorem recovery_keeps_service:
  assumes laws: "docker_laws e v"
    and parked: "dv_names v (mg_docker m) (sum_ID parked) = Some (orig @ oldSuffix)"
    and fresh: "\<forall>f. fresh = Some f \<longrightarrow> dv_names v (mg_docker m) (sum_ID f) = Some orig"
    and run: "run_state (reconcileOne e orig parked fresh) m = (r, m')"
  shows "recover_outcome v (dv_names v (mg_docker m)) orig (sum_ID parked) (map_option sum_ID fresh) r (mg_docker m') \<and>
    (parked_kept v orig (sum_ID parked) (mg_docker m') \<or> replacement_accepted e m fresh)"
  using fresh by (intro reconcileOne_outcome [OF laws parked _ run]) blast

definition sim_parked :: "sim mgr" where
  "sim_parked = sim_mgr\<lparr>mg_docker := sim_host\<lparr>sim_names := [(sim_id CHR ''a'', ''app__veery_old'')]\<rparr>\<rparr>"

theorem recovery_keeps_service_witness:
  "\<exists>r m'. run_state (reconcileOne sim_env ''app'' (sim_summary sim_host (sim_id CHR ''a'', ''app__veery_old'')) None) sim_parked
       = (r, m') \<and>
     recover_outcome sim_view [sim_id CHR ''a'' \<mapsto> ''app__veery_old''] ''app'' (sim_id CHR ''a'') None r (mg_docker m') \<and>
     parked_kept sim_view ''app'' (sim_id CHR ''a'') (mg_docker m')"
proof -
  let ?c = "sim_summary sim_host (sim_id CHR ''a'', ''app__veery_old'')"
  have N: "dv_names sim_view (mg_docker sim_parked) = [sim_id CHR ''a'' \<mapsto> ''app__veery_old'']"
    by (simp add: sim_view_def sim_view_names_def sim_parked_def sim_wf_def sim_id_def is_hex_char_def list_all_iff)
  obtain r m' where run: "run_state (reconcileOne sim_env ''app'' ?c None) sim_parked = (r, m')" by (meson surj_pair)
  have "recover_outcome sim_view (dv_names sim_view (mg_docker sim_parked)) ''app'' (sum_ID ?c)
      (map_option sum_ID (None :: summary option)) r (mg_docker m') \<and>
      (parked_kept sim_view ''app'' (sum_ID ?c) (mg_docker m') \<or> replacement_accepted sim_env sim_parked None)"
    by (rule recovery_keeps_service [OF sim_laws _ _ run]) (auto simp: N sim_summary_def)
  with run show ?thesis by (auto simp: N sim_summary_def replacement_accepted_def)
qed

section \<open>Verification\<close>

lemma verify_state_ok: "verify_state st = Some (Inr ()) \<Longrightarrow> st_Running st \<and> st_Health st = Some ''healthy''"
  by (auto simp: verify_state_def split: if_splits)

lemma verify_deadline_ok:
  "verify_deadline st = Inr () \<Longrightarrow> st_Running st \<and> (st_Health st = Some ''healthy'' \<or> st_Health st = None)"
  by (auto simp: verify_deadline_def split: if_splits)

lemma verify_loop_accepts:
  "verify_loop e cid dl m = (Inr (), m') \<Longrightarrow>
   \<exists>m1 insp st. run_state (call (ContainerInspect e cid)) m1 = (Inr insp, m') \<and> insp_State insp = Some st \<and>
     st_Running st \<and> (st_Health st = Some ''healthy'' \<or> st_Health st = None \<and> mg_clock m' > dl)"
proof (induction e cid dl m rule: verify_loop.induct)
  case (1 e cid dl m)
  obtain r m1 where i: "run_state (call (ContainerInspect e cid)) m = (r, m1)"
    by (cases "run_state (call (ContainerInspect e cid)) m")
  obtain u m2 where sl: "run_state (sleep e second) m1 = (u, m2)"
    by (cases "run_state (sleep e second) m1")
  from 1(2) have v: "(case r of
      Inl err \<Rightarrow> (Inl (Wrap ''inspect new container: '' err ''''), m1)
    | Inr insp \<Rightarrow> (case insp_State insp of
        None \<Rightarrow> (Inl (Errorf ''new container has no state''), m1)
      | Some st \<Rightarrow> (case verify_state st of
          Some out \<Rightarrow> (out, m1)
        | None \<Rightarrow> if mg_clock m1 > dl then (verify_deadline st, m1)
            else if ctx_done e (mg_docker m1) then (Inl ErrCtxDone, m1)
            else if ctx_done e (mg_docker m2) then (Inl ErrCtxDone, m2)
            else verify_loop e cid dl m2))) = (Inr (), m')"
    by (subst (asm) verify_loop.simps) (simp add: i sl del: run_call cong: sum.case_cong option.case_cong if_cong)
  then obtain insp st where r: "r = Inr insp" and st: "insp_State insp = Some st"
    by (auto split: sum.splits option.splits)
  show ?case
  proof (cases "verify_state st")
    case (Some out)
    with v r st have "out = Inr ()" "m' = m1" by auto
    with Some i r st verify_state_ok show ?thesis by metis
  next
    case None
    show ?thesis
    proof (cases "mg_clock m1 > dl")
      case True
      with v r st None have "verify_deadline st = Inr ()" "m' = m1" by auto
      with True i r st verify_deadline_ok show ?thesis by metis
    next
      case False
      with v r st None have nd: "\<not> ctx_done e (mg_docker m1)" "\<not> ctx_done e (mg_docker m2)"
        and rec: "verify_loop e cid dl m2 = (Inr (), m')"
        by (auto split: if_splits)
      show ?thesis
        by (rule 1(1) [OF i [symmetric] r st None False nd(1) sl [symmetric] nd(2) rec])
    qed
  qed
qed

text \<open>
  \<^bold>\<open>C7\<close>: Verification accepts a new container only on what it has seen. When
  \<^verbatim>\<open>verifyHealthy\<close> returns without error, its last inspection showed the container running and
  either healthy, or without a health check and with the whole window of 15 seconds over.
\<close>

theorem verify_accepts_only_running:
  assumes "run_state (verifyHealthy e cid) m = (Inr (), m')"
  shows "\<exists>m1 insp st. run_state (call (ContainerInspect e cid)) m1 = (Inr insp, m') \<and> insp_State insp = Some st \<and>
     st_Running st \<and>
     (st_Health st = Some ''healthy'' \<or> st_Health st = None \<and> mg_clock m' > mg_clock m + 15000000000)"
  using verify_loop_accepts [of e cid "mg_clock m + verifyTimeout" m m'] assms
  by (simp add: verifyHealthy_def verifyTimeout_def second_def)

lemma sim_inspect_run:
  "run_state (call (ContainerInspect sim_env (sim_id CHR ''a''))) sim_mgr =
     (Inr (sim_inspect (sim_id CHR ''a'') sim_host), sim_mgr)"
  using sim_host_wf
  by (simp add: sim_env_def on_ref_def sim_resolve_def sim_mgr_def NewManager_def) (simp add: sim_host_def)

theorem verify_accepts_only_running_witness:
  "\<exists>m1 insp st. run_state (call (ContainerInspect sim_env (sim_id CHR ''a''))) m1 = (Inr insp, sim_mgr) \<and>
     insp_State insp = Some st \<and> st_Running st \<and>
     (st_Health st = Some ''healthy'' \<or> st_Health st = None \<and> mg_clock sim_mgr > mg_clock sim_mgr + 15000000000)"
proof (rule verify_accepts_only_running)
  show "run_state (verifyHealthy sim_env (sim_id CHR ''a'')) sim_mgr = (Inr (), sim_mgr)"
    unfolding verifyHealthy_def state.sel
    by (subst verify_loop.simps)
      (simp add: sim_inspect_run del: run_call, simp add: sim_inspect_def verify_state_def)
qed

definition crash_looping :: "inspect \<Rightarrow> bool" where
  "crash_looping insp \<longleftrightarrow> (case insp_State insp of
     None \<Rightarrow> False | Some st \<Rightarrow> st_Restarting st \<and> st_Running st \<and> st_Health st = None)"

lemma verify_loop_crash_loop:
  assumes "\<forall>d. \<exists>insp d' t. ContainerInspect e cid d = (Inr insp, d', t) \<and> crash_looping insp" "\<forall>d. \<not> ctx_done e d"
  shows "fst (verify_loop e cid dl m) = Inr ()"
  using assms
proof (induction e cid dl m rule: verify_loop.induct)
  case (1 e cid dl m)
  obtain insp m1 where i: "run_state (call (ContainerInspect e cid)) m = (Inr insp, m1)" and c: "crash_looping insp"
    using 1(2) [rule_format, of "mg_docker m"] by auto
  then obtain st where st: "insp_State insp = Some st" "verify_state st = None" "verify_deadline st = Inr ()"
    by (auto simp: crash_looping_def verify_state_def verify_deadline_def split: option.splits)
  obtain u m2 where sl: "run_state (sleep e second) m1 = (u, m2)"
    by (cases "run_state (sleep e second) m1")
  show ?case
    using 1(1) [OF i [symmetric] refl st(1,2) _ _ sl [symmetric]] 1(2,3)
    by (subst verify_loop.simps) (auto simp: i st sl simp del: run_call)
qed

text \<open>
  \<^bold>\<open>C36\<close>: A crash loop is accepted. A new container without a health check that every
  inspection finds restarting (the daemon reports a container between two runs of its restart
  policy as both running and restarting) passes verification once the window is over, although
  the comment of \<^verbatim>\<open>verifyHealthy\<close> says that crash-looping is an error.
\<close>

theorem verify_accepts_crash_loop:
  assumes "\<forall>d. \<exists>insp d' t. ContainerInspect e cid d = (Inr insp, d', t) \<and> crash_looping insp" "\<forall>d. \<not> ctx_done e d"
  shows "fst (run_state (verifyHealthy e cid) m) = Inr ()"
  using verify_loop_crash_loop [OF assms] by (simp add: verifyHealthy_def)

definition looping_inspect :: inspect where
  "looping_inspect = (sim_inspect '''' sim_host)\<lparr>insp_State := Some \<lparr>st_Running = True, st_Restarting = True,
     st_Dead = False, st_ExitCode = 1, st_Health = None\<rparr>\<rparr>"

theorem verify_accepts_crash_loop_witness:
  "fst (run_state (verifyHealthy (sim_env\<lparr>ContainerInspect := (\<lambda>_ d. (Inr looping_inspect, d, 0))\<rparr>) ''x'') sim_mgr) = Inr ()"
  by (rule verify_accepts_crash_loop) (simp_all add: looping_inspect_def crash_looping_def sim_env_def)

end
