(* ===== verification/Docker_Reports.thy ===== *)
theory Docker_Reports
  imports Docker_Sim
begin

text \<open>
  What the manager reports: the status of a stack, notifications about status changes, the outcome
  of jobs; and what it records: specs of containers, networks of a recreated container.
\<close>

section \<open>Stack statuses\<close>

lemma count_status_all: "count_status x cs = length cs \<longleftrightarrow> (\<forall>c \<in> set cs. c_Status c = x)"
  by (induction cs) (auto simp: count_status_def le_imp_less_Suc less_imp_neq)

lemma count_status_pos: "count_status x cs > 0 \<longleftrightarrow> (\<exists>c \<in> set cs. c_Status c = x)"
  by (auto simp: count_status_def filter_empty_conv)

text \<open>
  The status of a stack. Running means that there is a container and every one runs;
  missing, that there is one and every one is missing; trouble is reported exactly when some
  container needs attention or is missing while not all of them are missing; updating, when
  otherwise one is being updated. The containers of the stack are kept, sorted by name.
\<close>

theorem finalizeStack_status:
  fixes st :: stack
  defines "cs \<equiv> set (stack_Containers st)" and "out \<equiv> finalizeStack st"
  shows "mset (stack_Containers out) = mset (stack_Containers st) \<and> sorted (map c_Name (stack_Containers out)) \<and>
    (stack_Status out = StatusRunning \<longleftrightarrow> cs \<noteq> {} \<and> (\<forall>c \<in> cs. c_Status c = StatusRunning)) \<and>
    (stack_Status out = StatusMissing \<longleftrightarrow> cs \<noteq> {} \<and> (\<forall>c \<in> cs. c_Status c = StatusMissing)) \<and>
    (stack_Status out = StatusNeedsAttention \<longleftrightarrow>
       (\<exists>c \<in> cs. c_Status c = StatusNeedsAttention) \<or>
       (\<exists>c \<in> cs. c_Status c = StatusMissing) \<and> (\<exists>c \<in> cs. c_Status c \<noteq> StatusMissing)) \<and>
    (stack_Status out = StatusUpdating \<longleftrightarrow>
       (\<exists>c \<in> cs. c_Status c = StatusUpdating) \<and> (\<forall>c \<in> cs. c_Status c \<notin> {StatusNeedsAttention, StatusMissing})) \<and>
    stack_Managed out = (\<exists>c \<in> cs. c_Managed c)"
proof -
  let ?xs = "sort_key c_Name (stack_Containers st)"
  have sort_nil: "?xs = [] \<longleftrightarrow> stack_Containers st = []"
    by (metis length_0_conv length_sort)
  have s: "stack_Status out =
      (if cs \<noteq> {} \<and> (\<forall>c \<in> cs. c_Status c = StatusMissing) then StatusMissing
       else if (\<exists>c \<in> cs. c_Status c = StatusNeedsAttention) \<or> (\<exists>c \<in> cs. c_Status c = StatusMissing) then StatusNeedsAttention
       else if \<exists>c \<in> cs. c_Status c = StatusUpdating then StatusUpdating
       else if cs \<noteq> {} \<and> (\<forall>c \<in> cs. c_Status c = StatusRunning) then StatusRunning else StatusStopped)"
    using count_status_all [of _ ?xs] sort_nil
    by (simp add: out_def finalizeStack_def Let_def count_status_pos cs_def)
  have r: "mset (stack_Containers out) = mset (stack_Containers st)" "sorted (map c_Name (stack_Containers out))"
    "stack_Managed out = (\<exists>c \<in> cs. c_Managed c)"
    by (simp_all add: out_def finalizeStack_def Let_def cs_def list_ex_iff)
  show ?thesis
    unfolding s using r by (auto split: if_splits)
qed

definition sample_stack :: stack where
  "sample_stack = \<lparr>stack_ID = ''s'', stack_Name = ''s'', stack_Managed = True, stack_Status = StatusStopped,
     stack_Containers = [missing_container [''web''] \<lparr>mc_ID = ''m'', mc_StackID = ''s'', mc_ContainerName = ''web'',
       mc_SnapshotJSON = NotJson '''', mc_ContainerID = '''', mc_AutoUpdate = False, mc_CreatedAt = 0\<rparr>]\<rparr>"

theorem finalizeStack_status_witness: "stack_Status (finalizeStack sample_stack) = StatusUpdating"
  using finalizeStack_status [of sample_stack] by (simp add: sample_stack_def missing_container_def Let_def)

section \<open>Status notifications\<close>

text \<open>The notifications about one stack, as a list.\<close>

definition stack_news :: "(string \<times> container_status) list \<Rightarrow> stack \<Rightarrow> out list" where
  "stack_news prevs st =
     (let moved = filter (transition prevs) (stack_Containers st);
          gone = filter (\<lambda>c. c_Status c = StatusMissing) moved;
          changed = filter (\<lambda>c. c_Status c \<noteq> StatusMissing) moved
      in concat (map (\<lambda>c. case statusMessage c (zero_status prevs (c_ContainerName c)) of (title, body) \<Rightarrow>
             if title \<noteq> '''' then [Notified EventContainerStatus title body
               \<lparr>meta_ContainerName = c_ContainerName c, meta_StackID = stack_ID st\<rparr>] else []) changed) @
         map (\<lambda>msg. Notified EventContainerMissing (msg_title msg) (msg_body msg)
               \<lparr>meta_ContainerName = msg_containerName msg, meta_StackID = stack_ID st\<rparr>)
           (removalMessages st gone (length (filter c_Managed (stack_Containers st)))))"

definition tell :: "out list \<Rightarrow> 'd mgr \<Rightarrow> 'd mgr" where
  "tell xs m = (if mg_notif m then m\<lparr>mg_outs := mg_outs m @ xs\<rparr> else m)"

lemma tell_tell [simp]: "tell ys (tell xs m) = tell (xs @ ys) m"
  by (simp add: tell_def)

lemma tell_Nil [simp]: "tell [] m = m"
  by (simp add: tell_def)

lemma run_notify: "run_state (notify ev t b meta) m = ((), tell [Notified ev t b meta] m)"
  by (simp add: notify_def tell_def)

lemma run_for_each_tell:
  assumes "\<And>x m. run_state (f x) m = ((), tell (g x) m)"
  shows "run_state (for_each f xs) m = ((), tell (concat (map g xs)) m)"
  by (induction xs arbitrary: m) (simp_all add: assms)

lemma run_note_stack: "run_state (note_stack prevs st) m = ((), tell (stack_news prevs st) m)"
proof -
  have 1: "run_state (for_each (\<lambda>c. case statusMessage c (zero_status prevs (c_ContainerName c)) of
            (title, body) \<Rightarrow>
              if title \<noteq> ''''
              then notify EventContainerStatus title body
                     \<lparr>meta_ContainerName = c_ContainerName c, meta_StackID = stack_ID st\<rparr>
              else State_Monad.return ()) xs) m =
      ((), tell (concat (map (\<lambda>c. case statusMessage c (zero_status prevs (c_ContainerName c)) of (title, body) \<Rightarrow>
             if title \<noteq> '''' then [Notified EventContainerStatus title body
               \<lparr>meta_ContainerName = c_ContainerName c, meta_StackID = stack_ID st\<rparr>] else []) xs)) m)" for xs m
    by (rule run_for_each_tell) (auto simp: run_notify split: prod.splits)
  have 2: "run_state (for_each (\<lambda>msg. notify EventContainerMissing (msg_title msg) (msg_body msg)
            \<lparr>meta_ContainerName = msg_containerName msg, meta_StackID = stack_ID st\<rparr>) ms) m =
      ((), tell (map (\<lambda>msg. Notified EventContainerMissing (msg_title msg) (msg_body msg)
            \<lparr>meta_ContainerName = msg_containerName msg, meta_StackID = stack_ID st\<rparr>) ms) m)" for ms m
    using run_for_each_tell [of "\<lambda>msg. notify EventContainerMissing (msg_title msg) (msg_body msg)
        \<lparr>meta_ContainerName = msg_containerName msg, meta_StackID = stack_ID st\<rparr>"
        "\<lambda>msg. [Notified EventContainerMissing (msg_title msg) (msg_body msg)
        \<lparr>meta_ContainerName = msg_containerName msg, meta_StackID = stack_ID st\<rparr>]" ms m]
    by (simp add: run_notify concat_map_singleton)
  show ?thesis
    unfolding note_stack_def Let_def by (simp add: 1 2 stack_news_def)
qed

lemma run_note_stacks: "run_state (for_each (note_stack prevs) sts) m = ((), tell (concat (map (stack_news prevs) sts)) m)"
  by (rule run_for_each_tell) (rule run_note_stack)

text \<open>What the manager remembers of the last sweep: in memory, or recorded by the last run.\<close>

definition baseline_of :: "'d mgr \<Rightarrow> (string \<times> container_status) list option" where
  "baseline_of m =
     (if mg_statusBaseline m then Some (mg_lastStatus m)
      else case LoadNotifiedStatuses (mg_st m) of Inr saved \<Rightarrow> Some saved | Inl _ \<Rightarrow> None)"

lemma distinct_seen: "distinct (map fst (seen_statuses sts))"
proof -
  have "distinct (map fst (fold (\<lambda>c m. AList.update (c_ContainerName c) (c_Status c) m) cs m))"
    if "distinct (map fst m)" for cs :: "container list" and m
    using that by (induction cs arbitrary: m) (simp_all add: distinct_update)
  then show ?thesis by (simp add: seen_statuses_def)
qed

lemma sameStatuses_maps:
  assumes "sameStatuses a b" "distinct (map fst a)" "distinct (map fst b)"
  shows "map_of a = map_of b"
proof (rule map_of_eqI)
  have sub: "set a \<subseteq> set b"
    using assms(1) by (auto simp: sameStatuses_def list_all_iff dest: map_of_SomeD)
  moreover have "card (set a) = card (set b)"
    using assms by (metis distinct_card distinct_map sameStatuses_def)
  ultimately have eq: "set a = set b" by (simp add: card_subset_eq)
  then show "set (map fst a) = set (map fst b)" by simp
  show "\<forall>x \<in> set (map fst a). map_of a x = map_of b x"
    using eq assms(2,3) by (metis map_of_inject_set)
qed

lemma run_noteStatuses:
  assumes "baseline_of m = Some prevs"
  shows "\<exists>m'. run_state (noteStatuses sts) m = ((), m') \<and>
    mg_outs m' = mg_outs (tell (concat (map (stack_news prevs) sts)) m) \<and>
    mg_lastStatus m' = (if sameStatuses prevs (seen_statuses sts) then prevs else seen_statuses sts)"
  using assms
  by (auto simp: noteStatuses_def status_baseline_def baseline_of_def run_note_stacks tell_def Let_def
      split: if_splits sum.splits prod.splits)

text \<open>Every notification about a stack is about one of its containers that changed.\<close>

lemma news_sound:
  assumes "Notified ev title body meta \<in> set (stack_news prevs st)"
  shows "meta_StackID meta = stack_ID st \<and> (\<exists>c \<in> set (stack_Containers st). transition prevs c \<and>
    (ev = EventContainerStatus \<and> c_Status c \<noteq> StatusMissing \<and> meta_ContainerName meta = c_ContainerName c \<or>
     ev = EventContainerMissing \<and> c_Status c = StatusMissing))"
proof -
  let ?moved = "filter (transition prevs) (stack_Containers st)"
  have gone: "\<exists>c \<in> set ?moved. c_Status c = StatusMissing"
    if "removalMessages st (filter (\<lambda>c. c_Status c = StatusMissing) ?moved) n \<noteq> []" for n
    using that by (auto simp: removalMessages_def filter_empty_conv split: if_splits)
  show ?thesis
    using assms gone by (fastforce simp: stack_news_def Let_def split: if_splits prod.splits)
qed

lemma news_complete:
  assumes "c \<in> set (stack_Containers st)" "transition prevs c" "c_Status c \<noteq> StatusMissing"
  shows "\<exists>title body. Notified EventContainerStatus title body
    \<lparr>meta_ContainerName = c_ContainerName c, meta_StackID = stack_ID st\<rparr> \<in> set (stack_news prevs st)"
proof -
  obtain title body where m: "statusMessage c (zero_status prevs (c_ContainerName c)) = (title, body)"
    by (cases "statusMessage c (zero_status prevs (c_ContainerName c))")
  have "title \<noteq> ''''"
    using m assms(2,3) by (auto simp: statusMessage_def transition_def split: container_status.splits option.splits)
  with m assms have "Notified EventContainerStatus title body
      \<lparr>meta_ContainerName = c_ContainerName c, meta_StackID = stack_ID st\<rparr> \<in> set (stack_news prevs st)"
    by (force simp: stack_news_def Let_def)
  then show ?thesis by blast
qed



section \<open>Invariants of updates\<close>

abbreviation inv :: "('d mgr \<Rightarrow> bool) \<Rightarrow> ('d, 'a) op \<Rightarrow> bool" where
  "inv I f \<equiv> triple I f (\<lambda>_. I)"

named_theorems inv_rules \<open>operations that keep an invariant\<close>

lemma inv_basic [inv_rules]:
  "inv I (State_Monad.return a)" "inv I (db_read g)" "inv I (reads h)" "inv I now_unix" "inv I now_ns"
  by (simp_all add: triple_def now_unix_def now_ns_def)

lemma inv_bind [inv_rules]: "inv I f \<Longrightarrow> (\<And>a. inv I (g a)) \<Longrightarrow> inv I (State_Monad.bind f g)"
  by (rule triple_bind)

lemma inv_modify: "(\<And>m. I m \<Longrightarrow> I (f m)) \<Longrightarrow> inv I (modify f)"
  by (simp add: triple_def)

lemma inv_branches [inv_rules]:
  "inv I f \<Longrightarrow> inv I g \<Longrightarrow> inv I (if b then f else g)"
  "(\<And>x. inv I (h x)) \<Longrightarrow> (\<And>y. inv I (k y)) \<Longrightarrow> inv I (case s of Inl x \<Rightarrow> h x | Inr y \<Rightarrow> k y)"
  "inv I f \<Longrightarrow> (\<And>x. inv I (h x)) \<Longrightarrow> inv I (case opt of None \<Rightarrow> f | Some x \<Rightarrow> h x)"
  "(\<And>x y. inv I (p x y)) \<Longrightarrow> inv I (case pr of (x, y) \<Rightarrow> p x y)"
  by (auto split: sum.splits option.splits prod.splits)

lemma inv_for_each [inv_rules]: "(\<And>x. inv I (f x)) \<Longrightarrow> inv I (for_each f xs)"
  by (rule triple_for_each)

text \<open>
  A property of the manager that survives the daemon, the clock, the locks, the flags and the
  outputs, progress of the job itself, and writes that do not change which statements fail,
  survives an update of a container.
\<close>

locale update_invariant =
  fixes I :: "'d mgr \<Rightarrow> bool" and jid :: string
  assumes I_docker: "I m \<Longrightarrow> I (m\<lparr>mg_docker := d, mg_clock := t\<rparr>)"
    and I_clock: "I m \<Longrightarrow> I (m\<lparr>mg_clock := t\<rparr>)"
    and I_locks: "I m \<Longrightarrow> I (m\<lparr>mg_locks := l\<rparr>)"
    and I_avail: "I m \<Longrightarrow> I (m\<lparr>mg_updateAvail := a\<rparr>)"
    and I_self: "I m \<Longrightarrow> I (m\<lparr>mg_selfID := i\<rparr>)"
    and I_outs: "I m \<Longrightarrow> I (m\<lparr>mg_outs := xs\<rparr>)"
    and I_job: "I m \<Longrightarrow> I (m\<lparr>mg_activeJobs := AList.update jid j (mg_activeJobs m)\<rparr>)"
    and I_st: "I m \<Longrightarrow> db_fault s = db_fault (mg_st m) \<Longrightarrow> I (m\<lparr>mg_st := s\<rparr>)"
begin

lemma inv_call: "inv I (call f)"
  by (auto simp: triple_def I_docker split: prod.splits)

lemma inv_sleep: "inv I (sleep e t)"
  by (auto simp: triple_def sleep_def I_docker split: prod.splits)

lemma inv_db: "(\<And>s. db_fault (snd (g s)) = db_fault s) \<Longrightarrow> inv I (db g)"
  by (auto simp: triple_def split: prod.splits) (metis I_st snd_conv)

lemma inv_ops:
  "inv I (publish j)" "inv I (notify ev ti bo me)" "inv I (setUpdateAvailable nm b)" "inv I (Lock nm)" "inv I (Unlock nm)"
  by (auto simp: publish_def notify_def setUpdateAvailable_def Lock_def Unlock_def
      intro!: inv_modify I_outs I_avail I_locks)

lemma inv_emit: "inv I (record_emit jid (job_emit jid k t) ph ms)"
proof -
  have "inv I (track (running_job jid k t ph ms))"
    unfolding track_def by (intro inv_rules inv_ops inv_modify) (simp add: running_job_def I_job)
  then show ?thesis
    unfolding record_emit_def job_emit_def
    by (intro inv_rules inv_db) (auto simp: SetUpdateJobPhase_def)
qed

lemma inv_drain: "inv I (drain_loop (record_emit jid (job_emit jid k t)) en evs ls p q l)"
proof (induction evs arbitrary: ls p q l)
  case Nil
  show ?case by (auto intro!: inv_rules inv_emit)
next
  case (Cons x evs)
  then show ?case
    by (cases x) (auto simp: Let_def intro!: inv_rules inv_emit inv_modify I_clock)
qed

lemma inv_verifyHealthy: "inv I (verifyHealthy e cid)"
proof -
  have "I m \<Longrightarrow> I (snd (verify_loop e cid dl m))" for dl m
  proof (induction e cid dl m rule: verify_loop.induct)
    case (1 e cid dl m)
    obtain r m1 where i: "run_state (call (ContainerInspect e cid)) m = (r, m1)"
      by (cases "run_state (call (ContainerInspect e cid)) m")
    obtain u m2 where sl: "run_state (sleep e second) m1 = (u, m2)"
      by (cases "run_state (sleep e second) m1")
    have "I m1" using tripleD [OF inv_call 1(2) i] .
    moreover from this have "I m2" using tripleD [OF inv_sleep _ sl] by blast
    ultimately show ?case
      using 1(1) [OF i [symmetric] _ _ _ _ _ sl [symmetric]]
      by (subst verify_loop.simps) (auto simp: i sl simp del: run_call split: sum.splits option.splits)
  qed
  then show ?thesis
    by (auto simp: triple_def verifyHealthy_def split: prod.splits) (metis snd_conv)
qed

lemma inv_IsSelf: "inv I (IsSelf e cid)"
proof -
  have "inv I (first_inspected e refs)" for refs
    by (induction refs) (auto intro!: inv_rules inv_call)
  then show ?thesis
    by (auto simp: IsSelf_def SelfContainerID_def resolveSelf_def intro!: inv_rules inv_call inv_modify I_self)
qed

lemma inv_recordSpec: "inv I (recordSpec mc insp)"
  by (auto simp: recordSpec_def Let_def UpdateSnapshot_def intro!: inv_rules inv_db)

lemma inv_swap: "inv I (swap e mc snap ref insp img (record_emit jid (job_emit jid k t)))"
proof -
  have "inv I (rollback e new old nm (record_emit jid (job_emit jid k t)))" for new old nm
    by (auto simp: rollback_def intro!: inv_rules inv_call inv_emit)
  then show ?thesis
    by (auto simp: swap_def swap_commit_def recreate_def Let_def
        intro!: inv_rules inv_call inv_emit inv_recordSpec inv_verifyHealthy inv_ops)
qed

lemma inv_handOff: "inv I (handOff e insp jid (record_emit jid (job_emit jid k t)))"
  by (auto simp: handOff_def MarkUpdateJobSelf_def intro!: inv_rules inv_call inv_emit inv_db)

lemma inv_doUpdate: "inv I (doUpdate e mc jid (record_emit jid (job_emit jid k t)))"
  by (auto simp: doUpdate_def with_lock_def do_update_locked_def refreshIfRecreated_def pullImage_def drainPull_def Let_def
      intro!: inv_rules inv_call inv_emit inv_drain inv_IsSelf inv_recordSpec inv_swap inv_handOff inv_ops)

end

lemma triple_both: "triple P f Q \<Longrightarrow> triple P' f Q' \<Longrightarrow> triple (\<lambda>s. P s \<and> P' s) f (\<lambda>a s. Q a s \<and> Q' a s)"
  by (auto simp: triple_def split: prod.splits)

text \<open>Two such properties: which statements fail, and that the job is in flight.\<close>

interpretation faults: update_invariant "\<lambda>m. db_fault (mg_st m) = F" jid for F jid
  by unfold_locales simp_all

interpretation in_flight: update_invariant "\<lambda>m. map_of (mg_activeJobs m) jid \<noteq> None" jid for jid
  by unfold_locales simp_all

section \<open>Jobs are settled\<close>

definition row_settled :: "string \<Rightarrow> unit res \<Rightarrow> store \<Rightarrow> bool" where
  "row_settled jid r s \<longleftrightarrow> job_settled jid (case r of Inl _ \<Rightarrow> ''failed'' | Inr _ \<Rightarrow> ''done'')
     (case r of Inl err \<Rightarrow> err_text err | Inr _ \<Rightarrow> '''') s"

lemma finish_job_settles:
  "triple (\<lambda>m. \<not> db_fault (mg_st m) ''FinishUpdateJob'') (finish_job jid p ms er) (\<lambda>_ m. job_settled jid p er (mg_st m))"
  unfolding finish_job_def triple_def now_unix_def
  using job_settled_finish by (auto split: prod.splits) (metis snd_conv)

lemma notify_keeps_st: "triple (\<lambda>m. P (mg_st m)) (notify ev ti bo me) (\<lambda>_ m. P (mg_st m))"
  by (simp add: triple_def notify_def)

lemma update_body_settles:
  assumes "\<not> F ''FinishUpdateJob''"
  shows "triple (\<lambda>m. db_fault (mg_st m) = F \<and> map_of (mg_activeJobs m) jid \<noteq> None)
     (update_body e mc jid (job_emit jid k t))
     (\<lambda>r m. if \<exists>err. r = Inl err \<and> errors_Is err ErrHandedOff then map_of (mg_activeJobs m) jid \<noteq> None
            else row_settled jid r (mg_st m))"
proof -
  let ?f = "doUpdate e mc jid (record_emit jid (job_emit jid k t))"
  have upd: "triple (\<lambda>m. db_fault (mg_st m) = F \<and> map_of (mg_activeJobs m) jid \<noteq> None) ?f
      (\<lambda>_ m. db_fault (mg_st m) = F \<and> map_of (mg_activeJobs m) jid \<noteq> None)"
    by (rule triple_both [OF faults.inv_doUpdate [where F = F] in_flight.inv_doUpdate [where jid = jid]])
  have fin: "triple (\<lambda>m. db_fault (mg_st m) = F \<and> map_of (mg_activeJobs m) jid \<noteq> None)
      (finish_job jid p ms er) (\<lambda>_ m. job_settled jid p er (mg_st m))" for p ms er
    by (rule triple_pre [OF finish_job_settles]) (use assms in auto)
  note tell = notify_keeps_st [where P = "job_settled jid p er" for p er]
  show ?thesis
    unfolding update_body_def Let_def
    by (rule triple_bind [OF upd], intro triple_sum triple_if triple_bind [OF fin] triple_bind [OF tell] triple_return)
      (auto simp: row_settled_def)
qed

lemma BroadcastStacks_keeps:
  "inv (\<lambda>m. map_of (mg_activeJobs m) jid = A \<and> row_settled jid r (mg_st m)) (BroadcastStacks e)"
proof -
  let ?I = "\<lambda>m. map_of (mg_activeJobs m) jid = A \<and> row_settled jid r (mg_st m)"
  have call: "inv ?I (call f)" for f :: "'a \<Rightarrow> 'b \<times> 'a \<times> nat"
    by (auto simp: triple_def split: prod.splits)
  have call': "inv ?I (call f)" for f :: "'a \<Rightarrow> 'c \<times> 'a \<times> nat"
    by (auto simp: triple_def split: prod.splits)
  have told: "inv ?I (notify ev ti bo me)" for ev ti bo me
    by (simp add: triple_def notify_def)
  have save: "inv ?I (db (SaveNotifiedStatuses seen))" for seen
    by (auto simp: triple_def SaveNotifiedStatuses_def setJSON_def SetSetting_def row_settled_def job_settled_def)
  have avail: "inv ?I (updateAvailableFor nm)" for nm
    by (simp add: triple_def updateAvailableFor_def)
  have "inv ?I (live_stacks e rows upd cs sts)" for rows upd cs sts
    by (induction cs arbitrary: sts)
      (auto simp: live_container_def Let_def intro!: inv_rules avail call)
  then show ?thesis
    by (auto simp: BroadcastStacks_def ListStacks_def noteStatuses_def status_baseline_def note_stack_def Let_def
        intro!: inv_rules inv_modify told save call')
qed

text \<open>
  A job whose function is done: while the function ran the job was in flight; unless it was handed
  off, the job is not in flight any more, and the row it settled is still settled after the
  stacks have been published.
\<close>

lemma jobWithID_settles:
  assumes run: "run_state (jobWithID e jid kind target fn) m0 = ((), m')"
  obtains m1 r m2 where "db_fault (mg_st m1) = db_fault (mg_st m0)" "map_of (mg_activeJobs m1) jid \<noteq> None"
    "run_state (fn (job_emit jid kind target)) m1 = (r, m2)"
    "if \<exists>err. r = Inl err \<and> errors_Is err ErrHandedOff then m' = m2
     else row_settled jid r (mg_st m2) \<longrightarrow> map_of (mg_activeJobs m') jid = None \<and> row_settled jid r (mg_st m')"
proof -
  define m1 where "m1 = snd (run_state (job_emit jid kind target ''start'' (kind @ '' '' @ target)) m0)"
  obtain r m2 where b: "run_state (fn (job_emit jid kind target)) m1 = (r, m2)"
    by (cases "run_state (fn (job_emit jid kind target)) m1")
  have m1: "db_fault (mg_st m1) = db_fault (mg_st m0)" "map_of (mg_activeJobs m1) jid \<noteq> None"
    by (simp_all add: m1_def job_emit_def track_def publish_def running_job_def)
  have "map_of (mg_activeJobs m') jid = None \<and> row_settled jid r (mg_st m')"
    if r: "r = Inr u" and s: "row_settled jid r (mg_st m2)" for u
  proof -
    define m3 where "m3 = snd (run_state (do { _ \<leftarrow> forget jid; publish (done_job jid kind target ''Done'') }) m2)"
    have "map_of (mg_activeJobs m3) jid = None \<and> row_settled jid r (mg_st m3)"
      using s by (auto simp: m3_def forget_def publish_def)
    moreover have "run_state (BroadcastStacks e) m3 = ((), m')"
      using run b r by (simp add: jobWithID_def m1_def m3_def forget_def publish_def case_prod_unfold)
    ultimately show ?thesis by (rule tripleD [OF BroadcastStacks_keeps [of jid None r e]])
  qed
  then have "if \<exists>err. r = Inl err \<and> errors_Is err ErrHandedOff then m' = m2
     else row_settled jid r (mg_st m2) \<longrightarrow> map_of (mg_activeJobs m') jid = None \<and> row_settled jid r (mg_st m')"
    using run b by (cases r) (auto simp: jobWithID_def m1_def forget_def publish_def case_prod_unfold split: if_splits)
  with m1 b show thesis by (rule that)
qed



section \<open>What a client is told on connecting\<close>

text \<open>Jobs in flight are filed under their own id.\<close>

definition jobs_ok :: "'d mgr \<Rightarrow> bool" where
  "jobs_ok m \<longleftrightarrow> distinct (map fst (mg_activeJobs m)) \<and> (\<forall>(i, j) \<in> set (mg_activeJobs m). job_ID j = i \<and> \<not> job_Done j)"

lemma jobs_ok_track:
  assumes "jobs_ok m" "\<not> job_Done j"
  shows "jobs_ok (snd (run_state (track j) m))"
proof -
  have "set (AList.update (job_ID j) j xs) \<subseteq> insert (job_ID j, j) (set xs)" for xs
    by (induction xs) auto
  from this [of "mg_activeJobs m"] show ?thesis
    using assms by (fastforce simp: jobs_ok_def track_def publish_def distinct_update)
qed

lemma jobs_ok_forget: "jobs_ok m \<Longrightarrow> jobs_ok (snd (run_state (forget i) m))"
  by (auto simp: jobs_ok_def forget_def AList.delete_eq distinct_map_filter)

lemma jobs_keys: "jobs_ok m \<Longrightarrow> map (job_ID \<circ> snd) (mg_activeJobs m) = map fst (mg_activeJobs m)"
  by (auto simp: jobs_ok_def)

text \<open>
  The jobs handed to a client that connects. Every job in flight is among them, no job
  occurs twice, and what is added are finished updates of the last five minutes.
\<close>

theorem job_snapshot_complete:
  assumes ok: "jobs_ok m" "distinct (map uj_ID (update_jobs (mg_st m)))"
  shows "distinct (map job_ID (JobSnapshot m)) \<and> snd ` set (mg_activeJobs m) \<subseteq> set (JobSnapshot m) \<and>
    (\<forall>j \<in> set (JobSnapshot m). j \<in> snd ` set (mg_activeJobs m) \<or>
       (\<exists>r \<in> set (update_jobs (mg_st m)). j = finished_progress r \<and> uj_Done r \<and>
          uj_FinishedAt r \<ge> int (mg_clock m div second) - 300))"
proof -
  have "distinct (map (job_ID \<circ> snd) (mg_activeJobs m))"
    using ok(1) unfolding jobs_keys [OF ok(1)] by (simp add: jobs_ok_def)
  then have act: "distinct (map job_ID (ActiveJobs m))" "set (ActiveJobs m) = snd ` set (mg_activeJobs m)"
    by (auto simp: ActiveJobs_def distinct_map inj_on_def)
  show ?thesis
  proof (cases "RecentUpdateJobs (int (mg_clock m div second) - recentWindow) (mg_st m)")
    case (Inl err)
    then show ?thesis using act by (simp add: JobSnapshot_def Let_def)
  next
    case (Inr recent)
    have recent: "mset recent = mset (filter (\<lambda>j. uj_Done j \<and>
        uj_FinishedAt j \<ge> int (mg_clock m div second) - recentWindow) (update_jobs (mg_st m)))"
      using Inr by (auto simp: RecentUpdateJobs_def split: if_splits)
    then have "mset (map uj_ID recent) = mset (map uj_ID (filter (\<lambda>j. uj_Done j \<and>
        uj_FinishedAt j \<ge> int (mg_clock m div second) - recentWindow) (update_jobs (mg_st m))))"
      by (simp only: mset_map)
    from mset_eq_imp_distinct_iff [OF this] have "distinct (map uj_ID recent)"
      using ok(2) by (simp only: distinct_map_filter)
    moreover have "set recent = set (filter (\<lambda>j. uj_Done j \<and>
        uj_FinishedAt j \<ge> int (mg_clock m div second) - recentWindow) (update_jobs (mg_st m)))"
      using recent by (metis set_mset_mset)
    ultimately show ?thesis
      using act Inr
      by (auto simp: JobSnapshot_def Let_def finished_progress_def recentWindow_def comp_def distinct_map_filter)
        force
  qed
qed

theorem job_snapshot_complete_witness:
  "distinct (map job_ID (JobSnapshot sim_mgr)) \<and> snd ` set (mg_activeJobs sim_mgr) \<subseteq> set (JobSnapshot sim_mgr)"
  using job_snapshot_complete [of sim_mgr] by (simp add: jobs_ok_def sim_mgr_def NewManager_def empty_store_def)

section \<open>Recorded specs\<close>

lemma remoteHasNewImage_st: "triple (\<lambda>m. mg_st m = S) (remoteHasNewImage e mc) (\<lambda>_ m. mg_st m = S)"
proof -
  have call: "inv (\<lambda>m. mg_st m = S) (call f)" for f :: "'a \<Rightarrow> 'b \<times> 'a \<times> nat"
    by (auto simp: triple_def split: prod.splits)
  have call2: "inv (\<lambda>m. mg_st m = S) (call f)" for f :: "'a \<Rightarrow> 'c \<times> 'a \<times> nat"
    by (auto simp: triple_def split: prod.splits)
  have call3: "inv (\<lambda>m. mg_st m = S) (call f)" for f :: "'a \<Rightarrow> 'e \<times> 'a \<times> nat"
    by (auto simp: triple_def split: prod.splits)
  show ?thesis
    unfolding remoteHasNewImage_def by (auto intro!: inv_rules call call2 call3)
qed

text \<open>
  \<^bold>\<open>C31\<close>: The reconciliation sweep replaces a recorded spec only by one that has proved
  itself. If \<^verbatim>\<open>rerecord\<close> changes the managed containers, then nobody held the container's
  lock, the row was recorded from another container than the live one, the live container was
  found settled (up and not failing its health check, or stopped without an error), and what is
  stored is the spec of that container, in that row alone.
\<close>

theorem rerecord_only_settled:
  assumes run: "run_state (rerecord e mc liveID) m = (res, m')"
    and changed: "managed (mg_st m') \<noteq> managed (mg_st m)"
  shows "mc_ContainerName mc \<notin> set (mg_locks m) \<and>
    (\<exists>insp row. fst (ContainerInspect e liveID (mg_docker m)) = Inr insp \<and> settled insp \<and>
       ManagedByName (mc_ContainerName mc) (mg_st m) = Inr row \<and> mc_ContainerID row \<noteq> liveID \<and>
       managed (mg_st m') = map (\<lambda>r. if mc_ID r = mc_ID row
         then r\<lparr>mc_SnapshotJSON := JsonOf (snapshotFromInspect insp), mc_ContainerID := insp_ID insp\<rparr> else r)
         (managed (mg_st m)))"
proof (cases "mc_ContainerName mc \<in> set (mg_locks m)")
  case True
  with run changed show ?thesis by (simp add: rerecord_def TryLock_def)
next
  case False
  define ml where "ml = m\<lparr>mg_locks := mc_ContainerName mc # mg_locks m\<rparr>"
  obtain row where row: "ManagedByName (mc_ContainerName mc) (mg_st m) = Inr row"
    using run changed False
    by (cases "ManagedByName (mc_ContainerName mc) (mg_st m)") (auto simp: rerecord_def TryLock_def Unlock_def)
  have ne: "mc_ContainerID row \<noteq> liveID"
    using run changed False row by (auto simp: rerecord_def TryLock_def Unlock_def)
  obtain r d t where insp: "ContainerInspect e liveID (mg_docker m) = (r, d, t)"
    by (cases "ContainerInspect e liveID (mg_docker m)") auto
  obtain ins where r: "r = Inr ins" and s: "settled ins"
    using run changed False row ne insp
    by (cases r) (auto simp: rerecord_def TryLock_def Unlock_def split: if_splits)
  define mi where "mi = ml\<lparr>mg_docker := d, mg_clock := mg_clock ml + t\<rparr>"
  obtain u m1 where u: "run_state (recordSpec row ins) mi = (u, m1)" by (cases "run_state (recordSpec row ins) mi")
  obtain row' where u': "u = Inr row'"
    using run changed False row ne insp r s u
    by (cases u) (auto simp: rerecord_def TryLock_def Unlock_def recordSpec_def Let_def mi_def ml_def UpdateSnapshot_def
        split: prod.splits if_splits)
  have m1: "managed (mg_st m1) = map (\<lambda>r. if mc_ID r = mc_ID row
      then r\<lparr>mc_SnapshotJSON := JsonOf (snapshotFromInspect ins), mc_ContainerID := insp_ID ins\<rparr> else r) (managed (mg_st m))"
    using u u' by (auto simp: recordSpec_def Let_def mi_def ml_def UpdateSnapshot_def split: prod.splits if_splits)
  obtain av m2 where av: "run_state (remoteHasNewImage e row') m1 = (av, m2)" by (cases "run_state (remoteHasNewImage e row') m1")
  have "mg_st m2 = mg_st m1" using tripleD [OF remoteHasNewImage_st refl av] .
  moreover have "mg_st m' = mg_st m2"
    using run False row ne insp r s u u' av
    by (auto simp: rerecord_def TryLock_def Unlock_def setUpdateAvailable_def mi_def ml_def)
  ultimately show ?thesis using False row ne insp r s m1 by auto
qed

lemma sim_rerecord_changes:
  "managed (mg_st (snd (run_state (rerecord sim_env app_row (sim_id CHR ''a'')) sim_mgr))) \<noteq> managed (mg_st sim_mgr)"
  using sim_host_wf
  by (simp add: rerecord_def TryLock_def sim_mgr_def NewManager_def app_row_def ManagedByName_def find_managed_def
      empty_store_def sim_env_def on_ref_def sim_resolve_def sim_inspect_def settled_def recordSpec_def Let_def
      UpdateSnapshot_def remoteHasNewImage_def parseSnapshot_def snapshotFromInspect_def setUpdateAvailable_def
      Unlock_def sim_id_def sim_host_def)

theorem rerecord_only_settled_witness:
  "mc_ContainerName app_row \<notin> set (mg_locks sim_mgr) \<and>
   (\<exists>insp row. fst (ContainerInspect sim_env (sim_id CHR ''a'') (mg_docker sim_mgr)) = Inr insp \<and> settled insp \<and>
      ManagedByName (mc_ContainerName app_row) (mg_st sim_mgr) = Inr row \<and> mc_ContainerID row \<noteq> sim_id CHR ''a'')"
  using rerecord_only_settled [OF surjective_pairing sim_rerecord_changes] by blast

section \<open>Networks of a recreated container\<close>

lemma primaryNetwork_in:
  assumes "names \<noteq> []" "set names = fst ` set (snap_Networking snap)"
  shows "primaryNetwork snap names \<in> set names"
proof (cases "find (\<lambda>n. n = ''default'' \<or> HasSuffix n ''_default'') names")
  case None
  then show ?thesis using assms by (auto simp: primaryNetwork_def)
next
  case (Some n)
  then obtain i where "i < length names" "n = names ! i" unfolding find_Some_iff by blast
  then have "n \<in> set names" by simp
  with Some assms show ?thesis by (auto simp: primaryNetwork_def)
qed

text \<open>
  A recreated container joins the networks of its snapshot: each exactly once, one of
  them (if there is any) as the primary network of the create call and the rest afterwards, each
  with the snapshot's endpoint stripped of the addresses the daemon had assigned but with its
  aliases and its requested address.
\<close>

theorem recreate_joins_all_networks:
  assumes d: "distinct (map fst (snap_Networking snap))"
  shows "mset (map fst (fst (recreate_networks snap) @ snd (recreate_networks snap))) = mset (map fst (snap_Networking snap)) \<and>
    (snap_Networking snap \<noteq> [] \<longrightarrow> length (fst (recreate_networks snap)) = 1) \<and>
    (\<forall>n ep. (n, ep) \<in> set (fst (recreate_networks snap) @ snd (recreate_networks snap)) \<longrightarrow>
       (\<exists>old. (n, old) \<in> set (snap_Networking snap) \<and> ep = sanitizeEndpoint old \<and>
          (\<forall>x y. ep = Some x \<and> old = Some y \<longrightarrow> ep_Aliases x = ep_Aliases y \<and> ep_IPAMConfig x = ep_IPAMConfig y \<and>
             ep_IPAddress x = '''' \<and> ep_MacAddress x = '''')))"
proof -
  let ?names = "sort (map fst (snap_Networking snap))"
  let ?p = "primaryNetwork snap ?names"
  let ?ep = "\<lambda>n. sanitizeEndpoint (Option.bind (map_of (snap_Networking snap) n) (\<lambda>x. x))"
  have nets: "recreate_networks snap =
      (map (\<lambda>n. (n, ?ep n)) (filter (\<lambda>n. n = ?p) ?names), map (\<lambda>n. (n, ?ep n)) (filter (\<lambda>n. n \<noteq> ?p) ?names))"
    by (simp add: recreate_networks_def Let_def filter_map comp_def case_prod_unfold)
  have "mset (filter (\<lambda>n. n = ?p) ?names) + mset (filter (\<lambda>n. n \<noteq> ?p) ?names) = mset ?names"
    by (simp add: mset_filter [symmetric] multiset_partition [symmetric])
  then have all: "mset (map fst (fst (recreate_networks snap) @ snd (recreate_networks snap))) = mset (map fst (snap_Networking snap))"
    by (simp add: nets comp_def)
  have one: "length (fst (recreate_networks snap)) = 1" if "snap_Networking snap \<noteq> []"
  proof -
    have "?names \<noteq> []" using that by (metis length_0_conv length_sort map_is_Nil_conv)
    then have "?p \<in> set ?names" by (rule primaryNetwork_in) simp
    moreover have "distinct ?names" using d by simp
    ultimately have "set (filter (\<lambda>n. n = ?p) ?names) = {?p}" "distinct (filter (\<lambda>n. n = ?p) ?names)" by auto
    then have "length (filter (\<lambda>n. n = ?p) ?names) = 1" using distinct_card by fastforce
    then show ?thesis by (simp add: nets)
  qed
  have ep: "\<exists>old. (n, old) \<in> set (snap_Networking snap) \<and> x = sanitizeEndpoint old"
    if "(n, x) \<in> set (fst (recreate_networks snap) @ snd (recreate_networks snap))" for n x
  proof -
    from that have "n \<in> fst ` set (snap_Networking snap)" "x = ?ep n" by (auto simp: nets)
    then obtain old where "(n, old) \<in> set (snap_Networking snap)" by auto
    moreover from this d have "map_of (snap_Networking snap) n = Some old" by simp
    ultimately show ?thesis using \<open>x = ?ep n\<close> by auto
  qed
  show ?thesis
    using all one ep by (fastforce simp: sanitizeEndpoint_def)
qed

theorem recreate_joins_all_networks_witness:
  "mset (map fst (fst (recreate_networks (snapshotFromInspect (sim_inspect ''x'' sim_host))) @
      snd (recreate_networks (snapshotFromInspect (sim_inspect ''x'' sim_host))))) = {#}"
  using recreate_joins_all_networks [of "snapshotFromInspect (sim_inspect ''x'' sim_host)"]
  by (simp add: snapshotFromInspect_def sim_inspect_def)

section \<open>Adopting a stack that is not there\<close>

text \<open>
  Adopting a stack that has no containers fails, but leaves its row in the database,
  so that the next container that appears under the name is adopted by the sweep
  (\<^verbatim>\<open>adoptNew\<close>) although nobody asked for it.
\<close>

theorem failed_adopt_leaves_stack:
  assumes l: "ContainerList e True (mg_docker m) = (Inr cs, d, t)"
    and none: "\<forall>c \<in> set cs. isService c \<longrightarrow> stack_of c None \<noteq> stackID"
    and fresh: "stackID \<notin> sk_ID ` set (stacks (mg_st m))" "stackID \<notin> sk_Name ` set (stacks (mg_st m))"
    and db: "\<not> db_fault (mg_st m) ''UpsertStack''" "\<not> db_fault (mg_st m) ''StackExists''"
    and run: "run_state (Adopt e stackID) m = (r, m')"
  shows "r = Inl (Errorf (''no containers found for stack '' @ stackID)) \<and> StackExists stackID (mg_st m') = Inr True"
proof -
  have "filter (\<lambda>c. isService c \<and> stack_of c None = stackID) cs = []"
    using none by (auto simp: filter_empty_conv)
  with assms show ?thesis
    by (auto simp: Adopt_def UpsertStack_def StackExists_def Let_def)
qed

theorem failed_adopt_leaves_stack_witness:
  "StackExists ''ghost'' (mg_st (snd (run_state (Adopt sim_env ''ghost'') sim_mgr))) = Inr True"
proof -
  have l: "ContainerList sim_env True (mg_docker sim_mgr) = (Inr [sim_summary sim_host (sim_id CHR ''a'', ''app'')], sim_host, 0)"
    by (simp add: sim_env_def sim_mgr_def NewManager_def) (simp add: sim_host_def)
  show ?thesis
    using failed_adopt_leaves_stack [OF l _ _ _ _ _ surjective_pairing, of "''ghost''"]
    by (auto simp: sim_mgr_def NewManager_def empty_store_def stack_of_def sim_summary_def get_str_def containerName_def
        TrimPrefix_def HasPrefix_def Let_def)
qed

end
