(* ===== verification/Docker_Handlers.thy ===== *)
theory Docker_Handlers
  imports Docker_Sim
begin

text \<open>
  The handlers of the API that drive the Docker manager (\<^verbatim>\<open>docker_handlers.go\<close> up to the settings). They run
  behind the session check, in the manager's state; a handler answers with a status and a body. An
  action on a container or a stack is started in a goroutine of its own with a context that outlives the
  request: the handler answers at once and returns the job it started.
\<close>

section \<open>Answers\<close>

datatype docker_reply =
    DError string
  | DOk
  | DStacks "stack list"
  | DChecked nat

type_synonym answer = "nat \<times> docker_reply"

text \<open>\<^verbatim>\<open>dockerReady\<close>: without a manager every handler answers 503.\<close>

definition dockerReady :: "'d mgr option \<Rightarrow> ('d, answer) op \<Rightarrow> answer \<times> 'd mgr option" where
  "dockerReady dkr h =
     (case dkr of
        None \<Rightarrow> ((503, DError ''docker unavailable''), None)
      | Some m \<Rightarrow> (case run_state h m of (a, m) \<Rightarrow> (a, Some m)))"

section \<open>Reading and adopting\<close>

definition handleListStacks :: "'d docker_env \<Rightarrow> ('d, answer) op" where
  "handleListStacks e = do {
     r \<leftarrow> ListStacks e;
     State_Monad.return (case r of Inl err \<Rightarrow> (500, DError (err_text err)) | Inr sts \<Rightarrow> (200, DStacks sts))
   }"

definition handleAdoptStack :: "'d docker_env \<Rightarrow> string \<Rightarrow> ('d, answer) op" where
  "handleAdoptStack e sid = do {
     r \<leftarrow> Adopt e sid;
     State_Monad.return (case r of Inl err \<Rightarrow> (400, DError (err_text err)) | Inr _ \<Rightarrow> (200, DOk))
   }"

section \<open>Forgetting\<close>

definition handleForgetContainer :: "'d docker_env \<Rightarrow> string \<Rightarrow> ('d, answer) op" where
  "handleForgetContainer e cid = do {
     mc \<leftarrow> db_read (ResolveManaged cid);
     case mc of
       Inl _ \<Rightarrow> State_Monad.return (404, DError ''container not managed'')
     | Inr mc \<Rightarrow> do {
         r \<leftarrow> db (DeleteManagedContainer (mc_ID mc));
         case r of
           Inl err \<Rightarrow> State_Monad.return (500, DError (err_text err))
         | Inr _ \<Rightarrow> do { _ \<leftarrow> BroadcastStacks e; State_Monad.return (200, DOk) }
       }
   }"

definition handleForgetStack :: "'d docker_env \<Rightarrow> string \<Rightarrow> ('d, answer) op" where
  "handleForgetStack e sid = do {
     r \<leftarrow> db (Unadopt sid);
     case r of
       Inl err \<Rightarrow> State_Monad.return (500, DError (err_text err))
     | Inr _ \<Rightarrow> do { _ \<leftarrow> BroadcastStacks e; State_Monad.return (200, DOk) }
   }"

section \<open>Actions\<close>

definition handleStackAction :: "'d docker_env \<Rightarrow> string \<Rightarrow> string \<Rightarrow> answer \<times> ('d, unit) op" where
  "handleStackAction e action sid =
     ((200, DOk),
      if action = ''start'' then StartStackJob e sid
      else if action = ''stop'' then StopStackJob e sid
      else if action = ''restart'' then RestartStackJob e sid
      else if action = ''bringup'' then BringUpStackJob e sid
      else State_Monad.return ())"

definition handleContainerAction :: "'d docker_env \<Rightarrow> string \<Rightarrow> string \<Rightarrow> answer \<times> ('d, unit) op" where
  "handleContainerAction e action cid =
     ((200, DOk),
      if action = ''start'' then StartJob e cid
      else if action = ''stop'' then StopJob e cid
      else if action = ''restart'' then RestartJob e cid
      else State_Monad.return ())"

definition handleContainerUpdate :: "'d docker_env \<Rightarrow> string \<Rightarrow> answer \<times> ('d, unit) op" where
  "handleContainerUpdate e cid = ((200, DOk), Update e cid)"

section \<open>Checking for updates\<close>

definition handleCheckContainerUpdate :: "'d docker_env \<Rightarrow> string \<Rightarrow> ('d, answer) op" where
  "handleCheckContainerUpdate e cid = do {
     r \<leftarrow> CheckContainerUpdates e cid;
     State_Monad.return (case r of Inl _ \<Rightarrow> (404, DError ''container not managed'') | Inr n \<Rightarrow> (200, DChecked n))
   }"

definition handleCheckStackUpdate :: "'d docker_env \<Rightarrow> string \<Rightarrow> ('d, answer) op" where
  "handleCheckStackUpdate e sid = do {
     r \<leftarrow> CheckStackUpdates e sid;
     State_Monad.return (case r of Inl err \<Rightarrow> (500, DError (err_text err)) | Inr n \<Rightarrow> (200, DChecked n))
   }"

definition handleCheckAllUpdates :: "'d docker_env \<Rightarrow> ('d, answer) op" where
  "handleCheckAllUpdates e = do {
     r \<leftarrow> CheckAllUpdates e;
     State_Monad.return (case r of Inl err \<Rightarrow> (500, DError (err_text err)) | Inr n \<Rightarrow> (200, DChecked n))
   }"

section \<open>Operations that leave the managed rows alone\<close>

definition rows_kept :: "('d, 'a) op \<Rightarrow> bool" where
  "rows_kept f \<longleftrightarrow> (\<forall>m. managed (mg_st (snd (run_state f m))) = managed (mg_st m))"

named_theorems rows_rules \<open>operations that leave the managed rows alone\<close>

lemma rows_basic [rows_rules]:
  "rows_kept (State_Monad.return a)" "rows_kept (db_read g)" "rows_kept (reads h)" "rows_kept (call c)"
  by (simp_all add: rows_kept_def split: prod.splits)

lemma rows_modify: "(\<And>m. mg_st (f m) = mg_st m) \<Longrightarrow> rows_kept (modify f)"
  by (simp add: rows_kept_def)

lemma rows_db: "(\<And>s. managed (snd (f s)) = managed s) \<Longrightarrow> rows_kept (db f)"
  by (simp add: rows_kept_def case_prod_unfold)

lemma rows_bind [rows_rules]: "rows_kept f \<Longrightarrow> (\<And>a. rows_kept (g a)) \<Longrightarrow> rows_kept (State_Monad.bind f g)"
  by (simp add: rows_kept_def case_prod_unfold)

lemma rows_branches [rows_rules]:
  "rows_kept f \<Longrightarrow> rows_kept g \<Longrightarrow> rows_kept (if b then f else g)"
  "(\<And>x. rows_kept (h x)) \<Longrightarrow> (\<And>y. rows_kept (k y)) \<Longrightarrow> rows_kept (case s of Inl x \<Rightarrow> h x | Inr y \<Rightarrow> k y)"
  "rows_kept f \<Longrightarrow> (\<And>x. rows_kept (h x)) \<Longrightarrow> rows_kept (case opt of None \<Rightarrow> f | Some x \<Rightarrow> h x)"
  "(\<And>x y. rows_kept (p x y)) \<Longrightarrow> rows_kept (case pr of (x, y) \<Rightarrow> p x y)"
  by (auto split: sum.splits option.splits prod.splits)

lemma rows_for_each [rows_rules]: "(\<And>x. rows_kept (f x)) \<Longrightarrow> rows_kept (for_each f xs)"
  by (induction xs) (auto intro!: rows_rules)

lemma rows_notify [rows_rules]: "rows_kept (notify ev ti bo me)"
  by (auto simp: notify_def intro!: rows_modify)

lemma rows_live_stacks: "rows_kept (live_stacks e rows upd cs sts)"
  by (induction cs arbitrary: sts)
     (auto simp: live_container_def updateAvailableFor_def Let_def intro!: rows_rules)

lemma rows_note_stack: "rows_kept (note_stack prevs st)"
  by (auto simp: note_stack_def Let_def intro!: rows_rules)

lemma rows_noteStatuses: "rows_kept (noteStatuses sts)"
proof -
  have "rows_kept status_baseline"
    by (auto simp: status_baseline_def intro!: rows_rules rows_modify)
  moreover have "rows_kept (db (SaveNotifiedStatuses x))" for x
    by (rule rows_db) (simp add: SaveNotifiedStatuses_def setJSON_def SetSetting_def)
  ultimately show ?thesis
    by (auto simp: noteStatuses_def Let_def intro!: rows_rules rows_note_stack rows_modify)
qed

lemma rows_BroadcastStacks: "rows_kept (BroadcastStacks e)"
  by (auto simp: BroadcastStacks_def ListStacks_def Let_def
      intro!: rows_rules rows_live_stacks rows_noteStatuses rows_modify)

section \<open>Forgetting drops records, not services\<close>

lemma DeleteManaged_rows:
  "DeleteManagedContainer mid s = (Inr (), s') \<Longrightarrow> managed s' = filter (\<lambda>x. mc_ID x \<noteq> mid) (managed s)"
  by (auto simp: DeleteManagedContainer_def Let_def split: if_splits option.splits)

lemma steady_ForgetContainer: "docker_laws e v \<Longrightarrow> steady v (handleForgetContainer e cid)"
  unfolding handleForgetContainer_def by (intro steady_rules)

text \<open>
  \<^bold>\<open>C32\<close>. Forgetting a container drops Veery's record and nothing else: whatever the answer, every container
  of the host is still there under its name; an answer of 200 means that exactly the rows with the
  resolved id are gone, and any other answer leaves the rows as they were.
\<close>

theorem forget_drops_record_only:
  assumes "docker_laws e v" "run_state (handleForgetContainer e cid) m = ((code, body), m')"
  shows "dv_names v (mg_docker m') = dv_names v (mg_docker m) \<and>
    (if code = 200
     then \<exists>mc. ResolveManaged cid (mg_st m) = Inr mc \<and>
            managed (mg_st m') = filter (\<lambda>x. mc_ID x \<noteq> mc_ID mc) (managed (mg_st m))
     else managed (mg_st m') = managed (mg_st m))"
proof
  show "dv_names v (mg_docker m') = dv_names v (mg_docker m)"
    using steady_ForgetContainer [OF assms(1), of cid] assms(2) unfolding steady_def by (metis snd_conv)
  show "if code = 200
     then \<exists>mc. ResolveManaged cid (mg_st m) = Inr mc \<and>
            managed (mg_st m') = filter (\<lambda>x. mc_ID x \<noteq> mc_ID mc) (managed (mg_st m))
     else managed (mg_st m') = managed (mg_st m)"
  proof (cases "ResolveManaged cid (mg_st m)")
    case (Inl err)
    with assms(2) show ?thesis by (auto simp: handleForgetContainer_def)
  next
    case (Inr mc)
    obtain r s' where d: "DeleteManagedContainer (mc_ID mc) (mg_st m) = (r, s')" by fastforce
    show ?thesis
    proof (cases r)
      case (Inl err)
      have "s' = mg_st m" using d Inl by (auto simp: DeleteManagedContainer_def Let_def split: if_splits option.splits)
      with assms(2) Inr Inl d show ?thesis by (auto simp: handleForgetContainer_def)
    next
      case ok: (Inr u)
      obtain x m1 where b: "run_state (BroadcastStacks e) (m\<lparr>mg_st := s'\<rparr>) = (x, m1)"
        by (cases "run_state (BroadcastStacks e) (m\<lparr>mg_st := s'\<rparr>)")
      have "code = 200 \<and> m' = m1" using assms(2) Inr ok d b by (auto simp: handleForgetContainer_def)
      moreover have "managed (mg_st m1) = managed s'"
        using spec [OF rows_BroadcastStacks [of e, unfolded rows_kept_def], of "m\<lparr>mg_st := s'\<rparr>"] b by simp
      ultimately show ?thesis using DeleteManaged_rows d ok Inr by auto
    qed
  qed
qed

theorem forget_drops_record_only_witness:
  "let (answer, m') = run_state (handleForgetContainer sim_env (mc_ID app_row)) sim_mgr
   in dv_names sim_view (mg_docker m') = dv_names sim_view (mg_docker sim_mgr) \<and>
      (if fst answer = 200 then length (managed (mg_st m')) = 0 else managed (mg_st m') = managed (mg_st sim_mgr))"
proof -
  obtain code body m' where run: "run_state (handleForgetContainer sim_env (mc_ID app_row)) sim_mgr = ((code, body), m')"
    by (metis surj_pair)
  have "ResolveManaged (mc_ID app_row) (mg_st sim_mgr) = Inr app_row" "managed (mg_st sim_mgr) = [app_row]"
    by (simp_all add: sim_mgr_def NewManager_def ResolveManaged_def ManagedByID_def find_managed_def empty_store_def)
  with forget_drops_record_only [OF sim_laws run] run show ?thesis
    by (auto split: if_splits)
qed

end
