(* ===== verification/Store_Accounts.thy ===== *)
theory Store_Accounts
  imports Store_Base
begin

text \<open>
  Users, passkeys, invites, sessions (\<^verbatim>\<open>internal/store/accessors.go\<close>) and external identities
  (\<^verbatim>\<open>internal/store/oidc.go\<close>), with the primary keys, unique indexes, foreign keys and
  cascades of \<^verbatim>\<open>migrations.go\<close>. Times are Unix seconds and come in as arguments, random ids
  likewise.
\<close>

section \<open>Users\<close>

definition CountUsers :: "store \<Rightarrow> nat res" where
  "CountUsers s = (if db_fault s ''CountUsers'' then Inl db_error else Inr (length (users s)))"

definition CreateUser :: "int \<Rightarrow> string \<Rightarrow> string \<Rightarrow> bool \<Rightarrow> store \<Rightarrow> user res \<times> store" where
  "CreateUser now uid name isAdmin s =
     (if db_fault s ''CreateUser'' \<or> uid \<in> user_ID ` set (users s) then (Inl db_error, s)
      else let u = \<lparr>user_ID = uid, user_Name = name, user_IsAdmin = isAdmin, user_CreatedAt = now\<rparr>
           in (Inr u, s\<lparr>users := users s @ [u]\<rparr>))"

definition GetUser :: "string \<Rightarrow> store \<Rightarrow> user res" where
  "GetUser uid s =
     (if db_fault s ''GetUser'' then Inl db_error
      else case find (\<lambda>u. user_ID u = uid) (users s) of None \<Rightarrow> Inl ErrNotFound | Some u \<Rightarrow> Inr u)"

definition ListUsers :: "store \<Rightarrow> user list res" where
  "ListUsers s = (if db_fault s ''ListUsers'' then Inl db_error else Inr (sort_key user_CreatedAt (users s)))"

definition CountAdmins :: "store \<Rightarrow> nat res" where
  "CountAdmins s =
     (if db_fault s ''CountAdmins'' then Inl db_error else Inr (length (filter user_IsAdmin (users s))))"

text \<open>
  \<^verbatim>\<open>DELETE FROM users\<close> with its foreign keys: passkeys, sessions, external identities and
  recovery invites of the user go with it; invites it created stay, with no creator.
\<close>

definition delete_user_rows :: "string \<Rightarrow> store \<Rightarrow> store" where
  "delete_user_rows uid s =
     s\<lparr>users := filter (\<lambda>u. user_ID u \<noteq> uid) (users s),
       credentials := filter (\<lambda>c. cr_UserID c \<noteq> uid) (credentials s),
       sessions := filter (\<lambda>x. se_UserID x \<noteq> uid) (sessions s),
       oidc_identities := filter (\<lambda>x. oi_UserID x \<noteq> uid) (oidc_identities s),
       invites := map (\<lambda>i. if ir_CreatedBy i = Some uid then i\<lparr>ir_CreatedBy := None\<rparr> else i)
         (filter (\<lambda>i. ir_ForUser i \<noteq> Some uid) (invites s))\<rparr>"

definition DeleteUser :: "string \<Rightarrow> store \<Rightarrow> unit res \<times> store" where
  "DeleteUser uid s =
     (if db_fault s ''DeleteUser'' then (Inl db_error, s)
      else if uid \<notin> user_ID ` set (users s) then (Inl ErrNotFound, s)
      else (Inr (), delete_user_rows uid s))"

definition SetUserAdmin :: "string \<Rightarrow> bool \<Rightarrow> store \<Rightarrow> unit res \<times> store" where
  "SetUserAdmin uid isAdmin s =
     (if db_fault s ''SetUserAdmin'' then (Inl db_error, s)
      else if uid \<notin> user_ID ` set (users s) then (Inl ErrNotFound, s)
      else (Inr (), s\<lparr>users := map (\<lambda>u. if user_ID u = uid then u\<lparr>user_IsAdmin := isAdmin\<rparr> else u) (users s)\<rparr>))"

section \<open>Credentials\<close>

definition AddCredential :: "stored_credential \<Rightarrow> store \<Rightarrow> unit res \<times> store" where
  "AddCredential c s =
     (if db_fault s ''AddCredential'' \<or> cr_ID c \<in> cr_ID ` set (credentials s)
         \<or> cr_CredID c \<in> cr_CredID ` set (credentials s) \<or> cr_UserID c \<notin> user_ID ` set (users s)
      then (Inl db_error, s)
      else (Inr (), s\<lparr>credentials := credentials s @
        [\<lparr>cr_ID = cr_ID c, cr_UserID = cr_UserID c, cr_CredID = cr_CredID c, cr_PublicKey = cr_PublicKey c,
          cr_SignCount = cr_SignCount c, cr_Transports = Join (cr_Transports c) '','', cr_AAGUID = cr_AAGUID c,
          cr_Name = cr_Name c, cr_BackupEligible = cr_BackupEligible c, cr_BackupState = cr_BackupState c,
          cr_CreatedAt = cr_CreatedAt c\<rparr>]\<rparr>))"

definition scanCred :: "credential_row \<Rightarrow> stored_credential" where
  "scanCred c =
     \<lparr>cr_ID = cr_ID c, cr_UserID = cr_UserID c, cr_CredID = cr_CredID c, cr_PublicKey = cr_PublicKey c,
      cr_SignCount = cr_SignCount c,
      cr_Transports = (if cr_Transports c = '''' then [] else Split (cr_Transports c) (CHR '','')),
      cr_AAGUID = cr_AAGUID c, cr_Name = cr_Name c, cr_BackupEligible = cr_BackupEligible c,
      cr_BackupState = cr_BackupState c, cr_CreatedAt = cr_CreatedAt c\<rparr>"

definition CredentialsByUser :: "string \<Rightarrow> store \<Rightarrow> stored_credential list res" where
  "CredentialsByUser userID s =
     (if db_fault s ''CredentialsByUser'' then Inl db_error
      else Inr (map scanCred (sort_key cr_CreatedAt (filter (\<lambda>c. cr_UserID c = userID) (credentials s)))))"

definition CredentialByCredID :: "string \<Rightarrow> store \<Rightarrow> stored_credential res" where
  "CredentialByCredID credID s =
     (if db_fault s ''CredentialByCredID'' then Inl db_error
      else case filter (\<lambda>c. cr_CredID c = credID) (credentials s) of
          [] \<Rightarrow> Inl ErrNotFound | c # _ \<Rightarrow> Inr (scanCred c))"

definition UpdateSignCount :: "string \<Rightarrow> 32 word \<Rightarrow> store \<Rightarrow> unit res \<times> store" where
  "UpdateSignCount credID n s =
     (if db_fault s ''UpdateSignCount'' then (Inl db_error, s)
      else (Inr (), s\<lparr>credentials :=
        map (\<lambda>c. if cr_CredID c = credID then c\<lparr>cr_SignCount := n\<rparr> else c) (credentials s)\<rparr>))"

section \<open>Invites\<close>

definition null_if_empty :: "string \<Rightarrow> string option" where
  "null_if_empty x = (if x = '''' then None else Some x)"

definition CreateInvite :: "int \<Rightarrow> string \<Rightarrow> string \<Rightarrow> string \<Rightarrow> bool \<Rightarrow> int \<Rightarrow> store \<Rightarrow> unit res \<times> store" where
  "CreateInvite now token createdBy forUser isAdmin expiresAt s =
     (if db_fault s ''CreateInvite'' \<or> token \<in> ir_Token ` set (invites s)
         \<or> (createdBy \<noteq> '''' \<and> createdBy \<notin> user_ID ` set (users s))
         \<or> (forUser \<noteq> '''' \<and> forUser \<notin> user_ID ` set (users s))
      then (Inl db_error, s)
      else (Inr (), s\<lparr>invites := invites s @
        [\<lparr>ir_Token = token, ir_CreatedBy = null_if_empty createdBy, ir_ForUser = null_if_empty forUser,
          ir_IsAdmin = isAdmin, ir_ExpiresAt = expiresAt, ir_UsedAt = 0, ir_CreatedAt = now\<rparr>]\<rparr>))"

text \<open>\<^verbatim>\<open>InviteRow.ForUser\<close>: the bound user's id, or the empty text.\<close>

definition ForUser :: "invite_row \<Rightarrow> string" where
  "ForUser r = (case ir_ForUser r of None \<Rightarrow> '''' | Some u \<Rightarrow> u)"

definition GetInvite :: "string \<Rightarrow> store \<Rightarrow> invite_row res" where
  "GetInvite token s =
     (if db_fault s ''GetInvite'' then Inl db_error
      else case find (\<lambda>i. ir_Token i = token) (invites s) of None \<Rightarrow> Inl ErrNotFound | Some i \<Rightarrow> Inr i)"

text \<open>The rows an \<^verbatim>\<open>UPDATE invites ... WHERE token=? AND used_at=0 AND expires_at>?\<close> touches.\<close>

definition consumable :: "int \<Rightarrow> string \<Rightarrow> invite_row \<Rightarrow> bool" where
  "consumable now token i \<longleftrightarrow> ir_Token i = token \<and> ir_UsedAt i = 0 \<and> ir_ExpiresAt i > now"

definition ConsumeInvite :: "int \<Rightarrow> string \<Rightarrow> store \<Rightarrow> unit res \<times> store" where
  "ConsumeInvite now token s =
     (if db_fault s ''ConsumeInvite'' then (Inl db_error, s)
      else if \<not> list_ex (consumable now token) (invites s) then (Inl ErrNotFound, s)
      else (Inr (), s\<lparr>invites :=
        map (\<lambda>i. if consumable now token i then i\<lparr>ir_UsedAt := now\<rparr> else i) (invites s)\<rparr>))"

definition DeleteInvite :: "string \<Rightarrow> store \<Rightarrow> unit res \<times> store" where
  "DeleteInvite token s =
     (if db_fault s ''DeleteInvite'' then (Inl db_error, s)
      else if token \<notin> ir_Token ` set (invites s) then (Inl ErrNotFound, s)
      else (Inr (), s\<lparr>invites := filter (\<lambda>i. ir_Token i \<noteq> token) (invites s)\<rparr>))"

definition ListPendingInvites :: "int \<Rightarrow> store \<Rightarrow> invite_row list res" where
  "ListPendingInvites now s =
     (if db_fault s ''ListPendingInvites'' then Inl db_error
      else Inr (sort_key (\<lambda>i. - ir_CreatedAt i)
        (filter (\<lambda>i. ir_UsedAt i = 0 \<and> ir_ExpiresAt i > now) (invites s))))"

section \<open>Sessions\<close>

definition CreateSession :: "int \<Rightarrow> string \<Rightarrow> string \<Rightarrow> int \<Rightarrow> store \<Rightarrow> unit res \<times> store" where
  "CreateSession now token userID expiresAt s =
     (if db_fault s ''CreateSession'' \<or> token \<in> se_Token ` set (sessions s)
         \<or> userID \<notin> user_ID ` set (users s)
      then (Inl db_error, s)
      else (Inr (), s\<lparr>sessions := sessions s @
        [\<lparr>se_Token = token, se_UserID = userID, se_ExpiresAt = expiresAt, se_CreatedAt = now\<rparr>]\<rparr>))"

definition DeleteSession :: "string \<Rightarrow> store \<Rightarrow> unit res \<times> store" where
  "DeleteSession token s =
     (if db_fault s ''DeleteSession'' then (Inl db_error, s)
      else (Inr (), s\<lparr>sessions := filter (\<lambda>x. se_Token x \<noteq> token) (sessions s)\<rparr>))"

definition SessionUser :: "int \<Rightarrow> string \<Rightarrow> store \<Rightarrow> user res \<times> store" where
  "SessionUser now token s =
     (if db_fault s ''SessionUser'' then (Inl db_error, s)
      else case find (\<lambda>x. se_Token x = token) (sessions s) of
          None \<Rightarrow> (Inl ErrNotFound, s)
        | Some x \<Rightarrow>
            if se_ExpiresAt x < now then (Inl ErrNotFound, snd (DeleteSession token s))
            else (GetUser (se_UserID x) s, s))"

section \<open>External identities\<close>

definition OIDCIdentityBySubject :: "string \<Rightarrow> string \<Rightarrow> store \<Rightarrow> oidc_identity res" where
  "OIDCIdentityBySubject issuer subject s =
     (if db_fault s ''OIDCIdentityBySubject'' then Inl db_error
      else case find (\<lambda>x. oi_Issuer x = issuer \<and> oi_Subject x = subject) (oidc_identities s) of
          None \<Rightarrow> Inl ErrNotFound | Some x \<Rightarrow> Inr x)"

definition LinkOIDCIdentity ::
  "int \<Rightarrow> string \<Rightarrow> string \<Rightarrow> string \<Rightarrow> string \<Rightarrow> string \<Rightarrow> store \<Rightarrow> unit res \<times> store" where
  "LinkOIDCIdentity now rid userID issuer subject email s =
     (if db_fault s ''LinkOIDCIdentity'' \<or> rid \<in> oi_ID ` set (oidc_identities s)
         \<or> userID \<notin> user_ID ` set (users s)
         \<or> (issuer, subject) \<in> (\<lambda>x. (oi_Issuer x, oi_Subject x)) ` set (oidc_identities s)
      then (Inl db_error, s)
      else (Inr (), s\<lparr>oidc_identities := oidc_identities s @
        [\<lparr>oi_ID = rid, oi_UserID = userID, oi_Issuer = issuer, oi_Subject = subject, oi_Email = email,
          oi_CreatedAt = now\<rparr>]\<rparr>))"

definition OIDCIdentitiesByUser :: "string \<Rightarrow> store \<Rightarrow> oidc_identity list res" where
  "OIDCIdentitiesByUser userID s =
     (if db_fault s ''OIDCIdentitiesByUser'' then Inl db_error
      else Inr (sort_key oi_CreatedAt (filter (\<lambda>x. oi_UserID x = userID) (oidc_identities s))))"

lemmas account_ops = CreateUser_def DeleteUser_def SetUserAdmin_def AddCredential_def UpdateSignCount_def
  CreateInvite_def ConsumeInvite_def DeleteInvite_def CreateSession_def DeleteSession_def
  LinkOIDCIdentity_def

section \<open>The integrity of the account tables\<close>

text \<open>Keys are unique and every reference points at a user that exists.\<close>

definition user_ids :: "store \<Rightarrow> string set" where
  "user_ids s = user_ID ` set (users s)"

definition account_keys :: "store \<Rightarrow> bool" where
  "account_keys s \<longleftrightarrow>
     distinct (map user_ID (users s)) \<and> distinct (map cr_ID (credentials s)) \<and>
     distinct (map cr_CredID (credentials s)) \<and> distinct (map ir_Token (invites s)) \<and>
     distinct (map se_Token (sessions s)) \<and> distinct (map oi_ID (oidc_identities s)) \<and>
     distinct (map (\<lambda>x. (oi_Issuer x, oi_Subject x)) (oidc_identities s))"

definition account_refs :: "store \<Rightarrow> bool" where
  "account_refs s \<longleftrightarrow>
     (\<forall>c \<in> set (credentials s). cr_UserID c \<in> user_ids s) \<and>
     (\<forall>x \<in> set (sessions s). se_UserID x \<in> user_ids s) \<and>
     (\<forall>x \<in> set (oidc_identities s). oi_UserID x \<in> user_ids s) \<and>
     (\<forall>i \<in> set (invites s). \<forall>u. ir_CreatedBy i = Some u \<longrightarrow> u \<in> user_ids s) \<and>
     (\<forall>i \<in> set (invites s). \<forall>u. ir_ForUser i = Some u \<longrightarrow> u \<in> user_ids s)"

definition accounts_ok :: "store \<Rightarrow> bool" where
  "accounts_ok s \<longleftrightarrow> account_keys s \<and> account_refs s"

lemma accounts_ok_empty: "accounts_ok (empty_store\<lparr>db_fault := f\<rparr>)"
  by (simp add: accounts_ok_def account_keys_def account_refs_def empty_store_def)

text \<open>Reading a key of a row that an update may have changed in other columns.\<close>

lemma map_key_update [simp]:
  "map (user_ID \<circ> (\<lambda>u. if P u then u\<lparr>user_IsAdmin := a\<rparr> else u)) us = map user_ID us"
  "map (cr_ID \<circ> (\<lambda>c. if Q c then c\<lparr>cr_SignCount := n\<rparr> else c)) cs = map cr_ID cs"
  "map (cr_CredID \<circ> (\<lambda>c. if Q c then c\<lparr>cr_SignCount := n\<rparr> else c)) cs = map cr_CredID cs"
  "map (ir_Token \<circ> (\<lambda>i. if R i then i\<lparr>ir_UsedAt := t\<rparr> else i)) is = map ir_Token is"
  "map (ir_Token \<circ> (\<lambda>i. if R i then i\<lparr>ir_CreatedBy := b\<rparr> else i)) is = map ir_Token is"
  by simp_all

lemma user_ids_frame [simp]:
  "user_ids (s\<lparr>credentials := c\<rparr>) = user_ids s" "user_ids (s\<lparr>invites := i\<rparr>) = user_ids s"
  "user_ids (s\<lparr>sessions := x\<rparr>) = user_ids s" "user_ids (s\<lparr>oidc_identities := y\<rparr>) = user_ids s"
  by (simp_all add: user_ids_def)

lemma user_ids_append [simp]: "user_ids (s\<lparr>users := users s @ [u]\<rparr>) = insert (user_ID u) (user_ids s)"
  by (simp add: user_ids_def)

lemma user_ids_set_admin [simp]:
  "user_ids (s\<lparr>users := map (\<lambda>u. if user_ID u = i then u\<lparr>user_IsAdmin := a\<rparr> else u) (users s)\<rparr>) = user_ids s"
proof -
  have "user_ID ` set (map (\<lambda>u. if user_ID u = i then u\<lparr>user_IsAdmin := a\<rparr> else u) xs) = user_ID ` set xs"
    for xs :: "user list"
    by (induction xs) auto
  from this [of "users s"] show ?thesis by (simp add: user_ids_def)
qed

lemma account_keys_step:
  assumes "account_keys s"
  shows "account_keys (snd (CreateUser now i n a s))" "account_keys (snd (DeleteUser i s))"
    "account_keys (snd (SetUserAdmin i a s))" "account_keys (snd (AddCredential c s))"
    "account_keys (snd (UpdateSignCount i k s))" "account_keys (snd (CreateInvite now i n m a x s))"
    "account_keys (snd (ConsumeInvite now i s))" "account_keys (snd (DeleteInvite i s))"
    "account_keys (snd (CreateSession now i n x s))" "account_keys (snd (DeleteSession i s))"
    "account_keys (snd (LinkOIDCIdentity now i n m o' p s))"
  using assms
  by (simp_all add: account_ops account_keys_def Let_def delete_user_rows_def
      distinct_map_filter)

text \<open>Deleting a user leaves no reference to it.\<close>

lemma user_ids_delete [simp]: "user_ids (delete_user_rows i s) = user_ids s - {i}"
  by (auto simp: user_ids_def delete_user_rows_def)

lemma delete_user_rows_tables [simp]:
  "credentials (delete_user_rows i s) = filter (\<lambda>c. cr_UserID c \<noteq> i) (credentials s)"
  "sessions (delete_user_rows i s) = filter (\<lambda>x. se_UserID x \<noteq> i) (sessions s)"
  "oidc_identities (delete_user_rows i s) = filter (\<lambda>x. oi_UserID x \<noteq> i) (oidc_identities s)"
  "invites (delete_user_rows i s) =
     map (\<lambda>v. if ir_CreatedBy v = Some i then v\<lparr>ir_CreatedBy := None\<rparr> else v)
       (filter (\<lambda>v. ir_ForUser v \<noteq> Some i) (invites s))"
  by (simp_all add: delete_user_rows_def)

lemma account_refs_delete: "account_refs s \<Longrightarrow> account_refs (delete_user_rows i s)"
  unfolding account_refs_def by auto

lemma account_refs_users:
  assumes "account_refs s"
  shows "account_refs (snd (CreateUser now i n a s))" "account_refs (snd (DeleteUser i s))"
    "account_refs (snd (SetUserAdmin i a s))"
proof -
  show "account_refs (snd (CreateUser now i n a s))"
    using assms by (auto simp: CreateUser_def Let_def account_refs_def)
  show "account_refs (snd (DeleteUser i s))"
    using assms account_refs_delete by (simp add: DeleteUser_def)
  show "account_refs (snd (SetUserAdmin i a s))"
    using assms by (simp add: SetUserAdmin_def account_refs_def)
qed

lemma account_refs_credentials:
  assumes "account_refs s"
  shows "account_refs (snd (AddCredential c s))" "account_refs (snd (UpdateSignCount i k s))"
proof -
  show "account_refs (snd (AddCredential c s))"
    using assms by (auto simp: AddCredential_def account_refs_def) (auto simp: user_ids_def)
  show "account_refs (snd (UpdateSignCount i k s))"
    using assms by (auto simp: UpdateSignCount_def account_refs_def)
qed

lemma account_refs_invites:
  assumes "account_refs s"
  shows "account_refs (snd (CreateInvite now i n m a x s))" "account_refs (snd (ConsumeInvite now i s))"
    "account_refs (snd (DeleteInvite i s))"
proof -
  show "account_refs (snd (CreateInvite now i n m a x s))"
    using assms by (auto simp: CreateInvite_def account_refs_def null_if_empty_def)
      (auto simp: user_ids_def)
  show "account_refs (snd (ConsumeInvite now i s))"
    using assms by (auto simp: ConsumeInvite_def account_refs_def)
  show "account_refs (snd (DeleteInvite i s))"
    using assms by (auto simp: DeleteInvite_def account_refs_def)
qed

lemma account_refs_sessions:
  assumes "account_refs s"
  shows "account_refs (snd (CreateSession now i n x s))" "account_refs (snd (DeleteSession i s))"
    "account_refs (snd (LinkOIDCIdentity now i n m o' p s))"
proof -
  show "account_refs (snd (CreateSession now i n x s))"
    using assms by (auto simp: CreateSession_def account_refs_def) (auto simp: user_ids_def)
  show "account_refs (snd (DeleteSession i s))"
    using assms by (auto simp: DeleteSession_def account_refs_def)
  show "account_refs (snd (LinkOIDCIdentity now i n m o' p s))"
    using assms by (auto simp: LinkOIDCIdentity_def account_refs_def) (auto simp: user_ids_def)
qed

lemmas account_refs_step =
  account_refs_users account_refs_credentials account_refs_invites account_refs_sessions

lemma accounts_ok_step [simp, intro]:
  assumes "accounts_ok s"
  shows "accounts_ok (snd (CreateUser now i n a s))" "accounts_ok (snd (DeleteUser i s))"
    "accounts_ok (snd (SetUserAdmin i a s))" "accounts_ok (snd (AddCredential c s))"
    "accounts_ok (snd (UpdateSignCount i k s))" "accounts_ok (snd (CreateInvite now i n m a x s))"
    "accounts_ok (snd (ConsumeInvite now i s))" "accounts_ok (snd (DeleteInvite i s))"
    "accounts_ok (snd (CreateSession now i n x s))" "accounts_ok (snd (DeleteSession i s))"
    "accounts_ok (snd (LinkOIDCIdentity now i n m o' p s))"
  using assms account_keys_step account_refs_step unfolding accounts_ok_def by auto

lemma accounts_ok_SessionUser [simp, intro]: "accounts_ok s \<Longrightarrow> accounts_ok (snd (SessionUser now t s))"
  by (auto simp: SessionUser_def split: option.splits)

end
