(* ===== verification/Store_Events.thy ===== *)
theory Store_Events
  imports Store_Base "HOL-Library.Product_Lexorder"
begin

text \<open>
  The event log of \<^verbatim>\<open>internal/store/events.go\<close>: appending, filtered and paged reading with a
  cursor, and pruning by age. The properties: following the cursors of successive pages visits
  every matching event exactly once, newest first; a search is a case-insensitive substring
  test although it is carried out by SQL's \<^verbatim>\<open>LIKE\<close>; pruning removes exactly the old rows.
\<close>

section \<open>Model\<close>

definition DefaultEventLimit :: int where "DefaultEventLimit = 50"
definition MaxEventLimit :: int where "MaxEventLimit = 200"

record event_query =
  q_Cursor :: string
  q_Limit :: int
  q_Event :: string
  q_Container :: string
  q_Stack :: string
  q_Search :: string

text \<open>
  \<^verbatim>\<open>AppendEvent\<close>: the row id is the next of the table's \<^verbatim>\<open>AUTOINCREMENT\<close> sequence, which
  fails once the largest 64-bit id is used. The event is returned in the error case too.
\<close>

definition AppendEvent :: "int \<Rightarrow> event \<Rightarrow> store \<Rightarrow> (err option \<times> event) \<times> store" where
  "AppendEvent now ev s =
     (let ev = (if ev_CreatedAt ev = 0 then ev\<lparr>ev_CreatedAt := now\<rparr> else ev);
          rowid = event_seq s + 1
      in if db_fault s ''AppendEvent'' \<or> rowid \<ge> 2 ^ 63 then ((Some db_error, ev), s)
         else ((None, ev\<lparr>ev_ID := rowid\<rparr>),
               s\<lparr>events := events s @ [ev\<lparr>ev_ID := rowid\<rparr>], event_seq := rowid\<rparr>))"

definition encodeEventCursor :: "int \<Rightarrow> int \<Rightarrow> string" where
  "encodeEventCursor createdAt eid = Itoa createdAt @ ''_'' @ Itoa eid"

definition decodeEventCursor :: "string \<Rightarrow> (int \<times> int) res" where
  "decodeEventCursor cursor =
     (let bad = Inl (Errorf (''bad cursor '' @ cursor)) in
      case Cut cursor ''_'' of
        None \<Rightarrow> bad
      | Some (a, b) \<Rightarrow>
          (case ParseInt a of
             None \<Rightarrow> bad
           | Some createdAt \<Rightarrow> (case ParseInt b of None \<Rightarrow> bad | Some eid \<Rightarrow> Inr (createdAt, eid))))"

abbreviation backslash :: char where "backslash \<equiv> CHR 0x5C"

definition escape_char :: "char \<Rightarrow> string" where
  "escape_char c = (if c \<in> {backslash, CHR ''%'', CHR ''_''} then [backslash, c] else [c])"

definition escapeLike :: "string \<Rightarrow> string" where
  "escapeLike s = concat (map escape_char s)"

text \<open>
  SQLite's \<^verbatim>\<open>LIKE\<close> with the backslash as escape character: the percent sign stands for any
  text, the underscore for one character, an escaped character for itself, and letters compare
  without regard to ASCII case. A pattern that ends in the escape character matches nothing.
\<close>

fun like_match :: "string \<Rightarrow> string \<Rightarrow> bool" where
  "like_match [] t = (t = [])"
| "like_match (p # ps) t =
     (if p = CHR ''%'' then like_match ps t \<or> (case t of [] \<Rightarrow> False | _ # t' \<Rightarrow> like_match (p # ps) t')
      else if p = backslash then
        (case ps of [] \<Rightarrow> False
         | x # ps' \<Rightarrow> (case t of [] \<Rightarrow> False
            | c # t' \<Rightarrow> to_lower_char x = to_lower_char c \<and> like_match ps' t'))
      else (case t of [] \<Rightarrow> False
            | c # t' \<Rightarrow> (p = CHR ''_'' \<or> to_lower_char p = to_lower_char c) \<and> like_match ps t'))"

declare like_match.simps(2) [simp del]

text \<open>The WHERE clause for the filters, and the extra condition of a decoded cursor.\<close>

definition query_matches :: "event_query \<Rightarrow> event \<Rightarrow> bool" where
  "query_matches q ev \<longleftrightarrow>
     (q_Event q = '''' \<or> event_name (ev_Event ev) = q_Event q) \<and>
     (q_Container q = '''' \<or> ev_ContainerName ev = q_Container q) \<and>
     (q_Stack q = '''' \<or> ev_StackID ev = q_Stack q) \<and>
     (q_Search q = '''' \<or>
        (let like = ''%'' @ escapeLike (q_Search q) @ ''%''
         in like_match like (ev_Title ev) \<or> like_match like (ev_Body ev)))"

definition before_cursor :: "int \<times> int \<Rightarrow> event \<Rightarrow> bool" where
  "before_cursor c ev \<longleftrightarrow>
     ev_CreatedAt ev < fst c \<or> (ev_CreatedAt ev = fst c \<and> ev_ID ev < snd c)"

definition event_key :: "event \<Rightarrow> int \<times> int" where
  "event_key ev = (- ev_CreatedAt ev, - ev_ID ev)"

definition page_limit :: "event_query \<Rightarrow> nat" where
  "page_limit q =
     (let limit = (if q_Limit q \<le> 0 then DefaultEventLimit else q_Limit q)
      in nat (if limit > MaxEventLimit then MaxEventLimit else limit))"

definition ListEvents :: "event_query \<Rightarrow> store \<Rightarrow> event_page res" where
  "ListEvents q s =
     (let limit = page_limit q in
      case (if q_Cursor q = '''' then Inr (\<lambda>_. True)
            else map_sum id before_cursor (decodeEventCursor (q_Cursor q))) of
        Inl e \<Rightarrow> Inl e
      | Inr older \<Rightarrow>
          if db_fault s ''ListEvents'' then Inl db_error
          else
            let rows = filter (\<lambda>ev. query_matches q ev \<and> older ev) (events s);
                items = take (limit + 1) (sort_key event_key rows)
            in Inr (if length items > limit
                    then \<lparr>page_Items = take limit items,
                          page_NextCursor = encodeEventCursor (ev_CreatedAt (items ! (limit - 1)))
                                                              (ev_ID (items ! (limit - 1)))\<rparr>
                    else \<lparr>page_Items = items, page_NextCursor = ''''\<rparr>))"

definition PruneEventsOlderThan :: "int \<Rightarrow> store \<Rightarrow> int res \<times> store" where
  "PruneEventsOlderThan cutoff s =
     (if cutoff \<le> 0 then (Inr 0, s)
      else if db_fault s ''PruneEventsOlderThan'' then (Inl db_error, s)
      else (Inr (int (length (filter (\<lambda>ev. ev_CreatedAt ev < cutoff) (events s)))),
            s\<lparr>events := filter (\<lambda>ev. \<not> ev_CreatedAt ev < cutoff) (events s)\<rparr>))"

section \<open>The log's invariant\<close>

definition events_ok :: "store \<Rightarrow> bool" where
  "events_ok s \<longleftrightarrow>
     distinct (map ev_ID (events s)) \<and> 0 \<le> event_seq s \<and> event_seq s < 2 ^ 63 \<and>
     (\<forall>ev \<in> set (events s). 0 < ev_ID ev \<and> ev_ID ev \<le> event_seq s \<and> int64_range (ev_CreatedAt ev))"

lemma events_ok_AppendEvent:
  assumes "events_ok s" "int64_range now" "int64_range (ev_CreatedAt ev)"
  shows "events_ok (snd (AppendEvent now ev s))"
  using assms by (fastforce simp: events_ok_def AppendEvent_def Let_def)

lemma events_ok_Prune: "events_ok s \<Longrightarrow> events_ok (snd (PruneEventsOlderThan cutoff s))"
  by (auto simp: events_ok_def PruneEventsOlderThan_def distinct_map_filter)

section \<open>Cursors\<close>

lemma decode_encode_cursor:
  assumes "int64_range a" "int64_range b"
  shows "decodeEventCursor (encodeEventCursor a b) = Inr (a, b)"
proof -
  have "Cut (Itoa a @ ''_'' @ Itoa b) ''_'' = Some (Itoa a, Itoa b)"
    using Cut_char [OF Itoa_no_underscore, of a "Itoa b"] by simp
  with assms show ?thesis
    by (simp add: decodeEventCursor_def encodeEventCursor_def ParseInt_Itoa)
qed

lemma encode_cursor_nonempty [simp]: "encodeEventCursor a b \<noteq> []"
  by (simp add: encodeEventCursor_def)

lemma before_cursor_key: "before_cursor (ev_CreatedAt e, ev_ID e) x \<longleftrightarrow> event_key e < event_key x"
  by (auto simp: before_cursor_def event_key_def less_prod_def)

text \<open>In a list sorted by distinct keys, the elements beyond the k-th are those with a larger key.\<close>

lemma filter_greater_drop:
  fixes key :: "'a \<Rightarrow> 'b::linorder"
  assumes "sorted (map key xs)" "distinct (map key xs)" "k < length xs"
  shows "filter (\<lambda>x. key (xs ! k) < key x) xs = drop (Suc k) xs"
proof -
  have xs: "xs = take (Suc k) xs @ drop (Suc k) xs" by simp
  have "\<not> key (xs ! k) < key x" if "x \<in> set (take (Suc k) xs)" for x
  proof -
    from that obtain i where "i < length xs" "i \<le> k" "x = xs ! i"
      by (auto simp: in_set_conv_nth)
    with assms sorted_nth_mono [of "map key xs" i k] show ?thesis by simp
  qed
  then have 1: "filter (\<lambda>x. key (xs ! k) < key x) (take (Suc k) xs) = []"
    by (simp add: filter_empty_conv)
  have "key (xs ! k) < key x" if "x \<in> set (drop (Suc k) xs)" for x
  proof -
    from that obtain j where "j < length xs - Suc k" and x: "x = xs ! (Suc k + j)"
      by (auto simp: in_set_conv_nth)
    then have j: "Suc k + j < length xs" by simp
    with x assms have "key (xs ! k) \<le> key x" "key (xs ! k) \<noteq> key x"
      using sorted_nth_mono [of "map key xs" k "Suc k + j"]
        nth_eq_iff_index_eq [of "map key xs" k "Suc k + j"] by auto
    then show ?thesis by simp
  qed
  then have 2: "filter (\<lambda>x. key (xs ! k) < key x) (drop (Suc k) xs) = drop (Suc k) xs"
    by (simp add: filter_id_conv)
  have "filter (\<lambda>x. key (xs ! k) < key x) (take (Suc k) xs @ drop (Suc k) xs) = drop (Suc k) xs"
    by (simp only: filter_append 1 2 append_Nil)
  then show ?thesis by simp
qed

section \<open>Pages\<close>

text \<open>The whole answer to a query, of which \<^const>\<open>ListEvents\<close> returns one page at a time.\<close>

definition all_matching :: "event_query \<Rightarrow> store \<Rightarrow> event list" where
  "all_matching q s = sort_key event_key (filter (query_matches q) (events s))"

lemma all_matching_keys:
  assumes "events_ok s"
  shows "sorted (map event_key (all_matching q s))" "distinct (map event_key (all_matching q s))"
proof -
  show "sorted (map event_key (all_matching q s))"
    by (simp add: all_matching_def)
  have "distinct (map ev_ID (filter (query_matches q) (events s)))"
    using assms by (simp add: events_ok_def distinct_map_filter)
  then have "distinct (map event_key (filter (query_matches q) (events s)))"
    by (auto simp: distinct_map inj_on_def event_key_def)
  then show "distinct (map event_key (all_matching q s))"
    by (auto simp: all_matching_def distinct_map)
qed

lemma page_limit_pos: "0 < page_limit q"
  by (simp add: page_limit_def Let_def DefaultEventLimit_def MaxEventLimit_def)

lemma page_limit_max: "page_limit q \<le> 200"
  by (auto simp: page_limit_def Let_def DefaultEventLimit_def MaxEventLimit_def)

definition page_of :: "nat \<Rightarrow> nat \<Rightarrow> event list \<Rightarrow> event_page" where
  "page_of limit k evs =
     \<lparr>page_Items = take limit (drop k evs),
      page_NextCursor = (if k + limit < length evs
        then encodeEventCursor (ev_CreatedAt (evs ! (k + limit - 1))) (ev_ID (evs ! (k + limit - 1)))
        else '''')\<rparr>"

definition cursor_at :: "nat \<Rightarrow> event list \<Rightarrow> string" where
  "cursor_at k evs =
     (if k = 0 then '''' else encodeEventCursor (ev_CreatedAt (evs ! (k - 1))) (ev_ID (evs ! (k - 1))))"

lemma all_matching_older:
  assumes "events_ok s" "0 < k" "k \<le> length (all_matching q s)" "e = all_matching q s ! (k - 1)"
  shows "sort_key event_key (filter (\<lambda>x. query_matches q x \<and> before_cursor (ev_CreatedAt e, ev_ID e) x) (events s))
    = drop k (all_matching q s)"
proof -
  have "filter (\<lambda>x. query_matches q x \<and> event_key e < event_key x) (events s)
      = filter (\<lambda>x. event_key e < event_key x) (filter (query_matches q) (events s))"
    by (simp add: conj_commute)
  then have "sort_key event_key (filter (\<lambda>x. query_matches q x \<and> event_key e < event_key x) (events s))
      = filter (\<lambda>x. event_key e < event_key x) (all_matching q s)"
    by (simp add: all_matching_def filter_sort)
  also have "\<dots> = drop k (all_matching q s)"
    using filter_greater_drop [OF all_matching_keys [OF assms(1)], of "k - 1" q] assms(2-4) by simp
  finally show ?thesis by (simp add: before_cursor_key)
qed

text \<open>The page at the cursor that points behind the first \<open>k\<close> matching events.\<close>

lemma ListEvents_page:
  assumes ok: "events_ok s" and rd: "\<not> db_fault s ''ListEvents''"
    and k: "k \<le> length (all_matching q s)" and c: "q_Cursor q' = cursor_at k (all_matching q s)"
    and q': "query_matches q' = query_matches q"
  shows "ListEvents q' s = Inr (page_of (page_limit q') k (all_matching q s))"
proof -
  define lim where "lim = page_limit q'"
  have lim: "0 < lim" using page_limit_pos lim_def by simp
  define evs where "evs = all_matching q s"
  obtain older where
    dec: "(if q_Cursor q' = '''' then Inr (\<lambda>_. True)
           else map_sum id before_cursor (decodeEventCursor (q_Cursor q'))) = (Inr older :: _ res)"
    and rows: "sort_key event_key (filter (\<lambda>ev. query_matches q' ev \<and> older ev) (events s)) = drop k evs"
  proof (cases "k = 0")
    case True
    with c that [of "\<lambda>_. True"] show ?thesis by (simp add: cursor_at_def evs_def all_matching_def q')
  next
    case False
    define e where "e = all_matching q s ! (k - 1)"
    have "e \<in> set (all_matching q s)" using False k by (simp add: e_def)
    then have "e \<in> set (events s)" by (simp add: all_matching_def)
    with ok have "int64_range (ev_CreatedAt e)" "int64_range (ev_ID e)"
      by (auto simp: events_ok_def int64_range_def)
    with False c have "(if q_Cursor q' = '''' then Inr (\<lambda>_. True)
        else map_sum id before_cursor (decodeEventCursor (q_Cursor q')))
      = (Inr (before_cursor (ev_CreatedAt e, ev_ID e)) :: _ res)"
      by (simp add: cursor_at_def e_def decode_encode_cursor)
    moreover have "sort_key event_key (filter (\<lambda>ev. query_matches q' ev \<and>
        before_cursor (ev_CreatedAt e, ev_ID e) ev) (events s)) = drop k evs"
      using all_matching_older [OF ok _ k e_def] False by (simp add: evs_def q')
    ultimately show ?thesis by (rule that)
  qed
  have nth: "take (Suc lim) (drop k evs) ! (lim - 1) = evs ! (k + lim - 1)" if "k + lim < length evs"
    using that lim by (simp add: add_diff_assoc)
  show ?thesis
    unfolding ListEvents_def Let_def dec sum.case rows lim_def [symmetric]
    using rd nth by (auto simp: page_of_def evs_def [symmetric] min_def)
qed

text \<open>
  What a client does with the cursors: ask for a page, append it, go on from the cursor it
  carries, stop when the cursor is empty.
\<close>

fun walk_pages :: "nat \<Rightarrow> event_query \<Rightarrow> store \<Rightarrow> event list res" where
  "walk_pages 0 q s = Inl (Errorf ''out of fuel'')"
| "walk_pages (Suc n) q s =
     (case ListEvents q s of
        Inl e \<Rightarrow> Inl e
      | Inr p \<Rightarrow> if page_NextCursor p = '''' then Inr (page_Items p)
                 else map_sum id (\<lambda>rest. page_Items p @ rest)
                        (walk_pages n (q\<lparr>q_Cursor := page_NextCursor p\<rparr>) s))"

lemma query_matches_cursor [simp]: "query_matches (q\<lparr>q_Cursor := c\<rparr>) = query_matches q"
  by (simp add: query_matches_def fun_eq_iff)

lemma page_limit_cursor [simp]: "page_limit (q\<lparr>q_Cursor := c\<rparr>) = page_limit q"
  by (simp add: page_limit_def)

lemma walk_pages_from:
  assumes "events_ok s" "\<not> db_fault s ''ListEvents''"
  shows "\<lbrakk>k \<le> length (all_matching q s); length (all_matching q s) - k < n\<rbrakk> \<Longrightarrow>
    walk_pages n (q\<lparr>q_Cursor := cursor_at k (all_matching q s)\<rparr>) s = Inr (drop k (all_matching q s))"
proof (induction n arbitrary: k)
  case (Suc n)
  define evs where "evs = all_matching q s"
  define lim where "lim = page_limit q"
  have lim: "0 < lim" by (simp add: lim_def page_limit_pos)
  have page: "ListEvents (q\<lparr>q_Cursor := cursor_at k evs\<rparr>) s = Inr (page_of lim k evs)"
    using ListEvents_page [OF assms Suc.prems(1), of "q\<lparr>q_Cursor := cursor_at k evs\<rparr>"]
    by (simp add: evs_def lim_def)
  show ?case
  proof (cases "k + lim < length evs")
    case True
    then have next_cursor: "page_NextCursor (page_of lim k evs) = cursor_at (k + lim) evs"
      using lim by (simp add: page_of_def cursor_at_def)
    have "walk_pages n (q\<lparr>q_Cursor := cursor_at (k + lim) evs\<rparr>) s = Inr (drop (k + lim) evs)"
      using Suc.IH [of "k + lim"] Suc.prems True lim by (simp add: evs_def)
    moreover have "take lim (drop k evs) @ drop (k + lim) evs = drop k evs"
      by (metis add.commute append_take_drop_id drop_drop)
    ultimately show ?thesis
      using page next_cursor True lim by (simp add: evs_def [symmetric] page_of_def cursor_at_def)
  next
    case False
    then show ?thesis using page by (simp add: evs_def [symmetric] page_of_def)
  qed
qed simp

text \<open>
  \<^bold>\<open>C11\<close>: Paging is complete and free of duplicates. Starting without a cursor and
  following \<^verbatim>\<open>NextCursor\<close> until it is empty returns every event that matches the query's
  filters exactly once (it is a permutation of the matching rows), ordered from newest to
  oldest by creation time and id. The walk ends after at most as many pages as there are
  matching events, plus one.
\<close>

theorem event_paging_complete:
  assumes "events_ok s" "\<not> db_fault s ''ListEvents''" "q_Cursor q = ''''"
  shows "\<exists>evs. walk_pages (Suc (length (events s))) q s = Inr evs \<and>
      mset evs = mset (filter (query_matches q) (events s)) \<and>
      sorted_wrt (\<lambda>a b. (ev_CreatedAt b, ev_ID b) < (ev_CreatedAt a, ev_ID a)) evs"
proof -
  have le: "length (all_matching q s) < Suc (length (events s))"
    by (simp add: all_matching_def less_Suc_eq_le)
  have "q\<lparr>q_Cursor := cursor_at 0 (all_matching q s)\<rparr> = q"
    using assms(3) by (simp add: cursor_at_def)
  then have w: "walk_pages (Suc (length (events s))) q s = Inr (all_matching q s)"
    using walk_pages_from [OF assms(1,2), of 0 q "Suc (length (events s))"] le by simp
  have "sorted_wrt (<) (map event_key (all_matching q s))"
    using all_matching_keys [OF assms(1)] by (simp add: strict_sorted_iff)
  then have "sorted_wrt (\<lambda>a b. event_key a < event_key b) (all_matching q s)"
    by (simp add: sorted_wrt_map)
  then have "sorted_wrt (\<lambda>a b. (ev_CreatedAt b, ev_ID b) < (ev_CreatedAt a, ev_ID a)) (all_matching q s)"
    by (rule sorted_wrt_mono_rel [rotated]) (auto simp: event_key_def less_prod_def)
  with w show ?thesis
    by (intro exI [of _ "all_matching q s"]) (simp add: all_matching_def)
qed

definition sample_log :: store where
  "sample_log = snd (AppendEvent 7
     \<lparr>ev_ID = 0, ev_Event = EventAuth, ev_Title = ''in'', ev_Body = '''', ev_ContainerName = '''',
      ev_StackID = '''', ev_CreatedAt = 0\<rparr> empty_store)"

definition sample_query :: event_query where
  "sample_query = \<lparr>q_Cursor = '''', q_Limit = 1, q_Event = '''', q_Container = '''', q_Stack = '''',
     q_Search = ''''\<rparr>"

lemma sample_log_ok: "events_ok sample_log" "\<not> db_fault sample_log ''ListEvents''"
  by (simp_all add: sample_log_def events_ok_def AppendEvent_def empty_store_def Let_def int64_range_def)

theorem event_paging_complete_witness:
  "\<exists>evs. walk_pages (Suc (length (events sample_log))) sample_query sample_log = Inr evs \<and>
     mset evs = mset (filter (query_matches sample_query) (events sample_log)) \<and>
     sorted_wrt (\<lambda>a b. (ev_CreatedAt b, ev_ID b) < (ev_CreatedAt a, ev_ID a)) evs"
  by (rule event_paging_complete [OF sample_log_ok]) (simp add: sample_query_def)

section \<open>Searching\<close>

lemma like_percent: "like_match (CHR ''%'' # ps) t \<longleftrightarrow> (\<exists>u v. t = u @ v \<and> like_match ps v)"
proof (induction t)
  case Nil
  then show ?case by (simp add: like_match.simps(2))
next
  case (Cons c t)
  have "like_match (CHR ''%'' # ps) (c # t) \<longleftrightarrow> like_match ps (c # t) \<or> like_match (CHR ''%'' # ps) t"
    by (subst like_match.simps(2)) simp
  then show ?case unfolding Cons.IH by (auto simp: Cons_eq_append_conv)
qed

lemma like_percent_end: "like_match ''%'' t"
  by (auto simp: like_percent)

lemma like_escaped:
  "like_match (escapeLike q @ ps) t \<longleftrightarrow>
     (\<exists>u v. t = u @ v \<and> ToLower u = ToLower q \<and> like_match ps v)"
proof (induction q arbitrary: t)
  case Nil
  then show ?case by (simp add: escapeLike_def ToLower_def)
next
  case (Cons c q)
  have "like_match (escapeLike (c # q) @ ps) t \<longleftrightarrow>
      (\<exists>x t'. t = x # t' \<and> to_lower_char c = to_lower_char x \<and> like_match (escapeLike q @ ps) t')"
    by (auto simp: escapeLike_def escape_char_def like_match.simps(2) split: list.splits)
  then show ?case
    unfolding Cons.IH by (auto simp: ToLower_def map_eq_Cons_conv Cons_eq_append_conv) metis+
qed

lemma Contains_iff: "Contains s sub \<longleftrightarrow> (\<exists>u v. s = u @ sub @ v)"
proof
  assume "Contains s sub"
  then show "\<exists>u v. s = u @ sub @ v"
    by (auto simp: Contains_def dest: Cut_Some_append)
next
  have "Cut (u @ sub @ v) sub \<noteq> None" for u v
  proof (induction u)
    case Nil
    then show ?case using HasPrefix_append [of sub v] by (cases "sub @ v") auto
  qed auto
  then show "\<exists>u v. s = u @ sub @ v \<Longrightarrow> Contains s sub"
    by (auto simp: Contains_def)
qed

text \<open>
  Searching is substring search. The \<^verbatim>\<open>LIKE\<close> pattern that \<^verbatim>\<open>ListEvents\<close>
  builds from a search text, with every wildcard and escape character of the text neutralised by
  \<^verbatim>\<open>escapeLike\<close>, matches exactly the texts that contain the search text up to ASCII case.
\<close>

theorem search_is_contains:
  "like_match (''%'' @ escapeLike q @ ''%'') t \<longleftrightarrow> Contains (ToLower t) (ToLower q)"
proof -
  have "like_match (''%'' @ escapeLike q @ ''%'') t \<longleftrightarrow>
      (\<exists>a u b. t = a @ u @ b \<and> ToLower u = ToLower q)"
    by (auto simp: like_percent like_escaped like_percent_end)
  also have "\<dots> \<longleftrightarrow> (\<exists>a b. ToLower t = a @ ToLower q @ b)"
  proof
    assume "\<exists>a b. ToLower t = a @ ToLower q @ b"
    then obtain a' c where "map to_lower_char t = a' @ map to_lower_char q @ c"
      by (auto simp: ToLower_def)
    then obtain a b where "t = a @ b" "map to_lower_char b = map to_lower_char q @ c"
      by (metis map_eq_append_conv)
    moreover from this(2) obtain u v where "b = u @ v" "map to_lower_char u = map to_lower_char q"
      by (auto simp: map_eq_append_conv)
    ultimately show "\<exists>a u b. t = a @ u @ b \<and> ToLower u = ToLower q"
      by (auto simp: ToLower_def)
  next
    assume "\<exists>a u b. t = a @ u @ b \<and> ToLower u = ToLower q"
    then obtain a u b where "t = a @ u @ b" "ToLower u = ToLower q" by blast
    then have "ToLower t = ToLower a @ ToLower q @ ToLower b" by (simp add: ToLower_def)
    then show "\<exists>a b. ToLower t = a @ ToLower q @ b" by blast
  qed
  finally show ?thesis by (simp add: Contains_iff)
qed

section \<open>Pruning\<close>

text \<open>
  Pruning removes exactly the events recorded before the cutoff and reports their
  number, keeps the rest in order, never reuses a removed id for a later event, and a
  non-positive cutoff keeps everything.
\<close>

theorem prune_exact:
  assumes "PruneEventsOlderThan cutoff s = (Inr n, s')"
  shows "events s' = filter (\<lambda>ev. cutoff \<le> 0 \<or> cutoff \<le> ev_CreatedAt ev) (events s) \<and>
    n = int (length (events s)) - int (length (events s')) \<and>
    (events_ok s \<and> ev \<in> set (events s) \<and> fst (AppendEvent now new s') = (None, out) \<longrightarrow> ev_ID out \<noteq> ev_ID ev)"
proof -
  have len: "int (length (filter (\<lambda>ev. ev_CreatedAt ev < cutoff) evs))
      = int (length evs) - int (length (filter (\<lambda>ev. \<not> ev_CreatedAt ev < cutoff) evs))" for evs
    using sum_length_filter_compl [of "\<lambda>ev. ev_CreatedAt ev < cutoff" evs] by linarith
  have "event_seq s' = event_seq s"
    using assms by (auto simp: PruneEventsOlderThan_def split: if_splits)
  then have "ev_ID out \<noteq> ev_ID ev" if "events_ok s" "ev \<in> set (events s)"
    "fst (AppendEvent now new s') = (None, out)"
    using that by (fastforce simp: events_ok_def AppendEvent_def Let_def split: if_splits)
  with assms len show ?thesis
    by (auto simp: PruneEventsOlderThan_def not_less split: if_splits)
qed

theorem prune_exact_witness:
  "events (snd (PruneEventsOlderThan 9 sample_log)) = []"
  using prune_exact [of 9 sample_log 1 "snd (PruneEventsOlderThan 9 sample_log)"]
  by (simp add: PruneEventsOlderThan_def sample_log_def AppendEvent_def empty_store_def Let_def)

end
