(* ===== verification/Notify.thy ===== *)
theory Notify
  imports Store_Settings Store_Events
begin

text \<open>
  The notifier (\<^verbatim>\<open>internal/notify/notify.go\<close>): it records every event in the log, prunes the log,
  pushes the new row to connected browsers and delivers the message to the subscribed channels.

  Outside the repository and therefore parameters, gathered in \<open>notify_env\<close>: Shoutrrr (building a
  sender for a URL, sending through it), the parsed view of a service URL, and the calendar of the
  host's time zone. Delivery runs in a goroutine of its own; the model records what it is asked to
  deliver.
\<close>

section \<open>The environment and the notifier\<close>

record notify_env =
  CreateSender :: "string \<Rightarrow> unit res"
  sender_Send :: "string \<Rightarrow> string \<Rightarrow> string \<Rightarrow> err option list"
  url_Parse :: "string \<Rightarrow> (string \<times> (string \<times> string) list) res"
  AddDate_days :: "int \<Rightarrow> int \<Rightarrow> int"
  getenv_URLs :: string
  getenv_Events :: string

text \<open>\<^verbatim>\<open>Notifier\<close> without its store: the pinned configuration and whether a hub is attached.\<close>

record notifier =
  nt_env :: "notification_config option"
  nt_bc :: bool

text \<open>What leaves the notifier: a live push, or a message handed to the delivery goroutine.\<close>

datatype delivery =
    Pushed event
  | Deliver notification_event "string list" string string

section \<open>Configuration\<close>

text \<open>
  \<^verbatim>\<open>envEvents\<close>. The loop over the names only ever turns on keys that are already present.
\<close>

fun enable_named :: "string list \<Rightarrow> (notification_event \<times> bool) list \<Rightarrow> (notification_event \<times> bool) list" where
  "enable_named [] out = out"
| "enable_named (raw # names) out =
     (let name = TrimSpace raw
      in if name = '''' then enable_named names out
         else if map_of out (event_of_name name) = None then enable_named names out
         else enable_named names (AList.update (event_of_name name) True out))"

definition envEvents :: "string \<Rightarrow> (notification_event \<times> bool) list" where
  "envEvents raw =
     (if TrimSpace raw = '''' then []
      else enable_named (Split raw (CHR '','')) (map (\<lambda>ev. (ev, False)) AllNotificationEvents))"

definition NewNotifier :: "notify_env \<Rightarrow> notifier" where
  "NewNotifier e =
     \<lparr>nt_env =
        (if TrimSpace (getenv_URLs e) \<noteq> '''' then
           Some \<lparr>ncfg_Targets = map (\<lambda>u. \<lparr>tgt_URL = u, tgt_Events = envEvents (getenv_Events e)\<rparr>)
                    (Fields (getenv_URLs e)),
                 ncfg_EnvManaged = True\<rparr>
         else None),
      nt_bc = False\<rparr>"

definition SetBroadcaster :: "bool \<Rightarrow> notifier \<Rightarrow> notifier" where
  "SetBroadcaster bc n = n\<lparr>nt_bc := bc\<rparr>"

definition notifier_Config :: "notifier \<Rightarrow> store \<Rightarrow> notification_config res" where
  "notifier_Config n s = (case nt_env n of Some cfg \<Rightarrow> Inr cfg | None \<Rightarrow> LoadNotificationConfig s)"

definition redact :: "string \<Rightarrow> string" where
  "redact url = (case Cut url ''://'' of None \<Rightarrow> ''notification target'' | Some (scheme, _) \<Rightarrow> scheme @ '' target'')"

fun Validate :: "notify_env \<Rightarrow> string list \<Rightarrow> unit res" where
  "Validate e [] = Inr ()"
| "Validate e (u # us) =
     (case CreateSender e u of Inl err \<Rightarrow> Inl (Wrap (redact u @ '': '') err '''') | Inr _ \<Rightarrow> Validate e us)"

fun cleanTargets :: "notification_target list \<Rightarrow> notification_target list" where
  "cleanTargets [] = []"
| "cleanTargets (t # ts) =
     (let t = t\<lparr>tgt_URL := TrimSpace (tgt_URL t)\<rparr>
      in if tgt_URL t = '''' then cleanTargets ts else t # cleanTargets ts)"

fun cleanURLs :: "string list \<Rightarrow> string list" where
  "cleanURLs [] = []"
| "cleanURLs (u # us) = (let u = TrimSpace u in if u \<noteq> '''' then u # cleanURLs us else cleanURLs us)"

definition SaveConfig :: "notify_env \<Rightarrow> notifier \<Rightarrow> notification_config \<Rightarrow> store \<Rightarrow> unit res \<times> store" where
  "SaveConfig e n cfg s =
     (if nt_env n \<noteq> None then (Inl ErrEnvManaged, s)
      else let cfg = cfg\<lparr>ncfg_Targets := cleanTargets (ncfg_Targets cfg)\<rparr>
           in case Validate e (URLs cfg) of
                Inl err \<Rightarrow> (Inl err, s)
              | Inr _ \<Rightarrow> SaveNotificationConfig (cfg\<lparr>ncfg_EnvManaged := False\<rparr>) s)"

section \<open>Recording and delivering\<close>

definition pruneEvents :: "notify_env \<Rightarrow> int \<Rightarrow> store \<Rightarrow> store" where
  "pruneEvents e now s =
     (case LoadSettings s of
        Inl _ \<Rightarrow> s
      | Inr cfg \<Rightarrow>
          if set_EventLogRetentionDays cfg \<le> 0 then s
          else snd (PruneEventsOlderThan (AddDate_days e now (- set_EventLogRetentionDays cfg)) s))"

definition record_event ::
  "notify_env \<Rightarrow> notifier \<Rightarrow> int \<Rightarrow> notification_event \<Rightarrow> string \<Rightarrow> string \<Rightarrow> event_meta option \<Rightarrow> store \<Rightarrow>
   delivery list \<times> store" where
  "record_event e n now ev title body meta s =
     (let row = \<lparr>ev_ID = 0, ev_Event = ev, ev_Title = title, ev_Body = body,
            ev_ContainerName = (case meta of None \<Rightarrow> '''' | Some m \<Rightarrow> meta_ContainerName m),
            ev_StackID = (case meta of None \<Rightarrow> '''' | Some m \<Rightarrow> meta_StackID m),
            ev_CreatedAt = 0\<rparr>
      in case AppendEvent now row s of
           ((Some err, _), s) \<Rightarrow> ([], s)
         | ((None, stored), s) \<Rightarrow> (if nt_bc n then [Pushed stored] else [], pruneEvents e now s))"

definition Notify ::
  "notify_env \<Rightarrow> notifier \<Rightarrow> int \<Rightarrow> notification_event \<Rightarrow> string \<Rightarrow> string \<Rightarrow> event_meta option \<Rightarrow> store \<Rightarrow>
   delivery list \<times> store" where
  "Notify e n now ev title body meta s =
     (let (pushes, s) = record_event e n now ev title body meta s
      in case notifier_Config n s of
           Inl _ \<Rightarrow> (pushes, s)
         | Inr cfg \<Rightarrow>
             let urls = URLsFor cfg ev
             in if urls = [] then (pushes, s) else (pushes @ [Deliver ev urls title body], s))"

section \<open>Sending\<close>

definition inlinesTitle :: "notify_env \<Rightarrow> string \<Rightarrow> bool" where
  "inlinesTitle e rawURL =
     (case url_Parse e rawURL of
        Inl _ \<Rightarrow> False
      | Inr (uscheme, query) \<Rightarrow>
          if cut_before uscheme ''+'' \<noteq> ''generic'' then False
          else if uscheme \<noteq> ''generic'' then True
          else ToLower (get_str query ''template'') \<noteq> ''json'')"

definition send_failures :: "notify_env \<Rightarrow> string \<Rightarrow> string \<Rightarrow> string \<Rightarrow> err list" where
  "send_failures e title body u =
     (case CreateSender e u of
        Inl err \<Rightarrow> [Wrap (redact u @ '': '') err '''']
      | Inr _ \<Rightarrow>
          let msg = (if inlinesTitle e u then title @ [CHR 0x0A, CHR 0x0A] @ body else body)
          in concat (map (\<lambda>r. case r of None \<Rightarrow> [] | Some err \<Rightarrow> [Wrap (redact u @ '': '') err ''''])
               (sender_Send e u msg title)))"

definition Send :: "notify_env \<Rightarrow> string list \<Rightarrow> string \<Rightarrow> string \<Rightarrow> unit res" where
  "Send e urls title body =
     (let failures = concat (map (send_failures e title body) urls)
      in if failures = [] then Inr () else Inl (Joined failures))"

definition SendTest :: "notify_env \<Rightarrow> notifier \<Rightarrow> string list \<Rightarrow> store \<Rightarrow> unit res" where
  "SendTest e n urls s =
     (let urls = cleanURLs urls;
          targets = (if urls = [] then map_sum id URLs (notifier_Config n s) else Inr urls)
      in case targets of
           Inl err \<Rightarrow> Inl err
         | Inr urls \<Rightarrow>
             if urls = [] then Inl (Errorf ''no notification targets configured'')
             else Send e urls ''Veery test notification''
               ''Notifications are working. This is a test from Veery.'')"

section \<open>Frames\<close>

text \<open>Only the event log changes when something is notified.\<close>

lemma PruneEvents_frame [simp]:
  "users (snd (PruneEventsOlderThan c s)) = users s" "credentials (snd (PruneEventsOlderThan c s)) = credentials s"
  "invites (snd (PruneEventsOlderThan c s)) = invites s" "sessions (snd (PruneEventsOlderThan c s)) = sessions s"
  "oidc_identities (snd (PruneEventsOlderThan c s)) = oidc_identities s"
  "settings_tbl (snd (PruneEventsOlderThan c s)) = settings_tbl s"
  "db_fault (snd (PruneEventsOlderThan c s)) = db_fault s"
  by (simp_all add: PruneEventsOlderThan_def)

lemma pruneEvents_frame [simp]:
  "users (pruneEvents e now s) = users s" "credentials (pruneEvents e now s) = credentials s"
  "invites (pruneEvents e now s) = invites s" "sessions (pruneEvents e now s) = sessions s"
  "oidc_identities (pruneEvents e now s) = oidc_identities s"
  "settings_tbl (pruneEvents e now s) = settings_tbl s" "db_fault (pruneEvents e now s) = db_fault s"
  by (simp_all add: pruneEvents_def split: sum.splits)

lemma AppendEvent_frame [simp]:
  "users (snd (AppendEvent now r s)) = users s" "credentials (snd (AppendEvent now r s)) = credentials s"
  "invites (snd (AppendEvent now r s)) = invites s" "sessions (snd (AppendEvent now r s)) = sessions s"
  "oidc_identities (snd (AppendEvent now r s)) = oidc_identities s"
  "settings_tbl (snd (AppendEvent now r s)) = settings_tbl s"
  "db_fault (snd (AppendEvent now r s)) = db_fault s"
  by (simp_all add: AppendEvent_def Let_def)

lemma record_event_store:
  "snd (record_event e n now ev t b m s) = s \<or>
   (\<exists>r. snd (record_event e n now ev t b m s) = snd (AppendEvent now r s)) \<or>
   (\<exists>r. snd (record_event e n now ev t b m s) = pruneEvents e now (snd (AppendEvent now r s)))"
  unfolding record_event_def Let_def
  by (auto split: prod.splits option.splits) (metis snd_conv)+

lemma record_event_frame [simp]:
  "users (snd (record_event e n now ev t b m s)) = users s"
  "credentials (snd (record_event e n now ev t b m s)) = credentials s"
  "invites (snd (record_event e n now ev t b m s)) = invites s"
  "sessions (snd (record_event e n now ev t b m s)) = sessions s"
  "oidc_identities (snd (record_event e n now ev t b m s)) = oidc_identities s"
  "settings_tbl (snd (record_event e n now ev t b m s)) = settings_tbl s"
  "db_fault (snd (record_event e n now ev t b m s)) = db_fault s"
  using record_event_store [of e n now ev t b m s] by (elim disjE exE; simp)+

lemma Notify_store [simp]: "snd (Notify e n now ev t b m s) = snd (record_event e n now ev t b m s)"
  by (simp add: Notify_def Let_def split: prod.splits sum.splits)

lemma LoadNotificationConfig_cong:
  "\<lbrakk>settings_tbl s' = settings_tbl s; db_fault s' = db_fault s\<rbrakk> \<Longrightarrow>
   LoadNotificationConfig s' = LoadNotificationConfig s"
proof -
  assume "settings_tbl s' = settings_tbl s" "db_fault s' = db_fault s"
  then have same: "GetSetting k s' = GetSetting k s" for k by (simp add: GetSetting_def)
  show ?thesis
    unfolding LoadNotificationConfig_def legacyNotificationConfig_def getJSON_def same ..
qed

lemma notifier_Config_Notify [simp]:
  "notifier_Config n (snd (record_event e n' now ev t b m s)) = notifier_Config n s"
  using LoadNotificationConfig_cong [of "snd (record_event e n' now ev t b m s)" s]
  by (cases "nt_env n") (simp_all add: notifier_Config_def)

section \<open>The log and the channels\<close>

text \<open>The event that is being recorded survives the pruning that follows.\<close>

lemma pruneEvents_keeps:
  assumes "r \<in> set (events s)" "\<forall>d > 0. AddDate_days e now (- d) \<le> ev_CreatedAt r"
  shows "r \<in> set (events (pruneEvents e now s))"
  using assms by (auto simp: pruneEvents_def PruneEventsOlderThan_def not_less split: sum.splits)

text \<open>
  \<^bold>\<open>C33\<close>. Whatever happens is in the log, and each channel hears exactly what it subscribed to.
  When the log accepts the row, \<open>Notify\<close> leaves it there under a fresh id and pushes that very row
  to the browsers, independently of how the channels are set up; and a URL is in the message handed
  to delivery if and only if the active configuration (the environment's, else the stored one) has
  a target with that URL whose event is not switched off.
\<close>

theorem notify_records_and_delivers:
  assumes "\<not> db_fault s ''AppendEvent''" "event_seq s + 1 < 2 ^ 63"
    and "\<forall>d > 0. AddDate_days e now (- d) \<le> now"
    and "Notify e n now ev title body meta s = (outs, s')"
  shows "(\<exists>r \<in> set (events s'). ev_ID r = event_seq s + 1 \<and> ev_Event r = ev \<and> ev_Title r = title \<and>
            ev_Body r = body \<and> ev_CreatedAt r = now \<and> (Pushed r \<in> set outs \<longleftrightarrow> nt_bc n)) \<and>
         (\<forall>u. (\<exists>us. Deliver ev us title body \<in> set outs \<and> u \<in> set us) \<longleftrightarrow>
              (\<exists>cfg. notifier_Config n s = Inr cfg \<and>
                 (\<exists>t \<in> set (ncfg_Targets cfg). tgt_URL t = u \<and> Enabled t ev)))"
proof -
  define row where "row = \<lparr>ev_ID = event_seq s + 1, ev_Event = ev, ev_Title = title, ev_Body = body,
    ev_ContainerName = (case meta of None \<Rightarrow> '''' | Some m \<Rightarrow> meta_ContainerName m),
    ev_StackID = (case meta of None \<Rightarrow> '''' | Some m \<Rightarrow> meta_StackID m), ev_CreatedAt = now\<rparr>"
  define s1 where "s1 = s\<lparr>events := events s @ [row], event_seq := event_seq s + 1\<rparr>"
  have rec: "record_event e n now ev title body meta s =
      (if nt_bc n then [Pushed row] else [], pruneEvents e now s1)"
    using assms(1,2) by (simp add: record_event_def AppendEvent_def row_def s1_def Let_def)
  then have s': "s' = pruneEvents e now s1"
    using assms(4) Notify_store [of e n now ev title body meta s] by simp
  have row: "row \<in> set (events s')"
    unfolding s' by (rule pruneEvents_keeps) (use assms(3) in \<open>simp_all add: s1_def row_def\<close>)
  have cfg: "notifier_Config n s' = notifier_Config n s"
    using notifier_Config_Notify [of n e n now ev title body meta s] by (simp add: rec s')
  have outs: "outs = (if nt_bc n then [Pushed row] else []) @
      (case notifier_Config n s of Inl _ \<Rightarrow> []
       | Inr c \<Rightarrow> if URLsFor c ev = [] then [] else [Deliver ev (URLsFor c ev) title body])"
    using assms(4) cfg by (cases "notifier_Config n s") (auto simp: Notify_def rec s' Let_def)
  show ?thesis
  proof (intro conjI allI)
    show "\<exists>r \<in> set (events s'). ev_ID r = event_seq s + 1 \<and> ev_Event r = ev \<and> ev_Title r = title \<and>
        ev_Body r = body \<and> ev_CreatedAt r = now \<and> (Pushed r \<in> set outs \<longleftrightarrow> nt_bc n)"
      using row by (intro bexI [of _ row]) (auto simp: outs row_def split: sum.splits)
    show "(\<exists>us. Deliver ev us title body \<in> set outs \<and> u \<in> set us) \<longleftrightarrow>
        (\<exists>cfg. notifier_Config n s = Inr cfg \<and> (\<exists>t \<in> set (ncfg_Targets cfg). tgt_URL t = u \<and> Enabled t ev))" for u
      by (cases "notifier_Config n s") (auto simp: outs set_URLsFor [symmetric])
  qed
qed

definition quiet_env :: notify_env where
  "quiet_env = \<lparr>CreateSender = (\<lambda>_. Inr ()), sender_Send = (\<lambda>_ _ _. []),
     url_Parse = (\<lambda>u. Inr (cut_before u '':'', [])), AddDate_days = (\<lambda>now d. now + 86400 * d),
     getenv_URLs = '''', getenv_Events = ''''\<rparr>"

theorem notify_records_and_delivers_witness:
  "\<exists>outs s'. Notify quiet_env \<lparr>nt_env = None, nt_bc = True\<rparr> 5 EventAuth ''t'' ''b'' None empty_store = (outs, s') \<and>
     (\<exists>r \<in> set (events s'). ev_ID r = 1 \<and> Pushed r \<in> set outs)"
  using notify_records_and_delivers [of empty_store quiet_env 5 "\<lparr>nt_env = None, nt_bc = True\<rparr>"
      EventAuth "''t''" "''b''" None]
  by (cases "Notify quiet_env \<lparr>nt_env = None, nt_bc = True\<rparr> 5 EventAuth ''t'' ''b'' None empty_store")
    (auto simp: empty_store_def quiet_env_def)

section \<open>Saving the configuration\<close>

lemma cleanTargets_eq:
  "cleanTargets ts = filter (\<lambda>t. tgt_URL t \<noteq> '''') (map (\<lambda>t. t\<lparr>tgt_URL := TrimSpace (tgt_URL t)\<rparr>) ts)"
  by (induction ts) (auto simp: Let_def)

lemma Validate_ok: "Validate e us = Inr () \<longleftrightarrow> (\<forall>u \<in> set us. CreateSender e u = Inr ())"
  by (induction us) (auto split: sum.splits)

text \<open>
  Only a usable configuration is stored. With a configuration pinned by the environment
  nothing is saved; a target for which no sender can be built makes the save fail and leaves the
  database as it was; otherwise the notifier then runs with exactly the submitted targets, blanks
  trimmed and targets without a URL dropped, each of which has a sender.
\<close>

theorem save_config_contract:
  assumes "settings_readable s" "\<not> db_fault s ''SetSetting''"
    and "SaveConfig e n cfg s = (r, s')"
  shows "case r of
      Inl _ \<Rightarrow> s' = s \<and> (nt_env n \<noteq> None \<or>
        (\<exists>t \<in> set (ncfg_Targets cfg). TrimSpace (tgt_URL t) \<noteq> '''' \<and> CreateSender e (TrimSpace (tgt_URL t)) \<noteq> Inr ()))
    | Inr _ \<Rightarrow> nt_env n = None \<and> (\<exists>cfg'. notifier_Config n s' = Inr cfg' \<and>
        ncfg_Targets cfg' = filter (\<lambda>t. tgt_URL t \<noteq> '''')
          (map (\<lambda>t. t\<lparr>tgt_URL := TrimSpace (tgt_URL t)\<rparr>) (ncfg_Targets cfg)) \<and>
        (\<forall>t \<in> set (ncfg_Targets cfg'). CreateSender e (tgt_URL t) = Inr ()))"
proof (cases "nt_env n")
  case (Some c)
  with assms(3) show ?thesis by (auto simp: SaveConfig_def)
next
  case None
  define ts where "ts = cleanTargets (ncfg_Targets cfg)"
  define c where "c = cfg\<lparr>ncfg_Targets := ts, ncfg_EnvManaged := False\<rparr>"
  have urls: "URLs (cfg\<lparr>ncfg_Targets := ts\<rparr>) = map tgt_URL ts" by (simp add: URLs_def)
  show ?thesis
  proof (cases "Validate e (map tgt_URL ts)")
    case (Inl err)
    then have bad: "\<not> (\<forall>t \<in> set ts. CreateSender e (tgt_URL t) = Inr ())"
      using Validate_ok [of e "map tgt_URL ts"] by auto
    have "r = Inl err" "s' = s"
      using assms(3) None Inl by (auto simp: SaveConfig_def ts_def [symmetric] urls Let_def)
    with bad show ?thesis by (auto simp: ts_def cleanTargets_eq)
  next
    case (Inr x)
    then have ok: "\<forall>t \<in> set ts. CreateSender e (tgt_URL t) = Inr ()"
      using Validate_ok [of e "map tgt_URL ts"] by auto
    obtain s2 where s2: "SaveNotificationConfig c s = (Inr (), s2)"
      "LoadNotificationConfig s2 = Inr \<lparr>ncfg_Targets = ncfg_Targets c, ncfg_EnvManaged = False\<rparr>"
      using SaveNotificationConfig_load [OF assms(1,2), of c] by blast
    have "r = Inr ()" "s' = s2"
      using assms(3) None Inr s2 by (auto simp: SaveConfig_def ts_def [symmetric] urls Let_def c_def)
    with None s2 ok show ?thesis
      by (simp add: notifier_Config_def c_def ts_def cleanTargets_eq)
  qed
qed

theorem save_config_contract_witness:
  "\<exists>s'. SaveConfig quiet_env \<lparr>nt_env = None, nt_bc = False\<rparr>
      \<lparr>ncfg_Targets = [\<lparr>tgt_URL = '' ntfy://a '', tgt_Events = []\<rparr>, \<lparr>tgt_URL = '' '', tgt_Events = []\<rparr>],
        ncfg_EnvManaged = False\<rparr> empty_store = (Inr (), s') \<and>
    (\<exists>cfg'. notifier_Config \<lparr>nt_env = None, nt_bc = False\<rparr> s' = Inr cfg' \<and>
      ncfg_Targets cfg' = [\<lparr>tgt_URL = ''ntfy://a'', tgt_Events = []\<rparr>])"
proof -
  let ?n = "\<lparr>nt_env = None, nt_bc = False\<rparr>"
  let ?c = "\<lparr>ncfg_Targets = [\<lparr>tgt_URL = '' ntfy://a '', tgt_Events = []\<rparr>, \<lparr>tgt_URL = '' '', tgt_Events = []\<rparr>],
        ncfg_EnvManaged = False\<rparr>"
  obtain r s' where rs: "SaveConfig quiet_env ?n ?c empty_store = (r, s')" by fastforce
  have trim: "TrimSpace '' ntfy://a '' = ''ntfy://a''" "TrimSpace '' '' = ''''" by code_simp+
  have "case r of Inl _ \<Rightarrow> False | Inr _ \<Rightarrow> (\<exists>cfg'. notifier_Config ?n s' = Inr cfg' \<and>
      ncfg_Targets cfg' = [\<lparr>tgt_URL = ''ntfy://a'', tgt_Events = []\<rparr>])"
    using save_config_contract [OF _ _ rs]
    by (auto simp: trim settings_readable_def empty_store_def quiet_env_def split: sum.splits)
  with rs show ?thesis by (auto split: sum.splits)
qed

section \<open>Events named in the environment\<close>

lemma enable_named_keys [simp]: "map_of (enable_named names out) ev = None \<longleftrightarrow> map_of out ev = None"
  by (induction names out rule: enable_named.induct) (auto simp: Let_def)

lemma enable_named_value:
  "ev \<in> dom (map_of out) \<Longrightarrow> map_of (enable_named names out) ev = Some True \<longleftrightarrow>
     map_of out ev = Some True \<or> (\<exists>n \<in> set names. TrimSpace n \<noteq> '''' \<and> event_of_name (TrimSpace n) = ev)"
proof (induction names arbitrary: out)
  case (Cons raw names)
  define k where "k = event_of_name (TrimSpace raw)"
  have IH: "map_of (enable_named names (AList.update k True out)) ev = Some True \<longleftrightarrow>
      (ev = k \<or> map_of out ev = Some True) \<or> (\<exists>n \<in> set names. TrimSpace n \<noteq> '''' \<and> event_of_name (TrimSpace n) = ev)"
  proof -
    have "ev \<in> dom (map_of (AList.update k True out))" using Cons.prems by (auto simp: dom_def)
    from Cons.IH [OF this] show ?thesis by simp
  qed
  show ?case
  proof (cases "TrimSpace raw = '''' \<or> map_of out k = None")
    case True
    then show ?thesis using Cons by (auto simp: Let_def k_def)
  next
    case False
    then show ?thesis using IH by (auto simp: Let_def k_def)
  qed
qed simp

text \<open>
  A target configured from the environment delivers a known event if and only if the event
  list is blank or names that event: unknown names, blanks around names and empty items have no
  effect, and everything not named is off.
\<close>

theorem env_events_select:
  assumes "ev \<in> set AllNotificationEvents"
  shows "Enabled \<lparr>tgt_URL = u, tgt_Events = envEvents raw\<rparr> ev \<longleftrightarrow>
    TrimSpace raw = '''' \<or> (\<exists>n \<in> set (Split raw (CHR '','')). TrimSpace n = event_name ev)"
proof (cases "TrimSpace raw = ''''")
  case True
  then show ?thesis by (simp add: Enabled_def envEvents_def)
next
  case False
  let ?off = "map (\<lambda>ev. (ev, False)) AllNotificationEvents"
  have off: "map_of ?off ev = Some False"
    using assms by (simp add: map_of_map_restrict)
  then have "Enabled \<lparr>tgt_URL = u, tgt_Events = envEvents raw\<rparr> ev \<longleftrightarrow>
      map_of (enable_named (Split raw (CHR '','')) ?off) ev = Some True"
    using False enable_named_keys [of "Split raw (CHR '','')" ?off ev]
    by (simp add: Enabled_def envEvents_def split: option.splits)
  also have "\<dots> \<longleftrightarrow> (\<exists>n \<in> set (Split raw (CHR '','')). TrimSpace n \<noteq> '''' \<and> event_of_name (TrimSpace n) = ev)"
    using enable_named_value [of ev ?off] domI [of "map_of ?off" ev, OF off] off by simp
  also have "\<dots> \<longleftrightarrow> (\<exists>n \<in> set (Split raw (CHR '','')). TrimSpace n = event_name ev)"
  proof -
    have "event_name ev \<noteq> ''''" using assms by (auto simp: AllNotificationEvents_def)
    then show ?thesis
      using event_of_name_known [OF assms] event_name_of_name by metis
  qed
  finally show ?thesis using False by simp
qed

theorem env_events_select_witness:
  "Enabled \<lparr>tgt_URL = ''u'', tgt_Events = envEvents ''auth, bogus''\<rparr> EventAuth \<and>
   \<not> Enabled \<lparr>tgt_URL = ''u'', tgt_Events = envEvents ''auth, bogus''\<rparr> EventUpdateApplied"
proof -
  have "Split ''auth, bogus'' (CHR '','') = [''auth'', '' bogus'']" by code_simp
  moreover have "TrimSpace ''auth, bogus'' \<noteq> ''''" "TrimSpace ''auth'' = ''auth''" "TrimSpace '' bogus'' = ''bogus''"
    by code_simp+
  ultimately show ?thesis
    using env_events_select [of EventAuth "''u''" "''auth, bogus''"]
      env_events_select [of EventUpdateApplied "''u''" "''auth, bogus''"]
    by (simp add: AllNotificationEvents_def)
qed

end
