(* ===== verification/Mdadm.thy ===== *)
theory Mdadm
  imports Api_Types
begin

text \<open>
  Linux software RAID as Veery reads it (\<^verbatim>\<open>internal/metrics/mdadm.go\<close>): the parser of
  \<^verbatim>\<open>/proc/mdstat\<close>, the enrichment from sysfs, the health rollup and the start of a scrub.

  The regular expressions are the leftmost matches they denote, written as functions; each is
  deterministic because the classes that repeat exclude the character that follows them. The
  progress percentage is kept as the text that was matched. The kernel is a parameter: reading
  \<^verbatim>\<open>mdstat\<close>, reading and writing an attribute of an array.
\<close>

section \<open>The kernel\<close>

record 'h md_host =
  read_mdstat :: "'h \<Rightarrow> string res"
  read_attr :: "string \<Rightarrow> string \<Rightarrow> 'h \<Rightarrow> string res"
  write_attr :: "string \<Rightarrow> string \<Rightarrow> string \<Rightarrow> 'h \<Rightarrow> unit res \<times> 'h"

section \<open>Matching\<close>

text \<open>\<^verbatim>\<open>\s\<close> of a regular expression, which is narrower than Go's white space.\<close>

definition re_space :: "char \<Rightarrow> bool" where
  "re_space c \<longleftrightarrow> c \<in> set [CHR 0x09, CHR 0x0A, CHR 0x0C, CHR 0x0D, CHR '' '']"

definition is_digit :: "char \<Rightarrow> bool" where
  "is_digit c \<longleftrightarrow> digit_val c \<noteq> None"

definition is_upper :: "char \<Rightarrow> bool" where
  "is_upper c \<longleftrightarrow> 65 \<le> (of_char c :: nat) \<and> (of_char c :: nat) \<le> 90"

text \<open>The first position at which a matcher succeeds.\<close>

fun leftmost :: "(string \<Rightarrow> 'a option) \<Rightarrow> string \<Rightarrow> 'a option" where
  "leftmost m [] = m []"
| "leftmost m (c # s) = (case m (c # s) of Some x \<Rightarrow> Some x | None \<Rightarrow> leftmost m s)"

text \<open>A non-empty run of characters of a class, and what follows it.\<close>

definition run_of :: "(char \<Rightarrow> bool) \<Rightarrow> string \<Rightarrow> (string \<times> string) option" where
  "run_of p s = (case takeWhile p s of [] \<Rightarrow> None | w \<Rightarrow> Some (w, dropWhile p s))"

definition skip_lit :: "string \<Rightarrow> string \<Rightarrow> string option" where
  "skip_lit l s = (if HasPrefix s l then Some (drop (length l) s) else None)"

text \<open>\<^verbatim>\<open>\[(\d+)/(\d+)\]\<close>, \<^verbatim>\<open>\[([U_]+)\]\<close>, \<^verbatim>\<open>finish=(\S+)\<close> and \<^verbatim>\<open>speed=(\d+)K/sec\<close>.\<close>

definition match_count :: "string \<Rightarrow> (string \<times> string) option" where
  "match_count s = do {
     s \<leftarrow> skip_lit ''['' s;
     (tot, s) \<leftarrow> run_of is_digit s;
     s \<leftarrow> skip_lit ''/'' s;
     (up, s) \<leftarrow> run_of is_digit s;
     _ \<leftarrow> skip_lit '']'' s;
     Some (tot, up)
   }"

definition match_bitmap :: "string \<Rightarrow> string option" where
  "match_bitmap s = do {
     s \<leftarrow> skip_lit ''['' s;
     (b, s) \<leftarrow> run_of (\<lambda>c. c = CHR ''U'' \<or> c = CHR ''_'') s;
     _ \<leftarrow> skip_lit '']'' s;
     Some b
   }"

definition match_finish :: "string \<Rightarrow> string option" where
  "match_finish s = do {
     s \<leftarrow> skip_lit ''finish='' s;
     (f, _) \<leftarrow> run_of (\<lambda>c. \<not> re_space c) s;
     Some f
   }"

definition match_speed :: "string \<Rightarrow> string option" where
  "match_speed s = do {
     s \<leftarrow> skip_lit ''speed='' s;
     (n, s) \<leftarrow> run_of is_digit s;
     _ \<leftarrow> skip_lit ''K/sec'' s;
     Some n
   }"

definition match_progress :: "string \<Rightarrow> (string \<times> string \<times> string) option" where
  "match_progress s = do {
     action \<leftarrow> find (\<lambda>w. HasPrefix s w) [''check'', ''resync'', ''recovery'', ''reshape''];
     s \<leftarrow> skip_lit ''='' (dropWhile re_space (drop (length action) s));
     (pct, s) \<leftarrow> run_of (\<lambda>c. is_digit c \<or> c = CHR ''.'') (dropWhile re_space s);
     s \<leftarrow> skip_lit ''%'' s;
     speed \<leftarrow> leftmost match_speed s;
     Some (action, pct, speed)
   }"

text \<open>
  \<^verbatim>\<open>^(md\S+)\s*:\s*(.*)$\<close>: the longest name that is followed by a colon; \<open>n\<close> counts the candidate
  lengths down.
\<close>

fun match_name :: "nat \<Rightarrow> string \<Rightarrow> (string \<times> string) option" where
  "match_name 0 s = None"
| "match_name (Suc n) s =
     (case dropWhile re_space (drop (Suc n) s) of
        c # rest \<Rightarrow> if c = CHR '':'' then Some (take (Suc n) s, dropWhile re_space rest) else match_name n s
      | [] \<Rightarrow> match_name n s)"

definition headerRe :: "string \<Rightarrow> (string \<times> string) option" where
  "headerRe line = do {
     s \<leftarrow> skip_lit ''md'' line;
     (n, rest) \<leftarrow> match_name (length (takeWhile (\<lambda>c. \<not> re_space c) s)) s;
     Some (''md'' @ n, rest)
   }"

text \<open>
  \<^verbatim>\<open>^(\S+?)\[(\d+)\](\([A-Z]+\))?$\<close>: the shortest device name after which the rest matches;
  \<open>dev\<close> is the name read so far.
\<close>

definition match_role :: "string \<Rightarrow> (string \<times> bool) option" where
  "match_role s = do {
     s \<leftarrow> skip_lit ''['' s;
     (role, s) \<leftarrow> run_of is_digit s;
     s \<leftarrow> skip_lit '']'' s;
     if s = '''' then Some (role, False)
     else do {
       s \<leftarrow> skip_lit ''('' s;
       (_, s) \<leftarrow> run_of is_upper s;
       if s = '')'' then Some (role, True) else None
     }
   }"

fun match_member :: "string \<Rightarrow> string \<Rightarrow> (string \<times> string \<times> bool) option" where
  "match_member dev [] = None"
| "match_member dev (c # s) =
     (case (if dev = [] then None else match_role (c # s)) of
        Some (role, flagged) \<Rightarrow> Some (dev, role, flagged)
      | None \<Rightarrow> if re_space c then None else match_member (dev @ [c]) s)"

definition memberRe :: "string \<Rightarrow> (string \<times> string \<times> bool) option" where
  "memberRe field = match_member [] field"

section \<open>Numbers whose error is ignored\<close>

text \<open>
  \<^verbatim>\<open>n, _ := strconv.Atoi(s)\<close> and \<^verbatim>\<open>ParseUint\<close> on a run of digits: a value that does not fit
  comes back as the largest one.
\<close>

definition Atoi_clamped :: "string \<Rightarrow> int" where
  "Atoi_clamped s = (case digits_val 0 s of None \<Rightarrow> 0 | Some n \<Rightarrow> min (int n) (2 ^ 63 - 1))"

definition ParseUint_clamped :: "string \<Rightarrow> nat" where
  "ParseUint_clamped s = (case digits_val 0 s of None \<Rightarrow> 0 | Some n \<Rightarrow> nat (min (int n) (2 ^ 64 - 1)))"

section \<open>Parsing mdstat\<close>

record md_raw =
  raw_name :: string
  raw_level :: string
  raw_state :: string
  raw_members :: "md_member list"
  raw_roles :: "int list"
  raw_total :: int
  raw_up :: int
  raw_haveCount :: bool
  raw_action :: string
  raw_percent :: string
  raw_speedKBs :: nat
  raw_finish :: string

definition new_raw :: "string \<Rightarrow> md_raw" where
  "new_raw name = \<lparr>raw_name = name, raw_level = '''', raw_state = '''', raw_members = [], raw_roles = [],
     raw_total = 0, raw_up = 0, raw_haveCount = False, raw_action = '''', raw_percent = '''',
     raw_speedKBs = 0, raw_finish = ''''\<rparr>"

fun add_members :: "string list \<Rightarrow> md_raw \<Rightarrow> md_raw" where
  "add_members [] r = r"
| "add_members (f # fs) r =
     (case memberRe f of
        None \<Rightarrow> add_members fs r
      | Some (dev, role, flagged) \<Rightarrow> add_members fs
          (r\<lparr>raw_members := raw_members r @ [\<lparr>mem_Device = dev, mem_Up = \<not> flagged\<rparr>],
             raw_roles := raw_roles r @ [Atoi_clamped role]\<rparr>))"

definition parseHeader :: "string \<Rightarrow> string \<Rightarrow> md_raw" where
  "parseHeader name rest =
     (case Fields rest of
        [] \<Rightarrow> new_raw name
      | st # toks \<Rightarrow>
          let r = (new_raw name)\<lparr>raw_state := st\<rparr>
          in case toks of
               [] \<Rightarrow> r
             | f # fs \<Rightarrow> if \<not> Contains f ''['' then add_members fs (r\<lparr>raw_level := f\<rparr>) else add_members (f # fs) r)"

text \<open>\<^verbatim>\<open>applyBitmap\<close>: a member's role selects its slot; members already down stay down.\<close>

definition slot_up :: "string \<Rightarrow> int \<Rightarrow> bool \<Rightarrow> bool" where
  "slot_up bitmap role up =
     (if role \<ge> 0 \<and> role < int (length bitmap) \<and> bitmap ! nat role \<noteq> CHR ''U'' then False else up)"

definition applyBitmap :: "md_raw \<Rightarrow> string \<Rightarrow> md_raw" where
  "applyBitmap r bitmap =
     r\<lparr>raw_members := map (\<lambda>(m, role). m\<lparr>mem_Up := slot_up bitmap role (mem_Up m)\<rparr>)
         (zip (raw_members r) (raw_roles r))\<rparr>"

text \<open>A line inside an array's block: the device counts with the bitmap, or a progress line.\<close>

definition body_line :: "string \<Rightarrow> md_raw \<Rightarrow> md_raw" where
  "body_line line r =
     (case leftmost match_count line of
        Some (tot, up) \<Rightarrow>
          let r = r\<lparr>raw_total := Atoi_clamped tot, raw_up := Atoi_clamped up, raw_haveCount := True\<rparr>
          in (case leftmost match_bitmap line of None \<Rightarrow> r | Some b \<Rightarrow> applyBitmap r b)
      | None \<Rightarrow>
          (case leftmost match_progress line of
             None \<Rightarrow> r
           | Some (action, pct, speed) \<Rightarrow>
               let r = r\<lparr>raw_action := action, raw_percent := pct, raw_speedKBs := ParseUint_clamped speed\<rparr>
               in (case leftmost match_finish line of None \<Rightarrow> r | Some f \<Rightarrow> r\<lparr>raw_finish := f\<rparr>)))"

text \<open>The loop of \<^verbatim>\<open>parseMdstat\<close>, with the array being read and those already flushed.\<close>

fun parse_lines :: "string list \<Rightarrow> md_raw option \<Rightarrow> md_raw list" where
  "parse_lines [] cur = (case cur of None \<Rightarrow> [] | Some r \<Rightarrow> [r])"
| "parse_lines (line # ls) cur =
     (case headerRe line of
        Some (name, rest) \<Rightarrow>
          (case cur of None \<Rightarrow> [] | Some r \<Rightarrow> [r]) @ parse_lines ls (Some (parseHeader name rest))
      | None \<Rightarrow>
          (case cur of
             None \<Rightarrow> parse_lines ls None
           | Some r \<Rightarrow>
               if TrimSpace line = '''' then r # parse_lines ls None
               else parse_lines ls (Some (body_line line r))))"

definition parseMdstat :: "string \<Rightarrow> md_raw list" where
  "parseMdstat data = parse_lines (Split data (CHR 0x0A)) None"

section \<open>Health\<close>

definition normalizeAction :: "string \<Rightarrow> string" where
  "normalizeAction action = (if action = ''recovery'' then ''recover'' else action)"

definition rollupState :: "md_raw \<Rightarrow> string \<Rightarrow> md_array_state" where
  "rollupState r action =
     (if raw_state r = ''inactive'' then MdFailed
      else if action \<noteq> '''' \<and> action \<noteq> ''idle'' then MdRecovering
      else if raw_haveCount r \<and> raw_up r < raw_total r then MdDegraded
      else if list_ex (\<lambda>m. \<not> mem_Up m) (raw_members r) then MdDegraded
      else MdHealthy)"

definition readSysAttr :: "'h md_host \<Rightarrow> string \<Rightarrow> string \<Rightarrow> 'h \<Rightarrow> string" where
  "readSysAttr e name attr h = (case read_attr e name attr h of Inl _ \<Rightarrow> '''' | Inr data \<Rightarrow> TrimSpace data)"

definition sync_action_of :: "'h md_host \<Rightarrow> md_raw \<Rightarrow> 'h \<Rightarrow> string" where
  "sync_action_of e r h =
     (let a = normalizeAction (raw_action r);
          sys = readSysAttr e (raw_name r) ''sync_action'' h;
          a = (if sys \<noteq> '''' \<and> a = '''' then normalizeAction sys else a)
      in if a = '''' then ''idle'' else a)"

definition array_of_raw :: "'h md_host \<Rightarrow> 'h \<Rightarrow> md_raw \<Rightarrow> md_array" where
  "array_of_raw e h r =
     (let action = sync_action_of e r h; cnt = readSysAttr e (raw_name r) ''mismatch_cnt'' h
      in \<lparr>md_Name = raw_name r, md_Level = raw_level r, md_State = rollupState r action,
          md_DevicesTotal = (if raw_haveCount r then raw_total r else int (length (raw_members r))),
          md_DevicesUp = raw_up r, md_Members = raw_members r, md_SyncAction = action,
          md_SyncPercent = raw_percent r, md_SyncSpeedKBs = raw_speedKBs r, md_SyncFinish = raw_finish r,
          md_MismatchCnt = (case ParseUint cnt of None \<Rightarrow> 0 | Some n \<Rightarrow> n),
          md_LastScanAt = 0, md_ScanFailure = None\<rparr>)"

text \<open>\<^verbatim>\<open>ScanMdadm\<close>: no arrays when mdstat cannot be read or lists none.\<close>

definition ScanMdadm :: "'h md_host \<Rightarrow> 'h \<Rightarrow> md_array list" where
  "ScanMdadm e h =
     (case read_mdstat e h of Inl _ \<Rightarrow> [] | Inr data \<Rightarrow> map (array_of_raw e h) (parseMdstat data))"

section \<open>Starting a scrub\<close>

text \<open>\<^verbatim>\<open>%q\<close> on a text without characters that need escaping.\<close>

definition quoted :: "string \<Rightarrow> string" where
  "quoted s = [CHR 0x22] @ s @ [CHR 0x22]"

definition explainStartError :: "string \<Rightarrow> err \<Rightarrow> err" where
  "explainStartError name err =
     (let p = ''start check on '' @ name @ '': ''
      in if errors_Is err ErrEROFS
         then Wrap p err '': the host /sys is mounted read-only, mount it writable''
         else if errors_Is err ErrPermission
         then Wrap p err '': Veery must run as root with the SYS_ADMIN capability''
         else if errors_Is err ErrEBUSY
         then Wrap p err '': another sync operation is running on the array''
         else Wrap p err '''')"

definition StartMdadmCheck :: "'h md_host \<Rightarrow> string \<Rightarrow> 'h \<Rightarrow> unit res \<times> 'h" where
  "StartMdadmCheck e name h =
     (if \<not> list_ex (\<lambda>a. md_Name a = name) (ScanMdadm e h)
      then (Inl (Errorf (''no such array '' @ quoted name)), h)
      else case write_attr e name ''sync_action'' (''check'' @ [CHR 0x0A]) h of
          (Inl err, h) \<Rightarrow> (Inl (explainStartError name err), h)
        | (Inr _, h) \<Rightarrow>
            let action = readSysAttr e name ''sync_action'' h
            in if action \<noteq> ''check''
               then (Inl (Errorf (''start check on '' @ name @ '': wrote check to sync_action but the array reports '' @ quoted action)), h)
               else (Inr (), h))"

section \<open>Reading back what the kernel writes\<close>

text \<open>
  The kernel's rendering of an assembled array at rest: the header with its members, the line with
  the device counts and the bitmap, and an empty line.
\<close>

record md_desc =
  de_suffix :: string
  de_level :: string
  de_members :: "(string \<times> nat \<times> bool) list"
  de_blocks :: string
  de_total :: nat
  de_up :: nat
  de_bitmap :: string

definition kernel_member :: "string \<times> nat \<times> bool \<Rightarrow> string" where
  "kernel_member m = (case m of (dev, role, faulty) \<Rightarrow>
     dev @ ''['' @ nat_text role @ '']'' @ (if faulty then ''(F)'' else ''''))"

definition kernel_lines :: "md_desc \<Rightarrow> string list" where
  "kernel_lines d =
     [''md'' @ de_suffix d @ '' : '' @ Join (''active'' # de_level d # map kernel_member (de_members d)) '' '',
      '' '' @ de_blocks d @ '' ['' @ nat_text (de_total d) @ ''/'' @ nat_text (de_up d) @ ''] ['' @ de_bitmap d @ '']'',
      '''']"

definition word_ok :: "string \<Rightarrow> bool" where
  "word_ok w \<longleftrightarrow> w \<noteq> '''' \<and> (\<forall>c \<in> set w. \<not> is_space c \<and> c \<noteq> CHR ''['' \<and> c \<noteq> CHR '':'')"

definition desc_ok :: "md_desc \<Rightarrow> bool" where
  "desc_ok d \<longleftrightarrow> word_ok (de_suffix d) \<and> word_ok (de_level d) \<and>
     (\<forall>(dev, role, _) \<in> set (de_members d). word_ok dev \<and> role < 2 ^ 63) \<and>
     (\<forall>c \<in> set (de_blocks d). c \<noteq> CHR ''['' \<and> c \<noteq> CHR 0x0A) \<and> de_total d < 2 ^ 63 \<and> de_up d < 2 ^ 63 \<and>
     de_bitmap d \<noteq> '''' \<and> set (de_bitmap d) \<subseteq> {CHR ''U'', CHR ''_''}"

definition member_up :: "string \<Rightarrow> nat \<Rightarrow> bool \<Rightarrow> bool" where
  "member_up bitmap role faulty \<longleftrightarrow> \<not> faulty \<and> (role < length bitmap \<longrightarrow> bitmap ! role = CHR ''U'')"

definition raw_of_desc :: "md_desc \<Rightarrow> md_raw" where
  "raw_of_desc d =
     (new_raw (''md'' @ de_suffix d))\<lparr>raw_level := de_level d, raw_state := ''active'',
       raw_members := map (\<lambda>(dev, role, faulty). \<lparr>mem_Device = dev, mem_Up = member_up (de_bitmap d) role faulty\<rparr>) (de_members d),
       raw_roles := map (\<lambda>(_, role, _). int role) (de_members d),
       raw_total := int (de_total d), raw_up := int (de_up d), raw_haveCount := True\<rparr>"

subsection \<open>Characters and runs\<close>

lemma re_space_is_space: "re_space c \<Longrightarrow> is_space c"
  by (auto simp: re_space_def is_space_def)

lemma nat_text_is_digit: "c \<in> set (nat_text n) \<Longrightarrow> is_digit c"
  using nat_text_digits [of c n] by (simp add: is_digit_def digit_val_def Let_def)

lemma not_digit [simp]: "\<not> is_digit (CHR ''/'')" "\<not> is_digit (CHR '']'')" "\<not> is_digit (CHR ''['')" "\<not> is_digit (CHR ''U'')"
  "\<not> is_digit (CHR ''_'')" "\<not> is_digit (CHR '' '')" "\<not> is_digit (CHR 0x0A)"
  by (simp_all add: is_digit_def digit_val_def)

lemma not_space [simp]: "\<not> is_space (CHR ''['')" "\<not> is_space (CHR '']'')" "\<not> is_space (CHR ''('')" "\<not> is_space (CHR '')'')"
  "\<not> is_space (CHR ''F'')" "is_space (CHR '' '')" "is_space (CHR 0x0A)"
  by (simp_all add: is_space_def)

lemma digit_not_space: "is_digit c \<Longrightarrow> \<not> is_space c"
  by (auto simp: is_space_def is_digit_def digit_val_def Let_def split: if_splits)

lemma run_of_append:
  "\<lbrakk>w \<noteq> []; \<forall>c \<in> set w. p c; s = [] \<or> \<not> p (hd s)\<rbrakk> \<Longrightarrow> run_of p (w @ s) = Some (w, s)"
  by (cases w; cases s) (auto simp: run_of_def takeWhile_append dropWhile_append split: list.splits)

lemma skip_lit_simps [simp]:
  "skip_lit [] s = Some s" "skip_lit (c # l) [] = None"
  "skip_lit (c # l) (d # s) = (if c = d then skip_lit l s else None)"
  by (auto simp: skip_lit_def HasPrefix_def)

lemma leftmost_skip:
  "(\<And>c s. c \<in> set pre \<Longrightarrow> m (c # s) = None) \<Longrightarrow> leftmost m (pre @ s) = leftmost m s"
  by (induction pre) auto

lemma leftmost_here: "m s = Some x \<Longrightarrow> leftmost m s = Some x"
  by (cases s) auto

lemma Atoi_clamped_nat_text: "n < 2 ^ 63 \<Longrightarrow> Atoi_clamped (nat_text n) = int n"
  by (simp add: Atoi_clamped_def digits_val_nat_text)

subsection \<open>The header\<close>

lemma match_name_here:
  "\<lbrakk>w \<noteq> []; \<not> re_space c\<rbrakk> \<Longrightarrow> match_name (length w) (w @ '' : '' @ c # s) = Some (w, c # s)"
  by (cases "length w") (auto simp: re_space_def)

lemma headerRe_kernel:
  assumes "word_ok w" "\<not> re_space c"
  shows "headerRe (''md'' @ w @ '' : '' @ c # s) = Some (''md'' @ w, c # s)"
proof -
  have "takeWhile (\<lambda>c. \<not> re_space c) (w @ '' : '' @ c # s) = w"
    using assms(1) by (subst takeWhile_append2) (auto simp: word_ok_def re_space_def is_space_def)
  then show ?thesis
    using match_name_here [of w c s] assms by (simp add: headerRe_def word_ok_def)
qed

lemma FieldsFunc_aux_word:
  "\<forall>c \<in> set w. \<not> p c \<Longrightarrow> FieldsFunc_aux p cur (w @ s) = FieldsFunc_aux p (rev w @ cur) s"
  by (induction w arbitrary: cur) auto

lemma Fields_Join:
  "\<forall>w \<in> set ws. w \<noteq> [] \<and> (\<forall>c \<in> set w. \<not> is_space c) \<Longrightarrow> Fields (Join ws '' '') = ws"
proof (induction ws rule: induct_list012)
  case (3 v w ws)
  then have "FieldsFunc_aux is_space [] (Join (w # ws) '' '') = w # ws"
    by (simp add: Fields_def FieldsFunc_def)
  with 3 show ?case
    by (simp add: Fields_def FieldsFunc_def FieldsFunc_aux_word is_space_def)
next
  case (2 w)
  then show ?case using FieldsFunc_aux_word [of w is_space "[]" "[]"] by (simp add: Fields_def FieldsFunc_def)
qed (simp add: Fields_def FieldsFunc_def)

lemma Contains_char: "Contains s [c] \<longleftrightarrow> c \<in> set s"
proof -
  have "Cut s [c] = None \<longleftrightarrow> c \<notin> set s" by (induction s) (auto simp: HasPrefix_def)
  then show ?thesis by (simp add: Contains_def)
qed

lemma match_role_kernel:
  "match_role (''['' @ nat_text role @ '']'' @ (if faulty then ''(F)'' else '''')) = Some (nat_text role, faulty)"
proof -
  have "run_of is_digit (nat_text role @ '']'' @ t) = Some (nat_text role, '']'' @ t)" for t
    by (rule run_of_append) (auto simp: nat_text_is_digit)
  moreover have "run_of is_upper ''F)'' = Some (''F'', '')'')" by code_simp
  ultimately show ?thesis by (simp add: match_role_def)
qed

lemma match_role_other: "c \<noteq> CHR ''['' \<Longrightarrow> match_role (c # s) = None"
  by (auto simp: match_role_def)

lemma match_member_kernel:
  "\<lbrakk>\<forall>c \<in> set w. \<not> re_space c \<and> c \<noteq> CHR ''[''; dev @ w \<noteq> []; match_role (''['' @ t) = Some (role, fl)\<rbrakk> \<Longrightarrow>
   match_member dev (w @ ''['' @ t) = Some (dev @ w, role, fl)"
proof (induction w arbitrary: dev)
  case (Cons c w)
  then have c: "\<not> re_space c" "c \<noteq> CHR ''[''" by simp_all
  have "match_member (dev @ [c]) (w @ ''['' @ t) = Some ((dev @ [c]) @ w, role, fl)"
    using Cons.prems by (intro Cons.IH) simp_all
  with c match_role_other [OF c(2)] show ?case by (cases dev) simp_all
qed simp

lemma memberRe_kernel:
  "word_ok dev \<Longrightarrow> memberRe (kernel_member (dev, role, faulty)) = Some (dev, nat_text role, faulty)"
proof -
  assume "word_ok dev"
  then have "\<forall>c \<in> set dev. \<not> re_space c \<and> c \<noteq> CHR ''[''" "dev \<noteq> []"
    using re_space_is_space unfolding word_ok_def by blast+
  from match_member_kernel [OF this(1) _ match_role_kernel, of "[]" role faulty] this(2) show ?thesis
    by (simp add: memberRe_def kernel_member_def)
qed

lemma add_members_kernel:
  "\<forall>(dev, role, _) \<in> set ms. word_ok dev \<and> role < 2 ^ 63 \<Longrightarrow>
   add_members (map kernel_member ms) r =
     r\<lparr>raw_members := raw_members r @ map (\<lambda>(dev, role, faulty). \<lparr>mem_Device = dev, mem_Up = \<not> faulty\<rparr>) ms,
       raw_roles := raw_roles r @ map (\<lambda>(_, role, _). int role) ms\<rparr>"
proof (induction ms arbitrary: r)
  case (Cons m ms)
  obtain dev role faulty where m: "m = (dev, role, faulty)" by (cases m)
  with Cons.prems have "memberRe (kernel_member m) = Some (dev, nat_text role, faulty)" "Atoi_clamped (nat_text role) = int role"
    by (simp_all add: memberRe_kernel Atoi_clamped_nat_text)
  with Cons m show ?case by simp
qed simp

subsection \<open>The line with the counts\<close>

lemma match_count_other: "c \<noteq> CHR ''['' \<Longrightarrow> match_count (c # s) = None"
  by (auto simp: match_count_def)

lemma match_bitmap_other: "c \<noteq> CHR ''['' \<Longrightarrow> match_bitmap (c # s) = None"
  by (auto simp: match_bitmap_def)

lemma run_of_digits: "s = [] \<or> \<not> is_digit (hd s) \<Longrightarrow> run_of is_digit (nat_text n @ s) = Some (nat_text n, s)"
  by (rule run_of_append) (auto simp: nat_text_is_digit)

lemma match_count_kernel: "match_count (''['' @ nat_text t @ ''/'' @ nat_text u @ '']'' @ s) = Some (nat_text t, nat_text u)"
  by (simp add: match_count_def run_of_digits)

lemma match_bitmap_kernel:
  "\<lbrakk>b \<noteq> []; set b \<subseteq> {CHR ''U'', CHR ''_''}\<rbrakk> \<Longrightarrow> match_bitmap (''['' @ b @ '']'' @ s) = Some b"
proof -
  assume b: "b \<noteq> []" "set b \<subseteq> {CHR ''U'', CHR ''_''}"
  have "run_of (\<lambda>c. c = CHR ''U'' \<or> c = CHR ''_'') (b @ '']'' @ s) = Some (b, '']'' @ s)"
    using b by (intro run_of_append) auto
  then show ?thesis by (simp add: match_bitmap_def)
qed

lemma match_bitmap_digits: "match_bitmap (CHR ''['' # nat_text n @ s) = None"
proof -
  obtain c t where c: "nat_text n = c # t" "48 \<le> (of_char c :: nat)" "(of_char c :: nat) \<le> 57"
    using nat_text_hd by blast
  then have "c \<noteq> CHR ''U''" "c \<noteq> CHR ''_''" by auto
  with c show ?thesis by (simp add: match_bitmap_def run_of_def)
qed

lemma nat_text_no_bracket: "CHR ''['' \<notin> set (nat_text n)"
  using nat_text_is_digit not_digit by blast

lemma counts_of_line:
  assumes "CHR ''['' \<notin> set pre"
  shows "leftmost match_count (pre @ ''['' @ nat_text t @ ''/'' @ nat_text u @ '']'' @ s) = Some (nat_text t, nat_text u)"
proof -
  have "leftmost match_count (pre @ r) = leftmost match_count r" for r
    using assms by (intro leftmost_skip match_count_other) auto
  then show ?thesis using leftmost_here [of match_count, OF match_count_kernel [of t u s]] by simp
qed

lemma bitmap_of_line:
  assumes "CHR ''['' \<notin> set pre" "b \<noteq> []" "set b \<subseteq> {CHR ''U'', CHR ''_''}"
  shows "leftmost match_bitmap (pre @ ''['' @ nat_text t @ ''/'' @ nat_text u @ ''] ['' @ b @ '']'') = Some b"
proof -
  have skip: "leftmost match_bitmap (q @ r) = leftmost match_bitmap r" if "CHR ''['' \<notin> set q" for q r
    using that by (intro leftmost_skip match_bitmap_other) auto
  let ?q = "nat_text t @ ''/'' @ nat_text u @ ''] ''"
  have q: "CHR ''['' \<notin> set ?q" by (simp add: nat_text_no_bracket)
  have "leftmost match_bitmap (pre @ ''['' @ ?q @ ''['' @ b @ '']'') = leftmost match_bitmap (''['' @ ?q @ ''['' @ b @ '']'')"
    using skip [OF assms(1)] .
  also have "\<dots> = leftmost match_bitmap (?q @ ''['' @ b @ '']'')"
    by (simp add: match_bitmap_digits)
  also have "\<dots> = leftmost match_bitmap (''['' @ b @ '']'')"
    using skip [OF q] .
  also have "\<dots> = Some b"
    by (rule leftmost_here) (use match_bitmap_kernel [of b "[]"] assms in simp)
  finally show ?thesis by simp
qed

lemma slot_up_kernel: "slot_up b (int role) (\<not> faulty) = member_up b role faulty"
  by (auto simp: slot_up_def member_up_def)

lemma zip_map_same: "zip (map f xs) (map g xs) = map (\<lambda>x. (f x, g x)) xs"
  by (induction xs) auto

lemma body_line_kernel:
  assumes "desc_ok d"
    and r: "r = (new_raw (''md'' @ de_suffix d))\<lparr>raw_state := ''active'', raw_level := de_level d,
       raw_members := map (\<lambda>(dev, role, faulty). \<lparr>mem_Device = dev, mem_Up = \<not> faulty\<rparr>) (de_members d),
       raw_roles := map (\<lambda>(_, role, _). int role) (de_members d)\<rparr>"
  shows "body_line (kernel_lines d ! 1) r = raw_of_desc d"
proof -
  let ?pre = "'' '' @ de_blocks d @ '' ''"
  have l: "kernel_lines d ! 1 =
      ?pre @ ''['' @ nat_text (de_total d) @ ''/'' @ nat_text (de_up d) @ ''] ['' @ de_bitmap d @ '']''"
    by (simp add: kernel_lines_def)
  have pre: "CHR ''['' \<notin> set ?pre" using assms(1) by (auto simp: desc_ok_def)
  have c: "leftmost match_count (kernel_lines d ! 1) = Some (nat_text (de_total d), nat_text (de_up d))"
    using counts_of_line [OF pre, of "de_total d" "de_up d" "'' ['' @ de_bitmap d @ '']''"] unfolding l by simp
  have b: "leftmost match_bitmap (kernel_lines d ! 1) = Some (de_bitmap d)"
    unfolding l by (rule bitmap_of_line [OF pre]) (use assms(1) in \<open>simp_all add: desc_ok_def\<close>)
  have "Atoi_clamped (nat_text (de_total d)) = int (de_total d)" "Atoi_clamped (nat_text (de_up d)) = int (de_up d)"
    using assms(1) by (simp_all add: desc_ok_def Atoi_clamped_nat_text)
  with c b show ?thesis
    by (simp add: body_line_def applyBitmap_def raw_of_desc_def r zip_map_same new_raw_def case_prod_unfold slot_up_kernel)
qed

subsection \<open>The whole file\<close>

lemma Split_append:
  "c \<notin> set w \<Longrightarrow> Split (w @ c # s) c = w # Split s c"
  by (induction w) auto

lemma Split_word: "c \<notin> set w \<Longrightarrow> Split w c = [w]"
  by (induction w) auto

lemma Split_Join:
  "\<lbrakk>ls \<noteq> []; \<forall>l \<in> set ls. c \<notin> set l\<rbrakk> \<Longrightarrow> Split (Join ls [c]) c = ls"
  by (induction ls rule: induct_list012) (auto simp: Split_append Split_word)

lemma set_Join: "set (Join ws sep) \<subseteq> \<Union> (set ` set ws) \<union> set sep"
  by (induction ws sep rule: Join.induct) auto

lemma headerRe_blank [simp]: "headerRe [] = None" "headerRe (CHR '' '' # s) = None"
  by (simp_all add: headerRe_def)

lemma TrimSpace_eq_Nil: "TrimSpace s = [] \<longleftrightarrow> (\<forall>c \<in> set s. is_space c)"
  by (auto simp: TrimSpace_def TrimRightFunc_def dropWhile_eq_Nil_conv dest: set_dropWhileD)
     (metis dropWhile_eq_Nil_conv hd_dropWhile list.set_sel(1))

lemma word_ok_kernel_member:
  "word_ok dev \<Longrightarrow> kernel_member (dev, role, faulty) \<noteq> [] \<and> (\<forall>c \<in> set (kernel_member (dev, role, faulty)). \<not> is_space c)"
  using digit_not_space nat_text_is_digit by (force simp: kernel_member_def word_ok_def)

lemma header_fields:
  assumes "desc_ok d"
  shows "Fields (Join (''active'' # de_level d # map kernel_member (de_members d)) '' '') =
    ''active'' # de_level d # map kernel_member (de_members d)"
proof (rule Fields_Join, rule ballI)
  fix w assume "w \<in> set (''active'' # de_level d # map kernel_member (de_members d))"
  then consider "w = ''active''" | "w = de_level d"
    | dev role faulty where "(dev, role, faulty) \<in> set (de_members d)" "w = kernel_member (dev, role, faulty)"
    by auto
  then show "w \<noteq> [] \<and> (\<forall>c \<in> set w. \<not> is_space c)"
  proof cases
    case 1
    then show ?thesis by (simp add: is_space_def)
  next
    case 2
    then show ?thesis using assms by (simp add: desc_ok_def word_ok_def)
  next
    case 3
    then have "word_ok dev" using assms by (auto simp: desc_ok_def)
    with 3 show ?thesis using word_ok_kernel_member by simp
  qed
qed

lemma parseHeader_kernel:
  assumes "desc_ok d"
  shows "parseHeader (''md'' @ de_suffix d) (Join (''active'' # de_level d # map kernel_member (de_members d)) '' '') =
    (new_raw (''md'' @ de_suffix d))\<lparr>raw_state := ''active'', raw_level := de_level d,
       raw_members := map (\<lambda>(dev, role, faulty). \<lparr>mem_Device = dev, mem_Up = \<not> faulty\<rparr>) (de_members d),
       raw_roles := map (\<lambda>(_, role, _). int role) (de_members d)\<rparr>"
proof -
  have "\<not> Contains (de_level d) ''[''" using assms by (auto simp: Contains_char desc_ok_def word_ok_def)
  moreover have "\<forall>(dev, role, _) \<in> set (de_members d). word_ok dev \<and> role < 2 ^ 63"
    using assms by (simp add: desc_ok_def)
  ultimately show ?thesis
    unfolding parseHeader_def header_fields [OF assms] by (simp add: add_members_kernel new_raw_def)
qed

lemma headerRe_kernel_line:
  assumes "desc_ok d"
  shows "headerRe (kernel_lines d ! 0) =
    Some (''md'' @ de_suffix d, Join (''active'' # de_level d # map kernel_member (de_members d)) '' '')"
  using headerRe_kernel [of "de_suffix d" "CHR ''a''"] assms
  by (simp add: kernel_lines_def desc_ok_def re_space_def)

lemma parse_lines_kernel:
  assumes "desc_ok d"
  shows "parse_lines (kernel_lines d @ ls) None = raw_of_desc d # parse_lines ls None"
proof -
  let ?h = "kernel_lines d ! 0" and ?b = "kernel_lines d ! 1"
  have k: "kernel_lines d = [?h, ?b, []]" by (simp add: kernel_lines_def)
  have b: "headerRe ?b = None" by (simp add: kernel_lines_def)
  have "CHR ''['' \<in> set ?b" by (simp add: kernel_lines_def)
  then have t: "TrimSpace ?b \<noteq> []" unfolding TrimSpace_eq_Nil using not_space(1) by blast
  have e: "TrimSpace [] = []" by (simp add: TrimSpace_eq_Nil)
  have "parse_lines (?h # ?b # [] # ls) None = raw_of_desc d # parse_lines ls None"
    unfolding parse_lines.simps headerRe_kernel_line [OF assms] option.case prod.case parseHeader_kernel [OF assms]
      b if_not_P [OF t] body_line_kernel [OF assms refl] headerRe_blank if_P [OF e] append_Nil ..
  with k show ?thesis by (metis append_Cons append_Nil)
qed

lemma kernel_lines_no_newline:
  assumes "desc_ok d" "l \<in> set (kernel_lines d)"
  shows "CHR 0x0A \<notin> set l"
proof -
  have w: "CHR 0x0A \<notin> set w" if "word_ok w" for w using that by (auto simp: word_ok_def is_space_def)
  have n: "CHR 0x0A \<notin> set (nat_text n)" for n using nat_text_is_digit not_digit by blast
  have m: "CHR 0x0A \<notin> set (kernel_member x)" if "x \<in> set (de_members d)" for x
    using assms(1) that w n by (cases x) (auto simp: desc_ok_def kernel_member_def)
  have "CHR 0x0A \<notin> set (Join (''active'' # de_level d # map kernel_member (de_members d)) '' '')"
    using set_Join [of "''active'' # de_level d # map kernel_member (de_members d)" "'' ''"] m w assms(1)
    by (auto simp: desc_ok_def)
  then show ?thesis using assms w n by (auto simp: kernel_lines_def desc_ok_def)
qed

lemma parseMdstat_kernel:
  assumes "\<forall>d \<in> set ds. desc_ok d"
  shows "parseMdstat (Join (concat (map kernel_lines ds)) [CHR 0x0A]) = map raw_of_desc ds"
proof -
  have p: "parse_lines (concat (map kernel_lines ds)) None = map raw_of_desc ds"
    using assms by (induction ds) (simp_all add: parse_lines_kernel)
  show ?thesis
  proof (cases ds)
    case Nil
    then show ?thesis by (simp add: parseMdstat_def)
  next
    case (Cons d ds')
    then have "concat (map kernel_lines ds) \<noteq> []" by (simp add: kernel_lines_def)
    then have "Split (Join (concat (map kernel_lines ds)) [CHR 0x0A]) (CHR 0x0A) = concat (map kernel_lines ds)"
      using assms kernel_lines_no_newline by (intro Split_Join) auto
    with p show ?thesis by (simp add: parseMdstat_def)
  qed
qed

text \<open>
  \<^bold>\<open>C16\<close>. Reading mdstat inverts writing it: for any list of assembled arrays at rest whose names, levels
  and devices are words and whose numbers fit, the parser applied to the kernel's rendering returns
  exactly those arrays, in order, each with its level, its members with their role's bit of the bitmap
  (and faulty members down), and its device counts.
\<close>

theorem mdstat_roundtrip:
  assumes "\<forall>d \<in> set ds. desc_ok d"
  shows "parseMdstat (Join (concat (map kernel_lines ds)) [CHR 0x0A]) = map raw_of_desc ds"
  by (rule parseMdstat_kernel [OF assms])

definition raid5_desc :: md_desc where
  "raid5_desc = \<lparr>de_suffix = ''127'', de_level = ''raid5'',
     de_members = [(''sdc1'', 2, False), (''sdb1'', 1, True), (''sda1'', 0, False)],
     de_blocks = ''2095104 blocks super 1.2'', de_total = 3, de_up = 2, de_bitmap = ''U_U''\<rparr>"

theorem mdstat_roundtrip_witness:
  "map (\<lambda>r. (raw_name r, map (\<lambda>m. (mem_Device m, mem_Up m)) (raw_members r)))
     (parseMdstat (Join (concat (map kernel_lines [raid5_desc])) [CHR 0x0A])) =
   [(''md127'', [(''sdc1'', True), (''sdb1'', False), (''sda1'', True)])]"
proof -
  have "\<forall>d \<in> set [raid5_desc]. desc_ok d"
    by (simp add: desc_ok_def raid5_desc_def word_ok_def is_space_def)
  from mdstat_roundtrip [OF this] show ?thesis
    by (simp add: raw_of_desc_def raid5_desc_def new_raw_def member_up_def)
qed

subsection \<open>Health of a scanned array\<close>

lemma rollupState_healthy_iff:
  "rollupState r action = MdHealthy \<longleftrightarrow>
     raw_state r \<noteq> ''inactive'' \<and> action \<in> {'''', ''idle''} \<and> (raw_haveCount r \<longrightarrow> raw_total r \<le> raw_up r) \<and>
     (\<forall>m \<in> set (raw_members r). mem_Up m)"
  by (auto simp: rollupState_def list_ex_iff)

text \<open>
  The badge of a scanned array: over the kernel's rendering of any well-formed arrays, with no
  sync running, an array is reported healthy exactly when the kernel counts all its devices up and no
  member is faulty or marked down in the bitmap, and degraded otherwise.
\<close>

theorem scan_health_badge:
  assumes "\<forall>d \<in> set ds. desc_ok d"
    and "read_mdstat e h = Inr (Join (concat (map kernel_lines ds)) [CHR 0x0A])"
    and "\<And>name. readSysAttr e name ''sync_action'' h \<in> {'''', ''idle''}"
  shows "map (\<lambda>a. (md_Name a, md_State a)) (ScanMdadm e h) =
    map (\<lambda>d. (''md'' @ de_suffix d,
      if de_total d \<le> de_up d \<and> (\<forall>(_, role, faulty) \<in> set (de_members d). member_up (de_bitmap d) role faulty)
      then MdHealthy else MdDegraded)) ds"
proof -
  have p: "parseMdstat (Join (concat (map kernel_lines ds)) [CHR 0x0A]) = map raw_of_desc ds"
    by (rule parseMdstat_kernel [OF assms(1)])
  have a: "sync_action_of e (raw_of_desc d) h = ''idle''" for d
    using assms(3) [of "raw_name (raw_of_desc d)"]
    by (auto simp: sync_action_of_def raw_of_desc_def new_raw_def normalizeAction_def Let_def)
  have s: "rollupState (raw_of_desc d) ''idle'' =
      (if de_total d \<le> de_up d \<and> (\<forall>(_, role, faulty) \<in> set (de_members d). member_up (de_bitmap d) role faulty)
       then MdHealthy else MdDegraded)" for d
    by (auto simp: rollupState_def raw_of_desc_def new_raw_def list_ex_iff Ball_def Bex_def split: prod.splits)
  show ?thesis
    by (simp add: ScanMdadm_def assms(2) p array_of_raw_def Let_def a s)
       (simp add: raw_of_desc_def new_raw_def)
qed

definition demo_host :: "string md_host" where
  "demo_host = \<lparr>read_mdstat = (\<lambda>h. Inr h), read_attr = (\<lambda>_ attr _. if attr = ''sync_action'' then Inr ''idle'' else Inl (Errorf ''absent'')),
     write_attr = (\<lambda>_ _ _ h. (Inr (), h))\<rparr>"

theorem scan_health_badge_witness:
  "map (\<lambda>a. (md_Name a, md_State a)) (ScanMdadm demo_host (Join (concat (map kernel_lines [raid5_desc])) [CHR 0x0A])) =
   [(''md127'', MdDegraded)]"
proof -
  have d: "\<forall>d \<in> set [raid5_desc]. desc_ok d"
    by (simp add: desc_ok_def raid5_desc_def word_ok_def is_space_def)
  have "TrimSpace ''idle'' = ''idle''" by code_simp
  then have a: "readSysAttr demo_host name ''sync_action'' h \<in> {'''', ''idle''}" for name h
    by (simp add: readSysAttr_def demo_host_def)
  have r: "read_mdstat demo_host h = Inr h" for h by (simp add: demo_host_def)
  from scan_health_badge [OF d r a] show ?thesis
    by (simp add: raid5_desc_def)
qed

text \<open>
  A header that carries a mode before the level, as the kernel prints for an array that is read-only:
  the mode is taken for the level.
\<close>

lemma read_only_array_level:
  "raw_level (parseHeader ''md0'' ''active (read-only) raid1 sdb1[1] sda1[0]'') = ''(read-only)''"
  by code_simp

subsection \<open>Starting a scrub\<close>

text \<open>
  Starting a scrub is confined to arrays that mdstat reports, and succeeds only when it did
  something: on any other name the host is untouched, and success is returned exactly when the write
  to the array's sync_action went through and the array then reports a check.
\<close>

theorem start_check_contract:
  "(name \<notin> md_Name ` set (ScanMdadm e h) \<longrightarrow>
     StartMdadmCheck e name h = (Inl (Errorf (''no such array '' @ quoted name)), h)) \<and>
   (fst (StartMdadmCheck e name h) = Inr () \<longleftrightarrow>
     name \<in> md_Name ` set (ScanMdadm e h) \<and>
     (\<exists>h'. write_attr e name ''sync_action'' (''check'' @ [CHR 0x0A]) h = (Inr (), h') \<and>
           readSysAttr e name ''sync_action'' h' = ''check''))"
  by (auto simp: StartMdadmCheck_def list_ex_iff Let_def image_iff split: prod.splits sum.splits)

text \<open>A host with one array whose sync_action attribute is its state.\<close>

definition check_host :: "string md_host" where
  "check_host = \<lparr>read_mdstat = (\<lambda>h. Inr (Join (kernel_lines raid5_desc) [CHR 0x0A])),
     read_attr = (\<lambda>_ attr h. if attr = ''sync_action'' then Inr h else Inl (Errorf ''absent'')),
     write_attr = (\<lambda>_ _ v _. (Inr (), v))\<rparr>"

theorem start_check_contract_witness:
  "StartMdadmCheck check_host ''sda'' ''idle'' = (Inl (Errorf (''no such array '' @ quoted ''sda'')), ''idle'') \<and>
   fst (StartMdadmCheck check_host ''md127'' ''idle'') = Inr ()"
proof
  have n: "md_Name ` set (ScanMdadm check_host ''idle'') = {''md127''}"
    by code_simp
  show "StartMdadmCheck check_host ''sda'' ''idle'' = (Inl (Errorf (''no such array '' @ quoted ''sda'')), ''idle'')"
    using start_check_contract [of "''sda''" check_host "''idle''"] n by simp
  have "readSysAttr check_host ''md127'' ''sync_action'' (''check'' @ [CHR 0x0A]) = ''check''"
    by code_simp
  moreover have "write_attr check_host ''md127'' ''sync_action'' (''check'' @ [CHR 0x0A]) ''idle'' = (Inr (), ''check'' @ [CHR 0x0A])"
    by (simp add: check_host_def)
  ultimately show "fst (StartMdadmCheck check_host ''md127'' ''idle'') = Inr ()"
    using start_check_contract [of "''md127''" check_host "''idle''"] n by simp
qed

end
