(* ===== verification/Raidwatch.thy ===== *)
theory Raidwatch
  imports Mdadm Store_Settings
begin

text \<open>
  The RAID watcher (\<^verbatim>\<open>internal/raidwatch\<close>): one pass reads the arrays, announces what changed since
  the last pass, records finished scrubs and starts the scrubs whose schedule is due, with a ladder of
  retries for those that fail to start.

  Parameters: the reader and the starter of scrubs (injectable in the source; \<open>New_Watcher\<close> plugs in
  those of the theory on mdadm) and the recurrence library. Times are Unix seconds, which is what the
  watcher stores; the occurrences of a rule are whole seconds. The messages handed to the notifier are
  kept in the order in which they are handed over. Log output is not modelled.
\<close>

section \<open>The watcher's environment\<close>

type_synonym raid_message = "notification_event \<times> string \<times> string"

record ('h, 'o, 'r) raid_env =
  rw_scan :: "'h \<Rightarrow> md_array list"
  rw_start :: "string \<Rightarrow> 'h \<Rightarrow> unit res \<times> 'h"
  rw_notif :: bool
  StrToROptionInLocation :: "string \<Rightarrow> 'o res"
  opt_Dtstart :: "'o \<Rightarrow> int option"
  with_Dtstart :: "int \<Rightarrow> 'o \<Rightarrow> 'o"
  NewRRule :: "'o \<Rightarrow> 'r res"
  rr_After :: "'r \<Rightarrow> int \<Rightarrow> int option"
  scheduleAnchor :: int

record 'h raid_world =
  rw_store :: store
  rw_host :: 'h
  rw_msgs :: "raid_message list"

text \<open>\<^verbatim>\<open>New\<close>: the watcher over the real reader.\<close>

definition New_Watcher :: "'h md_host \<Rightarrow> ('h, 'o, 'r) raid_env \<Rightarrow> ('h, 'o, 'r) raid_env" where
  "New_Watcher k e = e\<lparr>rw_scan := ScanMdadm k, rw_start := StartMdadmCheck k\<rparr>"

definition raid_notify ::
  "('h, 'o, 'r) raid_env \<Rightarrow> notification_event \<Rightarrow> string \<Rightarrow> string \<Rightarrow> 'h raid_world \<Rightarrow> 'h raid_world" where
  "raid_notify e ev title body w = (if rw_notif e then w\<lparr>rw_msgs := rw_msgs w @ [(ev, title, body)]\<rparr> else w)"

section \<open>The poll interval\<close>

text \<open>\<^verbatim>\<open>time.Duration(secs) * time.Second\<close>, a product of 64-bit signed integers.\<close>

definition wrap64 :: "int \<Rightarrow> int" where
  "wrap64 i = (i + 2 ^ 63) mod 2 ^ 64 - 2 ^ 63"

definition raid_interval :: "store \<Rightarrow> int" where
  "raid_interval s =
     (let secs = (case LoadSettings s of
                    Inr cfg \<Rightarrow> if set_PollIntervalSeconds cfg > 0 then set_PollIntervalSeconds cfg else DefaultPollIntervalSeconds
                  | Inl _ \<Rightarrow> DefaultPollIntervalSeconds)
      in wrap64 (secs * 10 ^ 9))"

section \<open>Transitions\<close>

definition badState :: "md_array_state \<Rightarrow> bool" where
  "badState s \<longleftrightarrow> s = MdDegraded \<or> s = MdFailed"

fun member_map :: "md_member list \<Rightarrow> (string \<times> bool) list \<Rightarrow> (string \<times> bool) list" where
  "member_map [] acc = acc"
| "member_map (m # ms) acc = member_map ms (AList.update (mem_Device m) (mem_Up m) acc)"

definition raid_snapshot :: "md_array \<Rightarrow> md_baseline" where
  "raid_snapshot a =
     \<lparr>bl_State = md_State a, bl_SyncAction = md_SyncAction a, bl_Members = member_map (md_Members a) []\<rparr>"

definition notifyScan ::
  "('h, 'o, 'r) raid_env \<Rightarrow> md_array \<Rightarrow> md_baseline \<Rightarrow> 'h raid_world \<Rightarrow> bool \<times> 'h raid_world" where
  "notifyScan e a prev w =
     (let was = bl_SyncAction prev = ''check''; now = md_SyncAction a = ''check''
      in if \<not> was \<and> now then
           (False, raid_notify e EventRaidScanStarted (md_Name a @ '' scan started'')
              (''A data-scrub (check) started on '' @ md_Name a @ '' ('' @ md_Level a @
               ''). This can take hours and adds disk load.'') w)
         else if was \<and> \<not> now then
           (True, raid_notify e EventRaidScanFinished (md_Name a @ '' scan finished'')
              (''The data-scrub on '' @ md_Name a @ '' finished. Mismatch count: '' @ nat_text (md_MismatchCnt a) @ ''.'') w)
         else (False, w))"

definition notifyHealth ::
  "('h, 'o, 'r) raid_env \<Rightarrow> md_array \<Rightarrow> md_baseline \<Rightarrow> 'h raid_world \<Rightarrow> 'h raid_world" where
  "notifyHealth e a prev w =
     (let wasBad = badState (bl_State prev); isBad = badState (md_State a)
      in if \<not> wasBad \<and> isBad then
           raid_notify e EventRaidUnhealthy (md_Name a @ '' is '' @ md_state_text (md_State a))
             (md_Name a @ '' ('' @ md_Level a @ '') is '' @ md_state_text (md_State a) @ '': '' @
              Itoa (md_DevicesUp a) @ '' of '' @ Itoa (md_DevicesTotal a) @ '' member disks are up.'') w
         else if wasBad \<and> \<not> isBad then
           raid_notify e EventRaidUnhealthy (md_Name a @ '' recovered'') (md_Name a @ '' is healthy again.'') w
         else w)"

definition notify_disk ::
  "('h, 'o, 'r) raid_env \<Rightarrow> md_array \<Rightarrow> md_baseline \<Rightarrow> md_member \<Rightarrow> 'h raid_world \<Rightarrow> 'h raid_world" where
  "notify_disk e a prev m w =
     (case map_of (bl_Members prev) (mem_Device m) of
        None \<Rightarrow> w
      | Some wasUp \<Rightarrow>
          if wasUp \<and> \<not> mem_Up m then
            raid_notify e EventRaidDiskOffline (mem_Device m @ '' dropped from '' @ md_Name a)
              (''Member disk '' @ mem_Device m @ '' of '' @ md_Name a @
               '' is no longer up. The array is running without it.'') w
          else if \<not> wasUp \<and> mem_Up m then
            raid_notify e EventRaidDiskOffline (mem_Device m @ '' rejoined '' @ md_Name a)
              (''Member disk '' @ mem_Device m @ '' of '' @ md_Name a @ '' is back up.'') w
          else w)"

definition notifyDisks ::
  "('h, 'o, 'r) raid_env \<Rightarrow> md_array \<Rightarrow> md_baseline \<Rightarrow> 'h raid_world \<Rightarrow> 'h raid_world" where
  "notifyDisks e a prev w = fold (notify_disk e a prev) (md_Members a) w"

text \<open>
  The loop of \<^verbatim>\<open>checkTransitions\<close>: the next baseline, the completion times and whether one was
  recorded.
\<close>

fun compare_arrays ::
  "('h, 'o, 'r) raid_env \<Rightarrow> (string \<times> md_baseline) list \<Rightarrow> int \<Rightarrow> md_array list \<Rightarrow>
   (string \<times> md_baseline) list \<Rightarrow> (string \<times> int) list \<Rightarrow> bool \<Rightarrow> 'h raid_world \<Rightarrow>
   (string \<times> md_baseline) list \<times> (string \<times> int) list \<times> bool \<times> 'h raid_world" where
  "compare_arrays e baseline now [] nxt lastScan changed w = (nxt, lastScan, changed, w)"
| "compare_arrays e baseline now (a # as) nxt lastScan changed w =
     (let nxt' = AList.update (md_Name a) (raid_snapshot a) nxt
      in case map_of baseline (md_Name a) of
           None \<Rightarrow> compare_arrays e baseline now as nxt' lastScan changed w
         | Some prev \<Rightarrow>
             (case notifyScan e a prev w of (finished, w) \<Rightarrow>
                let w = notifyDisks e a prev (notifyHealth e a prev w)
                in if finished
                   then compare_arrays e baseline now as nxt' (AList.update (md_Name a) now lastScan) True w
                   else compare_arrays e baseline now as nxt' lastScan changed w))"

definition checkTransitions ::
  "('h, 'o, 'r) raid_env \<Rightarrow> md_array list \<Rightarrow> int \<Rightarrow> 'h raid_world \<Rightarrow> 'h raid_world" where
  "checkTransitions e arrays now w =
     (case LoadMdadmBaseline (rw_store w) of
        Inl _ \<Rightarrow> w
      | Inr baseline \<Rightarrow>
          (case LoadMdadmLastScan (rw_store w) of
             Inl _ \<Rightarrow> w
           | Inr lastScan \<Rightarrow>
               (case compare_arrays e baseline now arrays [] lastScan False w of (nxt, lastScan, scanChanged, w) \<Rightarrow>
                  let w = w\<lparr>rw_store := snd (SaveMdadmBaseline nxt (rw_store w))\<rparr>
                  in if scanChanged then w\<lparr>rw_store := snd (SaveMdadmLastScan lastScan (rw_store w))\<rparr> else w)))"

section \<open>Recurrence rules\<close>

definition parseRRule :: "('h, 'o, 'r) raid_env \<Rightarrow> string \<Rightarrow> 'r res" where
  "parseRRule e rule =
     (case StrToROptionInLocation e rule of
        Inl err \<Rightarrow> Inl err
      | Inr opt \<Rightarrow> NewRRule e (if opt_Dtstart e opt = None then with_Dtstart e (scheduleAnchor e) opt else opt))"

definition ValidateRRule :: "('h, 'o, 'r) raid_env \<Rightarrow> string \<Rightarrow> unit res" where
  "ValidateRRule e rule =
     (if rule = '''' then Inl (Errorf ''empty schedule'')
      else case parseRRule e rule of Inl err \<Rightarrow> Inl err | Inr _ \<Rightarrow> Inr ())"

definition dueSince :: "('h, 'o, 'r) raid_env \<Rightarrow> string \<Rightarrow> int \<Rightarrow> int \<Rightarrow> bool res" where
  "dueSince e rule since now =
     (case parseRRule e rule of
        Inl err \<Rightarrow> Inl err
      | Inr r \<Rightarrow> (case rr_After e r since of None \<Rightarrow> Inr False | Some nxt \<Rightarrow> Inr (nxt \<le> now)))"

section \<open>Scheduled scrubs\<close>

definition retryDelays :: "int list" where
  "retryDelays = [60, 5 * 60, 15 * 60, 60 * 60]"

definition no_failure :: md_scan_failure where
  "no_failure = \<lparr>fail_Error = '''', fail_FirstAt = 0, fail_LastAt = 0, fail_Attempts = 0, fail_NextRetryAt = 0,
     fail_Scheduled = False\<rparr>"

definition next_failure :: "md_scan_failure \<Rightarrow> err \<Rightarrow> bool \<Rightarrow> int \<Rightarrow> md_scan_failure" where
  "next_failure prev err scheduled now =
     (let attempts = fail_Attempts prev + 1
      in \<lparr>fail_Error = err_text err,
          fail_FirstAt = (if fail_Attempts prev = 0 then now else fail_FirstAt prev),
          fail_LastAt = now, fail_Attempts = attempts,
          fail_NextRetryAt =
            (if scheduled \<and> attempts \<le> length retryDelays then now + retryDelays ! (attempts - 1) else 0),
          fail_Scheduled = scheduled\<rparr>)"

definition recordFailure ::
  "('h, 'o, 'r) raid_env \<Rightarrow> string \<Rightarrow> md_scan_failure \<Rightarrow> err \<Rightarrow> bool \<Rightarrow> int \<Rightarrow> 'h raid_world \<Rightarrow>
   md_scan_failure \<times> 'h raid_world" where
  "recordFailure e name prev err scheduled now w =
     (let f = next_failure prev err scheduled now
      in (f, if \<not> scheduled then
               raid_notify e EventRaidScanFailed (''Couldn't start scan on '' @ name) (err_text err) w
             else if fail_Attempts f = 1 then
               raid_notify e EventRaidScanFailed (''Scheduled scan on '' @ name @ '' couldn't start'')
                 (err_text err @ ''. Veery will retry.'') w
             else if fail_NextRetryAt f = 0 then
               raid_notify e EventRaidScanFailed (''Scheduled scan on '' @ name @ '' failed'')
                 (err_text err @ ''. Gave up after '' @ nat_text (fail_Attempts f) @
                  '' attempts; the next scheduled run will try again.'') w
             else w))"

text \<open>The variables of the loop of \<^verbatim>\<open>runSchedules\<close>.\<close>

record 'h sched_loop =
  sl_lastRun :: "(string \<times> int) list"
  sl_failures :: "(string \<times> md_scan_failure) list"
  sl_runChanged :: bool
  sl_failChanged :: bool
  sl_world :: "'h raid_world"

definition active_schedule :: "(string \<times> mdadm_schedule) list \<Rightarrow> string \<Rightarrow> string option" where
  "active_schedule cfg name =
     (case map_of cfg name of
        None \<Rightarrow> None
      | Some sc \<Rightarrow> if sched_Enabled sc \<and> sched_RRule sc \<noteq> '''' then Some (sched_RRule sc) else None)"

text \<open>A failure that no longer says anything is dropped at the head of the loop's body.\<close>

definition moot_failure :: "md_array \<Rightarrow> bool \<Rightarrow> md_scan_failure \<Rightarrow> bool" where
  "moot_failure a scheduled fail \<longleftrightarrow> md_SyncAction a = ''check'' \<or> (fail_Scheduled fail \<and> \<not> scheduled)"

definition drop_moot :: "md_array \<Rightarrow> bool \<Rightarrow> 'h sched_loop \<Rightarrow> 'h sched_loop" where
  "drop_moot a scheduled l =
     (case map_of (sl_failures l) (md_Name a) of
        Some fail \<Rightarrow>
          if moot_failure a scheduled fail
          then l\<lparr>sl_failures := AList.delete (md_Name a) (sl_failures l), sl_failChanged := True\<rparr> else l
      | None \<Rightarrow> l)"

text \<open>The call of \<^verbatim>\<open>start\<close> and what follows it; \<open>retrying\<close> is the failure being retried, if any.\<close>

definition attempt_start ::
  "('h, 'o, 'r) raid_env \<Rightarrow> int \<Rightarrow> string \<Rightarrow> md_scan_failure option \<Rightarrow> 'h sched_loop \<Rightarrow> 'h sched_loop" where
  "attempt_start e now name retrying l =
     (case rw_start e name (rw_host (sl_world l)) of
        (Inl err, h) \<Rightarrow>
          (case recordFailure e name (case retrying of Some f \<Rightarrow> f | None \<Rightarrow> no_failure) err True now
                  ((sl_world l)\<lparr>rw_host := h\<rparr>) of
             (nxt, w) \<Rightarrow>
               let l = l\<lparr>sl_failures := AList.update name nxt (sl_failures l), sl_failChanged := True, sl_world := w\<rparr>
               in if fail_NextRetryAt nxt = 0
                  then l\<lparr>sl_lastRun := AList.update name now (sl_lastRun l), sl_runChanged := True\<rparr> else l)
      | (Inr _, h) \<Rightarrow>
          l\<lparr>sl_failures := AList.delete name (sl_failures l),
            sl_failChanged := (sl_failChanged l \<or> map_of (sl_failures l) name \<noteq> None),
            sl_lastRun := AList.update name now (sl_lastRun l), sl_runChanged := True,
            sl_world := (sl_world l)\<lparr>rw_host := h\<rparr>\<rparr>)"

definition retry_of :: "string \<Rightarrow> 'h sched_loop \<Rightarrow> md_scan_failure option" where
  "retry_of name l =
     (case map_of (sl_failures l) name of
        Some fail \<Rightarrow> if fail_Scheduled fail \<and> fail_NextRetryAt fail > 0 then Some fail else None
      | None \<Rightarrow> None)"

definition schedule_one ::
  "('h, 'o, 'r) raid_env \<Rightarrow> (string \<times> mdadm_schedule) list \<Rightarrow> int \<Rightarrow> md_array \<Rightarrow> 'h sched_loop \<Rightarrow> 'h sched_loop" where
  "schedule_one e cfg now a l =
     (let name = md_Name a; rule = active_schedule cfg name; l = drop_moot a (rule \<noteq> None) l
      in case rule of
           None \<Rightarrow> l
         | Some rule \<Rightarrow>
             (case map_of (sl_lastRun l) name of
                None \<Rightarrow> l\<lparr>sl_lastRun := AList.update name now (sl_lastRun l), sl_runChanged := True\<rparr>
              | Some since \<Rightarrow>
                  if md_SyncAction a \<noteq> ''idle'' \<and> md_SyncAction a \<noteq> '''' then l
                  else (case retry_of name l of
                          Some fail \<Rightarrow> if now < fail_NextRetryAt fail then l else attempt_start e now name (Some fail) l
                        | None \<Rightarrow>
                            (case dueSince e rule since now of
                               Inl _ \<Rightarrow> l
                             | Inr due \<Rightarrow> if due then attempt_start e now name None l else l))))"

definition runSchedules ::
  "('h, 'o, 'r) raid_env \<Rightarrow> md_array list \<Rightarrow> int \<Rightarrow> 'h raid_world \<Rightarrow> 'h raid_world" where
  "runSchedules e arrays now w =
     (case LoadMdadmSchedules (rw_store w) of
        Inl _ \<Rightarrow> w
      | Inr cfg \<Rightarrow>
     (case LoadMdadmScanFailures (rw_store w) of
        Inl _ \<Rightarrow> w
      | Inr failures \<Rightarrow>
     (case LoadMdadmLastRun (rw_store w) of
        Inl _ \<Rightarrow> w
      | Inr lastRun \<Rightarrow>
          let l = fold (schedule_one e cfg now) arrays
                    \<lparr>sl_lastRun = lastRun, sl_failures = failures, sl_runChanged = False, sl_failChanged = False,
                     sl_world = w\<rparr>;
              w = sl_world l;
              w = (if sl_runChanged l then w\<lparr>rw_store := snd (SaveMdadmLastRun (sl_lastRun l) (rw_store w))\<rparr> else w)
          in if sl_failChanged l then w\<lparr>rw_store := snd (SaveMdadmScanFailures (sl_failures l) (rw_store w))\<rparr> else w)))"

section \<open>A pass, and a scrub started by an administrator\<close>

definition raid_sweep :: "('h, 'o, 'r) raid_env \<Rightarrow> int \<Rightarrow> 'h raid_world \<Rightarrow> 'h raid_world" where
  "raid_sweep e now w =
     (let arrays = rw_scan e (rw_host w)
      in if arrays = [] then w else runSchedules e arrays now (checkTransitions e arrays now w))"

text \<open>The part of \<^verbatim>\<open>Start\<close> that runs under the watcher's mutex, given what the start returned.\<close>

definition record_start ::
  "('h, 'o, 'r) raid_env \<Rightarrow> string \<Rightarrow> unit res \<Rightarrow> int \<Rightarrow> 'h raid_world \<Rightarrow> unit res \<times> 'h raid_world" where
  "record_start e name startErr now w =
     (case LoadMdadmScanFailures (rw_store w) of
        Inl _ \<Rightarrow> (startErr, w)
      | Inr failures \<Rightarrow>
          (case startErr of
             Inl err \<Rightarrow>
               (case recordFailure e name no_failure err False now w of
                  (f, w) \<Rightarrow>
                    (startErr, w\<lparr>rw_store := snd (SaveMdadmScanFailures (AList.update name f failures) (rw_store w))\<rparr>))
           | Inr _ \<Rightarrow>
               if map_of failures name \<noteq> None
               then (startErr, w\<lparr>rw_store := snd (SaveMdadmScanFailures (AList.delete name failures) (rw_store w))\<rparr>)
               else (Inr (), w)))"

definition StartScan ::
  "('h, 'o, 'r) raid_env \<Rightarrow> string \<Rightarrow> int \<Rightarrow> 'h raid_world \<Rightarrow> unit res \<times> 'h raid_world" where
  "StartScan e name now w =
     (if \<not> list_ex (\<lambda>a. md_Name a = name) (rw_scan e (rw_host w))
      then (Inl (Errorf (''no such array '' @ quoted name)), w)
      else case rw_start e name (rw_host w) of
        (startErr, h) \<Rightarrow> record_start e name startErr now (w\<lparr>rw_host := h\<rparr>))"

section \<open>The zone of the schedules\<close>

record zone_env =
  getenv_TZ :: string
  Local_String :: string
  Readlink_localtime :: "string res"
  ReadFile_timezone :: "string res"
  zone_offset :: int

definition zoneName :: "zone_env \<Rightarrow> string" where
  "zoneName z =
     (let tz = TrimPrefix (TrimSpace (getenv_TZ z)) '':'';
          of_file = (case ReadFile_timezone z of Inl _ \<Rightarrow> '''' | Inr b \<Rightarrow> TrimSpace b)
      in if tz \<noteq> '''' then tz
         else if Local_String z \<noteq> '''' \<and> Local_String z \<noteq> ''Local'' then Local_String z
         else case Readlink_localtime z of
             Inl _ \<Rightarrow> of_file
           | Inr target \<Rightarrow> (case Cut target ''zoneinfo/'' of Some (_, name) \<Rightarrow> name | None \<Rightarrow> of_file))"

definition LocalZone :: "zone_env \<Rightarrow> string \<times> int" where
  "LocalZone z = (zoneName z, zone_offset z)"

section \<open>The watcher and the API side by side\<close>

text \<open>
  The poller and requests interleave at the granularity of the mutex: comparing with the baseline,
  running the schedules, recording a manual start. A pass may work on arrays it read earlier, and in
  between the host changes on its own and schedules are edited.
\<close>

inductive raid_step :: "('h, 'o, 'r) raid_env \<Rightarrow> 'h raid_world \<Rightarrow> 'h raid_world \<Rightarrow> bool" for e where
  Transitions: "raid_step e w (checkTransitions e arrays now w)"
| Schedules: "raid_step e w (runSchedules e arrays now w)"
| Record: "raid_step e w (snd (record_start e name r now w))"
| Edit: "raid_step e w (w\<lparr>rw_store := snd (SaveMdadmSchedules cfg (rw_store w))\<rparr>)"
| Host: "raid_step e w (w\<lparr>rw_host := h\<rparr>)"

inductive raid_reachable :: "('h, 'o, 'r) raid_env \<Rightarrow> 'h raid_world \<Rightarrow> 'h raid_world \<Rightarrow> bool" for e w0 where
  Init: "raid_reachable e w0 w0"
| Step: "raid_reachable e w0 w \<Longrightarrow> raid_step e w w' \<Longrightarrow> raid_reachable e w0 w'"

text \<open>A whole pass and a whole manual start are runs of such steps.\<close>

lemma raid_sweep_reachable: "raid_reachable e w (raid_sweep e now w)"
proof (cases "rw_scan e (rw_host w) = []")
  case False
  have "raid_reachable e w (checkTransitions e (rw_scan e (rw_host w)) now w)"
    by (rule raid_reachable.Step [OF raid_reachable.Init raid_step.Transitions])
  from raid_reachable.Step [OF this raid_step.Schedules [where arrays = "rw_scan e (rw_host w)" and now = now]] False
  show ?thesis by (simp add: raid_sweep_def Let_def)
qed (simp add: raid_sweep_def raid_reachable.Init)

lemma StartScan_reachable: "raid_reachable e w (snd (StartScan e name now w))"
proof (cases "list_ex (\<lambda>a. md_Name a = name) (rw_scan e (rw_host w))")
  case True
  obtain r h where s: "rw_start e name (rw_host w) = (r, h)" by (cases "rw_start e name (rw_host w)")
  have "raid_reachable e w (w\<lparr>rw_host := h\<rparr>)"
    by (rule raid_reachable.Step [OF raid_reachable.Init raid_step.Host])
  from raid_reachable.Step [OF this raid_step.Record [where name = name and r = r and now = now]] True s
  show ?thesis by (simp add: StartScan_def)
qed (simp add: StartScan_def raid_reachable.Init)

end
