(* ===== verification/Disks.thy ===== *)
theory Disks
  imports Mdadm Store_Settings
begin

text \<open>
  Which disks the dashboard shows (\<^verbatim>\<open>internal/metrics/disks.go\<close> and \<^verbatim>\<open>build.go\<close>): listing the mounts and
  devices of the host, the built-in visibility and the user's overrides, the payload of the dashboard
  and of the settings page, and the high-water marks of the throughput.

  Parameters, gathered in \<open>disk_env\<close>: gopsutil's partitions, usage and I/O counters, and
  \<^verbatim>\<open>sort.Slice\<close>, which leaves the order of equal sizes open. Byte counts are 64-bit words. The type of
  the CPU percentage is left open: it is only passed on.
\<close>

section \<open>Data\<close>

record mount_usage =
  mnt_Mount :: string
  mnt_Fstype :: string
  mnt_Device :: string
  mnt_Used :: "64 word"
  mnt_Total :: "64 word"
  mnt_Noise :: bool

record device_io =
  dio_Device :: string
  dio_ReadPerSec :: "64 word"
  dio_WritePerSec :: "64 word"

record disk_usage =
  du_Key :: string
  du_Mount :: string
  du_Used :: "64 word"
  du_Total :: "64 word"

record disk_activity =
  da_Key :: string
  da_Device :: string
  da_Label :: string
  da_ReadBytesPerSec :: "64 word"
  da_WriteBytesPerSec :: "64 word"
  da_ReadPeakBytesPerSec :: "64 word"
  da_WritePeakBytesPerSec :: "64 word"

datatype disk_kind = DiskCapacity | DiskActivityKind

record disk_item =
  di_Key :: string
  di_Kind :: disk_kind
  di_Label :: string
  di_Detail :: string
  di_Shown :: bool
  di_DefaultShown :: bool

record 'f sample =
  smp_CPUPercent :: 'f
  smp_MemUsed :: "64 word"
  smp_MemTotal :: "64 word"
  smp_Mounts :: "mount_usage list"
  smp_Devices :: "device_io list"

record 'f host_metrics =
  hm_CPUPercent :: 'f
  hm_MemUsed :: "64 word"
  hm_MemTotal :: "64 word"
  hm_Disks :: "disk_usage list"
  hm_DiskActivity :: "disk_activity list"
  hm_Mdadm :: "md_array list"

record partition_stat =
  part_Device :: string
  part_Mountpoint :: string
  part_Fstype :: string

record disk_env =
  disk_Partitions :: "partition_stat list res"
  disk_Usage :: "string \<Rightarrow> (64 word \<times> 64 word) res"
  disk_IOCounters :: "string list res"
  sort_mounts :: "mount_usage list \<Rightarrow> mount_usage list"
  sort_disks :: "disk_usage list \<Rightarrow> disk_usage list"

section \<open>Mounts\<close>

definition pseudoFS :: "string \<Rightarrow> bool" where
  "pseudoFS fs \<longleftrightarrow> fs \<in> set [''proc'', ''sysfs'', ''tmpfs'', ''devtmpfs'', ''devpts'', ''cgroup'', ''cgroup2'', ''mqueue'',
     ''debugfs'', ''tracefs'', ''securityfs'', ''pstore'', ''bpf'', ''nsfs'', ''fusectl'', ''configfs'', ''binfmt_misc'',
     ''hugetlbfs'', ''efivarfs'', ''devfs'']"

definition networkOrVirtualFS :: "string \<Rightarrow> bool" where
  "networkOrVirtualFS fs \<longleftrightarrow> fs \<in> set [''nfs'', ''nfs4'', ''smbfs'', ''cifs'', ''afpfs'', ''webdav'', ''ftp'', ''nullfs'',
     ''overlay'', ''autofs'', ''squashfs'', ''ramfs'', ''9p'']"

definition excludeMountPrefixes :: "string list" where
  "excludeMountPrefixes = [''/System/Volumes'', ''/Volumes/.timemachine'', ''/private/var/folders'', ''/dev'', ''/proc'',
     ''/sys'', ''/run'', ''/boot'']"

definition excludeMount :: "string \<Rightarrow> bool" where
  "excludeMount mount \<longleftrightarrow>
     HasSuffix mount ''.backup'' \<or> Contains mount ''com.apple.TimeMachine'' \<or> Contains mount ''.localsnapshots'' \<or>
     list_ex (\<lambda>p. mount = p \<or> HasPrefix mount (p @ ''/'')) excludeMountPrefixes"

definition isNoiseMount :: "string \<Rightarrow> string \<Rightarrow> bool" where
  "isNoiseMount mount fstype \<longleftrightarrow>
     networkOrVirtualFS fstype \<or> mount = ''/Volumes'' \<or> HasPrefix mount ''/Volumes/'' \<or>
     Contains (ToLower mount) ''backup'' \<or> Contains (ToLower mount) ''time machine''"

fun mount_loop ::
  "disk_env \<Rightarrow> partition_stat list \<Rightarrow> string list \<Rightarrow> string list \<Rightarrow> mount_usage list" where
  "mount_loop e [] seenMount seenDevice = []"
| "mount_loop e (p # ps) seenMount seenDevice =
     (if pseudoFS (part_Fstype p) \<or> HasPrefix (part_Fstype p) ''fuse.'' then mount_loop e ps seenMount seenDevice
      else if excludeMount (part_Mountpoint p) then mount_loop e ps seenMount seenDevice
      else if part_Mountpoint p \<in> set seenMount then mount_loop e ps seenMount seenDevice
      else if part_Device p \<noteq> '''' \<and> part_Device p \<in> set seenDevice then mount_loop e ps seenMount seenDevice
      else case disk_Usage e (part_Mountpoint p) of
          Inl _ \<Rightarrow> mount_loop e ps seenMount seenDevice
        | Inr (used, tot) \<Rightarrow>
            if tot = 0 then mount_loop e ps seenMount seenDevice
            else \<lparr>mnt_Mount = part_Mountpoint p, mnt_Fstype = part_Fstype p, mnt_Device = part_Device p,
                   mnt_Used = used, mnt_Total = tot, mnt_Noise = isNoiseMount (part_Mountpoint p) (part_Fstype p)\<rparr>
                 # mount_loop e ps (part_Mountpoint p # seenMount)
                     (if part_Device p \<noteq> '''' then part_Device p # seenDevice else seenDevice))"

definition enumerateMounts :: "disk_env \<Rightarrow> mount_usage list" where
  "enumerateMounts e =
     (case disk_Partitions e of Inl _ \<Rightarrow> [] | Inr parts \<Rightarrow> sort_mounts e (mount_loop e parts [] []))"

section \<open>Devices\<close>

definition is_lower :: "char \<Rightarrow> bool" where
  "is_lower c \<longleftrightarrow> 97 \<le> (of_char c :: nat) \<and> (of_char c :: nat) \<le> 122"

definition digits_end :: "string \<Rightarrow> bool" where
  "digits_end s \<longleftrightarrow> s \<noteq> [] \<and> list_all is_digit s"

text \<open>A run of letters followed by digits up to the end: the run.\<close>

definition letters_digits :: "string \<Rightarrow> string option" where
  "letters_digits name = do {
     (w, s) \<leftarrow> run_of is_lower name;
     if digits_end s then Some w else None
   }"

text \<open>\<^verbatim>\<open>sd[a-z]+\<close> and its like as a whole word.\<close>

definition lettered :: "string \<Rightarrow> string \<Rightarrow> bool" where
  "lettered p w \<longleftrightarrow> HasPrefix w p \<and> length p < length w"

text \<open>A name, a number, \<^verbatim>\<open>p\<close> and a number up to the end: what precedes the \<^verbatim>\<open>p\<close>.\<close>

definition numbered_part :: "string \<Rightarrow> string \<Rightarrow> string option" where
  "numbered_part p name = do {
     s \<leftarrow> skip_lit p name;
     (n, s) \<leftarrow> run_of is_digit s;
     s \<leftarrow> skip_lit ''p'' s;
     if digits_end s then Some (p @ n) else None
   }"

definition nvme_part :: "string \<Rightarrow> string option" where
  "nvme_part name = do {
     s \<leftarrow> skip_lit ''nvme'' name;
     (n, s) \<leftarrow> run_of is_digit s;
     s \<leftarrow> skip_lit ''n'' s;
     w \<leftarrow> numbered_part '''' s;
     Some (''nvme'' @ n @ ''n'' @ w)
   }"

definition partitionSuffix :: "string \<Rightarrow> bool" where
  "partitionSuffix name \<longleftrightarrow>
     (case letters_digits name of Some w \<Rightarrow> list_ex (\<lambda>p. lettered p w) [''sd'', ''vd'', ''hd'', ''xvd''] | None \<Rightarrow> False) \<or>
     nvme_part name \<noteq> None \<or> numbered_part ''mmcblk'' name \<noteq> None \<or> numbered_part ''loop'' name \<noteq> None"

definition isWholeDisk :: "string \<Rightarrow> bool" where
  "isWholeDisk name \<longleftrightarrow> \<not> partitionSuffix name"

definition listDeviceNames :: "disk_env \<Rightarrow> string list" where
  "listDeviceNames e =
     (case disk_IOCounters e of Inl _ \<Rightarrow> [] | Inr names \<Rightarrow> sort (filter isWholeDisk (remdups names)))"

definition Enumerate :: "disk_env \<Rightarrow> mount_usage list \<times> device_io list" where
  "Enumerate e =
     (enumerateMounts e, map (\<lambda>n. \<lparr>dio_Device = n, dio_ReadPerSec = 0, dio_WritePerSec = 0\<rparr>) (listDeviceNames e))"

text \<open>\<^verbatim>\<open>[a-z]+vd[a-z]+\<close> as a whole word: \<^verbatim>\<open>vd\<close> with letters on both sides.\<close>

definition infixed_vd :: "string \<Rightarrow> bool" where
  "infixed_vd w \<longleftrightarrow> list_ex (\<lambda>i. HasPrefix (drop i w) ''vd'' \<and> i + 2 < length w) [1..<length w]"

definition partitionToWhole :: "string \<Rightarrow> string option" where
  "partitionToWhole name =
     (case letters_digits name of
        Some w \<Rightarrow>
          if infixed_vd w \<or> list_ex (\<lambda>p. lettered p w) [''sd'', ''vd'', ''hd''] then Some w
          else None
      | None \<Rightarrow> (case nvme_part name of Some w \<Rightarrow> Some w | None \<Rightarrow> numbered_part ''mmcblk'' name))"

definition path_Base :: "string \<Rightarrow> string" where
  "path_Base p =
     (if p = [] then ''.''
      else let s = TrimRight p (CHR ''/'') in
        if s = [] then ''/'' else rev (takeWhile (\<lambda>c. c \<noteq> CHR ''/'') (rev s)))"

definition wholeDiskOf :: "string \<Rightarrow> string" where
  "wholeDiskOf device =
     (let name = path_Base (TrimPrefix device ''/dev/'')
      in case partitionToWhole name of Some w \<Rightarrow> w | None \<Rightarrow> name)"

section \<open>Labels\<close>

text \<open>
  \<^verbatim>\<open>strings.ToUpper\<close> of a text of one byte: a byte that is not a character on its own comes back as the
  replacement character.
\<close>

definition upper_byte :: "char \<Rightarrow> string" where
  "upper_byte c = (if 128 \<le> (of_char c :: nat) then [CHR 0xEF, CHR 0xBF, CHR 0xBD] else [to_upper_char c])"

definition LastIndex :: "string \<Rightarrow> char \<Rightarrow> nat option" where
  "LastIndex s c =
     (let t = length (takeWhile (\<lambda>x. x \<noteq> c) (rev s)) in if t = length s then None else Some (length s - 1 - t))"

definition mountLabel :: "string \<Rightarrow> string" where
  "mountLabel mount =
     (if mount = ''/'' then ''Main disk''
      else let seg = (case LastIndex (TrimRight mount (CHR ''/'')) (CHR ''/'') of Some i \<Rightarrow> drop (i + 1) mount | None \<Rightarrow> mount);
               seg = TrimSpace seg
           in case seg of [] \<Rightarrow> ''Disk'' | c # s \<Rightarrow> upper_byte c @ s @ '' disk'')"

fun label_loop :: "mount_usage list \<Rightarrow> string list \<Rightarrow> (string \<times> string list) list \<Rightarrow> (string \<times> string list) list" where
  "label_loop [] seen by = by"
| "label_loop (m # ms) seen by =
     (if mnt_Device m = '''' then label_loop ms seen by
      else let whole = wholeDiskOf (mnt_Device m); label = mountLabel (mnt_Mount m); k = whole @ [CHR 0x00] @ label
           in if k \<in> set seen then label_loop ms seen by
              else label_loop ms (k # seen)
                (AList.update whole ((case map_of by whole of Some ls \<Rightarrow> ls | None \<Rightarrow> []) @ [label]) by))"

definition deviceLabels :: "mount_usage list \<Rightarrow> device_io list \<Rightarrow> (string \<times> string) list" where
  "deviceLabels mounts devices =
     (let by = label_loop mounts [] []
      in fold (\<lambda>d out. case map_of by (dio_Device d) of
                 Some (l # ls) \<Rightarrow> AList.update (dio_Device d) (Join (l # ls) '', '') out
               | _ \<Rightarrow> out) devices [])"

definition deviceLabel :: "string \<Rightarrow> string" where
  "deviceLabel name = path_Base name"

section \<open>Visibility\<close>

definition MountKey :: "string \<Rightarrow> string" where "MountKey mount = ''mount:'' @ mount"

definition DeviceKey :: "string \<Rightarrow> string" where "DeviceKey device = ''dev:'' @ device"

fun largest_mount :: "mount_usage \<Rightarrow> mount_usage list \<Rightarrow> mount_usage" where
  "largest_mount m [] = m"
| "largest_mount m (n # ns) = largest_mount (if mnt_Total n > mnt_Total m then n else m) ns"

definition DefaultVisibility :: "mount_usage list \<Rightarrow> device_io list \<Rightarrow> (string \<times> bool) list" where
  "DefaultVisibility mounts devices =
     (let def = fold (\<lambda>m. AList.update (MountKey (mnt_Mount m)) (\<not> mnt_Noise m)) mounts [];
          def = (case mounts of
                   [] \<Rightarrow> def
                 | m # ms \<Rightarrow>
                     if list_ex (\<lambda>m. \<not> mnt_Noise m) mounts then def
                     else AList.update (MountKey (mnt_Mount (largest_mount m ms))) True def)
      in fold (\<lambda>d. AList.update (DeviceKey (dio_Device d)) True) devices def)"

definition Effective :: "(string \<times> bool) list \<Rightarrow> (string \<times> bool) list \<Rightarrow> (string \<times> bool) list" where
  "Effective defaults overrides =
     map (\<lambda>(k, v). (k, case map_of overrides k of Some o' \<Rightarrow> o' | None \<Rightarrow> v)) defaults"

section \<open>Payloads\<close>

definition maxDisks :: nat where "maxDisks = 12"

definition zero_peak :: device_peak where "zero_peak = \<lparr>peak_Read = 0, peak_Write = 0\<rparr>"

definition get_peak :: "(string \<times> device_peak) list \<Rightarrow> string \<Rightarrow> device_peak" where
  "get_peak peaks dev = (case map_of peaks dev of Some p \<Rightarrow> p | None \<Rightarrow> zero_peak)"

definition shown_disks :: "(string \<times> bool) list \<Rightarrow> mount_usage list \<Rightarrow> disk_usage list" where
  "shown_disks eff mounts =
     map (\<lambda>m. \<lparr>du_Key = MountKey (mnt_Mount m), du_Mount = mnt_Mount m, du_Used = mnt_Used m, du_Total = mnt_Total m\<rparr>)
       (filter (\<lambda>m. get_bool eff (MountKey (mnt_Mount m))) mounts)"

definition shown_activity ::
  "(string \<times> bool) list \<Rightarrow> (string \<times> string) list \<Rightarrow> (string \<times> device_peak) list \<Rightarrow> device_io list \<Rightarrow> disk_activity list" where
  "shown_activity eff labels peaks devices =
     map (\<lambda>d. \<lparr>da_Key = DeviceKey (dio_Device d), da_Device = deviceLabel (dio_Device d), da_Label = get_str labels (dio_Device d),
                da_ReadBytesPerSec = dio_ReadPerSec d, da_WriteBytesPerSec = dio_WritePerSec d,
                da_ReadPeakBytesPerSec = peak_Read (get_peak peaks (dio_Device d)),
                da_WritePeakBytesPerSec = peak_Write (get_peak peaks (dio_Device d))\<rparr>)
       (filter (\<lambda>d. get_bool eff (DeviceKey (dio_Device d))) devices)"

definition BuildHostMetrics ::
  "disk_env \<Rightarrow> 'f sample \<Rightarrow> (string \<times> bool) list \<Rightarrow> (string \<times> device_peak) list \<Rightarrow> 'f host_metrics" where
  "BuildHostMetrics e s overrides peaks =
     (let eff = Effective (DefaultVisibility (smp_Mounts s) (smp_Devices s)) overrides
      in \<lparr>hm_CPUPercent = smp_CPUPercent s, hm_MemUsed = smp_MemUsed s, hm_MemTotal = smp_MemTotal s,
          hm_Disks = take maxDisks (sort_disks e (shown_disks eff (smp_Mounts s))),
          hm_DiskActivity = shown_activity eff (deviceLabels (smp_Mounts s) (smp_Devices s)) peaks (smp_Devices s),
          hm_Mdadm = []\<rparr>)"

fun UpdatePeaks :: "(string \<times> device_peak) list \<Rightarrow> device_io list \<Rightarrow> bool \<times> (string \<times> device_peak) list" where
  "UpdatePeaks peaks [] = (False, peaks)"
| "UpdatePeaks peaks (d # ds) =
     (let p = get_peak peaks (dio_Device d);
          up_read = dio_ReadPerSec d > peak_Read p; up_write = dio_WritePerSec d > peak_Write p;
          p = \<lparr>peak_Read = (if up_read then dio_ReadPerSec d else peak_Read p),
               peak_Write = (if up_write then dio_WritePerSec d else peak_Write p)\<rparr>
      in case UpdatePeaks (AList.update (dio_Device d) p peaks) ds of
           (changed, peaks) \<Rightarrow> (up_read \<or> up_write \<or> changed, peaks))"

definition mount_item :: "(string \<times> bool) list \<Rightarrow> (string \<times> bool) list \<Rightarrow> mount_usage \<Rightarrow> disk_item" where
  "mount_item defaults eff m =
     \<lparr>di_Key = MountKey (mnt_Mount m), di_Kind = DiskCapacity, di_Label = mountLabel (mnt_Mount m),
      di_Detail = (if mnt_Fstype m \<noteq> '''' then mnt_Mount m @ '' '' @ [CHR 0xC2, CHR 0xB7] @ '' '' @ mnt_Fstype m else mnt_Mount m),
      di_Shown = get_bool eff (MountKey (mnt_Mount m)), di_DefaultShown = get_bool defaults (MountKey (mnt_Mount m))\<rparr>"

definition device_item ::
  "(string \<times> bool) list \<Rightarrow> (string \<times> bool) list \<Rightarrow> (string \<times> string) list \<Rightarrow> device_io \<Rightarrow> disk_item" where
  "device_item defaults eff labels d =
     \<lparr>di_Key = DeviceKey (dio_Device d), di_Kind = DiskActivityKind, di_Label = deviceLabel (dio_Device d),
      di_Detail = (if get_str labels (dio_Device d) \<noteq> '''' then get_str labels (dio_Device d) else ''Read / write activity''),
      di_Shown = get_bool eff (DeviceKey (dio_Device d)), di_DefaultShown = get_bool defaults (DeviceKey (dio_Device d))\<rparr>"

definition BuildDiskItems :: "mount_usage list \<Rightarrow> device_io list \<Rightarrow> (string \<times> bool) list \<Rightarrow> disk_item list" where
  "BuildDiskItems mounts devices overrides =
     (let defaults = DefaultVisibility mounts devices; eff = Effective defaults overrides; labels = deviceLabels mounts devices
      in map (mount_item defaults eff) mounts @ map (device_item defaults eff labels) devices)"

end
