(* ===== verification/Server_Env.thy ===== *)
theory Server_Env
  imports Store_Accounts Notify Raidwatch Disks
begin

text \<open>
  The world in which the HTTP side of Veery runs: one state with the database, the clock, the
  source of random tokens, the passkey ceremonies and OIDC flows in flight, and the response being
  written.

  Code outside the repository is a field of \<open>auth_env\<close>: the WebAuthn library, the OIDC client
  library with the provider behind it, the random source, the passage of time, the recurrence library
  with the RAID host, the zone and the disks of the machine. Values that only
  such code looks into (options for the browser, session data, request bodies, parsed responses, rules,
  the state of the RAID host)
  are texts.
\<close>

abbreviation sec :: nat where "sec \<equiv> 1000000000"

section \<open>Types of the WebAuthn library\<close>

record wa_credential =
  wa_ID :: string
  wa_PublicKey :: string
  wa_AttestationType :: string
  wa_Transport :: "string list"
  wa_BackupEligible :: bool
  wa_BackupState :: bool
  wa_AAGUID :: string
  wa_SignCount :: "32 word"

text \<open>\<^verbatim>\<open>authUser\<close> (\<^verbatim>\<open>users.go\<close>), the view of a user the library is given.\<close>

record auth_user =
  au_id :: string
  au_name :: string
  au_creds :: "wa_credential list"

section \<open>Types of the OIDC library\<close>

record claims =
  cl_Sub :: string
  cl_Name :: string
  cl_PreferredUsername :: string
  cl_DisplayName :: string
  cl_Email :: string
  cl_Groups :: "string list"

record id_token =
  it_Issuer :: string
  it_Nonce :: string
  it_Claims :: "claims res"

text \<open>A token response: its \<^verbatim>\<open>id_token\<close> field, when it has one that is a text.\<close>

record oauth_token =
  ot_access :: string
  ot_id_token :: "string option"

text \<open>\<^verbatim>\<open>oauth2.Config\<close> as built by \<^verbatim>\<open>discover\<close>.\<close>

record oauth_config =
  oc_ClientID :: string
  oc_ClientSecret :: string
  oc_Endpoint :: string
  oc_RedirectURL :: string
  oc_Scopes :: "string list"

section \<open>The environment\<close>

text \<open>
  \<open>pass k\<close> is the time that goes by before the \<open>k\<close>-th reading of the clock, \<open>rand_token k n\<close> the
  token made of \<open>n\<close> bytes at the \<open>k\<close>-th use of the random source. A library call that draws its own
  randomness or talks to the provider is given the number of that use.

  \<^verbatim>\<open>ValidateDiscoverableLogin\<close> calls back into Veery; the callback assigns a captured variable,
  so both carry that variable's value along.
\<close>

record auth_env =
  pass :: "nat \<Rightarrow> nat"
  rand_token :: "nat \<Rightarrow> nat \<Rightarrow> string"
  webauthn_New :: "string \<Rightarrow> string \<Rightarrow> string list \<Rightarrow> unit res"
  wa_BeginRegistration :: "nat \<Rightarrow> auth_user \<Rightarrow> (string \<times> string list) list option \<Rightarrow> (string \<times> string) res"
  ParseCreationBody :: "string \<Rightarrow> string res"
  CreateCredential :: "auth_user \<Rightarrow> string \<Rightarrow> string \<Rightarrow> wa_credential res"
  BeginDiscoverableLogin :: "nat \<Rightarrow> (string \<times> string) res"
  ParseRequestBody :: "string \<Rightarrow> string res"
  ValidateDiscoverableLogin ::
    "(string \<Rightarrow> string \<Rightarrow> string \<Rightarrow> auth_user res \<times> string) \<Rightarrow> string \<Rightarrow> string \<Rightarrow> string \<Rightarrow> wa_credential res \<times> string"
  NewProvider :: "nat \<Rightarrow> string \<Rightarrow> string res"
  provider_Endpoint :: "string \<Rightarrow> string"
  GenerateVerifier :: "nat \<Rightarrow> string"
  AuthCodeURL :: "oauth_config \<Rightarrow> string \<Rightarrow> string \<Rightarrow> string \<Rightarrow> string"
  Exchange :: "nat \<Rightarrow> oauth_config \<Rightarrow> string \<Rightarrow> string \<Rightarrow> oauth_token res"
  Verify :: "nat \<Rightarrow> string \<Rightarrow> string \<Rightarrow> string \<Rightarrow> id_token res"
  UserInfo :: "nat \<Rightarrow> string \<Rightarrow> oauth_token \<Rightarrow> claims res res"
  ne :: notify_env
  re :: "(string, string, string) raid_env"
  ze :: zone_env
  de :: disk_env

section \<open>The state\<close>

record ceremony =
  ce_data :: string
  ce_userID :: string
  ce_name :: string
  ce_isAdmin :: bool
  ce_existingUser :: bool
  ce_expires :: nat

record login_flow =
  lf_nonce :: string
  lf_verifier :: string
  lf_expires :: nat

record oidc_config =
  oidc_Issuer :: string
  oidc_ClientID :: string
  oidc_ClientSecret :: string
  oidc_RedirectURL :: string
  oidc_Scopes :: "string list"
  oidc_AdminGroups :: "string list"
  oidc_ProviderName :: string

record oidc_manager =
  om_cfg :: oidc_config
  om_adminGroups :: "(string \<times> bool) list"
  om_provider :: "(string \<times> oauth_config) option"
  om_flows :: "(string \<times> login_flow) list"

text \<open>
  A server without a provider has a nil manager, on which only \<^verbatim>\<open>Enabled\<close> is ever called; it is
  represented by the manager with an empty configuration, which is not enabled either.
\<close>

definition nil_oidc :: oidc_manager where
  "nil_oidc =
     \<lparr>om_cfg = \<lparr>oidc_Issuer = '''', oidc_ClientID = '''', oidc_ClientSecret = '''', oidc_RedirectURL = '''',
        oidc_Scopes = [], oidc_AdminGroups = [], oidc_ProviderName = ''''\<rparr>,
      om_adminGroups = [], om_provider = None, om_flows = []\<rparr>"

record server_config =
  cfg_RPID :: string
  cfg_Origin :: string
  cfg_Secure :: bool

text \<open>What a response body carries.\<close>

datatype reply =
    RError string
  | ROk
  | ROptions string
  | RSession user "(string \<times> string \<times> int) list"
  | RInvite invite
  | RInvites "invite list"
  | RUsers "user list"
  | RProviders bool string
  | RSettings settings
  | RDisks "disk_item list"
  | RSchedules "(string \<times> mdadm_schedule) list" string int
  | REvents event_page
  | RNotifications notification_config
  | RStacks "stack list"
  | RChecked nat
  | RHealth
  | RFile string
  | RPlain string

record cookie =
  ck_Name :: string
  ck_Value :: string
  ck_MaxAge :: int
  ck_Secure :: bool

text \<open>
  The response writer. The header goes out with the first status that is written; later statuses,
  cookies and locations have no effect, later bodies are appended.
\<close>

record response =
  rw_status :: "nat option"
  rw_cookies :: "cookie list"
  rw_location :: string
  rw_bodies :: "reply list"

definition fresh_response :: response where
  "fresh_response = \<lparr>rw_status = None, rw_cookies = [], rw_location = '''', rw_bodies = []\<rparr>"

record world =
  w_st :: store
  w_clock :: nat
  w_reads :: nat
  w_draws :: nat
  w_ceremonies :: "(string \<times> ceremony) list"
  w_oidc :: oidc_manager
  w_cfg :: server_config
  w_notif :: "notifier option"
  w_rw :: response
  w_outs :: "delivery list"
  w_raid :: bool
  w_host :: string

type_synonym 'a act = "(world, 'a) state"

section \<open>Primitive actions\<close>

definition gets :: "(world \<Rightarrow> 'a) \<Rightarrow> 'a act" where
  "gets f = State (\<lambda>w. (f w, w))"

definition upd :: "(world \<Rightarrow> world) \<Rightarrow> unit act" where
  "upd f = State (\<lambda>w. ((), f w))"

definition store_op :: "(store \<Rightarrow> 'a \<times> store) \<Rightarrow> 'a act" where
  "store_op f = State (\<lambda>w. case f (w_st w) of (r, s) \<Rightarrow> (r, w\<lparr>w_st := s\<rparr>))"

definition store_read :: "(store \<Rightarrow> 'a) \<Rightarrow> 'a act" where
  "store_read f = gets (\<lambda>w. f (w_st w))"

text \<open>\<^verbatim>\<open>time.Now()\<close>, and its Unix seconds.\<close>

definition time_Now :: "auth_env \<Rightarrow> nat act" where
  "time_Now e = State (\<lambda>w. let t = w_clock w + pass e (w_reads w) in (t, w\<lparr>w_clock := t, w_reads := Suc (w_reads w)\<rparr>))"

definition unix_Now :: "auth_env \<Rightarrow> int act" where
  "unix_Now e = do { t \<leftarrow> time_Now e; State_Monad.return (int (t div sec)) }"

definition lib :: "(nat \<Rightarrow> 'a) \<Rightarrow> 'a act" where
  "lib f = State (\<lambda>w. (f (w_draws w), w\<lparr>w_draws := Suc (w_draws w)\<rparr>))"

definition randToken :: "auth_env \<Rightarrow> nat \<Rightarrow> string act" where
  "randToken e n = lib (\<lambda>k. rand_token e k n)"

text \<open>A statement of the store that stamps the current time.\<close>

definition stamped :: "auth_env \<Rightarrow> (int \<Rightarrow> store \<Rightarrow> 'a \<times> store) \<Rightarrow> 'a act" where
  "stamped e f = do { now \<leftarrow> unix_Now e; store_op (f now) }"

lemma run_gets [simp]: "run_state (gets f) w = (f w, w)"
  by (simp add: gets_def)

lemma run_upd [simp]: "run_state (upd f) w = ((), f w)"
  by (simp add: upd_def)

lemma run_store_op [simp]: "run_state (store_op f) w = (case f (w_st w) of (r, s) \<Rightarrow> (r, w\<lparr>w_st := s\<rparr>))"
  by (simp add: store_op_def)

lemma run_store_read [simp]: "run_state (store_read f) w = (f (w_st w), w)"
  by (simp add: store_read_def)

lemma run_time_Now [simp]:
  "run_state (time_Now e) w =
     (w_clock w + pass e (w_reads w), w\<lparr>w_clock := w_clock w + pass e (w_reads w), w_reads := Suc (w_reads w)\<rparr>)"
  by (simp add: time_Now_def Let_def)

lemma run_unix_Now [simp]:
  "run_state (unix_Now e) w =
     (int ((w_clock w + pass e (w_reads w)) div sec),
      w\<lparr>w_clock := w_clock w + pass e (w_reads w), w_reads := Suc (w_reads w)\<rparr>)"
  by (simp add: unix_Now_def)

lemma run_lib [simp]: "run_state (lib f) w = (f (w_draws w), w\<lparr>w_draws := Suc (w_draws w)\<rparr>)"
  by (simp add: lib_def)

section \<open>Writing the response (server.go, middleware.go)\<close>

definition WriteHeader :: "nat \<Rightarrow> unit act" where
  "WriteHeader code = upd (\<lambda>w. w\<lparr>w_rw := (w_rw w)\<lparr>rw_status :=
     (case rw_status (w_rw w) of None \<Rightarrow> Some code | Some c \<Rightarrow> Some c)\<rparr>\<rparr>)"

definition writeJSON :: "nat \<Rightarrow> reply \<Rightarrow> unit act" where
  "writeJSON code v = do {
     _ \<leftarrow> WriteHeader code;
     upd (\<lambda>w. w\<lparr>w_rw := (w_rw w)\<lparr>rw_bodies := rw_bodies (w_rw w) @ [v]\<rparr>\<rparr>)
   }"

definition writeErr :: "nat \<Rightarrow> string \<Rightarrow> unit act" where
  "writeErr code msg = writeJSON code (RError msg)"

definition Redirect :: "string \<Rightarrow> nat \<Rightarrow> unit act" where
  "Redirect url code = do {
     _ \<leftarrow> upd (\<lambda>w. if rw_status (w_rw w) = None then w\<lparr>w_rw := (w_rw w)\<lparr>rw_location := url\<rparr>\<rparr> else w);
     WriteHeader code
   }"

text \<open>\<^verbatim>\<open>cookieName\<close>: the \<^verbatim>\<open>__Host-\<close> prefix under HTTPS.\<close>

definition cookieName :: "server_config \<Rightarrow> string \<Rightarrow> string" where
  "cookieName c base = (if cfg_Secure c then ''__Host-'' @ base else base)"

definition setCookie :: "string \<Rightarrow> string \<Rightarrow> int \<Rightarrow> unit act" where
  "setCookie base val maxAge = upd (\<lambda>w.
     if rw_status (w_rw w) = None then
       w\<lparr>w_rw := (w_rw w)\<lparr>rw_cookies := rw_cookies (w_rw w) @
         [\<lparr>ck_Name = cookieName (w_cfg w) base, ck_Value = val, ck_MaxAge = maxAge, ck_Secure = cfg_Secure (w_cfg w)\<rparr>]\<rparr>\<rparr>
     else w)"

definition clearCookie :: "string \<Rightarrow> unit act" where
  "clearCookie base = setCookie base '''' (- 1)"

section \<open>Requests\<close>

text \<open>
  A request: its cookies, what its JSON body decodes to, the raw body handed to the WebAuthn
  library, the query and the path variables.
\<close>

datatype json_body =
    NotJSON
  | JEnroll string string
  | JCreateInvite bool
  | EmptyBody
  | BSettings settings
  | BNotifications notification_config
  | BTest "string list"
  | BSchedules "(string \<times> mdadm_schedule) list"
  | BVisibility "(string \<times> bool) list option"
  | BAutoUpdate string bool

record request =
  rq_cookies :: "(string \<times> string) list"
  rq_json :: json_body
  rq_body :: string
  rq_query :: "(string \<times> string) list"
  rq_path :: string

text \<open>\<^verbatim>\<open>Server.cookie\<close>: the value of a cookie that is present and not empty.\<close>

definition req_cookie :: "request \<Rightarrow> string \<Rightarrow> string option act" where
  "req_cookie r base = gets (\<lambda>w. case map_of (rq_cookies r) (cookieName (w_cfg w) base) of
     None \<Rightarrow> None | Some v \<Rightarrow> if v = '''' then None else Some v)"

section \<open>Tables of one-time entries\<close>

text \<open>
  Passkey ceremonies and OIDC flows live in a map from random ids to entries with an expiry time.
  What the code relies on: adding an entry drops only entries that have expired, taking an entry
  removes it, and an entry is handed out only before it expires.
\<close>

text \<open>
  The sweep both tables make: every key whose entry has expired is deleted.
\<close>

definition sweep :: "('c \<Rightarrow> nat) \<Rightarrow> nat \<Rightarrow> (string \<times> 'c) list \<Rightarrow> (string \<times> 'c) list" where
  "sweep expires now t =
     filter (\<lambda>(k, _). case map_of t k of None \<Rightarrow> True | Some v \<Rightarrow> \<not> now > expires v) t"

lemma map_of_filter_key: "map_of (filter (\<lambda>(k, _). P k) t) j = (if P j then map_of t j else None)"
  by (induction t) auto

lemma map_of_sweep:
  "map_of (sweep expires now t) j =
     (case map_of t j of None \<Rightarrow> None | Some v \<Rightarrow> if now > expires v then None else Some v)"
  by (simp add: sweep_def map_of_filter_key split: option.splits)

locale one_time_table =
  fixes expires :: "'c \<Rightarrow> nat"
    and put :: "nat \<Rightarrow> string \<Rightarrow> 'c \<Rightarrow> (string \<times> 'c) list \<Rightarrow> (string \<times> 'c) list"
    and take :: "nat \<Rightarrow> string \<Rightarrow> (string \<times> 'c) list \<Rightarrow> 'c option \<times> (string \<times> 'c) list"
  assumes put_lookup: "map_of (put now i c t) j =
      (case ((map_of t)(i \<mapsto> c)) j of None \<Rightarrow> None | Some d \<Rightarrow> if now > expires d then None else Some d)"
    and take_result: "fst (take now i t) =
      (case map_of t i of None \<Rightarrow> None | Some c \<Rightarrow> if now > expires c then None else Some c)"
    and take_lookup: "map_of (snd (take now i t)) = (map_of t)(i := None)"
begin

text \<open>Runs of the two operations, with the entries that were handed out for one id.\<close>

fun step :: "(nat \<times> string \<times> 'c option) \<Rightarrow> (string \<times> 'c) list \<Rightarrow> 'c option \<times> (string \<times> 'c) list" where
  "step (now, i, Some c) t = (None, put now i c t)"
| "step (now, i, None) t = take now i t"

fun run :: "(nat \<times> string \<times> 'c option) list \<Rightarrow> (string \<times> 'c) list \<Rightarrow> (string \<times> 'c option) list \<times> (string \<times> 'c) list" where
  "run [] t = ([], t)"
| "run (a # as) t =
     (let (r, t) = step a t; (rs, t) = run as t in ((fst (snd a), r) # rs, t))"

definition puts_of :: "string \<Rightarrow> (nat \<times> string \<times> 'c option) list \<Rightarrow> nat" where
  "puts_of i as = length (filter (\<lambda>(_, j, c). j = i \<and> c \<noteq> None) as)"

definition got :: "string \<Rightarrow> (string \<times> 'c option) list \<Rightarrow> nat" where
  "got i rs = length (filter (\<lambda>(j, r). j = i \<and> r \<noteq> None) rs)"

text \<open>An id is handed out at most as often as it was put in.\<close>

lemma taken_at_most_put:
  "got i (fst (run as t)) + (if map_of (snd (run as t)) i = None then 0 else 1)
     \<le> puts_of i as + (if map_of t i = None then 0 else 1)"
proof (induction as t rule: run.induct)
  case (1 t)
  then show ?case by (simp add: got_def puts_of_def)
next
  case (2 a as t)
  obtain now j c where a: "a = (now, j, c)" by (cases a)
  obtain r t1 where st: "step a t = (r, t1)" by fastforce
  obtain rs t2 where rn: "run as t1 = (rs, t2)" by fastforce
  have IH: "got i rs + (if map_of t2 i = None then 0 else 1)
      \<le> puts_of i as + (if map_of t1 i = None then 0 else 1)"
    using 2 st rn by simp
  have one: "(if j = i \<and> r \<noteq> None then 1 else (0::nat)) + (if map_of t1 i = None then 0 else 1)
      \<le> (if j = i \<and> c \<noteq> None then 1 else 0) + (if map_of t i = None then 0 else 1)"
  proof (cases c)
    case None
    then have "r = fst (take now j t)" "t1 = snd (take now j t)" using st a by auto
    then show ?thesis using None by (auto simp: take_result take_lookup split: option.splits)
  next
    case (Some d)
    then have "r = None" "t1 = put now j d t" using st a by auto
    then show ?thesis using Some by (auto simp: put_lookup split: option.splits if_splits)
  qed
  have eqs: "run (a # as) t = ((j, r) # rs, t2)" using st rn a by simp
  have g: "got i ((j, r) # rs) = (if j = i \<and> r \<noteq> None then 1 else 0) + got i rs"
    by (simp add: got_def)
  have p: "puts_of i (a # as) = (if j = i \<and> c \<noteq> None then 1 else 0) + puts_of i as"
    by (simp add: puts_of_def a)
  show ?case
    unfolding eqs fst_conv snd_conv g p using IH one by linarith
qed

lemma fresh_id_single_use:
  assumes "map_of t i = None" "puts_of i as \<le> 1"
  shows "got i (fst (run as t)) \<le> 1"
  using taken_at_most_put [of i as t] assms by (simp split: if_splits)

lemma take_in_time:
  assumes "now \<le> expires c" "now' \<le> expires c"
  shows "fst (take now' i (put now i c t)) = Some c"
  using assms by (simp add: take_result put_lookup)

lemma take_late: "\<lbrakk>now' > expires c; map_of t i = Some c\<rbrakk> \<Longrightarrow> fst (take now' i t) = None"
  by (simp add: take_result)

lemma take_twice: "fst (take now' i (snd (take now i t))) = None"
  by (simp add: take_result take_lookup)

lemma taken_was_there: "fst (take now i t) = Some c \<Longrightarrow> map_of t i = Some c \<and> now \<le> expires c"
  by (auto simp: take_result split: option.splits if_splits)

end

end
