(* ===== verification/Auth.thy ===== *)
theory Auth
  imports Server_Env
begin

text \<open>
  Passkey authentication (\<^verbatim>\<open>internal/auth\<close>): sessions, single-use invites and the WebAuthn
  ceremonies that enroll a passkey or sign in with one. \<^verbatim>\<open>Manager.ceremonies\<close> is
  \<open>w_ceremonies\<close> of the world.
\<close>

section \<open>Sessions and invites (sessions.go, invites.go)\<close>

definition SessionTTL :: nat where "SessionTTL = 30 * 24 * 3600 * sec"
definition InviteTTL :: nat where "InviteTTL = 24 * 3600 * sec"

abbreviation SessionCookieName :: string where "SessionCookieName \<equiv> ''veery_session''"

definition NewSession :: "auth_env \<Rightarrow> string \<Rightarrow> (string \<times> nat) res act" where
  "NewSession e userID = do {
     token \<leftarrow> randToken e 32;
     t \<leftarrow> time_Now e;
     r \<leftarrow> stamped e (\<lambda>now. CreateSession now token userID (int ((t + SessionTTL) div sec)));
     State_Monad.return (case r of Inl err \<Rightarrow> Inl err | Inr _ \<Rightarrow> Inr (token, t + SessionTTL))
   }"

definition NewInvite :: "auth_env \<Rightarrow> string \<Rightarrow> string \<Rightarrow> bool \<Rightarrow> (string \<times> nat) res act" where
  "NewInvite e createdBy forUser isAdmin = do {
     token \<leftarrow> randToken e 24;
     t \<leftarrow> time_Now e;
     r \<leftarrow> stamped e (\<lambda>now. CreateInvite now token createdBy forUser isAdmin (int ((t + InviteTTL) div sec)));
     State_Monad.return (case r of Inl err \<Rightarrow> Inl err | Inr _ \<Rightarrow> Inr (token, t + InviteTTL))
   }"

definition InviteURL :: "string \<Rightarrow> string \<Rightarrow> string" where
  "InviteURL origin token = TrimRight origin (CHR ''/'') @ ''/enroll?token='' @ token"

definition Bootstrap :: "auth_env \<Rightarrow> string \<Rightarrow> string res act" where
  "Bootstrap e origin = do {
     n \<leftarrow> store_read CountUsers;
     case n of
       Inl err \<Rightarrow> State_Monad.return (Inl err)
     | Inr n \<Rightarrow>
         if n > 0 then State_Monad.return (Inr '''')
         else do {
           r \<leftarrow> NewInvite e '''' '''' True;
           State_Monad.return (case r of Inl err \<Rightarrow> Inl err | Inr (token, _) \<Rightarrow> Inr (InviteURL origin token))
         }
   }"

section \<open>Users as the library sees them (users.go)\<close>

definition newRegistrationUser :: "string \<Rightarrow> string \<Rightarrow> auth_user" where
  "newRegistrationUser userID name = \<lparr>au_id = userID, au_name = name, au_creds = []\<rparr>"

definition toWebauthnCredential :: "stored_credential \<Rightarrow> wa_credential" where
  "toWebauthnCredential c =
     \<lparr>wa_ID = cr_CredID c, wa_PublicKey = cr_PublicKey c, wa_AttestationType = ''none'',
      wa_Transport = cr_Transports c, wa_BackupEligible = cr_BackupEligible c,
      wa_BackupState = cr_BackupState c, wa_AAGUID = cr_AAGUID c, wa_SignCount = cr_SignCount c\<rparr>"

definition loadAuthUser :: "string \<Rightarrow> string \<Rightarrow> store \<Rightarrow> auth_user res" where
  "loadAuthUser userID name s =
     (case CredentialsByUser userID s of
        Inl e \<Rightarrow> Inl e
      | Inr stored \<Rightarrow> Inr \<lparr>au_id = userID, au_name = name, au_creds = map toWebauthnCredential stored\<rparr>)"

section \<open>The ceremonies in flight (webauthn.go)\<close>

definition new_ceremony :: ceremony where
  "new_ceremony = \<lparr>ce_data = '''', ce_userID = '''', ce_name = '''', ce_isAdmin = False,
     ce_existingUser = False, ce_expires = 0\<rparr>"

definition put_ceremony :: "nat \<Rightarrow> string \<Rightarrow> ceremony \<Rightarrow> (string \<times> ceremony) list \<Rightarrow> (string \<times> ceremony) list" where
  "put_ceremony now cid c t = sweep ce_expires now (AList.update cid c t)"

definition take_ceremony :: "nat \<Rightarrow> string \<Rightarrow> (string \<times> ceremony) list \<Rightarrow> ceremony option \<times> (string \<times> ceremony) list" where
  "take_ceremony now cid t =
     (case map_of t cid of
        None \<Rightarrow> (None, t)
      | Some c \<Rightarrow> (if now > ce_expires c then None else Some c, AList.delete cid t))"

interpretation ceremonies: one_time_table ce_expires put_ceremony take_ceremony
  by unfold_locales
    (auto simp: put_ceremony_def take_ceremony_def map_of_sweep split: option.splits)

definition ceremonyTTL :: nat where "ceremonyTTL = 5 * 60 * sec"

definition put :: "auth_env \<Rightarrow> ceremony \<Rightarrow> string act" where
  "put e c = do {
     cid \<leftarrow> randToken e 16;
     t \<leftarrow> time_Now e;
     now \<leftarrow> time_Now e;
     _ \<leftarrow> upd (\<lambda>w. w\<lparr>w_ceremonies := put_ceremony now cid (c\<lparr>ce_expires := t + ceremonyTTL\<rparr>) (w_ceremonies w)\<rparr>);
     State_Monad.return cid
   }"

definition take_op :: "auth_env \<Rightarrow> string \<Rightarrow> ceremony option act" where
  "take_op e cid = do {
     known \<leftarrow> gets (\<lambda>w. map_of (w_ceremonies w) cid);
     if known = None then State_Monad.return None
     else do {
       now \<leftarrow> time_Now e;
       State (\<lambda>w. case take_ceremony now cid (w_ceremonies w) of (c, t) \<Rightarrow> (c, w\<lparr>w_ceremonies := t\<rparr>))
     }
   }"

text \<open>\<^verbatim>\<open>NewManager\<close>: the relying party is checked by the library; no ceremony is in flight.\<close>

definition NewAuthManager :: "auth_env \<Rightarrow> string \<Rightarrow> string \<Rightarrow> string \<Rightarrow> unit res act" where
  "NewAuthManager e rpid origin rpname =
     (case webauthn_New e rpid (if rpname = '''' then ''Veery'' else rpname) [origin] of
        Inl err \<Rightarrow> State_Monad.return (Inl (Wrap ''webauthn config: '' err ''''))
      | Inr _ \<Rightarrow> do { _ \<leftarrow> upd (\<lambda>w. w\<lparr>w_ceremonies := []\<rparr>); State_Monad.return (Inr ()) })"

section \<open>Enrolling with an invite\<close>

text \<open>Credential descriptors: the credential's id and transports.\<close>

definition exclusions :: "stored_credential list \<Rightarrow> (string \<times> string list) list" where
  "exclusions creds = map (\<lambda>c. (wa_ID c, wa_Transport c)) (map toWebauthnCredential creds)"

definition beginRecoveryRegistration :: "auth_env \<Rightarrow> string \<Rightarrow> (string \<times> string \<times> bool) res act" where
  "beginRecoveryRegistration e userID = do {
     u \<leftarrow> store_read (GetUser userID);
     case u of
       Inl _ \<Rightarrow> State_Monad.return (Inl ErrInvalidInvite)
     | Inr u \<Rightarrow> do {
         creds \<leftarrow> store_read (CredentialsByUser (user_ID u));
         case creds of
           Inl err \<Rightarrow> State_Monad.return (Inl err)
         | Inr creds \<Rightarrow> do {
             r \<leftarrow> lib (\<lambda>k. wa_BeginRegistration e k
               \<lparr>au_id = user_ID u, au_name = user_Name u, au_creds = map toWebauthnCredential creds\<rparr>
               (Some (exclusions creds)));
             case r of
               Inl err \<Rightarrow> State_Monad.return (Inl err)
             | Inr (opts, sessionData) \<Rightarrow> do {
                 cid \<leftarrow> put e (new_ceremony\<lparr>ce_data := sessionData, ce_userID := user_ID u, ce_name := user_Name u,
                   ce_isAdmin := user_IsAdmin u, ce_existingUser := True\<rparr>);
                 State_Monad.return (Inr (opts, cid, user_IsAdmin u))
               }
           }
       }
   }"

definition BeginRegistration :: "auth_env \<Rightarrow> string \<Rightarrow> string \<Rightarrow> (string \<times> string \<times> bool) res act" where
  "BeginRegistration e inviteToken name = do {
     row \<leftarrow> store_read (GetInvite inviteToken);
     case row of
       Inl _ \<Rightarrow> State_Monad.return (Inl ErrInvalidInvite)
     | Inr row \<Rightarrow> do {
         now \<leftarrow> unix_Now e;
         if ir_UsedAt row \<noteq> 0 \<or> ir_ExpiresAt row < now then State_Monad.return (Inl ErrInvalidInvite)
         else if ForUser row \<noteq> '''' then beginRecoveryRegistration e (ForUser row)
         else do {
           userID \<leftarrow> randToken e 16;
           let name = (if name = '''' then ''user'' else name);
           r \<leftarrow> lib (\<lambda>k. wa_BeginRegistration e k (newRegistrationUser userID name) None);
           case r of
             Inl err \<Rightarrow> State_Monad.return (Inl err)
           | Inr (opts, sessionData) \<Rightarrow> do {
               cid \<leftarrow> put e (new_ceremony\<lparr>ce_data := sessionData, ce_userID := userID, ce_name := name,
                 ce_isAdmin := ir_IsAdmin row\<rparr>);
               State_Monad.return (Inr (opts, cid, ir_IsAdmin row))
             }
         }
       }
   }"

text \<open>Both kinds of enrollment end with storing the verified credential under the ceremony's user.\<close>

definition store_credential :: "auth_env \<Rightarrow> string \<Rightarrow> wa_credential \<Rightarrow> unit res act" where
  "store_credential e userID cred = do {
     rid \<leftarrow> randToken e 12;
     now \<leftarrow> unix_Now e;
     store_op (AddCredential \<lparr>cr_ID = rid, cr_UserID = userID, cr_CredID = wa_ID cred,
       cr_PublicKey = wa_PublicKey cred, cr_SignCount = wa_SignCount cred, cr_Transports = wa_Transport cred,
       cr_AAGUID = wa_AAGUID cred, cr_Name = ''Passkey'', cr_BackupEligible = wa_BackupEligible cred,
       cr_BackupState = wa_BackupState cred, cr_CreatedAt = now\<rparr>)
   }"

text \<open>The attestation of a finished ceremony: parse the body, let the library verify it.\<close>

definition attest :: "auth_env \<Rightarrow> ceremony \<Rightarrow> string \<Rightarrow> wa_credential res" where
  "attest e cer body =
     (case ParseCreationBody e body of
        Inl err \<Rightarrow> Inl err
      | Inr parsed \<Rightarrow> CreateCredential e (newRegistrationUser (ce_userID cer) (ce_name cer)) (ce_data cer) parsed)"

text \<open>Create the user unless the invite was a recovery invite, then store the credential.\<close>

definition enroll_user :: "auth_env \<Rightarrow> ceremony \<Rightarrow> wa_credential \<Rightarrow> string res act" where
  "enroll_user e cer cred = do {
     created \<leftarrow> (if \<not> ce_existingUser cer
       then do {
         r \<leftarrow> stamped e (\<lambda>now. CreateUser now (ce_userID cer) (ce_name cer) (ce_isAdmin cer));
         State_Monad.return (case r of Inl err \<Rightarrow> Some err | Inr _ \<Rightarrow> None)
       }
       else State_Monad.return None);
     case created of
       Some err \<Rightarrow> State_Monad.return (Inl err)
     | None \<Rightarrow> do {
         r \<leftarrow> store_credential e (ce_userID cer) cred;
         State_Monad.return (case r of Inl err \<Rightarrow> Inl err | Inr _ \<Rightarrow> Inr (ce_userID cer))
       }
   }"

definition enroll :: "auth_env \<Rightarrow> ceremony \<Rightarrow> string \<Rightarrow> wa_credential \<Rightarrow> string res act" where
  "enroll e cer inviteToken cred = do {
     r \<leftarrow> stamped e (\<lambda>now. ConsumeInvite now inviteToken);
     case r of
       Inl _ \<Rightarrow> State_Monad.return (Inl ErrInvalidInvite)
     | Inr _ \<Rightarrow> enroll_user e cer cred
   }"

definition FinishRegistration :: "auth_env \<Rightarrow> string \<Rightarrow> string \<Rightarrow> string \<Rightarrow> string res act" where
  "FinishRegistration e ceremonyID inviteToken body = do {
     cer \<leftarrow> take_op e ceremonyID;
     case cer of
       None \<Rightarrow> State_Monad.return (Inl ErrCeremonyExpired)
     | Some cer \<Rightarrow>
         (case attest e cer body of
            Inl err \<Rightarrow> State_Monad.return (Inl err)
          | Inr cred \<Rightarrow> enroll e cer inviteToken cred)
   }"

section \<open>Adding a device\<close>

definition BeginAddDevice :: "auth_env \<Rightarrow> string \<Rightarrow> string \<Rightarrow> stored_credential list \<Rightarrow> (string \<times> string) res act" where
  "BeginAddDevice e userID userName existing = do {
     r \<leftarrow> lib (\<lambda>k. wa_BeginRegistration e k
       \<lparr>au_id = userID, au_name = userName, au_creds = map toWebauthnCredential existing\<rparr> (Some (exclusions existing)));
     case r of
       Inl err \<Rightarrow> State_Monad.return (Inl err)
     | Inr (opts, sessionData) \<Rightarrow> do {
         cid \<leftarrow> put e (new_ceremony\<lparr>ce_data := sessionData, ce_userID := userID, ce_name := userName\<rparr>);
         State_Monad.return (Inr (opts, cid))
       }
   }"

definition FinishAddDevice :: "auth_env \<Rightarrow> string \<Rightarrow> string \<Rightarrow> string \<Rightarrow> unit res act" where
  "FinishAddDevice e ceremonyID userID body = do {
     cer \<leftarrow> take_op e ceremonyID;
     case cer of
       None \<Rightarrow> State_Monad.return (Inl ErrCeremonyExpired)
     | Some cer \<Rightarrow>
         if ce_userID cer \<noteq> userID
         then State_Monad.return (Inl (Errorf ''ceremony does not match session user''))
         else (case attest e cer body of
            Inl err \<Rightarrow> State_Monad.return (Inl err)
          | Inr cred \<Rightarrow> store_credential e (ce_userID cer) cred)
   }"

section \<open>Signing in\<close>

definition BeginLogin :: "auth_env \<Rightarrow> (string \<times> string) res act" where
  "BeginLogin e = do {
     r \<leftarrow> lib (BeginDiscoverableLogin e);
     case r of
       Inl err \<Rightarrow> State_Monad.return (Inl err)
     | Inr (opts, sessionData) \<Rightarrow> do {
         cid \<leftarrow> put e (new_ceremony\<lparr>ce_data := sessionData\<rparr>);
         State_Monad.return (Inr (opts, cid))
       }
   }"

text \<open>
  The callback of \<^verbatim>\<open>FinishLogin\<close>; the last argument and the second result are the captured
  \<^verbatim>\<open>loggedInUserID\<close>.
\<close>

definition login_handler :: "store \<Rightarrow> string \<Rightarrow> string \<Rightarrow> string \<Rightarrow> auth_user res \<times> string" where
  "login_handler s rawID userHandle uid =
     (case CredentialByCredID rawID s of
        Inl _ \<Rightarrow> (Inl (Errorf ''unknown credential''), uid)
      | Inr sc \<Rightarrow>
          (case GetUser (cr_UserID sc) s of
             Inl err \<Rightarrow> (Inl err, uid)
           | Inr u \<Rightarrow> (loadAuthUser (user_ID u) (user_Name u) s, cr_UserID sc)))"

definition FinishLogin :: "auth_env \<Rightarrow> string \<Rightarrow> string \<Rightarrow> string res act" where
  "FinishLogin e ceremonyID body = do {
     cer \<leftarrow> take_op e ceremonyID;
     case cer of
       None \<Rightarrow> State_Monad.return (Inl ErrCeremonyExpired)
     | Some cer \<Rightarrow>
         (case ParseRequestBody e body of
            Inl err \<Rightarrow> State_Monad.return (Inl err)
          | Inr parsed \<Rightarrow> do {
              r \<leftarrow> store_read (\<lambda>s. ValidateDiscoverableLogin e (login_handler s) (ce_data cer) parsed '''');
              case r of
                (Inl err, _) \<Rightarrow> State_Monad.return (Inl err)
              | (Inr cred, uid) \<Rightarrow> do {
                  r \<leftarrow> store_op (UpdateSignCount (wa_ID cred) (wa_SignCount cred));
                  State_Monad.return (case r of Inl err \<Rightarrow> Inl err | Inr _ \<Rightarrow> Inr uid)
                }
            })
   }"

end
