(* ===== verification/Oidc.thy ===== *)
theory Oidc
  imports Server_Env
begin

text \<open>
  The relying-party side of an OpenID Connect login (\<^verbatim>\<open>internal/oidc/oidc.go\<close>). The provider and
  the client library behind it are the environment's; what Veery decides itself is here: which
  flows are in flight, what it checks of a token, how claims become an identity, which groups give
  admin rights.
\<close>

record identity =
  id_Issuer :: string
  id_Subject :: string
  id_Email :: string
  id_Name :: string
  id_Groups :: "string list"

section \<open>Configuration\<close>

fun hasScope :: "string list \<Rightarrow> string \<Rightarrow> bool" where
  "hasScope [] want = False"
| "hasScope (s # ss) want = (if s = want then True else hasScope ss want)"

fun admin_groups :: "string list \<Rightarrow> (string \<times> bool) list \<Rightarrow> (string \<times> bool) list" where
  "admin_groups [] groups = groups"
| "admin_groups (g # gs) groups =
     (let g = TrimSpace g
      in admin_groups gs (if g \<noteq> '''' then AList.update (ToLower g) True groups else groups))"

definition NewOIDC :: "oidc_config \<Rightarrow> oidc_manager res" where
  "NewOIDC cfg =
     (if oidc_Issuer cfg = '''' \<and> oidc_ClientID cfg = ''''
      then Inl (Errorf ''oidc: issuer and client id are both empty'')
      else if oidc_Issuer cfg = '''' \<or> oidc_ClientID cfg = ''''
      then Inl (Errorf ''oidc: issuer and client id must both be set'')
      else if oidc_RedirectURL cfg = '''' then Inl (Errorf ''oidc: redirect url is required'')
      else let scopes = (if oidc_Scopes cfg = [] then [''openid'', ''profile'', ''email''] else oidc_Scopes cfg);
               groups = admin_groups (oidc_AdminGroups cfg) [];
               scopes = (if groups \<noteq> [] \<and> \<not> hasScope scopes ''groups'' then scopes @ [''groups''] else scopes)
           in Inr \<lparr>om_cfg = cfg\<lparr>oidc_Scopes := scopes\<rparr>, om_adminGroups = groups, om_provider = None, om_flows = []\<rparr>)"

definition oidc_Enabled :: "oidc_manager \<Rightarrow> bool" where
  "oidc_Enabled m \<longleftrightarrow> oidc_Issuer (om_cfg m) \<noteq> '''' \<and> oidc_ClientID (om_cfg m) \<noteq> ''''"

definition oidc_Name :: "oidc_manager \<Rightarrow> string" where
  "oidc_Name m = (if oidc_ProviderName (om_cfg m) \<noteq> '''' then oidc_ProviderName (om_cfg m) else ''SSO'')"

fun oidc_IsAdmin :: "oidc_manager \<Rightarrow> string list \<Rightarrow> bool" where
  "oidc_IsAdmin m [] = False"
| "oidc_IsAdmin m (g # gs) =
     (if get_bool (om_adminGroups m) (ToLower (TrimSpace g)) then True else oidc_IsAdmin m gs)"

definition HasAdminGroups :: "oidc_manager \<Rightarrow> bool" where
  "HasAdminGroups m \<longleftrightarrow> length (om_adminGroups m) > 0"

section \<open>Flows in flight\<close>

definition put_flow :: "nat \<Rightarrow> string \<Rightarrow> login_flow \<Rightarrow> (string \<times> login_flow) list \<Rightarrow> (string \<times> login_flow) list" where
  "put_flow now st f t = sweep lf_expires now (AList.update st f t)"

definition take_flow :: "nat \<Rightarrow> string \<Rightarrow> (string \<times> login_flow) list \<Rightarrow> login_flow option \<times> (string \<times> login_flow) list" where
  "take_flow now st t =
     (case map_of t st of
        None \<Rightarrow> (None, t)
      | Some f \<Rightarrow> (if now > lf_expires f then None else Some f, AList.delete st t))"

interpretation flows: one_time_table lf_expires put_flow take_flow
  by unfold_locales
    (auto simp: put_flow_def take_flow_def map_of_sweep split: option.splits)

definition flowTTL :: nat where "flowTTL = 10 * 60 * sec"

definition takeFlow :: "auth_env \<Rightarrow> string \<Rightarrow> login_flow option act" where
  "takeFlow e st = do {
     known \<leftarrow> gets (\<lambda>w. map_of (om_flows (w_oidc w)) st);
     if known = None then State_Monad.return None
     else do {
       now \<leftarrow> time_Now e;
       State (\<lambda>w. case take_flow now st (om_flows (w_oidc w)) of
         (f, t) \<Rightarrow> (f, w\<lparr>w_oidc := (w_oidc w)\<lparr>om_flows := t\<rparr>\<rparr>))
     }
   }"

text \<open>\<^verbatim>\<open>discover\<close>: a provider that was found is kept, a failure is not.\<close>

definition discover :: "auth_env \<Rightarrow> (string \<times> oauth_config) res act" where
  "discover e = do {
     m \<leftarrow> gets w_oidc;
     case om_provider m of
       Some p \<Rightarrow> State_Monad.return (Inr p)
     | None \<Rightarrow> do {
         r \<leftarrow> lib (\<lambda>k. NewProvider e k (oidc_Issuer (om_cfg m)));
         case r of
           Inl err \<Rightarrow> State_Monad.return (Inl (Wrap ''oidc discovery: '' err ''''))
         | Inr p \<Rightarrow> do {
             let oauth = \<lparr>oc_ClientID = oidc_ClientID (om_cfg m), oc_ClientSecret = oidc_ClientSecret (om_cfg m),
               oc_Endpoint = provider_Endpoint e p, oc_RedirectURL = oidc_RedirectURL (om_cfg m),
               oc_Scopes = oidc_Scopes (om_cfg m)\<rparr>;
             _ \<leftarrow> upd (\<lambda>w. w\<lparr>w_oidc := (w_oidc w)\<lparr>om_provider := Some (p, oauth)\<rparr>\<rparr>);
             State_Monad.return (Inr (p, oauth))
           }
       }
   }"

definition oidc_Start :: "auth_env \<Rightarrow> (string \<times> string) res act" where
  "oidc_Start e = do {
     r \<leftarrow> discover e;
     case r of
       Inl err \<Rightarrow> State_Monad.return (Inl err)
     | Inr (_, oauth) \<Rightarrow> do {
         st \<leftarrow> randToken e 24;
         nonce \<leftarrow> randToken e 24;
         verifier \<leftarrow> lib (GenerateVerifier e);
         t \<leftarrow> time_Now e;
         now \<leftarrow> time_Now e;
         _ \<leftarrow> upd (\<lambda>w. w\<lparr>w_oidc := (w_oidc w)\<lparr>om_flows := put_flow now st
           \<lparr>lf_nonce = nonce, lf_verifier = verifier, lf_expires = t + flowTTL\<rparr> (om_flows (w_oidc w))\<rparr>\<rparr>);
         State_Monad.return (Inr (AuthCodeURL e oauth st nonce verifier, st))
       }
   }"

section \<open>Claims\<close>

definition displayName :: "claims \<Rightarrow> string" where
  "displayName c =
     (case find (\<lambda>s. TrimSpace s \<noteq> '''') [cl_Name c, cl_DisplayName c, cl_PreferredUsername c, cl_Email c, cl_Sub c] of
        Some s \<Rightarrow> s | None \<Rightarrow> '''')"

text \<open>The groups loop; \<^verbatim>\<open>seen\<close> is always the set of the groups collected so far.\<close>

fun merge_groups :: "string list \<Rightarrow> string list \<Rightarrow> string list" where
  "merge_groups gs [] = gs"
| "merge_groups gs (g # other) = merge_groups (if g \<in> set gs then gs else gs @ [g]) other"

definition claims_merge :: "claims \<Rightarrow> claims \<Rightarrow> claims" where
  "claims_merge c other =
     c\<lparr>cl_Sub := (if cl_Sub c = '''' then cl_Sub other else cl_Sub c),
       cl_Name := (if cl_Name c = '''' then cl_Name other else cl_Name c),
       cl_DisplayName := (if cl_DisplayName c = '''' then cl_DisplayName other else cl_DisplayName c),
       cl_PreferredUsername :=
         (if cl_PreferredUsername c = '''' then cl_PreferredUsername other else cl_PreferredUsername c),
       cl_Email := (if cl_Email c = '''' then cl_Email other else cl_Email c),
       cl_Groups := merge_groups (cl_Groups c) (cl_Groups other)\<rparr>"

section \<open>Finishing a login\<close>

definition identity_of :: "id_token \<Rightarrow> claims \<Rightarrow> identity" where
  "identity_of tok c =
     \<lparr>id_Issuer = it_Issuer tok, id_Subject = cl_Sub c, id_Email = cl_Email c, id_Name = displayName c,
      id_Groups = cl_Groups c\<rparr>"

text \<open>From a verified token to the identity: the nonce, the claims, the userinfo response.\<close>

definition accept_token :: "auth_env \<Rightarrow> string \<Rightarrow> login_flow \<Rightarrow> oauth_token \<Rightarrow> id_token \<Rightarrow> identity res act" where
  "accept_token e provider flow tok idToken =
     (if it_Nonce idToken \<noteq> lf_nonce flow then State_Monad.return (Inl ErrNonceMismatch)
      else case it_Claims idToken of
          Inl err \<Rightarrow> State_Monad.return (Inl (Wrap ''read id token claims: '' err ''''))
        | Inr c \<Rightarrow> do {
            ui \<leftarrow> lib (\<lambda>k. UserInfo e k provider tok);
            let c = (case ui of Inr (Inr uc) \<Rightarrow> claims_merge c uc | _ \<Rightarrow> c);
            State_Monad.return
              (if cl_Sub c = '''' then Inl ErrMissingSubject else Inr (identity_of idToken c))
          })"

definition oidc_Finish :: "auth_env \<Rightarrow> string \<Rightarrow> string \<Rightarrow> identity res act" where
  "oidc_Finish e st code = do {
     f \<leftarrow> takeFlow e st;
     case f of
       None \<Rightarrow> State_Monad.return (Inl ErrInvalidState)
     | Some flow \<Rightarrow> do {
         r \<leftarrow> discover e;
         case r of
           Inl err \<Rightarrow> State_Monad.return (Inl err)
         | Inr (provider, oauth) \<Rightarrow> do {
             r \<leftarrow> lib (\<lambda>k. Exchange e k oauth code (lf_verifier flow));
             case r of
               Inl err \<Rightarrow> State_Monad.return (Inl (Wrap ''exchange code: '' err ''''))
             | Inr tok \<Rightarrow>
                 (case ot_id_token tok of
                    None \<Rightarrow> State_Monad.return (Inl ErrMissingIDToken)
                  | Some rawID \<Rightarrow>
                      if rawID = '''' then State_Monad.return (Inl ErrMissingIDToken)
                      else do {
                        clientID \<leftarrow> gets (\<lambda>w. oidc_ClientID (om_cfg (w_oidc w)));
                        r \<leftarrow> lib (\<lambda>k. Verify e k provider clientID rawID);
                        case r of
                          Inl err \<Rightarrow> State_Monad.return (Inl (Wrap ''verify id token: '' err ''''))
                        | Inr idToken \<Rightarrow> accept_token e provider flow tok idToken
                      })
           }
       }
   }"

section \<open>Group mapping and claims\<close>

lemma hasScope_iff: "hasScope ss w \<longleftrightarrow> w \<in> set ss"
  by (induction ss) auto

lemma get_bool_admin_groups:
  "get_bool (admin_groups gs groups) k \<longleftrightarrow>
     get_bool groups k \<or> (\<exists>g \<in> set gs. TrimSpace g \<noteq> '''' \<and> ToLower (TrimSpace g) = k)"
  by (induction gs groups rule: admin_groups.induct) (auto simp: Let_def)

lemma admin_groups_empty: "admin_groups gs groups = [] \<longleftrightarrow> groups = [] \<and> (\<forall>g \<in> set gs. TrimSpace g = '''')"
proof (induction gs groups rule: admin_groups.induct)
  case (2 g gs groups)
  have "AList.update k v groups \<noteq> []" for k v by (cases groups) auto
  with 2 show ?case by (auto simp: Let_def)
qed simp

lemma oidc_IsAdmin_iff:
  "oidc_IsAdmin m gs \<longleftrightarrow> (\<exists>g \<in> set gs. get_bool (om_adminGroups m) (ToLower (TrimSpace g)))"
  by (induction gs) auto

text \<open>
  Admin rights come from the configured groups and nothing else. A manager that was built
  from a configuration is enabled; it grants admin exactly to identities with a group that equals a
  non-blank configured one up to case and surrounding blanks; and it asks the provider for groups
  if such a mapping exists.
\<close>

theorem oidc_admin_mapping:
  assumes "NewOIDC cfg = Inr m"
  shows "oidc_Enabled m \<and>
    (oidc_IsAdmin m gs \<longleftrightarrow> (\<exists>g \<in> set gs. \<exists>a \<in> set (oidc_AdminGroups cfg).
       TrimSpace a \<noteq> '''' \<and> ToLower (TrimSpace a) = ToLower (TrimSpace g))) \<and>
    (HasAdminGroups m \<longleftrightarrow> (\<exists>a \<in> set (oidc_AdminGroups cfg). TrimSpace a \<noteq> '''')) \<and>
    (HasAdminGroups m \<longrightarrow> ''groups'' \<in> set (oidc_Scopes (om_cfg m)))"
proof -
  have m: "om_adminGroups m = admin_groups (oidc_AdminGroups cfg) []"
    using assms by (auto simp: NewOIDC_def Let_def split: if_splits)
  have "oidc_Enabled m" "HasAdminGroups m \<longrightarrow> ''groups'' \<in> set (oidc_Scopes (om_cfg m))"
    using assms by (auto simp: NewOIDC_def oidc_Enabled_def HasAdminGroups_def Let_def hasScope_iff split: if_splits)
  moreover have "oidc_IsAdmin m gs \<longleftrightarrow> (\<exists>g \<in> set gs. \<exists>a \<in> set (oidc_AdminGroups cfg).
       TrimSpace a \<noteq> '''' \<and> ToLower (TrimSpace a) = ToLower (TrimSpace g))"
    by (auto simp: oidc_IsAdmin_iff m get_bool_admin_groups) (simp_all add: get_bool_def)
  moreover have "HasAdminGroups m \<longleftrightarrow> (\<exists>a \<in> set (oidc_AdminGroups cfg). TrimSpace a \<noteq> '''')"
    using admin_groups_empty [of "oidc_AdminGroups cfg" "[]"] by (auto simp: HasAdminGroups_def m)
  ultimately show ?thesis by blast
qed

definition demo_oidc_config :: oidc_config where
  "demo_oidc_config = \<lparr>oidc_Issuer = ''https://id'', oidc_ClientID = ''veery'', oidc_ClientSecret = '''',
     oidc_RedirectURL = ''https://v/cb'', oidc_Scopes = [], oidc_AdminGroups = ['' Admins '', '' ''],
     oidc_ProviderName = ''''\<rparr>"

theorem oidc_admin_mapping_witness:
  "\<exists>m. NewOIDC demo_oidc_config = Inr m \<and> oidc_IsAdmin m [''admins''] \<and> \<not> oidc_IsAdmin m [''''] \<and>
     ''groups'' \<in> set (oidc_Scopes (om_cfg m))"
proof -
  have ok: "NewOIDC demo_oidc_config = Inr m \<Longrightarrow> oidc_IsAdmin m [''admins''] \<and> \<not> oidc_IsAdmin m [''''] \<and>
      ''groups'' \<in> set (oidc_Scopes (om_cfg m))" for m
  proof -
    assume m: "NewOIDC demo_oidc_config = Inr m"
    have t: "TrimSpace '' Admins '' = ''Admins''" "TrimSpace '' '' = ''''" "TrimSpace ''admins'' = ''admins''"
      "ToLower ''Admins'' = ''admins''" "ToLower ''admins'' = ''admins''" "TrimSpace '''' = ''''" "ToLower '''' = ''''"
      by code_simp+
    show ?thesis
      using oidc_admin_mapping [OF m, of "[''admins'']"] oidc_admin_mapping [OF m, of "['''']"]
      by (simp add: demo_oidc_config_def t)
  qed
  have "\<exists>m. NewOIDC demo_oidc_config = Inr m"
    by (simp add: NewOIDC_def demo_oidc_config_def Let_def)
  with ok show ?thesis by blast
qed

lemma set_merge_groups [simp]: "set (merge_groups gs other) = set gs \<union> set other"
  by (induction gs other rule: merge_groups.induct) auto

lemma distinct_merge_groups: "distinct gs \<Longrightarrow> distinct (merge_groups gs other)"
  by (induction gs other rule: merge_groups.induct) auto

lemma prefix_merge_groups: "prefix gs (merge_groups gs other)"
proof (induction gs other rule: merge_groups.induct)
  case (2 gs g other)
  have "prefix gs (if g \<in> set gs then gs else gs @ [g])" by simp
  with 2 show ?case by (metis merge_groups.simps(2) prefix_order.trans)
qed simp

text \<open>
  The userinfo response only fills gaps: a claim of the verified ID token is never
  overwritten, an empty one is taken from the response, the ID token's groups come first and in
  their order, and no group of either source is lost or duplicated.
\<close>

theorem claims_merge_fills_gaps:
  "cl_Sub (claims_merge c u) = (if cl_Sub c = '''' then cl_Sub u else cl_Sub c) \<and>
   cl_Name (claims_merge c u) = (if cl_Name c = '''' then cl_Name u else cl_Name c) \<and>
   cl_Email (claims_merge c u) = (if cl_Email c = '''' then cl_Email u else cl_Email c) \<and>
   set (cl_Groups (claims_merge c u)) = set (cl_Groups c) \<union> set (cl_Groups u) \<and>
   prefix (cl_Groups c) (cl_Groups (claims_merge c u)) \<and>
   (distinct (cl_Groups c) \<longrightarrow> distinct (cl_Groups (claims_merge c u)))"
  by (simp add: claims_merge_def prefix_merge_groups distinct_merge_groups)

definition no_claims :: claims where
  "no_claims = \<lparr>cl_Sub = '''', cl_Name = '''', cl_PreferredUsername = '''', cl_DisplayName = '''',
     cl_Email = '''', cl_Groups = []\<rparr>"

theorem claims_merge_fills_gaps_witness:
  "cl_Sub (claims_merge (no_claims\<lparr>cl_Sub := ''me'', cl_Groups := [''a'']\<rparr>)
     (no_claims\<lparr>cl_Sub := ''you'', cl_Groups := [''b'', ''a'', ''b'']\<rparr>)) = ''me'' \<and>
   distinct (cl_Groups (claims_merge (no_claims\<lparr>cl_Sub := ''me'', cl_Groups := [''a'']\<rparr>)
     (no_claims\<lparr>cl_Sub := ''you'', cl_Groups := [''b'', ''a'', ''b'']\<rparr>)))"
  using claims_merge_fills_gaps [of "no_claims\<lparr>cl_Sub := ''me'', cl_Groups := [''a'']\<rparr>"
      "no_claims\<lparr>cl_Sub := ''you'', cl_Groups := [''b'', ''a'', ''b'']\<rparr>"]
  by (simp add: no_claims_def)

section \<open>What a finished login rests on\<close>

lemma takeFlow_unknown:
  "map_of (om_flows (w_oidc w)) st = None \<Longrightarrow> run_state (takeFlow e st) w = (None, w)"
  by (simp add: takeFlow_def)

lemma takeFlow_frame [simp]:
  "w_st (snd (run_state (takeFlow e st) w)) = w_st w"
  "w_draws (snd (run_state (takeFlow e st) w)) = w_draws w"
  "om_cfg (w_oidc (snd (run_state (takeFlow e st) w))) = om_cfg (w_oidc w)"
  "om_provider (w_oidc (snd (run_state (takeFlow e st) w))) = om_provider (w_oidc w)"
  by (simp_all add: takeFlow_def split: prod.splits)

lemma takeFlow_removes [simp]:
  "map_of (om_flows (w_oidc (snd (run_state (takeFlow e st) w)))) st = None"
proof (cases "map_of (om_flows (w_oidc w)) st")
  case (Some f)
  then show ?thesis
    using flows.take_lookup [of "w_clock w + pass e (w_reads w)" st "om_flows (w_oidc w)"]
    by (simp add: takeFlow_def case_prod_unfold)
qed (simp add: takeFlow_unknown)

lemma takeFlow_Some:
  assumes "fst (run_state (takeFlow e st) w) = Some f"
  shows "map_of (om_flows (w_oidc w)) st = Some f \<and> w_clock w \<le> lf_expires f"
proof (cases "map_of (om_flows (w_oidc w)) st")
  case None
  with assms show ?thesis by (simp add: takeFlow_unknown)
next
  case (Some g)
  let ?now = "w_clock w + pass e (w_reads w)"
  have "fst (take_flow ?now st (om_flows (w_oidc w))) = Some f"
    using assms Some by (simp add: takeFlow_def split: prod.splits)
  from flows.taken_was_there [OF this] show ?thesis by simp
qed

lemma discover_frame [simp]:
  "w_st (snd (run_state (discover e) w)) = w_st w"
  "om_flows (w_oidc (snd (run_state (discover e) w))) = om_flows (w_oidc w)"
  "om_cfg (w_oidc (snd (run_state (discover e) w))) = om_cfg (w_oidc w)"
  by (simp_all add: discover_def Let_def split: option.splits sum.splits)

lemma accept_token_frame [simp]:
  "w_st (snd (run_state (accept_token e p f tok it) w)) = w_st w"
  "w_oidc (snd (run_state (accept_token e p f tok it) w)) = w_oidc w"
  by (simp_all add: accept_token_def Let_def split: sum.splits)

lemma draws_mono [simp]:
  "w_draws w \<le> w_draws (snd (run_state (discover e) w))"
  "w_draws w \<le> w_draws (snd (run_state (accept_token e p f tok it) w))"
  by (simp_all add: discover_def accept_token_def Let_def split: option.splits sum.splits)

lemma accept_token_ok:
  assumes "run_state (accept_token e p flow tok it) w = (Inr ident, w')"
  shows "it_Nonce it = lf_nonce flow \<and> id_Issuer ident = it_Issuer it \<and> id_Subject ident \<noteq> '''' \<and>
    (\<exists>c. it_Claims it = Inr c \<and> (cl_Sub c \<noteq> '''' \<longrightarrow> id_Subject ident = cl_Sub c))"
  using assms
  by (auto simp: accept_token_def Let_def identity_of_def claims_merge_def split: if_splits sum.splits)

text \<open>
  \<open>oidc_Finish\<close> after the flow was taken, and the token a successful exchange and verification
  gave.
\<close>

lemma oidc_Finish_ok:
  assumes "run_state (oidc_Finish e st code) w = (Inr ident, w')"
  obtains flow w1 provider oauth w2 tok rawID idToken w3 where
    "run_state (takeFlow e st) w = (Some flow, w1)"
    "run_state (discover e) w1 = (Inr (provider, oauth), w2)"
    "Exchange e (w_draws w2) oauth code (lf_verifier flow) = Inr tok"
    "ot_id_token tok = Some rawID" "rawID \<noteq> ''''"
    "Verify e (Suc (w_draws w2)) provider (oidc_ClientID (om_cfg (w_oidc w2))) rawID = Inr idToken"
    "w3 = w2\<lparr>w_draws := Suc (Suc (w_draws w2))\<rparr>"
    "run_state (accept_token e provider flow tok idToken) w3 = (Inr ident, w')"
  using assms unfolding oidc_Finish_def
  by (auto split: prod.splits option.splits sum.splits if_splits)

text \<open>
  \<^bold>\<open>C10\<close>. A login is accepted only on a token made for it. When \<open>oidc_Finish\<close> returns an identity,
  the state named a flow that was in flight and had not expired; the code was exchanged with that
  flow's PKCE verifier; the ID token passed the library's verification for Veery's own client id
  and carries that flow's nonce; issuer and subject of the identity are the token's, and the
  subject is not empty. The flow is gone afterwards, so the same state is refused from then on.
\<close>

theorem oidc_finish_sound:
  assumes "run_state (oidc_Finish e st code) w = (Inr ident, w')"
  shows "(\<exists>flow provider oauth k tok rawID k' idToken c.
      map_of (om_flows (w_oidc w)) st = Some flow \<and> w_clock w \<le> lf_expires flow \<and>
      Exchange e k oauth code (lf_verifier flow) = Inr tok \<and> ot_id_token tok = Some rawID \<and>
      Verify e k' provider (oidc_ClientID (om_cfg (w_oidc w))) rawID = Inr idToken \<and>
      it_Nonce idToken = lf_nonce flow \<and> id_Issuer ident = it_Issuer idToken \<and>
      it_Claims idToken = Inr c \<and> (cl_Sub c \<noteq> '''' \<longrightarrow> id_Subject ident = cl_Sub c)) \<and>
    id_Subject ident \<noteq> '''' \<and> w_st w' = w_st w \<and>
    run_state (oidc_Finish e st code') w' = (Inl ErrInvalidState, w')"
  using assms
proof (rule oidc_Finish_ok)
  fix flow w1 provider oauth w2 tok rawID idToken w3
  assume tf: "run_state (takeFlow e st) w = (Some flow, w1)"
    and di: "run_state (discover e) w1 = (Inr (provider, oauth), w2)"
    and ex: "Exchange e (w_draws w2) oauth code (lf_verifier flow) = Inr tok"
    and tok: "ot_id_token tok = Some rawID"
    and ve: "Verify e (Suc (w_draws w2)) provider (oidc_ClientID (om_cfg (w_oidc w2))) rawID = Inr idToken"
    and w3: "w3 = w2\<lparr>w_draws := Suc (Suc (w_draws w2))\<rparr>"
    and ac: "run_state (accept_token e provider flow tok idToken) w3 = (Inr ident, w')"
  have w1: "om_cfg (w_oidc w1) = om_cfg (w_oidc w)" "w_st w1 = w_st w" "map_of (om_flows (w_oidc w1)) st = None"
    using takeFlow_frame [of e st w] takeFlow_removes [of e st w] tf by simp_all
  have w2: "om_cfg (w_oidc w2) = om_cfg (w_oidc w)" "w_st w2 = w_st w" "map_of (om_flows (w_oidc w2)) st = None"
    using discover_frame [of e w1] di w1 by simp_all
  have w': "w_st w' = w_st w" "map_of (om_flows (w_oidc w')) st = None"
    using accept_token_frame [of e provider flow tok idToken w3, unfolded ac] w2 by (simp_all add: w3)
  have again: "run_state (oidc_Finish e st code') w' = (Inl ErrInvalidState, w')"
    by (simp add: oidc_Finish_def takeFlow_unknown [OF w'(2)])
  have there: "map_of (om_flows (w_oidc w)) st = Some flow" "w_clock w \<le> lf_expires flow"
    using takeFlow_Some [of e st w flow] tf by simp_all
  note ve = ve [unfolded w2(1)]
  obtain c where c: "it_Claims idToken = Inr c" "cl_Sub c \<noteq> '''' \<longrightarrow> id_Subject ident = cl_Sub c"
    and id: "it_Nonce idToken = lf_nonce flow" "id_Issuer ident = it_Issuer idToken" "id_Subject ident \<noteq> ''''"
    using accept_token_ok [OF ac] by blast
  show ?thesis
    by (intro conjI exI [of _ flow] exI [of _ provider] exI [of _ oauth] exI [of _ "w_draws w2"]
        exI [of _ tok] exI [of _ rawID] exI [of _ "Suc (w_draws w2)"] exI [of _ idToken] exI [of _ c])
      (fact there ex tok ve id c w'(1) again)+
qed

text \<open>An environment in which every library call succeeds, for concrete runs.\<close>

definition demo_env :: auth_env where
  "demo_env =
     \<lparr>pass = (\<lambda>_. 1), rand_token = (\<lambda>k n. ''tok'' @ nat_text k), webauthn_New = (\<lambda>_ _ _. Inr ()),
      wa_BeginRegistration = (\<lambda>k u ex. Inr (''opts'', au_id u)),
      ParseCreationBody = (\<lambda>b. Inr b),
      CreateCredential = (\<lambda>u sd b. if sd = au_id u then Inr \<lparr>wa_ID = b, wa_PublicKey = ''pk'', wa_AttestationType = ''none'',
        wa_Transport = [], wa_BackupEligible = False, wa_BackupState = False, wa_AAGUID = '''', wa_SignCount = 0\<rparr>
        else Inl (Errorf ''mismatch'')),
      BeginDiscoverableLogin = (\<lambda>k. Inr (''opts'', ''challenge'')),
      ParseRequestBody = (\<lambda>b. Inr b),
      ValidateDiscoverableLogin = (\<lambda>h sd raw v. case h raw ''handle'' v of
          (Inl err, v') \<Rightarrow> (Inl err, v')
        | (Inr u, v') \<Rightarrow> (case find (\<lambda>c. wa_ID c = raw) (au_creds u) of
             None \<Rightarrow> (Inl (Errorf ''no credential''), v')
           | Some c \<Rightarrow> (Inr (c\<lparr>wa_SignCount := wa_SignCount c + 1\<rparr>), v'))),
      NewProvider = (\<lambda>k iss. Inr iss), provider_Endpoint = id, GenerateVerifier = (\<lambda>k. ''ver''),
      AuthCodeURL = (\<lambda>c st n v. oc_Endpoint c @ ''?state='' @ st),
      Exchange = (\<lambda>k c code v. Inr \<lparr>ot_access = ''at'', ot_id_token = Some code\<rparr>),
      Verify = (\<lambda>k p cid raw. Inr \<lparr>it_Issuer = p, it_Nonce = raw, it_Claims = Inr
        \<lparr>cl_Sub = ''sub'', cl_Name = ''Ada'', cl_PreferredUsername = '''', cl_DisplayName = '''', cl_Email = '''',
         cl_Groups = []\<rparr>\<rparr>),
      UserInfo = (\<lambda>k p t. Inl (Errorf ''no userinfo'')), ne = quiet_env,
      re = \<lparr>rw_scan = (\<lambda>_. []), rw_start = (\<lambda>_ h. (Inr (), h)), rw_notif = True, StrToROptionInLocation = (\<lambda>s. Inr s),
        opt_Dtstart = (\<lambda>_. None), with_Dtstart = (\<lambda>_ opt. opt), NewRRule = (\<lambda>opt. Inr opt), rr_After = (\<lambda>_ _. None),
        scheduleAnchor = 0\<rparr>,
      ze = \<lparr>getenv_TZ = ''UTC'', Local_String = ''Local'', Readlink_localtime = Inl (Errorf ''absent''),
        ReadFile_timezone = Inl (Errorf ''absent''), zone_offset = 0\<rparr>,
      de = \<lparr>disk_Partitions = Inr [], disk_Usage = (\<lambda>_. Inr (0, 0)), disk_IOCounters = Inr [], sort_mounts = id, sort_disks = id\<rparr>\<rparr>"

definition demo_world :: world where
  "demo_world =
     \<lparr>w_st = empty_store, w_clock = 100 * sec, w_reads = 0, w_draws = 0, w_ceremonies = [],
      w_oidc = nil_oidc\<lparr>om_cfg := demo_oidc_config,
        om_flows := [(''st'', \<lparr>lf_nonce = ''n'', lf_verifier = ''v'', lf_expires = 200 * sec\<rparr>)]\<rparr>,
      w_cfg = \<lparr>cfg_RPID = ''v'', cfg_Origin = ''https://v'', cfg_Secure = True\<rparr>,
      w_notif = None, w_rw = fresh_response, w_outs = [], w_raid = True, w_host = ''''\<rparr>"

theorem oidc_finish_sound_witness:
  "\<exists>ident w'. run_state (oidc_Finish demo_env ''st'' ''n'') demo_world = (Inr ident, w') \<and>
     id_Subject ident \<noteq> '''' \<and>
     run_state (oidc_Finish demo_env ''st'' ''n'') w' = (Inl ErrInvalidState, w')"
proof -
  have "\<exists>ident w'. run_state (oidc_Finish demo_env ''st'' ''n'') demo_world = (Inr ident, w')"
    by (simp add: oidc_Finish_def takeFlow_def take_flow_def discover_def accept_token_def Let_def
        demo_env_def demo_world_def nil_oidc_def)
  with oidc_finish_sound show ?thesis by blast
qed

end
