(* ===== verification/Server_Api.thy ===== *)
theory Server_Api
  imports Server_Env Store_Docker
begin

text \<open>
  The handlers of the API that need neither the Docker manager nor the account tables
  (\<^verbatim>\<open>docker_handlers.go\<close> from the settings on, \<^verbatim>\<open>events_handlers.go\<close>, \<^verbatim>\<open>notification_handlers.go\<close>):
  settings, disks, software RAID, the event log and the notification targets. Each is the body behind
  the session check of its route.
\<close>

section \<open>Bodies\<close>

text \<open>
  Decoding into a struct fails on what is no JSON and on an empty body; fields that the object does not
  name keep their zero value, so an object meant for another route decodes to the zero value.
\<close>

definition zero_settings :: settings where
  "zero_settings = \<lparr>set_PollIntervalSeconds = 0, set_AutoUpdateDefault = False, set_AutoUpdateIntervalMinutes = 0,
     set_EventLogRetentionDays = 0, set_DiskVisibility = None\<rparr>"

definition decode_as :: "(json_body \<Rightarrow> 'a option) \<Rightarrow> 'a \<Rightarrow> json_body \<Rightarrow> 'a option" where
  "decode_as pick zero body =
     (if body = NotJSON \<or> body = EmptyBody then None else case pick body of Some v \<Rightarrow> Some v | None \<Rightarrow> Some zero)"

definition decode_settings :: "json_body \<Rightarrow> settings option" where
  "decode_settings = decode_as (\<lambda>b. case b of BSettings cfg \<Rightarrow> Some cfg | _ \<Rightarrow> None) zero_settings"

definition decode_notifications :: "json_body \<Rightarrow> notification_config option" where
  "decode_notifications =
     decode_as (\<lambda>b. case b of BNotifications cfg \<Rightarrow> Some cfg | _ \<Rightarrow> None) \<lparr>ncfg_Targets = [], ncfg_EnvManaged = False\<rparr>"

definition decode_schedules :: "json_body \<Rightarrow> (string \<times> mdadm_schedule) list option" where
  "decode_schedules = decode_as (\<lambda>b. case b of BSchedules m \<Rightarrow> Some m | _ \<Rightarrow> None) []"

definition decode_visibility :: "json_body \<Rightarrow> (string \<times> bool) list option option" where
  "decode_visibility = decode_as (\<lambda>b. case b of BVisibility m \<Rightarrow> Some m | _ \<Rightarrow> None) None"

definition decode_auto_update :: "json_body \<Rightarrow> (string \<times> bool) option" where
  "decode_auto_update = decode_as (\<lambda>b. case b of BAutoUpdate cid on \<Rightarrow> Some (cid, on) | _ \<Rightarrow> None) ('''', False)"

text \<open>The body of a test notification may be missing altogether.\<close>

definition decode_test :: "json_body \<Rightarrow> string list option" where
  "decode_test b =
     (if b = EmptyBody then Some [] else decode_as (\<lambda>b. case b of BTest urls \<Rightarrow> Some urls | _ \<Rightarrow> None) [] b)"

lemmas decode_defs = decode_as_def decode_settings_def decode_notifications_def decode_schedules_def decode_visibility_def
  decode_auto_update_def decode_test_def

section \<open>Settings and disks\<close>

definition handleGetSettings :: "unit act" where
  "handleGetSettings = do {
     cfg \<leftarrow> store_read LoadSettings;
     case cfg of Inl err \<Rightarrow> writeErr 500 (err_text err) | Inr cfg \<Rightarrow> writeJSON 200 (RSettings cfg)
   }"

definition handlePutSettings :: "request \<Rightarrow> unit act" where
  "handlePutSettings r =
     (case decode_settings (rq_json r) of
        None \<Rightarrow> writeErr 400 ''bad request''
      | Some cfg \<Rightarrow> do {
          res \<leftarrow> store_op (SaveSettings cfg);
          case res of Inl err \<Rightarrow> writeErr 500 (err_text err) | Inr _ \<Rightarrow> writeJSON 200 (RSettings cfg)
        })"

definition handleListDisks :: "auth_env \<Rightarrow> unit act" where
  "handleListDisks e = do {
     overrides \<leftarrow> store_read LoadDiskVisibility;
     case overrides of
       Inl err \<Rightarrow> writeErr 500 (err_text err)
     | Inr overrides \<Rightarrow>
         (case Enumerate (de e) of (mounts, devices) \<Rightarrow> writeJSON 200 (RDisks (BuildDiskItems mounts devices overrides)))
   }"

definition handleSetDiskVisibility :: "auth_env \<Rightarrow> request \<Rightarrow> unit act" where
  "handleSetDiskVisibility e r =
     (case decode_visibility (rq_json r) of
        None \<Rightarrow> writeErr 400 ''bad request''
      | Some vis \<Rightarrow> do {
          res \<leftarrow> store_op (SaveDiskVisibility (case vis of None \<Rightarrow> [] | Some m \<Rightarrow> m));
          case res of Inl err \<Rightarrow> writeErr 500 (err_text err) | Inr _ \<Rightarrow> handleListDisks e
        })"

definition handleSetAutoUpdate :: "request \<Rightarrow> unit act" where
  "handleSetAutoUpdate r =
     (case decode_auto_update (rq_json r) of
        None \<Rightarrow> writeErr 400 ''bad request''
      | Some (cid, on) \<Rightarrow> do {
          mc \<leftarrow> store_read (ResolveManaged cid);
          case mc of
            Inl _ \<Rightarrow> writeErr 404 ''container not managed''
          | Inr mc \<Rightarrow> do {
              res \<leftarrow> store_op (SetAutoUpdate (mc_ID mc) on);
              case res of Inl err \<Rightarrow> writeErr 500 (err_text err) | Inr _ \<Rightarrow> writeJSON 200 ROk
            }
        })"

section \<open>Software RAID\<close>

text \<open>
  The watcher's start on the server's store and host. The messages it hands to the notifier are kept
  and notified when it has returned; the notifier only adds rows to the event log, which the start does
  not look at.
\<close>

definition raid_Start :: "auth_env \<Rightarrow> string \<Rightarrow> (unit res \<times> raid_message list) act" where
  "raid_Start e name = do {
     t \<leftarrow> time_Now e;
     State (\<lambda>w. case StartScan ((re e)\<lparr>rw_notif := True\<rparr>) name (int (t div sec))
                    \<lparr>rw_store = w_st w, rw_host = w_host w, rw_msgs = []\<rparr> of
              (res, rw) \<Rightarrow> ((res, rw_msgs rw), w\<lparr>w_st := rw_store rw, w_host := rw_host rw\<rparr>))
   }"

fun notify_each :: "(raid_message \<Rightarrow> unit act) \<Rightarrow> raid_message list \<Rightarrow> unit act" where
  "notify_each f [] = State_Monad.return ()"
| "notify_each f (m # ms) = do { _ \<leftarrow> f m; notify_each f ms }"

definition bare_start :: "auth_env \<Rightarrow> string \<Rightarrow> unit res act" where
  "bare_start e name = State (\<lambda>w. case rw_start (re e) name (w_host w) of (res, h) \<Rightarrow> (res, w\<lparr>w_host := h\<rparr>))"

definition handleStartMdadmScan :: "auth_env \<Rightarrow> (raid_message \<Rightarrow> unit act) \<Rightarrow> request \<Rightarrow> unit act" where
  "handleStartMdadmScan e notify r = do {
     raid \<leftarrow> gets w_raid;
     res \<leftarrow> (if raid then do {
               (res, ms) \<leftarrow> raid_Start e (rq_path r);
               _ \<leftarrow> notify_each notify ms;
               State_Monad.return res
             } else bare_start e (rq_path r));
     case res of Inl err \<Rightarrow> writeErr 400 (err_text err) | Inr _ \<Rightarrow> writeJSON 200 ROk
   }"

definition with_zone :: "auth_env \<Rightarrow> (string \<times> mdadm_schedule) list \<Rightarrow> reply" where
  "with_zone e m = (case LocalZone (ze e) of (tz, off) \<Rightarrow> RSchedules m tz off)"

definition handleGetMdadmSchedules :: "auth_env \<Rightarrow> unit act" where
  "handleGetMdadmSchedules e = do {
     cfg \<leftarrow> store_read LoadMdadmSchedules;
     case cfg of Inl err \<Rightarrow> writeErr 500 (err_text err) | Inr m \<Rightarrow> writeJSON 200 (with_zone e m)
   }"

text \<open>The loop over the submitted schedules: empty rules are dropped, a rule that does not parse ends it.\<close>

fun clean_schedules :: "auth_env \<Rightarrow> (string \<times> mdadm_schedule) list \<Rightarrow> string + (string \<times> mdadm_schedule) list" where
  "clean_schedules e [] = Inr []"
| "clean_schedules e ((name, sc) # m) =
     (if sched_RRule sc = '''' then clean_schedules e m
      else case ValidateRRule (re e) (sched_RRule sc) of
          Inl err \<Rightarrow> Inl (name @ '': invalid schedule: '' @ err_text err)
        | Inr _ \<Rightarrow> (case clean_schedules e m of Inl msg \<Rightarrow> Inl msg | Inr m \<Rightarrow> Inr ((name, sc) # m)))"

definition handleSetMdadmSchedules :: "auth_env \<Rightarrow> request \<Rightarrow> unit act" where
  "handleSetMdadmSchedules e r =
     (case decode_schedules (rq_json r) of
        None \<Rightarrow> writeErr 400 ''bad request''
      | Some m \<Rightarrow>
          (case clean_schedules e m of
             Inl msg \<Rightarrow> writeErr 400 msg
           | Inr clean \<Rightarrow> do {
               res \<leftarrow> store_op (SaveMdadmSchedules clean);
               case res of Inl err \<Rightarrow> writeErr 500 (err_text err) | Inr _ \<Rightarrow> writeJSON 200 (with_zone e clean)
             }))"

section \<open>Event log\<close>

text \<open>\<^verbatim>\<open>n, _ := strconv.Atoi(s)\<close>: zero for what is no number, the nearest value for one that does not fit.\<close>

definition Atoi_ignoring :: "string \<Rightarrow> int" where
  "Atoi_ignoring s =
     (let (neg, ds) = (case s of
          c # t \<Rightarrow> if c = CHR ''-'' then (True, t) else if c = CHR ''+'' then (False, t) else (False, s)
        | [] \<Rightarrow> (False, []))
      in if ds = [] then 0
         else case digits_val 0 ds of
             None \<Rightarrow> 0
           | Some n \<Rightarrow> if neg then max (- int n) (- (2 ^ 63)) else min (int n) (2 ^ 63 - 1))"

definition handleListEvents :: "request \<Rightarrow> unit act" where
  "handleListEvents r = (let q = get_str (rq_query r) in do {
     page \<leftarrow> store_read (ListEvents \<lparr>q_Cursor = q ''cursor'', q_Limit = Atoi_ignoring (q ''limit''), q_Event = q ''event'',
       q_Container = q ''container'', q_Stack = q ''stack'', q_Search = q ''q''\<rparr>);
     case page of Inl err \<Rightarrow> writeErr 400 (err_text err) | Inr page \<Rightarrow> writeJSON 200 (REvents page)
   })"

section \<open>Notifications\<close>

text \<open>\<^verbatim>\<open>notifyReady\<close>: the handlers that need the notifier refuse when there is none.\<close>

definition notifyReady :: "(notifier \<Rightarrow> unit act) \<Rightarrow> unit act" where
  "notifyReady next = do {
     n \<leftarrow> gets w_notif;
     case n of None \<Rightarrow> writeErr 503 ''notifications unavailable'' | Some n \<Rightarrow> next n
   }"

definition handleGetNotifications :: "unit act" where
  "handleGetNotifications = notifyReady (\<lambda>n. do {
     cfg \<leftarrow> store_read (notifier_Config n);
     case cfg of Inl err \<Rightarrow> writeErr 500 (err_text err) | Inr cfg \<Rightarrow> writeJSON 200 (RNotifications cfg)
   })"

definition handlePutNotifications :: "auth_env \<Rightarrow> request \<Rightarrow> unit act" where
  "handlePutNotifications e r = notifyReady (\<lambda>n.
     case decode_notifications (rq_json r) of
       None \<Rightarrow> writeErr 400 ''bad request''
     | Some cfg \<Rightarrow> do {
         res \<leftarrow> store_op (SaveConfig (ne e) n cfg);
         case res of
           Inl err \<Rightarrow> if errors_Is err ErrEnvManaged then writeErr 409 (err_text err) else writeErr 400 (err_text err)
         | Inr _ \<Rightarrow> do {
             out \<leftarrow> store_read (notifier_Config n);
             case out of Inl err \<Rightarrow> writeErr 500 (err_text err) | Inr out \<Rightarrow> writeJSON 200 (RNotifications out)
           }
       })"

definition handleTestNotification :: "auth_env \<Rightarrow> request \<Rightarrow> unit act" where
  "handleTestNotification e r = notifyReady (\<lambda>n.
     case decode_test (rq_json r) of
       None \<Rightarrow> writeErr 400 ''bad request''
     | Some urls \<Rightarrow> do {
         res \<leftarrow> store_read (SendTest (ne e) n urls);
         case res of Inl err \<Rightarrow> writeErr 502 (err_text err) | Inr _ \<Rightarrow> writeJSON 200 ROk
       })"

end
