(* ===== verification/Server_Auth.thy ===== *)
theory Server_Auth
  imports Auth Oidc Server_Api
begin

text \<open>
  The HTTP handlers for accounts and the route table: the session middleware (\<^verbatim>\<open>internal/server/middleware.go\<close>),
  \<^verbatim>\<open>auth_handlers.go\<close>, \<^verbatim>\<open>oidc_handlers.go\<close> and the routes with their guards
  (\<^verbatim>\<open>server.go\<close>). A handler behind the middleware takes the authenticated
  user, which the code passes in the request context, as an argument.
\<close>

section \<open>Middleware\<close>

definition currentUser :: "auth_env \<Rightarrow> request \<Rightarrow> (user \<times> string) option act" where
  "currentUser e r = do {
     token \<leftarrow> req_cookie r SessionCookieName;
     case token of
       None \<Rightarrow> State_Monad.return None
     | Some token \<Rightarrow> do {
         u \<leftarrow> stamped e (\<lambda>now. SessionUser now token);
         State_Monad.return (case u of Inl _ \<Rightarrow> None | Inr u \<Rightarrow> Some (u, token))
       }
   }"

definition requireAuth :: "auth_env \<Rightarrow> (user \<Rightarrow> unit act) \<Rightarrow> request \<Rightarrow> unit act" where
  "requireAuth e next r = do {
     u \<leftarrow> currentUser e r;
     case u of
       None \<Rightarrow> writeErr 401 ''not authenticated''
     | Some (u, _) \<Rightarrow> next u
   }"

definition requireAdmin :: "auth_env \<Rightarrow> (user \<Rightarrow> unit act) \<Rightarrow> request \<Rightarrow> unit act" where
  "requireAdmin e next r = do {
     u \<leftarrow> currentUser e r;
     case u of
       None \<Rightarrow> writeErr 401 ''not authenticated''
     | Some (u, _) \<Rightarrow> if \<not> user_IsAdmin u then writeErr 403 ''admin only'' else next u
   }"

abbreviation ceremonyCookieName :: string where "ceremonyCookieName \<equiv> ''veery_ceremony''"
abbreviation inviteCookieName :: string where "inviteCookieName \<equiv> ''veery_invite''"
abbreviation oidcStateCookieName :: string where "oidcStateCookieName \<equiv> ''veery_oidc_state''"

text \<open>\<^verbatim>\<open>int(d.Seconds())\<close>: whole seconds, rounded towards zero.\<close>

definition whole_seconds :: "int \<Rightarrow> int" where
  "whole_seconds d = (if d \<ge> 0 then d div int sec else - ((- d) div int sec))"

definition setSessionCookie :: "auth_env \<Rightarrow> string \<Rightarrow> nat \<Rightarrow> unit act" where
  "setSessionCookie e token exp = do {
     now \<leftarrow> time_Now e;
     setCookie SessionCookieName token (whole_seconds (int exp - int now))
   }"

definition setCeremonyCookie :: "string \<Rightarrow> unit act" where
  "setCeremonyCookie cid = setCookie ceremonyCookieName cid 300"

definition ceremonyID :: "request \<Rightarrow> string res act" where
  "ceremonyID r = do {
     c \<leftarrow> req_cookie r ceremonyCookieName;
     State_Monad.return (case c of None \<Rightarrow> Inl (Errorf ''no ceremony in progress'') | Some cid \<Rightarrow> Inr cid)
   }"

definition isNotFound :: "err \<Rightarrow> bool" where
  "isNotFound err = errors_Is err ErrNotFound"

section \<open>Notifications and sessions\<close>

definition srv_notify :: "auth_env \<Rightarrow> notification_event \<Rightarrow> string \<Rightarrow> string \<Rightarrow> unit act" where
  "srv_notify e ev title body = do {
     n \<leftarrow> gets w_notif;
     case n of
       None \<Rightarrow> State_Monad.return ()
     | Some n \<Rightarrow> do {
         outs \<leftarrow> stamped e (\<lambda>now. Notify (ne e) n now ev title body None);
         upd (\<lambda>w. w\<lparr>w_outs := w_outs w @ outs\<rparr>)
       }
   }"

definition notifyAuth :: "auth_env \<Rightarrow> string \<Rightarrow> string \<Rightarrow> string \<Rightarrow> unit act" where
  "notifyAuth e title userID detail = do {
     u \<leftarrow> store_read (GetUser userID);
     srv_notify e EventAuth (title @ '': '' @ (case u of Inr u \<Rightarrow> user_Name u | Inl _ \<Rightarrow> userID)) detail
   }"

definition issueSession :: "auth_env \<Rightarrow> string \<Rightarrow> unit act" where
  "issueSession e userID = do {
     r \<leftarrow> NewSession e userID;
     case r of
       Inl _ \<Rightarrow> writeErr 500 ''session error''
     | Inr (token, exp) \<Rightarrow> setSessionCookie e token exp
   }"

section \<open>Passkey handlers (auth_handlers.go)\<close>

definition decode_enroll :: "json_body \<Rightarrow> (string \<times> string) option" where
  "decode_enroll = decode_as (\<lambda>b. case b of JEnroll token name \<Rightarrow> Some (token, name) | _ \<Rightarrow> None) ('''', '''')"

fun decode_invite :: "json_body \<Rightarrow> bool" where
  "decode_invite (JCreateInvite isAdmin) = isAdmin"
| "decode_invite _ = False"

definition handleRegisterBegin :: "auth_env \<Rightarrow> request \<Rightarrow> unit act" where
  "handleRegisterBegin e r =
     (case decode_enroll (rq_json r) of
        None \<Rightarrow> writeErr 400 ''bad request''
      | Some (token, name) \<Rightarrow> do {
          res \<leftarrow> BeginRegistration e token name;
          case res of
            Inl err \<Rightarrow> writeErr 400 (err_text err)
          | Inr (opts, cid, _) \<Rightarrow> do {
              _ \<leftarrow> setCeremonyCookie cid;
              _ \<leftarrow> setCookie inviteCookieName token 300;
              writeJSON 200 (ROptions opts)
            }
        })"

definition handleRegisterFinish :: "auth_env \<Rightarrow> request \<Rightarrow> unit act" where
  "handleRegisterFinish e r = do {
     cid \<leftarrow> ceremonyID r;
     case cid of
       Inl err \<Rightarrow> writeErr 400 (err_text err)
     | Inr cid \<Rightarrow> do {
         invite \<leftarrow> req_cookie r inviteCookieName;
         case invite of
           None \<Rightarrow> writeErr 400 ''no invite in progress''
         | Some invite \<Rightarrow> do {
             res \<leftarrow> FinishRegistration e cid invite (rq_body r);
             case res of
               Inl err \<Rightarrow> writeErr 400 (err_text err)
             | Inr userID \<Rightarrow> do {
                 _ \<leftarrow> notifyAuth e ''Passkey enrolled'' userID ''An invite link was redeemed and a passkey was enrolled.'';
                 _ \<leftarrow> issueSession e userID;
                 writeJSON 200 ROk
               }
           }
       }
   }"

definition handleAddDeviceBegin :: "auth_env \<Rightarrow> user \<Rightarrow> unit act" where
  "handleAddDeviceBegin e u = do {
     creds \<leftarrow> store_read (CredentialsByUser (user_ID u));
     case creds of
       Inl _ \<Rightarrow> writeErr 500 ''db error''
     | Inr creds \<Rightarrow> do {
         res \<leftarrow> BeginAddDevice e (user_ID u) (user_Name u) creds;
         case res of
           Inl err \<Rightarrow> writeErr 400 (err_text err)
         | Inr (opts, cid) \<Rightarrow> do { _ \<leftarrow> setCeremonyCookie cid; writeJSON 200 (ROptions opts) }
       }
   }"

definition handleAddDeviceFinish :: "auth_env \<Rightarrow> request \<Rightarrow> user \<Rightarrow> unit act" where
  "handleAddDeviceFinish e r u = do {
     cid \<leftarrow> ceremonyID r;
     case cid of
       Inl err \<Rightarrow> writeErr 400 (err_text err)
     | Inr cid \<Rightarrow> do {
         res \<leftarrow> FinishAddDevice e cid (user_ID u) (rq_body r);
         case res of
           Inl err \<Rightarrow> writeErr 400 (err_text err)
         | Inr _ \<Rightarrow> do {
             _ \<leftarrow> notifyAuth e ''Passkey added'' (user_ID u) ''An additional passkey was enrolled on this account.'';
             writeJSON 200 ROk
           }
       }
   }"

definition handleLoginBegin :: "auth_env \<Rightarrow> unit act" where
  "handleLoginBegin e = do {
     res \<leftarrow> BeginLogin e;
     case res of
       Inl err \<Rightarrow> writeErr 500 (err_text err)
     | Inr (opts, cid) \<Rightarrow> do { _ \<leftarrow> setCeremonyCookie cid; writeJSON 200 (ROptions opts) }
   }"

definition handleLoginFinish :: "auth_env \<Rightarrow> request \<Rightarrow> unit act" where
  "handleLoginFinish e r = do {
     cid \<leftarrow> ceremonyID r;
     case cid of
       Inl err \<Rightarrow> writeErr 400 (err_text err)
     | Inr cid \<Rightarrow> do {
         res \<leftarrow> FinishLogin e cid (rq_body r);
         case res of
           Inl err \<Rightarrow> writeErr 401 (err_text err)
         | Inr userID \<Rightarrow> do {
             _ \<leftarrow> notifyAuth e ''Signed in'' userID ''A passkey was used to sign in.'';
             _ \<leftarrow> issueSession e userID;
             writeJSON 200 ROk
           }
       }
   }"

definition handleLogout :: "auth_env \<Rightarrow> request \<Rightarrow> unit act" where
  "handleLogout e r = do {
     token \<leftarrow> req_cookie r SessionCookieName;
     _ \<leftarrow> (case token of
        None \<Rightarrow> State_Monad.return ()
      | Some token \<Rightarrow> do { _ \<leftarrow> store_op (DeleteSession token); State_Monad.return () });
     _ \<leftarrow> clearCookie SessionCookieName;
     writeJSON 200 ROk
   }"

definition handleMe :: "auth_env \<Rightarrow> user \<Rightarrow> unit act" where
  "handleMe e u = do {
     creds \<leftarrow> store_read (CredentialsByUser (user_ID u));
     case creds of
       Inl _ \<Rightarrow> writeErr 500 ''db error''
     | Inr creds \<Rightarrow> writeJSON 200 (RSession u (map (\<lambda>c. (cr_ID c, cr_Name c, cr_CreatedAt c)) creds))
   }"

section \<open>Invites and users\<close>

definition handleCreateInvite :: "auth_env \<Rightarrow> request \<Rightarrow> user \<Rightarrow> unit act" where
  "handleCreateInvite e r u = do {
     res \<leftarrow> NewInvite e (user_ID u) '''' (decode_invite (rq_json r));
     origin \<leftarrow> gets (\<lambda>w. cfg_Origin (w_cfg w));
     case res of
       Inl _ \<Rightarrow> writeErr 500 ''db error''
     | Inr (token, exp) \<Rightarrow> writeJSON 200 (RInvite
         \<lparr>inv_Token = token, inv_IsAdmin = decode_invite (rq_json r), inv_ExpiresAt = int (exp div sec),
          inv_UsedAt = 0, inv_URL = InviteURL origin token, inv_ForUserName = ''''\<rparr>)
   }"

definition invite_of_row :: "string \<Rightarrow> (string \<times> string) list \<Rightarrow> invite_row \<Rightarrow> invite" where
  "invite_of_row origin names iv =
     \<lparr>inv_Token = ir_Token iv, inv_IsAdmin = ir_IsAdmin iv, inv_ExpiresAt = ir_ExpiresAt iv,
      inv_UsedAt = ir_UsedAt iv, inv_URL = InviteURL origin (ir_Token iv),
      inv_ForUserName = get_str names (ForUser iv)\<rparr>"

definition handleListInvites :: "auth_env \<Rightarrow> unit act" where
  "handleListInvites e = do {
     now \<leftarrow> unix_Now e;
     rows \<leftarrow> store_read (ListPendingInvites now);
     us \<leftarrow> store_read ListUsers;
     origin \<leftarrow> gets (\<lambda>w. cfg_Origin (w_cfg w));
     case rows of
       Inl _ \<Rightarrow> writeErr 500 ''db error''
     | Inr rows \<Rightarrow>
         let names = (case us of Inl _ \<Rightarrow> [] | Inr us \<Rightarrow> rev (map (\<lambda>u. (user_ID u, user_Name u)) us))
         in writeJSON 200 (RInvites (map (invite_of_row origin names) rows))
   }"

definition handleResetUser :: "auth_env \<Rightarrow> request \<Rightarrow> unit act" where
  "handleResetUser e r = do {
     res \<leftarrow> store_read (GetUser (rq_path r));
     case res of
       Inl err \<Rightarrow> if isNotFound err then writeErr 404 ''user not found'' else writeErr 500 ''db error''
     | Inr u \<Rightarrow> do {
         res \<leftarrow> NewInvite e '''' (user_ID u) (user_IsAdmin u);
         origin \<leftarrow> gets (\<lambda>w. cfg_Origin (w_cfg w));
         case res of
           Inl _ \<Rightarrow> writeErr 500 ''db error''
         | Inr (token, exp) \<Rightarrow> writeJSON 200 (RInvite
             \<lparr>inv_Token = token, inv_IsAdmin = user_IsAdmin u, inv_ExpiresAt = int (exp div sec),
              inv_UsedAt = 0, inv_URL = InviteURL origin token, inv_ForUserName = user_Name u\<rparr>)
       }
   }"

definition handleRevokeInvite :: "auth_env \<Rightarrow> request \<Rightarrow> unit act" where
  "handleRevokeInvite e r = do {
     res \<leftarrow> store_op (DeleteInvite (rq_path r));
     case res of
       Inl err \<Rightarrow> if isNotFound err then writeErr 404 ''invite not found'' else writeErr 500 ''db error''
     | Inr _ \<Rightarrow> writeJSON 200 ROk
   }"

definition handleDeleteUser :: "auth_env \<Rightarrow> request \<Rightarrow> unit act" where
  "handleDeleteUser e r = do {
     res \<leftarrow> store_read (GetUser (rq_path r));
     case res of
       Inl err \<Rightarrow> if isNotFound err then writeErr 404 ''user not found'' else writeErr 500 ''db error''
     | Inr target \<Rightarrow> do {
         admins \<leftarrow> store_read CountAdmins;
         let refusal = (if user_IsAdmin target
             then (case admins of
                 Inl _ \<Rightarrow> Some (500, ''db error'')
               | Inr n \<Rightarrow> if n \<le> 1 then Some (400, ''cannot remove the last admin'') else None)
             else None);
         case refusal of
           Some (code, msg) \<Rightarrow> writeErr code msg
         | None \<Rightarrow> do {
             res \<leftarrow> store_op (DeleteUser (rq_path r));
             case res of
               Inl _ \<Rightarrow> writeErr 500 ''db error''
             | Inr _ \<Rightarrow> writeJSON 200 ROk
           }
       }
   }"

definition handleListUsers :: "auth_env \<Rightarrow> unit act" where
  "handleListUsers e = do {
     us \<leftarrow> store_read ListUsers;
     case us of Inl _ \<Rightarrow> writeErr 500 ''db error'' | Inr us \<Rightarrow> writeJSON 200 (RUsers us)
   }"

section \<open>OIDC handlers (oidc_handlers.go)\<close>

definition handleAuthProviders :: "auth_env \<Rightarrow> unit act" where
  "handleAuthProviders e = do {
     m \<leftarrow> gets w_oidc;
     writeJSON 200 (if oidc_Enabled m then RProviders True (oidc_Name m) else RProviders False '''')
   }"

definition handleOIDCStart :: "auth_env \<Rightarrow> unit act" where
  "handleOIDCStart e = do {
     m \<leftarrow> gets w_oidc;
     if \<not> oidc_Enabled m then writeErr 404 ''OIDC is not configured''
     else do {
       res \<leftarrow> oidc_Start e;
       case res of
         Inl _ \<Rightarrow> writeErr 502 ''could not reach the identity provider''
       | Inr (authURL, st) \<Rightarrow> do { _ \<leftarrow> setCookie oidcStateCookieName st 600; Redirect authURL 302 }
     }
   }"

definition validOIDCState :: "request \<Rightarrow> string \<Rightarrow> bool act" where
  "validOIDCState r st = do {
     want \<leftarrow> req_cookie r oidcStateCookieName;
     State_Monad.return (st \<noteq> '''' \<and> want = Some st)
   }"

definition clearOIDCStateCookie :: "unit act" where
  "clearOIDCStateCookie = clearCookie oidcStateCookieName"

definition redirectOIDCError :: "string \<Rightarrow> unit act" where
  "redirectOIDCError code = Redirect (''/login?error='' @ code) 302"

definition syncOIDCAdmin :: "user \<Rightarrow> identity \<Rightarrow> unit act" where
  "syncOIDCAdmin u ident = do {
     m \<leftarrow> gets w_oidc;
     admins \<leftarrow> store_read CountAdmins;
     let want = oidc_IsAdmin m (id_Groups ident);
     if \<not> HasAdminGroups m then State_Monad.return ()
     else if user_IsAdmin u = want then State_Monad.return ()
     else if \<not> want \<and> (case admins of Inl _ \<Rightarrow> False | Inr n \<Rightarrow> n \<le> 1) then State_Monad.return ()
     else do { _ \<leftarrow> store_op (SetUserAdmin (user_ID u) want); State_Monad.return () }
   }"

text \<open>\<^verbatim>\<open>resolveOIDCUser\<close> on an identity seen for the first time: a new user, and its link.\<close>

definition link_new_user :: "auth_env \<Rightarrow> identity \<Rightarrow> user \<Rightarrow> string res act" where
  "link_new_user e ident u = do {
     m \<leftarrow> gets w_oidc;
     rid \<leftarrow> randToken e 16;
     res \<leftarrow> stamped e (\<lambda>now. LinkOIDCIdentity now rid (user_ID u) (id_Issuer ident) (id_Subject ident) (id_Email ident));
     case res of
       Inl err \<Rightarrow> State_Monad.return (Inl err)
     | Inr _ \<Rightarrow> do {
         _ \<leftarrow> srv_notify e EventAuth (''Account created: '' @ user_Name u) (''First sign-in via '' @ oidc_Name m @ ''.'');
         State_Monad.return (Inr (user_ID u))
       }
   }"

definition provision :: "auth_env \<Rightarrow> identity \<Rightarrow> string res act" where
  "provision e ident = do {
     m \<leftarrow> gets w_oidc;
     n \<leftarrow> store_read CountUsers;
     uid \<leftarrow> randToken e 16;
     res \<leftarrow> stamped e (\<lambda>now. CreateUser now uid (if id_Name ident = '''' then id_Email ident else id_Name ident)
       (if n = Inr 0 then True else oidc_IsAdmin m (id_Groups ident)));
     case res of
       Inl err \<Rightarrow> State_Monad.return (Inl err)
     | Inr u \<Rightarrow> link_new_user e ident u
   }"

definition resolveOIDCUser :: "auth_env \<Rightarrow> identity \<Rightarrow> string res act" where
  "resolveOIDCUser e ident = do {
     link \<leftarrow> store_read (OIDCIdentityBySubject (id_Issuer ident) (id_Subject ident));
     case link of
       Inr link \<Rightarrow> do {
         u \<leftarrow> store_read (GetUser (oi_UserID link));
         case u of
           Inl err \<Rightarrow> State_Monad.return (Inl err)
         | Inr u \<Rightarrow> do { _ \<leftarrow> syncOIDCAdmin u ident; State_Monad.return (Inr (user_ID u)) }
       }
     | Inl err \<Rightarrow> if \<not> errors_Is err ErrNotFound then State_Monad.return (Inl err) else provision e ident
   }"

definition handleOIDCCallback :: "auth_env \<Rightarrow> request \<Rightarrow> unit act" where
  "handleOIDCCallback e r = do {
     m \<leftarrow> gets w_oidc;
     if \<not> oidc_Enabled m then writeErr 404 ''OIDC is not configured''
     else if get_str (rq_query r) ''error'' \<noteq> '''' then redirectOIDCError ''oidc_denied''
     else do {
       let st = get_str (rq_query r) ''state'';
       valid \<leftarrow> validOIDCState r st;
       if \<not> valid then redirectOIDCError ''oidc_state''
       else do {
         _ \<leftarrow> clearOIDCStateCookie;
         ident \<leftarrow> oidc_Finish e st (get_str (rq_query r) ''code'');
         case ident of
           Inl _ \<Rightarrow> redirectOIDCError ''oidc_failed''
         | Inr ident \<Rightarrow> do {
             uid \<leftarrow> resolveOIDCUser e ident;
             case uid of
               Inl _ \<Rightarrow> redirectOIDCError ''oidc_failed''
             | Inr uid \<Rightarrow> do {
                 _ \<leftarrow> notifyAuth e ''Signed in'' uid (''Signed in via '' @ oidc_Name m @ ''.'');
                 _ \<leftarrow> issueSession e uid;
                 Redirect ''/'' 302
               }
           }
       }
     }
   }"

section \<open>The route table (server.go)\<close>

text \<open>All routes but those of the Docker manager, the live push and the static files.\<close>

datatype endpoint =
    RegisterBegin | RegisterFinish | DeviceBegin | DeviceFinish | LoginBegin | LoginFinish | Logout | Me
  | Providers | OIDCStart | OIDCCallback
  | ListInvites | CreateInviteEp | RevokeInvite | ListUsersEp | DeleteUserEp | ResetUser
  | SetAutoUpdateEp | GetSettings | PutSettings | ListDisks | PutDisks
  | StartMdadmScan | GetMdadmSchedules | PutMdadmSchedules | ListEventsEp
  | GetNotifications | PutNotifications | TestNotification

fun serve :: "auth_env \<Rightarrow> endpoint \<Rightarrow> request \<Rightarrow> unit act" where
  "serve e RegisterBegin r = handleRegisterBegin e r"
| "serve e RegisterFinish r = handleRegisterFinish e r"
| "serve e DeviceBegin r = requireAuth e (handleAddDeviceBegin e) r"
| "serve e DeviceFinish r = requireAuth e (handleAddDeviceFinish e r) r"
| "serve e LoginBegin r = handleLoginBegin e"
| "serve e LoginFinish r = handleLoginFinish e r"
| "serve e Logout r = handleLogout e r"
| "serve e Me r = requireAuth e (handleMe e) r"
| "serve e Providers r = handleAuthProviders e"
| "serve e OIDCStart r = handleOIDCStart e"
| "serve e OIDCCallback r = handleOIDCCallback e r"
| "serve e ListInvites r = requireAdmin e (\<lambda>_. handleListInvites e) r"
| "serve e CreateInviteEp r = requireAdmin e (handleCreateInvite e r) r"
| "serve e RevokeInvite r = requireAdmin e (\<lambda>_. handleRevokeInvite e r) r"
| "serve e ListUsersEp r = requireAdmin e (\<lambda>_. handleListUsers e) r"
| "serve e DeleteUserEp r = requireAdmin e (\<lambda>_. handleDeleteUser e r) r"
| "serve e ResetUser r = requireAdmin e (\<lambda>_. handleResetUser e r) r"
| "serve e SetAutoUpdateEp r = requireAuth e (\<lambda>_. handleSetAutoUpdate r) r"
| "serve e GetSettings r = requireAuth e (\<lambda>_. handleGetSettings) r"
| "serve e PutSettings r = requireAuth e (\<lambda>_. handlePutSettings r) r"
| "serve e ListDisks r = requireAuth e (\<lambda>_. handleListDisks e) r"
| "serve e PutDisks r = requireAuth e (\<lambda>_. handleSetDiskVisibility e r) r"
| "serve e StartMdadmScan r =
     requireAdmin e (\<lambda>_. handleStartMdadmScan e (\<lambda>(ev, title, body). srv_notify e ev title body) r) r"
| "serve e GetMdadmSchedules r = requireAdmin e (\<lambda>_. handleGetMdadmSchedules e) r"
| "serve e PutMdadmSchedules r = requireAdmin e (\<lambda>_. handleSetMdadmSchedules e r) r"
| "serve e ListEventsEp r = requireAdmin e (\<lambda>_. handleListEvents r) r"
| "serve e GetNotifications r = requireAdmin e (\<lambda>_. handleGetNotifications) r"
| "serve e PutNotifications r = requireAdmin e (\<lambda>_. handlePutNotifications e r) r"
| "serve e TestNotification r = requireAdmin e (\<lambda>_. handleTestNotification e r) r"

text \<open>One request, answered from a fresh response.\<close>

definition handle_request :: "auth_env \<Rightarrow> endpoint \<Rightarrow> request \<Rightarrow> world \<Rightarrow> world" where
  "handle_request e ep r w = snd (run_state (serve e ep r) (w\<lparr>w_rw := fresh_response\<rparr>))"

inductive reachable :: "auth_env \<Rightarrow> world \<Rightarrow> world \<Rightarrow> bool" for e w0 where
  start: "reachable e w0 w0"
| request: "reachable e w0 w \<Longrightarrow> reachable e w0 (handle_request e ep r w)"

inductive_cases reachable_cases: "reachable e w0 w"

end
