(* ===== verification/Server_Safety.thy ===== *)
theory Server_Safety
  imports Server_Auth
begin

text \<open>
  What holds across any sequence of requests. A property of the database that every
  statement keeps is kept by every handler: this is proved once, in the locale
  \<open>account_invariant\<close>, and used for the integrity of the tables, for the presence of an admin, for
  used invites and for ended sessions.
\<close>

section \<open>Statements that may remove an admin\<close>

definition other_admin :: "string \<Rightarrow> store \<Rightarrow> bool" where
  "other_admin uid s \<longleftrightarrow> (\<exists>u \<in> set (users s). user_IsAdmin u \<and> user_ID u \<noteq> uid)"

definition not_admin :: "string \<Rightarrow> store \<Rightarrow> bool" where
  "not_admin uid s \<longleftrightarrow> (\<forall>u \<in> set (users s). user_ID u = uid \<longrightarrow> \<not> user_IsAdmin u)"

lemma two_admins_other:
  assumes "distinct (map user_ID (users s))" "length (filter user_IsAdmin (users s)) > 1"
  shows "other_admin uid s"
proof (rule ccontr)
  assume "\<not> other_admin uid s"
  then have "set (filter user_IsAdmin (users s)) \<subseteq> {u. user_ID u = uid}"
    by (auto simp: other_admin_def)
  moreover have "distinct (map user_ID (filter user_IsAdmin (users s)))"
    using assms(1) by (rule distinct_map_filter)
  ultimately have "length (filter user_IsAdmin (users s)) \<le> 1"
    by (cases "filter user_IsAdmin (users s)"; cases "tl (filter user_IsAdmin (users s))") auto
  with assms(2) show False by simp
qed

lemma GetUser_unique:
  assumes "distinct (map user_ID (users s))" "GetUser uid s = Inr u"
  shows "u \<in> set (users s) \<and> user_ID u = uid \<and> (\<forall>v \<in> set (users s). user_ID v = uid \<longrightarrow> v = u)"
proof -
  have u: "u \<in> set (users s)" "user_ID u = uid"
    using assms(2) by (auto simp: GetUser_def find_Some_iff split: if_splits option.splits)
  with assms(1) show ?thesis by (auto simp: distinct_map inj_on_def)
qed

lemma accounts_distinct: "accounts_ok s \<Longrightarrow> distinct (map user_ID (users s))"
  by (simp add: accounts_ok_def account_keys_def)

section \<open>Statements on the settings\<close>

definition settings_only :: "'a \<times> store \<Rightarrow> store \<Rightarrow> bool" where
  "settings_only rs s \<longleftrightarrow> (\<exists>t. snd rs = s\<lparr>settings_tbl := t\<rparr>)"

lemma accounts_ok_settings [simp]:
  "accounts_ok (s\<lparr>settings_tbl := t\<rparr>) = accounts_ok s" "accounts_ok (s\<lparr>managed := ms\<rparr>) = accounts_ok s"
  by (simp_all add: accounts_ok_def account_keys_def account_refs_def user_ids_def)

lemma settings_only_same: "settings_only (r, s) s"
  unfolding settings_only_def by (rule exI [of _ "settings_tbl s"]) simp

lemma settings_only_Set: "settings_only (SetSetting k v s) s"
  using settings_only_same by (auto simp: SetSetting_def settings_only_def)

lemma settings_only_then:
  "\<lbrakk>settings_only p s; \<And>s. settings_only (f s) s\<rbrakk> \<Longrightarrow> settings_only (and_then p f) s"
proof -
  assume p: "settings_only p s" and f: "\<And>s. settings_only (f s) s"
  obtain r s1 t where p1: "p = (r, s1)" "s1 = s\<lparr>settings_tbl := t\<rparr>" using p by (cases p) (auto simp: settings_only_def)
  obtain t' where "snd (f s1) = s1\<lparr>settings_tbl := t'\<rparr>" using f [of s1] by (auto simp: settings_only_def)
  with p1 show ?thesis by (cases r) (auto simp: settings_only_def)
qed

lemma settings_only_save:
  "settings_only (SaveSettings cfg s) s" "settings_only (SaveDiskVisibility vis s) s"
  "settings_only (SaveMdadmSchedules m s) s" "settings_only (SaveConfig ee n nc s) s"
proof -
  show vis: "settings_only (SaveDiskVisibility vis s) s" for vis s
    by (simp add: SaveDiskVisibility_def setJSON_def settings_only_Set)
  show "settings_only (SaveMdadmSchedules m s) s"
    by (simp add: SaveMdadmSchedules_def setJSON_def settings_only_Set)
  have "settings_only (case set_DiskVisibility cfg of None \<Rightarrow> (Inr (), s) | Some vis \<Rightarrow> SaveDiskVisibility vis s) s" for s
    by (cases "set_DiskVisibility cfg") (simp_all add: settings_only_same vis)
  then show "settings_only (SaveSettings cfg s) s"
    unfolding SaveSettings_def by (intro settings_only_then settings_only_Set)
  show "settings_only (SaveConfig ee n nc s) s"
    by (auto simp: SaveConfig_def SaveNotificationConfig_def setJSON_def settings_only_same Let_def
        intro!: settings_only_then settings_only_Set split: sum.splits)
qed

lemma recordFailure_store: "rw_store (snd (recordFailure e name prev err sch now w)) = rw_store w"
  by (simp add: recordFailure_def raid_notify_def Let_def)

lemma StartScan_store: "\<exists>t. rw_store (snd (StartScan e name now w)) = (rw_store w)\<lparr>settings_tbl := t\<rparr>"
proof -
  have same: "\<exists>t. s = s\<lparr>settings_tbl := t\<rparr>" for s :: store by (rule exI [of _ "settings_tbl s"]) simp
  have save: "\<exists>t. snd (SaveMdadmScanFailures m s) = s\<lparr>settings_tbl := t\<rparr>" for m s
    using settings_only_Set [of "''mdadm_scan_failures''" "JFailures m" s]
    by (simp add: SaveMdadmScanFailures_def setJSON_def settings_only_def)
  have rec: "\<exists>t. rw_store (snd (record_start e name r now w)) = (rw_store w)\<lparr>settings_tbl := t\<rparr>" for r w
    using save same by (auto simp: record_start_def case_prod_unfold recordFailure_store split: sum.splits)
  show ?thesis
    using same rec [of "fst (rw_start e name (rw_host w))" "w\<lparr>rw_host := snd (rw_start e name (rw_host w))\<rparr>"]
    by (simp add: StartScan_def case_prod_unfold)
qed

section \<open>The contract\<close>

text \<open>
  \<open>P\<close> is kept by every statement the handlers make. Creating an invite or a session is only asked
  to keep it for the tokens that \<open>inv_tok\<close> and \<open>ses_tok\<close> allow, and those are the tokens drawn from
  draw number \<open>d0\<close> on; deleting a user only when the user
  is no admin or another admin remains; taking admin rights away only when another admin remains or
  the admins could not be counted.
\<close>

locale account_invariant =
  fixes P :: "store \<Rightarrow> bool" and inv_tok :: "string \<Rightarrow> bool" and ses_tok :: "string \<Rightarrow> bool"
    and d0 :: nat
  assumes P_CreateUser: "\<lbrakk>accounts_ok s; P s\<rbrakk> \<Longrightarrow> P (snd (CreateUser now uid name adm s))"
    and P_AddCredential: "\<lbrakk>accounts_ok s; P s\<rbrakk> \<Longrightarrow> P (snd (AddCredential c s))"
    and P_UpdateSignCount: "\<lbrakk>accounts_ok s; P s\<rbrakk> \<Longrightarrow> P (snd (UpdateSignCount cid k s))"
    and P_CreateInvite: "\<lbrakk>accounts_ok s; P s; inv_tok tok\<rbrakk> \<Longrightarrow> P (snd (CreateInvite now tok by fu adm x s))"
    and P_ConsumeInvite: "\<lbrakk>accounts_ok s; P s\<rbrakk> \<Longrightarrow> P (snd (ConsumeInvite now tok s))"
    and P_DeleteInvite: "\<lbrakk>accounts_ok s; P s\<rbrakk> \<Longrightarrow> P (snd (DeleteInvite tok s))"
    and P_CreateSession: "\<lbrakk>accounts_ok s; P s; ses_tok tok\<rbrakk> \<Longrightarrow> P (snd (CreateSession now tok uid x s))"
    and P_DeleteSession: "\<lbrakk>accounts_ok s; P s\<rbrakk> \<Longrightarrow> P (snd (DeleteSession tok s))"
    and P_Link: "\<lbrakk>accounts_ok s; P s\<rbrakk> \<Longrightarrow> P (snd (LinkOIDCIdentity now rid uid iss sub em s))"
    and P_settings: "\<lbrakk>accounts_ok s; P s\<rbrakk> \<Longrightarrow> P (s\<lparr>settings_tbl := tbl\<rparr>)"
    and P_managed: "\<lbrakk>accounts_ok s; P s\<rbrakk> \<Longrightarrow> P (s\<lparr>managed := ms\<rparr>)"
    and P_events: "\<lbrakk>accounts_ok s; P s\<rbrakk> \<Longrightarrow> P (snd (record_event ee n now ev t b m s))"
    and P_DeleteUser: "\<lbrakk>accounts_ok s; P s; not_admin uid s \<or> other_admin uid s\<rbrakk> \<Longrightarrow> P (snd (DeleteUser uid s))"
    and P_promote: "\<lbrakk>accounts_ok s; P s\<rbrakk> \<Longrightarrow> P (snd (SetUserAdmin uid True s))"
    and P_demote: "\<lbrakk>accounts_ok s; P s; other_admin uid s \<or> db_fault s ''CountAdmins''\<rbrakk>
      \<Longrightarrow> P (snd (SetUserAdmin uid False s))"
begin

definition Inv :: "world \<Rightarrow> bool" where
  "Inv w \<longleftrightarrow> accounts_ok (w_st w) \<and> P (w_st w) \<and> d0 \<le> w_draws w"

definition keeps :: "'a act \<Rightarrow> bool" where
  "keeps f \<longleftrightarrow> triple Inv f (\<lambda>_. Inv)"

lemma keepsD: "\<lbrakk>keeps f; Inv w\<rbrakk> \<Longrightarrow> Inv (snd (run_state f w))"
  unfolding keeps_def by (cases "run_state f w") (auto dest: tripleD)

lemma keepsI: "(\<And>w. Inv w \<Longrightarrow> Inv (snd (run_state f w))) \<Longrightarrow> keeps f"
  unfolding keeps_def by (rule tripleI) (metis snd_conv)

lemma keeps_return: "keeps (State_Monad.return x)"
  unfolding keeps_def by (rule triple_return)

lemma keeps_bind: "\<lbrakk>keeps f; \<And>a. keeps (g a)\<rbrakk> \<Longrightarrow> keeps (State_Monad.bind f g)"
  unfolding keeps_def by (rule triple_bind)

lemma keeps_if: "\<lbrakk>b \<Longrightarrow> keeps f; \<not> b \<Longrightarrow> keeps g\<rbrakk> \<Longrightarrow> keeps (if b then f else g)"
  by simp

lemma keeps_sum: "\<lbrakk>\<And>x. keeps (f x); \<And>y. keeps (g y)\<rbrakk> \<Longrightarrow> keeps (case r of Inl x \<Rightarrow> f x | Inr y \<Rightarrow> g y)"
  by (cases r) auto

lemma keeps_option: "\<lbrakk>keeps f; \<And>y. keeps (g y)\<rbrakk> \<Longrightarrow> keeps (case r of None \<Rightarrow> f | Some y \<Rightarrow> g y)"
  by (cases r) auto

lemma keeps_prod: "(\<And>x y. keeps (f x y)) \<Longrightarrow> keeps (case p of (x, y) \<Rightarrow> f x y)"
  by (cases p) auto

lemma keeps_Let: "keeps (f x) \<Longrightarrow> keeps (let y = x in f y)"
  by simp

lemma keeps_gets: "keeps (gets f)" "keeps (store_read g)"
  by (simp_all add: keepsI)

lemma keeps_upd: "(\<And>w. w_st (f w) = w_st w \<and> w_draws (f w) = w_draws w) \<Longrightarrow> keeps (upd f)"
  by (rule keepsI) (simp add: Inv_def)

lemma keeps_clock: "keeps (time_Now e)" "keeps (unix_Now e)" "keeps (lib f)" "keeps (randToken e n)"
  by (rule keepsI, simp add: Inv_def randToken_def)+

lemma keeps_stamped:
  "(\<And>now s. \<lbrakk>accounts_ok s; P s\<rbrakk> \<Longrightarrow> accounts_ok (snd (f now s)) \<and> P (snd (f now s))) \<Longrightarrow> keeps (stamped e f)"
  by (rule keepsI) (simp add: stamped_def Inv_def case_prod_unfold)

lemma keeps_store_op:
  "(\<And>s. \<lbrakk>accounts_ok s; P s\<rbrakk> \<Longrightarrow> accounts_ok (snd (f s)) \<and> P (snd (f s))) \<Longrightarrow> keeps (store_op f)"
  by (rule keepsI) (simp add: Inv_def case_prod_unfold)

lemma keeps_response:
  "keeps (WriteHeader c)" "keeps (writeJSON c v)" "keeps (writeErr c t)" "keeps (Redirect u c)"
  "keeps (setCookie base val age)" "keeps (clearCookie base)" "keeps (setCeremonyCookie cid)"
  "keeps (redirectOIDCError t)" "keeps clearOIDCStateCookie"
  by (simp_all add: WriteHeader_def writeJSON_def writeErr_def Redirect_def setCookie_def clearCookie_def
      setCeremonyCookie_def redirectOIDCError_def clearOIDCStateCookie_def keeps_bind keeps_upd)

lemmas keep_rules = keeps_return keeps_bind keeps_if keeps_sum keeps_option keeps_prod keeps_Let
  keeps_gets keeps_clock keeps_response

lemma keeps_request_reads: "keeps (req_cookie r b)" "keeps (ceremonyID r)" "keeps (validOIDCState r st)"
  unfolding req_cookie_def ceremonyID_def validOIDCState_def by (intro keep_rules)+

section \<open>The operations keep the invariant\<close>

lemma keeps_put: "keeps (put e c)"
  unfolding put_def by (intro keep_rules keeps_upd) simp

lemma keeps_take_op: "keeps (take_op e cid)"
proof -
  have "keeps (State (\<lambda>w. case take_ceremony now cid (w_ceremonies w) of (c, t) \<Rightarrow> (c, w\<lparr>w_ceremonies := t\<rparr>)))" for now
    by (rule keepsI) (simp add: Inv_def split: prod.splits)
  then show ?thesis unfolding take_op_def by (intro keep_rules)
qed

lemma keeps_takeFlow: "keeps (takeFlow e st)"
  by (rule keepsI) (simp add: Inv_def)

lemma keeps_discover: "keeps (discover e)"
  by (rule keepsI) (simp add: Inv_def order_trans [OF _ draws_mono(1)])

lemma keeps_begin:
  "keeps (beginRecoveryRegistration e uid)" "keeps (BeginRegistration e tok name)"
  "keeps (BeginAddDevice e uid name creds)" "keeps (BeginLogin e)"
proof -
  show r: "keeps (beginRecoveryRegistration e uid)" for uid
    unfolding beginRecoveryRegistration_def by (intro keep_rules keeps_put)
  show "keeps (BeginRegistration e tok name)"
    unfolding BeginRegistration_def by (intro keep_rules keeps_put r)
  show "keeps (BeginAddDevice e uid name creds)"
    unfolding BeginAddDevice_def by (intro keep_rules keeps_put)
  show "keeps (BeginLogin e)"
    unfolding BeginLogin_def by (intro keep_rules keeps_put)
qed

lemma keeps_store_credential: "keeps (store_credential e uid cred)"
  unfolding store_credential_def by (intro keep_rules keeps_store_op) (simp add: P_AddCredential)

lemma keeps_enroll_user: "keeps (enroll_user e cer cred)"
  unfolding enroll_user_def
  by (intro keep_rules keeps_stamped keeps_store_credential) (simp add: P_CreateUser)

lemma keeps_finish:
  "keeps (FinishRegistration e cid tok body)" "keeps (FinishAddDevice e cid uid body)"
  "keeps (FinishLogin e cid body)"
proof -
  have "keeps (enroll e cer tok cred)" for cer cred
    unfolding enroll_def
    by (intro keep_rules keeps_stamped keeps_enroll_user) (simp add: P_ConsumeInvite)
  then show "keeps (FinishRegistration e cid tok body)"
    unfolding FinishRegistration_def by (intro keep_rules keeps_take_op)
  show "keeps (FinishAddDevice e cid uid body)"
    unfolding FinishAddDevice_def by (intro keep_rules keeps_take_op keeps_store_credential)
  show "keeps (FinishLogin e cid body)"
    unfolding FinishLogin_def
    by (intro keep_rules keeps_take_op keeps_store_op) (simp add: P_UpdateSignCount)
qed

lemma keeps_currentUser: "keeps (currentUser e r)"
proof -
  have "P (snd (SessionUser now t s))" if "accounts_ok s" "P s" for now t s
    using that by (auto simp: SessionUser_def P_DeleteSession split: option.splits)
  then show ?thesis
    unfolding currentUser_def by (intro keep_rules keeps_request_reads keeps_stamped) simp
qed

lemma keeps_guards:
  assumes "\<And>u. keeps (h u)"
  shows "keeps (requireAuth e h r)" "keeps (requireAdmin e h r)"
  unfolding requireAuth_def requireAdmin_def by (intro keep_rules keeps_currentUser assms)+

lemma accounts_ok_record [simp]: "accounts_ok s \<Longrightarrow> accounts_ok (snd (record_event ee n now ev t b m s))"
  by (simp add: accounts_ok_def account_keys_def account_refs_def user_ids_def)

lemma keeps_srv_notify: "keeps (srv_notify e ev t b)" "keeps (notifyAuth e t uid d)"
proof -
  show n: "keeps (srv_notify e ev t b)" for ev t b
    unfolding srv_notify_def by (intro keep_rules keeps_stamped keeps_upd) (simp_all add: P_events)
  show "keeps (notifyAuth e t uid d)"
    unfolding notifyAuth_def by (intro keep_rules n)
qed

text \<open>What follows a draw only ever sees tokens of the random source.\<close>

lemma keeps_bind_lib:
  assumes "\<And>k. d0 \<le> k \<Longrightarrow> keeps (g (f k))"
  shows "keeps (State_Monad.bind (lib f) g)"
proof (rule keepsI)
  fix w assume "Inv w"
  then have "Inv (w\<lparr>w_draws := Suc (w_draws w)\<rparr>)" "d0 \<le> w_draws w" by (simp_all add: Inv_def)
  from keepsD [OF assms [OF this(2)] this(1)] show "Inv (snd (run_state (State_Monad.bind (lib f) g) w))" by simp
qed

lemma keeps_NewInvite:
  assumes "\<And>k. d0 \<le> k \<Longrightarrow> inv_tok (rand_token e k 24)"
  shows "keeps (NewInvite e by fu adm)"
proof -
  have "keeps (stamped e (\<lambda>now. CreateInvite now (rand_token e k 24) by fu adm x))" if "d0 \<le> k" for k x
    by (rule keeps_stamped) (simp add: P_CreateInvite assms that)
  then show ?thesis
    unfolding NewInvite_def randToken_def
    by (intro keeps_bind_lib) (intro keep_rules; simp)
qed

lemma keeps_NewSession:
  assumes "\<And>k. d0 \<le> k \<Longrightarrow> ses_tok (rand_token e k 32)"
  shows "keeps (NewSession e uid)"
proof -
  have "keeps (stamped e (\<lambda>now. CreateSession now (rand_token e k 32) uid x))" if "d0 \<le> k" for k x
    by (rule keeps_stamped) (simp add: P_CreateSession assms that)
  then show ?thesis
    unfolding NewSession_def randToken_def
    by (intro keeps_bind_lib) (intro keep_rules; simp)
qed

lemma keeps_handleDeleteUser: "keeps (handleDeleteUser e r)"
proof (rule keepsI)
  fix w assume I: "Inv w"
  let ?uid = "rq_path r"
  have done_: "Inv (snd (run_state (case res of Inl _ \<Rightarrow> writeErr 500 ''db error'' | Inr _ \<Rightarrow> writeJSON 200 ROk) w'))"
    if "Inv w'" for res :: "unit res" and w'
    using that by (intro keepsD keep_rules)
  have del: "Inv (w\<lparr>w_st := snd (DeleteUser ?uid (w_st w))\<rparr>)"
    if "not_admin ?uid (w_st w) \<or> other_admin ?uid (w_st w)"
    using I that by (simp add: Inv_def P_DeleteUser)
  have guard: "not_admin ?uid (w_st w) \<or> other_admin ?uid (w_st w)"
    if "GetUser ?uid (w_st w) = Inr u" "user_IsAdmin u \<longrightarrow> (\<exists>n. CountAdmins (w_st w) = Inr n \<and> n > 1)" for u
  proof (cases "user_IsAdmin u")
    case True
    with that have "length (filter user_IsAdmin (users (w_st w))) > 1"
      by (auto simp: CountAdmins_def split: if_splits)
    with I show ?thesis by (simp add: Inv_def accounts_distinct two_admins_other)
  next
    case False
    with that GetUser_unique [OF accounts_distinct that(1)] I show ?thesis
      by (auto simp: Inv_def not_admin_def)
  qed
  have step: "Inv (snd (run_state (do { res \<leftarrow> store_op (DeleteUser ?uid);
      case res of Inl _ \<Rightarrow> writeErr 500 ''db error'' | Inr _ \<Rightarrow> writeJSON 200 ROk }) w))"
    if "not_admin ?uid (w_st w) \<or> other_admin ?uid (w_st w)"
    using done_ [OF del [OF that]] by (simp add: case_prod_unfold)
  show "Inv (snd (run_state (handleDeleteUser e r) w))"
  proof (cases "GetUser ?uid (w_st w)")
    case (Inl err)
    then show ?thesis using I by (auto simp: handleDeleteUser_def intro!: keepsD keep_rules)
  next
    case (Inr u)
    show ?thesis
    proof (cases "user_IsAdmin u \<longrightarrow> (\<exists>n. CountAdmins (w_st w) = Inr n \<and> n > 1)")
      case True
      then show ?thesis using step [OF guard [OF Inr True]]
        by (auto simp: handleDeleteUser_def Inr Let_def split: if_splits)
    next
      case False
      then show ?thesis using I Inr
        by (auto simp: handleDeleteUser_def Let_def intro!: keepsD keep_rules split: sum.splits if_splits)
    qed
  qed
qed

lemma keeps_syncOIDCAdmin: "keeps (syncOIDCAdmin u ident)"
proof (rule keepsI)
  fix w assume I: "Inv w"
  have ok: "Inv (w\<lparr>w_st := snd (SetUserAdmin (user_ID u) want (w_st w))\<rparr>)"
    if "\<not> (\<not> want \<and> (case CountAdmins (w_st w) of Inl _ \<Rightarrow> False | Inr n \<Rightarrow> n \<le> 1))" for want
  proof (cases want)
    case True
    with I show ?thesis by (simp add: Inv_def P_promote)
  next
    case False
    have "other_admin (user_ID u) (w_st w) \<or> db_fault (w_st w) ''CountAdmins''"
      using that False I two_admins_other [of "w_st w"]
      by (auto simp: CountAdmins_def Inv_def accounts_distinct split: if_splits)
    with I False show ?thesis by (simp add: Inv_def P_demote)
  qed
  show "Inv (snd (run_state (syncOIDCAdmin u ident) w))"
    using I ok [of "oidc_IsAdmin (w_oidc w) (id_Groups ident)"]
    by (simp add: syncOIDCAdmin_def Let_def case_prod_unfold)
qed

lemma keeps_settings_op: "(\<And>s. settings_only (f s) s) \<Longrightarrow> keeps (store_op f)"
  by (rule keeps_store_op) (metis P_settings accounts_ok_settings(1) settings_only_def)

lemma keeps_api:
  "keeps handleGetSettings" "keeps (handlePutSettings r)" "keeps (handleListDisks e)" "keeps (handleSetDiskVisibility e r)"
  "keeps (handleSetAutoUpdate r)" "keeps (handleGetMdadmSchedules e)" "keeps (handleSetMdadmSchedules e r)"
  "keeps (handleListEvents r)" "keeps handleGetNotifications" "keeps (handlePutNotifications e r)"
  "keeps (handleTestNotification e r)"
proof -
  show d: "keeps (handleListDisks e)"
    unfolding handleListDisks_def by (intro keep_rules)
  show "keeps handleGetSettings" "keeps (handlePutSettings r)" "keeps (handleSetDiskVisibility e r)"
    unfolding handleGetSettings_def handlePutSettings_def handleSetDiskVisibility_def
    by (intro keep_rules keeps_settings_op settings_only_save d)+
  show "keeps (handleSetAutoUpdate r)"
    unfolding handleSetAutoUpdate_def
    by (intro keep_rules keeps_store_op) (auto simp: SetAutoUpdate_def P_managed accounts_ok_settings)
  show "keeps (handleGetMdadmSchedules e)" "keeps (handleSetMdadmSchedules e r)" "keeps (handleListEvents r)"
    unfolding handleGetMdadmSchedules_def handleSetMdadmSchedules_def handleListEvents_def
    by (intro keep_rules keeps_settings_op settings_only_save)+
  show "keeps handleGetNotifications" "keeps (handlePutNotifications e r)" "keeps (handleTestNotification e r)"
    unfolding handleGetNotifications_def handlePutNotifications_def handleTestNotification_def notifyReady_def
    by (intro keep_rules keeps_settings_op settings_only_save)+
qed

lemma keeps_raid: "keeps (handleStartMdadmScan e (\<lambda>(ev, title, body). srv_notify e ev title body) r)"
proof -
  let ?n = "\<lambda>(ev, title, body). srv_notify e ev title body"
  have each: "keeps (notify_each ?n ms)" for ms
    by (induction ms) (auto intro!: keep_rules keeps_srv_notify split: prod.splits)
  have "keeps (State (\<lambda>w. case StartScan ((re e)\<lparr>rw_notif := True\<rparr>) name now
      \<lparr>rw_store = w_st w, rw_host = w_host w, rw_msgs = []\<rparr> of
        (res, rw) \<Rightarrow> ((res, rw_msgs rw), w\<lparr>w_st := rw_store rw, w_host := rw_host rw\<rparr>)))" for name now
  proof (rule keepsI)
    fix w assume I: "Inv w"
    let ?rw = "snd (StartScan ((re e)\<lparr>rw_notif := True\<rparr>) name now \<lparr>rw_store = w_st w, rw_host = w_host w, rw_msgs = []\<rparr>)"
    obtain t where "rw_store ?rw = (w_st w)\<lparr>settings_tbl := t\<rparr>"
      using StartScan_store [of "(re e)\<lparr>rw_notif := True\<rparr>" name now "\<lparr>rw_store = w_st w, rw_host = w_host w, rw_msgs = []\<rparr>"] by auto
    with I show "Inv (snd (run_state (State (\<lambda>w. case StartScan ((re e)\<lparr>rw_notif := True\<rparr>) name now
      \<lparr>rw_store = w_st w, rw_host = w_host w, rw_msgs = []\<rparr> of
        (res, rw) \<Rightarrow> ((res, rw_msgs rw), w\<lparr>w_st := rw_store rw, w_host := rw_host rw\<rparr>))) w))"
      by (simp add: Inv_def case_prod_unfold P_settings accounts_ok_settings)
  qed
  then have start: "keeps (raid_Start e name)" for name
    unfolding raid_Start_def by (intro keep_rules)
  have bare: "keeps (bare_start e name)" for name
    by (rule keepsI) (simp add: bare_start_def Inv_def case_prod_unfold)
  show ?thesis
    unfolding handleStartMdadmScan_def by (intro keep_rules start bare each)
qed

lemma keeps_resolve: "keeps (resolveOIDCUser e ident)"
proof -
  have "keeps (provision e ident)"
    unfolding provision_def link_new_user_def
    by (intro keep_rules keeps_stamped keeps_srv_notify) (simp_all add: P_CreateUser P_Link)
  then show ?thesis
    unfolding resolveOIDCUser_def by (intro keep_rules keeps_syncOIDCAdmin)
qed

lemma keeps_oidc: "keeps (oidc_Start e)" "keeps (oidc_Finish e st code)"
proof -
  show "keeps (oidc_Start e)"
    unfolding oidc_Start_def by (intro keep_rules keeps_discover keeps_upd) simp
  have "keeps (accept_token e p f tok it)" for p f tok it
    by (rule keepsI) (simp add: Inv_def order_trans [OF _ draws_mono(2)])
  then show "keeps (oidc_Finish e st code)"
    unfolding oidc_Finish_def by (intro keep_rules keeps_takeFlow keeps_discover)
qed

lemma keeps_serve:
  assumes "\<And>k. d0 \<le> k \<Longrightarrow> inv_tok (rand_token e k 24)" "\<And>k. d0 \<le> k \<Longrightarrow> ses_tok (rand_token e k 32)"
  shows "keeps (serve e ep r)"
proof -
  have new: "keeps (NewInvite e b f a)" "keeps (NewSession e uid)" for b f a uid
    by (rule keeps_NewInvite keeps_NewSession, rule assms, assumption)+
  have ses: "keeps (issueSession e uid)" for uid
    unfolding issueSession_def setSessionCookie_def by (intro keep_rules new)
  have reg: "keeps (handleRegisterBegin e r)" "keeps (handleRegisterFinish e r)"
    unfolding handleRegisterBegin_def handleRegisterFinish_def
    by (intro keep_rules keeps_request_reads keeps_begin keeps_finish keeps_srv_notify ses)+
  have dev: "keeps (handleAddDeviceBegin e u)" "keeps (handleAddDeviceFinish e r u)" "keeps (handleMe e u)" for u
    unfolding handleAddDeviceBegin_def handleAddDeviceFinish_def handleMe_def
    by (intro keep_rules keeps_request_reads keeps_begin keeps_finish keeps_srv_notify)+
  have log: "keeps (handleLoginBegin e)" "keeps (handleLoginFinish e r)"
    unfolding handleLoginBegin_def handleLoginFinish_def
    by (intro keep_rules keeps_request_reads keeps_begin keeps_finish keeps_srv_notify ses)+
  have out: "keeps (handleLogout e r)"
    unfolding handleLogout_def
    by (intro keep_rules keeps_request_reads keeps_store_op) (simp add: P_DeleteSession)
  have oidc: "keeps (handleAuthProviders e)" "keeps (handleOIDCStart e)" "keeps (handleOIDCCallback e r)"
    unfolding handleAuthProviders_def handleOIDCStart_def handleOIDCCallback_def
    by (intro keep_rules keeps_request_reads keeps_oidc keeps_resolve keeps_srv_notify ses)+
  have inv: "keeps (handleListInvites e)" "keeps (handleCreateInvite e r u)" "keeps (handleResetUser e r)"
      "keeps (handleListUsers e)" for u
    unfolding handleListInvites_def handleCreateInvite_def handleResetUser_def handleListUsers_def
    by (intro keep_rules new)+
  have rev: "keeps (handleRevokeInvite e r)"
    unfolding handleRevokeInvite_def by (intro keep_rules keeps_store_op) (simp add: P_DeleteInvite)
  show ?thesis
    by (cases ep) (simp_all add: reg dev log out oidc inv rev keeps_handleDeleteUser keeps_guards keeps_api keeps_raid)
qed

theorem reachable_Inv:
  assumes "\<And>k. d0 \<le> k \<Longrightarrow> inv_tok (rand_token e k 24)" "\<And>k. d0 \<le> k \<Longrightarrow> ses_tok (rand_token e k 32)"
    and "reachable e w0 w" "accounts_ok (w_st w0)" "P (w_st w0)" "d0 \<le> w_draws w0"
  shows "accounts_ok (w_st w) \<and> P (w_st w) \<and> d0 \<le> w_draws w"
  using assms(3)
proof induction
  case start
  then show ?case using assms by simp
next
  case (request w ep r)
  then have "Inv (w\<lparr>w_rw := fresh_response\<rparr>)" by (simp add: Inv_def)
  from keepsD [OF keeps_serve this] assms(1,2) show ?case
    by (simp add: handle_request_def Inv_def)
qed

end

end
