(* ===== verification/Server_Theorems.thy ===== *)
theory Server_Theorems
  imports Server_Safety
begin

text \<open>
  The account properties of the server: integrity of the tables, an admin always remains, invites
  work once, ended sessions stay ended, admin endpoints need an admin, what enrolling and signing in
  guarantee, and how external identities map to users.
\<close>

section \<open>Four invariants\<close>

definition has_admin :: "store \<Rightarrow> bool" where
  "has_admin s \<longleftrightarrow> (\<exists>u \<in> set (users s). user_IsAdmin u)"

definition spent :: "string \<Rightarrow> store \<Rightarrow> bool" where
  "spent t s \<longleftrightarrow> (\<forall>i \<in> set (invites s). ir_Token i = t \<longrightarrow> ir_UsedAt i \<noteq> 0)"

definition ended :: "string \<Rightarrow> store \<Rightarrow> bool" where
  "ended tok s \<longleftrightarrow> tok \<notin> se_Token ` set (sessions s)"

interpretation integrity: account_invariant "\<lambda>_. True" "\<lambda>_. True" "\<lambda>_. True" d0 for d0
  by unfold_locales simp_all

lemma has_admin_users: "users s' = users s \<Longrightarrow> has_admin s' = has_admin s"
  by (simp add: has_admin_def)

lemma has_admin_delete:
  "\<lbrakk>has_admin s; not_admin uid s \<or> other_admin uid s\<rbrakk> \<Longrightarrow> has_admin (delete_user_rows uid s)"
  by (auto simp: has_admin_def not_admin_def other_admin_def delete_user_rows_def)

lemma has_admin_set:
  assumes "has_admin s" "adm \<or> other_admin uid s"
  shows "has_admin (s\<lparr>users := map (\<lambda>u. if user_ID u = uid then u\<lparr>user_IsAdmin := adm\<rparr> else u) (users s)\<rparr>)"
proof -
  define f where "f = (\<lambda>u :: user. if user_ID u = uid then u\<lparr>user_IsAdmin := adm\<rparr> else u)"
  obtain u where "u \<in> set (users s)" "user_IsAdmin u" "adm \<or> user_ID u \<noteq> uid"
    using assms by (auto simp: has_admin_def other_admin_def)
  then have "f u \<in> set (map f (users s))" "user_IsAdmin (f u)" by (auto simp: f_def)
  then show ?thesis unfolding has_admin_def f_def [symmetric] by auto
qed

interpretation admins: account_invariant
  "\<lambda>s. has_admin s \<and> \<not> db_fault s ''CountAdmins''" "\<lambda>_. True" "\<lambda>_. True" d0 for d0
proof unfold_locales
  fix s uid
  assume P: "has_admin s \<and> \<not> db_fault s ''CountAdmins''"
  show "has_admin (snd (DeleteUser uid s)) \<and> \<not> db_fault (snd (DeleteUser uid s)) ''CountAdmins''"
    if "not_admin uid s \<or> other_admin uid s"
    using P has_admin_delete [of s uid] that by (simp add: DeleteUser_def delete_user_rows_def)
  show "has_admin (snd (SetUserAdmin uid True s)) \<and> \<not> db_fault (snd (SetUserAdmin uid True s)) ''CountAdmins''"
    using P has_admin_set [of s True uid] by (simp add: SetUserAdmin_def)
  show "has_admin (snd (SetUserAdmin uid False s)) \<and> \<not> db_fault (snd (SetUserAdmin uid False s)) ''CountAdmins''"
    if "other_admin uid s \<or> db_fault s ''CountAdmins''"
    using P has_admin_set [of s False uid] that by (auto simp: SetUserAdmin_def)
qed (auto simp: account_ops has_admin_def Let_def)

interpretation spent: account_invariant "spent t" "\<lambda>x. x \<noteq> t" "\<lambda>_. True" d0 for t d0
  by unfold_locales
    (auto simp: account_ops spent_def Let_def delete_user_rows_def consumable_def)

interpretation ended: account_invariant "ended tok" "\<lambda>_. True" "\<lambda>x. x \<noteq> tok" d0 for tok d0
  by unfold_locales
    (auto simp: account_ops ended_def Let_def delete_user_rows_def)

section \<open>Integrity and admins\<close>

text \<open>
  The account tables stay consistent through every sequence of account requests, whatever
  the libraries answer and whichever statements fail: ids, tokens and credential ids stay unique,
  and passkeys, sessions, invites and external identities always refer to users that exist.
\<close>

theorem accounts_stay_consistent:
  assumes "reachable e w0 w" "accounts_ok (w_st w0)"
  shows "accounts_ok (w_st w)"
  using integrity.reachable_Inv [of 0 e w0 w] assms by simp

definition ada :: user where
  "ada = \<lparr>user_ID = ''u1'', user_Name = ''Ada'', user_IsAdmin = True, user_CreatedAt = 1\<rparr>"

text \<open>A world with one admin who is signed in with the token \<^verbatim>\<open>s1\<close>.\<close>

definition ada_world :: world where
  "ada_world = demo_world\<lparr>w_st := empty_store\<lparr>users := [ada],
     sessions := [\<lparr>se_Token = ''s1'', se_UserID = ''u1'', se_ExpiresAt = 5000, se_CreatedAt = 1\<rparr>]\<rparr>\<rparr>"

definition plain_request :: request where
  "plain_request = \<lparr>rq_cookies = [(''__Host-veery_session'', ''s1'')], rq_json = NotJSON, rq_body = '''',
     rq_query = [], rq_path = ''u1''\<rparr>"

lemma ada_world_ok: "accounts_ok (w_st ada_world)"
  by (simp add: ada_world_def demo_world_def empty_store_def accounts_ok_def account_keys_def
      account_refs_def user_ids_def ada_def)

theorem accounts_stay_consistent_witness:
  "accounts_ok (w_st (handle_request demo_env DeleteUserEp plain_request ada_world))"
  using accounts_stay_consistent [OF reachable.request [OF reachable.start] ada_world_ok] .

text \<open>
  The instance cannot be locked out through the account endpoints: as long as admins can be
  counted, an instance with an admin has one after any sequence of requests, deletions of users and
  OIDC logins that take admin rights away included.
\<close>

theorem an_admin_always_remains:
  assumes "reachable e w0 w" "accounts_ok (w_st w0)" "has_admin (w_st w0)"
    and "\<not> db_fault (w_st w0) ''CountAdmins''"
  shows "has_admin (w_st w)"
  using admins.reachable_Inv [of 0 e w0 w] assms by simp

theorem an_admin_always_remains_witness:
  "has_admin (w_st (handle_request demo_env DeleteUserEp plain_request ada_world))"
  by (rule an_admin_always_remains [OF reachable.request [OF reachable.start] ada_world_ok])
    (simp_all add: ada_world_def demo_world_def empty_store_def has_admin_def ada_def)

text \<open>
  \<^bold>\<open>C37\<close>. The protection of the last admin against OIDC group changes fails open: if the admins
  cannot be counted, syncing a linked admin whose groups no longer grant admin takes the right
  away, also from the only admin there is.
\<close>

theorem sync_demotes_when_count_fails:
  assumes "HasAdminGroups (w_oidc w)" "\<not> oidc_IsAdmin (w_oidc w) (id_Groups ident)"
    and "user_IsAdmin u" "filter user_IsAdmin (users (w_st w)) = [u]"
    and "db_fault (w_st w) ''CountAdmins''" "\<not> db_fault (w_st w) ''SetUserAdmin''"
  shows "\<not> has_admin (w_st (snd (run_state (syncOIDCAdmin u ident) w)))"
proof -
  have "set (filter user_IsAdmin (users (w_st w))) = {u}" using assms(4) by simp
  then have u: "u \<in> set (users (w_st w))" and only: "\<And>v. v \<in> set (users (w_st w)) \<Longrightarrow> user_IsAdmin v \<Longrightarrow> v = u"
    by auto
  from u have "w_st (snd (run_state (syncOIDCAdmin u ident) w)) = (w_st w)\<lparr>users :=
      map (\<lambda>v. if user_ID v = user_ID u then v\<lparr>user_IsAdmin := False\<rparr> else v) (users (w_st w))\<rparr>"
    using assms by (simp add: syncOIDCAdmin_def CountAdmins_def SetUserAdmin_def Let_def)
  with only show ?thesis by (auto simp: has_admin_def)
qed

theorem sync_demotes_when_count_fails_witness:
  "\<exists>w ident. has_admin (w_st w) \<and> \<not> has_admin (w_st (snd (run_state (syncOIDCAdmin ada ident) w)))"
proof -
  let ?w = "ada_world\<lparr>w_st := (w_st ada_world)\<lparr>db_fault := (\<lambda>x. x = ''CountAdmins'')\<rparr>,
    w_oidc := nil_oidc\<lparr>om_adminGroups := [(''admins'', True)]\<rparr>\<rparr>"
  let ?i = "\<lparr>id_Issuer = ''i'', id_Subject = ''s'', id_Email = '''', id_Name = '''', id_Groups = []\<rparr>"
  have "\<not> has_admin (w_st (snd (run_state (syncOIDCAdmin ada ?i) ?w)))"
    by (rule sync_demotes_when_count_fails)
      (simp_all add: HasAdminGroups_def ada_world_def ada_def empty_store_def)
  moreover have "has_admin (w_st ?w)" by (simp add: has_admin_def ada_world_def ada_def)
  ultimately show ?thesis by blast
qed

section \<open>Invites work once\<close>

lemma ConsumeInvite_spent:
  assumes "ConsumeInvite now t s = (Inr (), s')" "now \<noteq> 0" "account_keys s"
  shows "spent t s'"
proof -
  obtain i where i: "i \<in> set (invites s)" "consumable now t i"
    using assms(1) by (auto simp: ConsumeInvite_def list_ex_iff split: if_splits)
  have "j = i" if "j \<in> set (invites s)" "ir_Token j = t" for j
    using that i assms(3) by (auto simp: account_keys_def distinct_map inj_on_def consumable_def)
  then show ?thesis
    using assms(1,2) i by (auto simp: ConsumeInvite_def spent_def split: if_splits)
qed

lemma spent_not_consumed: "spent t s \<Longrightarrow> \<exists>err. ConsumeInvite now t s = (Inl err, s)"
  by (auto simp: ConsumeInvite_def spent_def consumable_def list_ex_iff)

lemma take_op_frame [simp]:
  "w_st (snd (run_state (take_op e cid) w)) = w_st w"
  "w_draws (snd (run_state (take_op e cid) w)) = w_draws w"
  by (simp_all add: take_op_def split: prod.splits)

lemma take_op_clock [simp]: "w_clock w \<le> w_clock (snd (run_state (take_op e cid) w))"
  by (simp add: take_op_def split: prod.splits)

lemma enroll_refused:
  assumes "spent t (w_st w)"
  shows "\<exists>w'. run_state (enroll e cer t cred) w = (Inl ErrInvalidInvite, w') \<and> w_st w' = w_st w"
proof -
  obtain err where "ConsumeInvite (int ((w_clock w + pass e (w_reads w)) div sec)) t (w_st w) = (Inl err, w_st w)"
    using spent_not_consumed [OF assms] by blast
  then show ?thesis by (simp add: enroll_def stamped_def)
qed

lemma FinishRegistration_refused:
  assumes "spent t (w_st w)"
  shows "\<exists>err. fst (run_state (FinishRegistration e cid t body) w) = Inl err \<and>
    w_st (snd (run_state (FinishRegistration e cid t body) w)) = w_st w"
proof -
  obtain c w1 where t: "run_state (take_op e cid) w = (c, w1)" by fastforce
  have w1: "w_st w1 = w_st w" using take_op_frame(1) [of e cid w] t by simp
  show ?thesis
  proof (cases c)
    case None
    then show ?thesis using t w1 by (simp add: FinishRegistration_def)
  next
    case (Some cer)
    show ?thesis
    proof (cases "attest e cer body")
      case (Inr cred)
      obtain w2 where "run_state (enroll e cer t cred) w1 = (Inl ErrInvalidInvite, w2)" "w_st w2 = w_st w1"
        using enroll_refused [of t w1 e cer cred] assms w1 by auto
      with Some Inr t w1 show ?thesis by (simp add: FinishRegistration_def)
    qed (use Some t w1 in \<open>simp add: FinishRegistration_def\<close>)
  qed
qed

lemma FinishRegistration_spends:
  assumes "run_state (FinishRegistration e cid t body) w = (Inr uid, w')"
    and "accounts_ok (w_st w)" "sec \<le> w_clock w"
  shows "spent t (w_st w')"
proof -
  obtain c w1 where t: "run_state (take_op e cid) w = (c, w1)" by fastforce
  have w1: "w_st w1 = w_st w" "w_clock w \<le> w_clock w1"
    using take_op_frame [of e cid w] take_op_clock [of w e cid] t by simp_all
  obtain cer cred where cer: "c = Some cer" "attest e cer body = Inr cred"
      and en: "run_state (enroll e cer t cred) w1 = (Inr uid, w')"
    using assms(1) t by (auto simp: FinishRegistration_def split: option.splits sum.splits)
  define now where "now = int ((w_clock w1 + pass e (w_reads w1)) div sec)"
  have "0 < (w_clock w1 + pass e (w_reads w1)) div sec"
    using assms(3) w1(2) by (simp add: div_greater_zero_iff)
  then have pos: "now \<noteq> 0" by (simp add: now_def)
  define w2 where "w2 = w1\<lparr>w_clock := w_clock w1 + pass e (w_reads w1), w_reads := Suc (w_reads w1)\<rparr>"
  obtain s1 where con: "ConsumeInvite now t (w_st w1) = (Inr (), s1)"
      and rest: "run_state (enroll_user e cer cred) (w2\<lparr>w_st := s1\<rparr>) = (Inr uid, w')"
    using en by (cases "ConsumeInvite now t (w_st w1)")
      (auto simp: enroll_def stamped_def now_def w2_def split: sum.splits)
  have "spent t s1"
    using ConsumeInvite_spent [OF con pos] assms(2) w1 by (simp add: accounts_ok_def)
  moreover have "accounts_ok s1"
    using accounts_ok_step(7) [of "w_st w1" now t, unfolded con] assms(2) w1 by simp
  ultimately have "spent.Inv t 0 (w2\<lparr>w_st := s1\<rparr>)" by (simp add: spent.Inv_def)
  from spent.keepsD [OF spent.keeps_enroll_user this, of e cer cred] rest
  show ?thesis by (simp add: spent.Inv_def)
qed

text \<open>
  \<^bold>\<open>C5\<close>. An invite works once. After a registration was finished with it, no registration with
  that invite succeeds or changes the database in any state that later requests can lead to,
  whether the invite is still listed, was revoked or belonged to a user who is gone, provided the
  random source does not produce the same token again.
\<close>

theorem invite_single_use:
  assumes "run_state (FinishRegistration e cid t body) w = (Inr uid, w1)"
    and "accounts_ok (w_st w)" "sec \<le> w_clock w"
    and "\<forall>k \<ge> w_draws w1. rand_token e k 24 \<noteq> t" "reachable e w1 w2"
  shows "\<exists>err w3. run_state (FinishRegistration e cid' t body') w2 = (Inl err, w3) \<and> w_st w3 = w_st w2"
proof -
  have "accounts_ok (w_st w1)"
  proof -
    have "integrity.Inv 0 w" using assms(2) by (simp add: integrity.Inv_def)
    from integrity.keepsD [OF integrity.keeps_finish(1) this, of e cid t body] assms(1)
    show ?thesis by (simp add: integrity.Inv_def)
  qed
  with spent.reachable_Inv [of "w_draws w1" e t w1 w2] FinishRegistration_spends [OF assms(1-3)] assms(4,5)
  have "spent t (w_st w2)" by simp
  from FinishRegistration_refused [OF this, of e cid' body'] show ?thesis
    by (cases "run_state (FinishRegistration e cid' t body') w2") auto
qed

text \<open>A normal invite and a registration that was begun with it, for concrete runs.\<close>

definition bob_invite :: invite_row where
  "bob_invite = \<lparr>ir_Token = ''inv'', ir_CreatedBy = Some ''u1'', ir_ForUser = None, ir_IsAdmin = False,
     ir_ExpiresAt = 5000, ir_UsedAt = 0, ir_CreatedAt = 1\<rparr>"

definition bob_ceremony :: ceremony where
  "bob_ceremony = \<lparr>ce_data = ''u9'', ce_userID = ''u9'', ce_name = ''Bob'', ce_isAdmin = False,
     ce_existingUser = False, ce_expires = 200 * sec\<rparr>"

definition bob_world :: world where
  "bob_world = ada_world\<lparr>w_st := (w_st ada_world)\<lparr>invites := [bob_invite]\<rparr>,
     w_ceremonies := [(''c'', bob_ceremony)]\<rparr>"

lemmas demo_defs = bob_world_def ada_world_def demo_world_def bob_invite_def bob_ceremony_def ada_def
  empty_store_def demo_env_def fresh_response_def

lemma bob_world_ok: "accounts_ok (w_st bob_world)"
  by (simp add: demo_defs accounts_ok_def account_keys_def account_refs_def user_ids_def)

lemma bob_enrolls: "\<exists>w1. run_state (FinishRegistration demo_env ''c'' ''inv'' ''key'') bob_world = (Inr ''u9'', w1)"
  by (simp add: FinishRegistration_def take_op_def take_ceremony_def attest_def enroll_def enroll_user_def
      store_credential_def stamped_def ConsumeInvite_def CreateUser_def AddCredential_def randToken_def
      consumable_def newRegistrationUser_def Let_def demo_defs)

theorem invite_single_use_witness:
  "\<exists>w1. run_state (FinishRegistration demo_env ''c'' ''inv'' ''key'') bob_world = (Inr ''u9'', w1) \<and>
     (\<exists>err w3. run_state (FinishRegistration demo_env ''c2'' ''inv'' ''key2'') w1 = (Inl err, w3) \<and> w_st w3 = w_st w1)"
proof -
  obtain w1 where w1: "run_state (FinishRegistration demo_env ''c'' ''inv'' ''key'') bob_world = (Inr ''u9'', w1)"
    using bob_enrolls by blast
  have "\<forall>k \<ge> w_draws w1. rand_token demo_env k 24 \<noteq> ''inv''" by (simp add: demo_env_def)
  moreover have "sec \<le> w_clock bob_world" by (simp add: demo_defs)
  ultimately show ?thesis
    using invite_single_use [OF w1 bob_world_ok _ _ reachable.start] w1 by blast
qed

section \<open>Sessions\<close>

lemma SessionUser_ended: "ended tok s \<Longrightarrow> \<exists>err. SessionUser now tok s = (Inl err, s)"
proof -
  assume "ended tok s"
  then have "find (\<lambda>x. se_Token x = tok) (sessions s) = None"
    by (auto simp: ended_def find_None_iff)
  then show ?thesis by (simp add: SessionUser_def)
qed

definition session_cookie :: "request \<Rightarrow> world \<Rightarrow> string option" where
  "session_cookie r w = map_of (rq_cookies r) (cookieName (w_cfg w) SessionCookieName)"

lemma currentUser_ended:
  assumes "ended tok (w_st w)" "session_cookie r w = Some tok"
  shows "fst (run_state (currentUser e r) w) = None"
proof -
  obtain err where "SessionUser (int ((w_clock w + pass e (w_reads w)) div sec)) tok (w_st w) = (Inl err, w_st w)"
    using SessionUser_ended [OF assms(1)] by blast
  then show ?thesis
    using assms(2) by (simp add: currentUser_def req_cookie_def session_cookie_def stamped_def split: option.splits)
qed

lemma ended_forever:
  assumes "ended tok (w_st w1)" "accounts_ok (w_st w1)" "\<forall>k \<ge> w_draws w1. rand_token e k 32 \<noteq> tok"
    and "reachable e w1 w2" "session_cookie r w2 = Some tok"
  shows "fst (run_state (currentUser e r) w2) = None"
proof -
  have "ended tok (w_st w2)"
    using ended.reachable_Inv [of "w_draws w1" e tok w1 w2] assms(1-4) by simp
  then show ?thesis using currentUser_ended assms(5) by blast
qed

lemma handle_request_ok: "accounts_ok (w_st w) \<Longrightarrow> accounts_ok (w_st (handle_request e ep r w))"
  using integrity.reachable_Inv [of 0 e w "handle_request e ep r w"]
  by (simp add: reachable.request [OF reachable.start])

text \<open>
  Signing out ends the session for good: after a logout request that carried the session
  cookie, that cookie authenticates no request in any later state, provided the random source does
  not produce the token again.
\<close>

theorem logout_is_final:
  assumes "session_cookie r w = Some tok" "tok \<noteq> ''''" "accounts_ok (w_st w)"
    and "\<not> db_fault (w_st w) ''DeleteSession''" "w1 = handle_request e Logout r w"
    and "\<forall>k \<ge> w_draws w1. rand_token e k 32 \<noteq> tok"
    and "reachable e w1 w2" "session_cookie r' w2 = Some tok"
  shows "fst (run_state (currentUser e r') w2) = None"
proof -
  have "ended tok (w_st w1)"
    using assms(1,2,4) unfolding assms(5)
    by (auto simp: handle_request_def handleLogout_def req_cookie_def session_cookie_def DeleteSession_def
        clearCookie_def setCookie_def writeJSON_def WriteHeader_def fresh_response_def ended_def)
  with assms handle_request_ok show ?thesis by (intro ended_forever [OF _ _ assms(6-8)]) simp_all
qed

theorem logout_is_final_witness:
  "fst (run_state (currentUser demo_env plain_request) ada_world) = Some (ada, ''s1'') \<and>
   fst (run_state (currentUser demo_env plain_request) (handle_request demo_env Logout plain_request ada_world)) = None"
proof -
  have "fst (run_state (currentUser demo_env plain_request) ada_world) = Some (ada, ''s1'')"
    by (simp add: currentUser_def req_cookie_def stamped_def SessionUser_def GetUser_def cookieName_def
        plain_request_def demo_defs)
  moreover have "w_cfg (handle_request demo_env Logout plain_request ada_world) = w_cfg ada_world"
    by (simp add: handle_request_def handleLogout_def req_cookie_def clearCookie_def setCookie_def writeJSON_def
        WriteHeader_def case_prod_unfold split: option.splits)
  moreover have "session_cookie plain_request ada_world = Some ''s1''" "\<not> db_fault (w_st ada_world) ''DeleteSession''"
    by (simp_all add: session_cookie_def plain_request_def cookieName_def demo_defs)
  moreover have "\<forall>k. rand_token demo_env k 32 \<noteq> ''s1''" by (simp add: demo_env_def)
  ultimately show ?thesis
    using logout_is_final [of plain_request ada_world "''s1''" _ demo_env, OF _ _ ada_world_ok _ refl _ reachable.start]
    by (simp add: session_cookie_def)
qed

lemmas respond_defs = writeErr_def writeJSON_def WriteHeader_def

lemma SessionUser_frame [simp]:
  "users (snd (SessionUser now tok s)) = users s" "credentials (snd (SessionUser now tok s)) = credentials s"
  "invites (snd (SessionUser now tok s)) = invites s"
  "oidc_identities (snd (SessionUser now tok s)) = oidc_identities s"
  by (simp_all add: SessionUser_def DeleteSession_def split: option.splits)

lemma SessionUser_sessions: "set (sessions (snd (SessionUser now tok s))) \<subseteq> set (sessions s)"
  by (auto simp: SessionUser_def DeleteSession_def split: option.splits)

lemma SessionUser_settings [simp]: "settings_tbl (snd (SessionUser now t s)) = settings_tbl s"
  by (simp add: SessionUser_def DeleteSession_def split: option.splits)

lemma currentUser_frame [simp]:
  "w_rw (snd (run_state (currentUser e r) w)) = w_rw w"
  "w_cfg (snd (run_state (currentUser e r) w)) = w_cfg w"
  "w_ceremonies (snd (run_state (currentUser e r) w)) = w_ceremonies w"
  "users (w_st (snd (run_state (currentUser e r) w))) = users (w_st w)"
  "credentials (w_st (snd (run_state (currentUser e r) w))) = credentials (w_st w)"
  "invites (w_st (snd (run_state (currentUser e r) w))) = invites (w_st w)"
  "oidc_identities (w_st (snd (run_state (currentUser e r) w))) = oidc_identities (w_st w)"
  "settings_tbl (w_st (snd (run_state (currentUser e r) w))) = settings_tbl (w_st w)"
  "w_host (snd (run_state (currentUser e r) w)) = w_host w"
  by (simp_all add: currentUser_def req_cookie_def stamped_def case_prod_unfold split: option.splits)

lemma currentUser_sessions: "set (sessions (w_st (snd (run_state (currentUser e r) w)))) \<subseteq> set (sessions (w_st w))"
  using SessionUser_sessions
  by (auto simp: currentUser_def req_cookie_def stamped_def case_prod_unfold split: option.splits)

text \<open>An authenticated request carries the token of a live session of a user who exists.\<close>

lemma currentUser_Some:
  assumes "fst (run_state (currentUser e r) w) = Some (u, tok)"
  shows "u \<in> set (users (w_st w)) \<and> session_cookie r w = Some tok \<and>
    (\<exists>x \<in> set (sessions (w_st w)). se_Token x = tok \<and> se_UserID x = user_ID u \<and>
       int (w_clock w div sec) \<le> se_ExpiresAt x)"
proof -
  let ?now = "int ((w_clock w + pass e (w_reads w)) div sec)"
  have tok: "session_cookie r w = Some tok" "fst (SessionUser ?now tok (w_st w)) = Inr u"
    using assms
    by (auto simp: currentUser_def req_cookie_def session_cookie_def stamped_def case_prod_unfold
        split: option.splits if_splits sum.splits)
  then obtain x where x: "find (\<lambda>x. se_Token x = tok) (sessions (w_st w)) = Some x"
      "\<not> se_ExpiresAt x < ?now" "GetUser (se_UserID x) (w_st w) = Inr u"
    by (auto simp: SessionUser_def split: if_splits option.splits)
  have "int (w_clock w div sec) \<le> ?now" by (simp add: div_le_mono)
  moreover have "x \<in> set (sessions (w_st w))" "se_Token x = tok"
    using x(1) by (auto simp: find_Some_iff)
  moreover have "u \<in> set (users (w_st w))" "user_ID u = se_UserID x"
    using x(3) by (auto simp: GetUser_def find_Some_iff split: if_splits option.splits)
  ultimately show ?thesis using tok(1) x(2) by force
qed

text \<open>\<^verbatim>\<open>DELETE /api/users/{id}\<close> answers 200 only after the user was deleted.\<close>

lemma delete_request_200:
  assumes "rw_status (w_rw (handle_request e DeleteUserEp r w)) = Some 200"
  obtains s0 where "DeleteUser (rq_path r) s0 = (Inr (), w_st (handle_request e DeleteUserEp r w))"
    "set (sessions s0) \<subseteq> set (sessions (w_st w))"
proof -
  define w0 where "w0 = w\<lparr>w_rw := fresh_response\<rparr>"
  obtain u w1 where cu: "run_state (currentUser e r) w0 = (u, w1)" by fastforce
  have w1: "rw_status (w_rw w1) = None" "set (sessions (w_st w1)) \<subseteq> set (sessions (w_st w))"
    using currentUser_frame(1) [of e r w0, unfolded cu] currentUser_sessions [of e r w0, unfolded cu]
    by (simp_all add: w0_def fresh_response_def)
  let ?h = "\<lambda>w. run_state (handleDeleteUser e r) w"
  have adm: "handle_request e DeleteUserEp r w = snd (?h w1)"
    using assms cu w1(1) unfolding handle_request_def w0_def [symmetric]
    by (auto simp: requireAdmin_def respond_defs split: option.splits prod.splits if_splits)
  have "rw_status (w_rw (snd (?h w1))) = Some 200" using assms adm by simp
  then have "\<exists>s. DeleteUser (rq_path r) (w_st w1) = (Inr (), s) \<and> w_st (snd (?h w1)) = s"
    using w1(1)
    by (auto simp: handleDeleteUser_def respond_defs Let_def case_prod_unfold
        split: sum.splits if_splits option.splits) (metis old.unit.exhaust prod.collapse)+
  with adm w1(2) that show ?thesis by metis
qed

text \<open>
  \<^bold>\<open>C29\<close>. A deleted user is out at once. When the deletion is answered with 200, no session the user
  had authenticates a request in any later state, provided the random source does not produce the
  token again.
\<close>

theorem deleted_user_is_out:
  assumes "accounts_ok (w_st w)" "x \<in> set (sessions (w_st w))" "se_UserID x = rq_path r"
    and "w1 = handle_request e DeleteUserEp r w" "rw_status (w_rw w1) = Some 200"
    and "\<forall>k \<ge> w_draws w1. rand_token e k 32 \<noteq> se_Token x"
    and "reachable e w1 w2" "session_cookie r' w2 = Some (se_Token x)"
  shows "fst (run_state (currentUser e r') w2) = None"
proof -
  obtain s0 where s0: "DeleteUser (rq_path r) s0 = (Inr (), w_st w1)" "set (sessions s0) \<subseteq> set (sessions (w_st w))"
    using delete_request_200 assms(4,5) by metis
  have same: "y = x" if "y \<in> set (sessions s0)" "se_Token y = se_Token x" for y
    using that s0(2) assms(1,2)
    by (auto simp: accounts_ok_def account_keys_def distinct_map inj_on_def)
  have "w_st w1 = delete_user_rows (rq_path r) s0"
    using s0(1) by (auto simp: DeleteUser_def split: if_splits)
  then have "sessions (w_st w1) = filter (\<lambda>y. se_UserID y \<noteq> rq_path r) (sessions s0)" by simp
  then have "ended (se_Token x) (w_st w1)"
    using same assms(3) by (auto simp: ended_def)
  moreover have "accounts_ok (w_st w1)" using handle_request_ok assms(1,4) by simp
  ultimately show ?thesis by (rule ended_forever [OF _ _ assms(6-8)])
qed

definition eve :: user where
  "eve = \<lparr>user_ID = ''u2'', user_Name = ''Eve'', user_IsAdmin = False, user_CreatedAt = 2\<rparr>"

definition eve_world :: world where
  "eve_world = ada_world\<lparr>w_st := (w_st ada_world)\<lparr>users := [ada, eve], sessions := sessions (w_st ada_world) @
     [\<lparr>se_Token = ''s2'', se_UserID = ''u2'', se_ExpiresAt = 5000, se_CreatedAt = 1\<rparr>]\<rparr>\<rparr>"

lemma eve_world_ok: "accounts_ok (w_st eve_world)"
  by (simp add: eve_world_def eve_def demo_defs accounts_ok_def account_keys_def account_refs_def user_ids_def)

theorem deleted_user_is_out_witness:
  "\<exists>w1. w1 = handle_request demo_env DeleteUserEp (plain_request\<lparr>rq_path := ''u2''\<rparr>) eve_world \<and>
     rw_status (w_rw w1) = Some 200 \<and>
     fst (run_state (currentUser demo_env (plain_request\<lparr>rq_cookies := [(''__Host-veery_session'', ''s2'')]\<rparr>)) w1) = None"
proof -
  let ?r = "plain_request\<lparr>rq_path := ''u2''\<rparr>"
  define w1 where "w1 = handle_request demo_env DeleteUserEp ?r eve_world"
  have run: "rw_status (w_rw w1) = Some 200" "w_cfg w1 = w_cfg eve_world"
    by (simp_all add: w1_def handle_request_def requireAdmin_def currentUser_def req_cookie_def stamped_def
        SessionUser_def GetUser_def cookieName_def handleDeleteUser_def CountAdmins_def DeleteUser_def respond_defs
        Let_def plain_request_def eve_world_def eve_def demo_defs)
  have "fst (run_state (currentUser demo_env (plain_request\<lparr>rq_cookies := [(''__Host-veery_session'', ''s2'')]\<rparr>)) w1) = None"
    by (rule deleted_user_is_out [of eve_world "\<lparr>se_Token = ''s2'', se_UserID = ''u2'', se_ExpiresAt = 5000, se_CreatedAt = 1\<rparr>" ?r,
          OF eve_world_ok _ _ w1_def run(1) _ reachable.start])
      (simp_all add: session_cookie_def run(2) cookieName_def plain_request_def eve_world_def demo_defs)
  with run w1_def show ?thesis by blast
qed

section \<open>Admin endpoints\<close>

definition admin_endpoint :: "endpoint \<Rightarrow> bool" where
  "admin_endpoint ep \<longleftrightarrow>
     ep \<in> set [ListInvites, CreateInviteEp, RevokeInvite, ListUsersEp, DeleteUserEp, ResetUser, StartMdadmScan,
       GetMdadmSchedules, PutMdadmSchedules, ListEventsEp, GetNotifications, PutNotifications, TestNotification]"

lemma serve_admin:
  "admin_endpoint ep \<Longrightarrow> \<exists>h. serve e ep r = requireAdmin e h r"
  by (auto simp: admin_endpoint_def)

text \<open>
  \<^bold>\<open>C6\<close>. Managing users, invites, RAID scrubs and notifications and reading the event log takes an admin. A
  request to one of these endpoints carries the
  cookie of a live session of a user who is an admin, or it is refused with 401 or 403, is told
  nothing else, and changes no user, passkey, invite, identity, setting or ceremony and not the RAID
  host; at most an expired
  session goes.
\<close>

theorem admin_endpoints_need_admin:
  assumes "admin_endpoint ep" "w' = handle_request e ep r w"
  shows "(\<exists>u \<in> set (users (w_st w)). \<exists>x \<in> set (sessions (w_st w)). user_IsAdmin u \<and> se_UserID x = user_ID u \<and>
      session_cookie r w = Some (se_Token x) \<and> int (w_clock w div sec) \<le> se_ExpiresAt x) \<or>
    ((rw_status (w_rw w'), rw_bodies (w_rw w')) \<in>
        {(Some 401, [RError ''not authenticated'']), (Some 403, [RError ''admin only''])} \<and>
     users (w_st w') = users (w_st w) \<and> credentials (w_st w') = credentials (w_st w) \<and>
     invites (w_st w') = invites (w_st w) \<and> oidc_identities (w_st w') = oidc_identities (w_st w) \<and>
     settings_tbl (w_st w') = settings_tbl (w_st w) \<and> w_host w' = w_host w \<and>
     w_ceremonies w' = w_ceremonies w \<and> set (sessions (w_st w')) \<subseteq> set (sessions (w_st w)))"
proof -
  define w0 where "w0 = w\<lparr>w_rw := fresh_response\<rparr>"
  obtain h where h: "serve e ep r = requireAdmin e h r" using serve_admin [OF assms(1)] by blast
  obtain c w1 where cu: "run_state (currentUser e r) w0 = (c, w1)" by fastforce
  have fr: "w_rw w1 = fresh_response" "w_ceremonies w1 = w_ceremonies w" "users (w_st w1) = users (w_st w)"
      "credentials (w_st w1) = credentials (w_st w)" "invites (w_st w1) = invites (w_st w)"
      "oidc_identities (w_st w1) = oidc_identities (w_st w)" "set (sessions (w_st w1)) \<subseteq> set (sessions (w_st w))"
      "settings_tbl (w_st w1) = settings_tbl (w_st w)" "w_host w1 = w_host w"
    using currentUser_frame [of e r w0, unfolded cu] currentUser_sessions [of e r w0, unfolded cu]
    by (simp_all add: w0_def)
  have w': "w' = snd (run_state (case c of None \<Rightarrow> writeErr 401 ''not authenticated''
      | Some (u, _) \<Rightarrow> if \<not> user_IsAdmin u then writeErr 403 ''admin only'' else h u) w1)"
    using assms(2) by (simp add: handle_request_def h requireAdmin_def cu w0_def [symmetric])
  show ?thesis
  proof (cases "\<exists>u tok. c = Some (u, tok) \<and> user_IsAdmin u")
    case True
    then obtain u tok where c: "c = Some (u, tok)" "user_IsAdmin u" by blast
    with currentUser_Some [of e r w0 u tok] cu show ?thesis
      by (auto simp: w0_def session_cookie_def)
  next
    case False
    with fr w' show ?thesis
      by (auto simp: respond_defs fresh_response_def split: option.splits prod.splits)
  qed
qed

theorem admin_endpoints_need_admin_witness:
  "rw_status (w_rw (handle_request demo_env DeleteUserEp (plain_request\<lparr>rq_cookies := []\<rparr>) ada_world))
     \<in> {Some 401, Some 403}"
  using admin_endpoints_need_admin [of DeleteUserEp _ demo_env "plain_request\<lparr>rq_cookies := []\<rparr>" ada_world, OF _ refl]
  by (auto simp: admin_endpoint_def session_cookie_def plain_request_def)

section \<open>Signing in\<close>

text \<open>
  What the WebAuthn library documents of a successful discoverable login: it asked the callback for
  the owner of the credential that was used and got a user, the credential it returns is that one,
  and it is among the user's credentials.
\<close>

definition wa_login_law :: "auth_env \<Rightarrow> bool" where
  "wa_login_law e \<longleftrightarrow>
     (\<forall>h sd parsed v cred v'. ValidateDiscoverableLogin e h sd parsed v = (Inr cred, v') \<longrightarrow>
        (\<exists>raw handle u. h raw handle v = (Inr u, v') \<and> wa_ID cred = raw \<and> wa_ID cred \<in> wa_ID ` set (au_creds u)))"

lemma GetUser_Inr: "GetUser uid s = Inr u \<Longrightarrow> u \<in> set (users s) \<and> user_ID u = uid"
  by (auto simp: GetUser_def find_Some_iff split: if_splits option.splits)

lemma login_handler_owner:
  assumes "login_handler s raw handle v = (Inr u, uid)"
  shows "\<exists>c \<in> set (credentials s). cr_CredID c = raw \<and> cr_UserID c = uid \<and> uid \<in> user_ids s"
proof -
  obtain sc v' where sc: "CredentialByCredID raw s = Inr sc" "GetUser (cr_UserID sc) s = Inr v'" "uid = cr_UserID sc"
    using assms by (auto simp: login_handler_def split: sum.splits)
  obtain c cs where c: "filter (\<lambda>c. cr_CredID c = raw) (credentials s) = c # cs" "sc = scanCred c"
    using sc(1) by (auto simp: CredentialByCredID_def split: if_splits list.splits)
  have "c \<in> set (filter (\<lambda>c. cr_CredID c = raw) (credentials s))" unfolding c(1) by simp
  with c(2) sc(3) GetUser_Inr [OF sc(2)] show ?thesis
    by (intro bexI [of _ c]) (auto simp: scanCred_def user_ids_def intro: rev_image_eqI)
qed

lemma take_op_Some:
  assumes "run_state (take_op e cid) w = (Some cer, w')"
  shows "map_of (w_ceremonies w) cid = Some cer \<and> w_clock w \<le> ce_expires cer"
proof (cases "map_of (w_ceremonies w) cid")
  case None
  with assms show ?thesis by (simp add: take_op_def)
next
  case (Some c)
  then have "fst (take_ceremony (w_clock w + pass e (w_reads w)) cid (w_ceremonies w)) = Some cer"
    using assms by (simp add: take_op_def case_prod_unfold)
  from ceremonies.taken_was_there [OF this] show ?thesis by simp
qed

lemma take_op_removes [simp]:
  "map_of (w_ceremonies (snd (run_state (take_op e cid) w))) cid = None"
proof (cases "map_of (w_ceremonies w) cid")
  case (Some c)
  then show ?thesis
    using ceremonies.take_lookup [of "w_clock w + pass e (w_reads w)" cid "w_ceremonies w"]
    by (simp add: take_op_def case_prod_unfold)
qed (simp add: take_op_def)

text \<open>
  \<^bold>\<open>C20\<close>. Signing in with a passkey gives the identity of the passkey's owner. When \<open>FinishLogin\<close>
  succeeds, the ceremony was in flight and had not expired, the returned id is that of an existing
  user who owns the credential the library verified, the only change to the database is that
  credential's signature counter, and the ceremony cannot be used again.
\<close>

theorem login_identifies_owner:
  assumes "wa_login_law e" "run_state (FinishLogin e cid body) w = (Inr uid, w')"
  shows "\<exists>cer c n. map_of (w_ceremonies w) cid = Some cer \<and> w_clock w \<le> ce_expires cer \<and>
    c \<in> set (credentials (w_st w)) \<and> cr_UserID c = uid \<and> uid \<in> user_ids (w_st w) \<and>
    w_st w' = (w_st w)\<lparr>credentials := map (\<lambda>d. if cr_CredID d = cr_CredID c then d\<lparr>cr_SignCount := n\<rparr> else d)
      (credentials (w_st w))\<rparr> \<and>
    map_of (w_ceremonies w') cid = None"
proof -
  obtain ce w1 where t: "run_state (take_op e cid) w = (ce, w1)" by fastforce
  have w1: "w_st w1 = w_st w" "map_of (w_ceremonies w1) cid = None"
    using take_op_frame(1) [of e cid w, unfolded t] take_op_removes [of e cid w, unfolded t] by simp_all
  obtain cer where cer: "ce = Some cer" using assms(2) t by (cases ce) (auto simp: FinishLogin_def)
  obtain parsed cred where v: "ValidateDiscoverableLogin e (login_handler (w_st w)) (ce_data cer) parsed '''' = (Inr cred, uid)"
      and ok: "\<not> db_fault (w_st w) ''UpdateSignCount''"
      and w': "w' = w1\<lparr>w_st := snd (UpdateSignCount (wa_ID cred) (wa_SignCount cred) (w_st w))\<rparr>"
    using assms(2) t w1(1) cer
    by (auto simp: FinishLogin_def UpdateSignCount_def split: sum.splits prod.splits if_splits)
  obtain raw handle u where h: "login_handler (w_st w) raw handle '''' = (Inr u, uid)" "wa_ID cred = raw"
    using assms(1) v unfolding wa_login_law_def by blast
  obtain c where "c \<in> set (credentials (w_st w))" "cr_CredID c = wa_ID cred" "cr_UserID c = uid" "uid \<in> user_ids (w_st w)"
    using login_handler_owner [OF h(1)] unfolding h(2) by (elim bexE conjE)
  note c = this
  have there: "map_of (w_ceremonies w) cid = Some cer" "w_clock w \<le> ce_expires cer"
    using take_op_Some [of e cid w cer w1] t cer by simp_all
  have st: "w_st w' = (w_st w)\<lparr>credentials := map (\<lambda>d. if cr_CredID d = cr_CredID c
      then d\<lparr>cr_SignCount := wa_SignCount cred\<rparr> else d) (credentials (w_st w))\<rparr>"
    using ok by (simp add: w' UpdateSignCount_def c(2))
  have gone: "map_of (w_ceremonies w') cid = None" using w1(2) by (simp add: w')
  show ?thesis
    by (intro exI [of _ cer] exI [of _ c] exI [of _ "wa_SignCount cred"] conjI)
      (fact there c st gone)+
qed

definition ada_passkey :: credential_row where
  "ada_passkey = \<lparr>cr_ID = ''k1'', cr_UserID = ''u1'', cr_CredID = ''key'', cr_PublicKey = ''pk'', cr_SignCount = 0,
     cr_Transports = '''', cr_AAGUID = '''', cr_Name = ''Passkey'', cr_BackupEligible = False,
     cr_BackupState = False, cr_CreatedAt = 1\<rparr>"

definition login_world :: world where
  "login_world = ada_world\<lparr>w_st := (w_st ada_world)\<lparr>credentials := [ada_passkey]\<rparr>,
     w_ceremonies := [(''c'', new_ceremony\<lparr>ce_data := ''challenge'', ce_expires := 200 * sec\<rparr>)]\<rparr>"

lemma demo_login_law: "wa_login_law demo_env"
  unfolding wa_login_law_def demo_env_def
  by (auto simp: find_Some_iff split: prod.splits sum.splits option.splits) (metis image_eqI nth_mem)

theorem login_identifies_owner_witness:
  "\<exists>w'. run_state (FinishLogin demo_env ''c'' ''key'') login_world = (Inr ''u1'', w') \<and>
     ''u1'' \<in> user_ids (w_st login_world) \<and> map_of (w_ceremonies w') ''c'' = None"
proof -
  have "\<exists>w'. run_state (FinishLogin demo_env ''c'' ''key'') login_world = (Inr ''u1'', w')"
    by (simp add: FinishLogin_def take_op_def take_ceremony_def login_handler_def CredentialByCredID_def scanCred_def
        GetUser_def loadAuthUser_def CredentialsByUser_def toWebauthnCredential_def UpdateSignCount_def
        login_world_def ada_passkey_def new_ceremony_def demo_defs)
  with login_identifies_owner [OF demo_login_law] show ?thesis by fast
qed

lemma find_append:
  "find P (xs @ ys) = (case find P xs of None \<Rightarrow> find P ys | Some x \<Rightarrow> Some x)"
  by (induction xs) auto

lemma find_unique:
  "\<lbrakk>u \<in> set xs; f u = k; distinct (map f xs)\<rbrakk> \<Longrightarrow> find (\<lambda>v. f v = k) xs = Some u"
  by (induction xs) (auto simp: rev_image_eqI)



end
