(* ===== verification/Server_Enroll.thy ===== *)
theory Server_Enroll
  imports Server_Theorems
begin

text \<open>
  Enrollment and external identities: what a finished registration leaves in the database, that a
  ceremony is not tied to the invite it was begun with, and that an external identity keeps leading
  to the same user.
\<close>

section \<open>Registration\<close>

lemma CreateUser_Inr:
  assumes "CreateUser now uid name adm s = (Inr u, s')"
  shows "u = \<lparr>user_ID = uid, user_Name = name, user_IsAdmin = adm, user_CreatedAt = now\<rparr> \<and>
    s' = s\<lparr>users := users s @ [u]\<rparr>"
  using assms by (auto simp: CreateUser_def Let_def split: if_splits)

lemma AddCredential_Inr:
  assumes "AddCredential c s = (Inr (), s')"
  shows "cr_UserID c \<in> user_ids s \<and> (\<exists>row. s' = s\<lparr>credentials := credentials s @ [row]\<rparr> \<and>
    cr_UserID row = cr_UserID c \<and> cr_CredID row = cr_CredID c)"
  using assms by (auto simp: AddCredential_def user_ids_def split: if_splits)

lemma store_credential_Inr:
  assumes "run_state (store_credential e uid cred) w = (Inr (), w')"
  shows "uid \<in> user_ids (w_st w) \<and> w_ceremonies w' = w_ceremonies w \<and>
    (\<exists>row. w_st w' = (w_st w)\<lparr>credentials := credentials (w_st w) @ [row]\<rparr> \<and>
       cr_UserID row = uid \<and> cr_CredID row = wa_ID cred)"
proof -
  define now where "now = int ((w_clock w + pass e (w_reads w)) div sec)"
  define c where "c = \<lparr>cr_ID = rand_token e (w_draws w) 12, cr_UserID = uid, cr_CredID = wa_ID cred,
       cr_PublicKey = wa_PublicKey cred, cr_SignCount = wa_SignCount cred, cr_Transports = wa_Transport cred,
       cr_AAGUID = wa_AAGUID cred, cr_Name = ''Passkey'', cr_BackupEligible = wa_BackupEligible cred,
       cr_BackupState = wa_BackupState cred, cr_CreatedAt = now\<rparr>"
  obtain s' where ac: "AddCredential c (w_st w) = (Inr (), s')" and w': "w_st w' = s'" "w_ceremonies w' = w_ceremonies w"
    using assms by (auto simp: store_credential_def randToken_def now_def c_def split: prod.splits)
  from AddCredential_Inr [OF ac] w' show ?thesis by (auto simp: c_def)
qed

text \<open>
  The database after \<open>enroll_user\<close>: at most one new user, as the ceremony says, and one new
  credential of the ceremony's user.
\<close>

lemma enroll_user_Inr:
  assumes "run_state (enroll_user e cer cred) w = (Inr uid, w')"
  shows "uid = ce_userID cer \<and> w_ceremonies w' = w_ceremonies w \<and>
    (\<exists>new row. w_st w' = (w_st w)\<lparr>users := users (w_st w) @ new, credentials := credentials (w_st w) @ [row]\<rparr> \<and>
       (if ce_existingUser cer then new = [] \<and> uid \<in> user_ids (w_st w)
        else (\<exists>u. new = [u] \<and> user_ID u = uid \<and> user_Name u = ce_name cer \<and> user_IsAdmin u = ce_isAdmin cer)) \<and>
       cr_UserID row = uid \<and> cr_CredID row = wa_ID cred)"
proof (cases "ce_existingUser cer")
  case True
  with assms have "run_state (store_credential e (ce_userID cer) cred) w = (Inr (), w')" "uid = ce_userID cer"
    by (auto simp: enroll_user_def split: prod.splits sum.splits)
  from store_credential_Inr [OF this(1)] this(2) obtain row where row: "uid \<in> user_ids (w_st w)"
      "w_ceremonies w' = w_ceremonies w" "w_st w' = (w_st w)\<lparr>credentials := credentials (w_st w) @ [row]\<rparr>"
      "cr_UserID row = uid" "cr_CredID row = wa_ID cred" "uid = ce_userID cer"
    by auto
  then show ?thesis using True by (intro conjI exI [of _ "[]"] exI [of _ row]) simp_all
next
  case False
  define now where "now = int ((w_clock w + pass e (w_reads w)) div sec)"
  define w1 where "w1 = w\<lparr>w_clock := w_clock w + pass e (w_reads w), w_reads := Suc (w_reads w)\<rparr>"
  obtain u s1 where cu: "CreateUser now (ce_userID cer) (ce_name cer) (ce_isAdmin cer) (w_st w) = (Inr u, s1)"
      and sc: "run_state (store_credential e (ce_userID cer) cred) (w1\<lparr>w_st := s1\<rparr>) = (Inr (), w')"
      and uid: "uid = ce_userID cer"
    using assms False
    by (auto simp: enroll_user_def stamped_def now_def w1_def split: prod.splits sum.splits)
  have u: "user_ID u = uid" "user_Name u = ce_name cer" "user_IsAdmin u = ce_isAdmin cer"
      "s1 = (w_st w)\<lparr>users := users (w_st w) @ [u]\<rparr>"
    using CreateUser_Inr [OF cu] uid by simp_all
  obtain row where "w_ceremonies w' = w_ceremonies w" "w_st w' = s1\<lparr>credentials := credentials s1 @ [row]\<rparr>"
      "cr_UserID row = uid" "cr_CredID row = wa_ID cred"
    using store_credential_Inr [OF sc] uid by (auto simp: w1_def)
  with u uid False show ?thesis by (intro conjI exI [of _ "[u]"] exI [of _ row]) simp_all
qed

lemma registration_state:
  assumes "run_state (FinishRegistration e cid t body) w = (Inr uid, w')"
  shows "\<exists>cer cred now new row. map_of (w_ceremonies w) cid = Some cer \<and> w_clock w \<le> ce_expires cer \<and>
    attest e cer body = Inr cred \<and> uid = ce_userID cer \<and> list_ex (consumable now t) (invites (w_st w)) \<and>
    w_st w' = (w_st w)\<lparr>users := users (w_st w) @ new, credentials := credentials (w_st w) @ [row],
      invites := map (\<lambda>i. if consumable now t i then i\<lparr>ir_UsedAt := now\<rparr> else i) (invites (w_st w))\<rparr> \<and>
    (if ce_existingUser cer then new = [] \<and> uid \<in> user_ids (w_st w)
     else (\<exists>u. new = [u] \<and> user_ID u = uid \<and> user_Name u = ce_name cer \<and> user_IsAdmin u = ce_isAdmin cer)) \<and>
    cr_UserID row = uid \<and> cr_CredID row = wa_ID cred \<and> map_of (w_ceremonies w') cid = None"
proof -
  obtain c w1 where t: "run_state (take_op e cid) w = (c, w1)" by fastforce
  have w1: "w_st w1 = w_st w" "map_of (w_ceremonies w1) cid = None"
    using take_op_frame(1) [of e cid w, unfolded t] take_op_removes [of e cid w, unfolded t] by simp_all
  obtain cer cred where cer: "c = Some cer" "attest e cer body = Inr cred"
      and en: "run_state (enroll e cer t cred) w1 = (Inr uid, w')"
    using assms t by (auto simp: FinishRegistration_def split: option.splits sum.splits)
  have there: "map_of (w_ceremonies w) cid = Some cer" "w_clock w \<le> ce_expires cer"
    using take_op_Some [of e cid w cer w1] t cer by simp_all
  define now where "now = int ((w_clock w1 + pass e (w_reads w1)) div sec)"
  define w2 where "w2 = w1\<lparr>w_clock := w_clock w1 + pass e (w_reads w1), w_reads := Suc (w_reads w1)\<rparr>"
  obtain s1 where con: "ConsumeInvite now t (w_st w1) = (Inr (), s1)"
      and rest: "run_state (enroll_user e cer cred) (w2\<lparr>w_st := s1\<rparr>) = (Inr uid, w')"
    using en by (cases "ConsumeInvite now t (w_st w1)")
      (auto simp: enroll_def stamped_def now_def w2_def split: sum.splits)
  have ex: "list_ex (consumable now t) (invites (w_st w))"
      and s1: "s1 = (w_st w)\<lparr>invites := map (\<lambda>i. if consumable now t i then i\<lparr>ir_UsedAt := now\<rparr> else i) (invites (w_st w))\<rparr>"
    using con w1(1) by (auto simp: ConsumeInvite_def split: if_splits)
  obtain new row where nr: "w_st w' = s1\<lparr>users := users s1 @ new, credentials := credentials s1 @ [row]\<rparr>"
      "if ce_existingUser cer then new = [] \<and> uid \<in> user_ids s1
       else (\<exists>u. new = [u] \<and> user_ID u = uid \<and> user_Name u = ce_name cer \<and> user_IsAdmin u = ce_isAdmin cer)"
      "cr_UserID row = uid" "cr_CredID row = wa_ID cred"
      and uid: "uid = ce_userID cer" and cs: "w_ceremonies w' = w_ceremonies w1"
  proof -
    have "w_st (w2\<lparr>w_st := s1\<rparr>) = s1" "w_ceremonies (w2\<lparr>w_st := s1\<rparr>) = w_ceremonies w1" by (simp_all add: w2_def)
    from enroll_user_Inr [OF rest, unfolded this] that show ?thesis by blast
  qed
  have st: "w_st w' = (w_st w)\<lparr>users := users (w_st w) @ new, credentials := credentials (w_st w) @ [row],
      invites := map (\<lambda>i. if consumable now t i then i\<lparr>ir_UsedAt := now\<rparr> else i) (invites (w_st w))\<rparr>"
    by (simp add: nr(1) s1)
  have new: "if ce_existingUser cer then new = [] \<and> uid \<in> user_ids (w_st w)
       else (\<exists>u. new = [u] \<and> user_ID u = uid \<and> user_Name u = ce_name cer \<and> user_IsAdmin u = ce_isAdmin cer)"
    using nr(2) by (auto simp: s1 split: if_splits)
  have gone: "map_of (w_ceremonies w') cid = None" using cs w1(2) by simp
  show ?thesis
    by (intro exI [of _ cer] exI [of _ cred] exI [of _ now] exI [of _ new] exI [of _ row] conjI)
      (fact there cer(2) uid ex st new nr gone)+
qed

text \<open>
  What a finished registration means. The ceremony was in flight and had not expired and the
  library accepted the attestation; the invite existed, was unused and had not expired, and is the
  only invite marked as used; a normal registration adds exactly the ceremony's user, a recovery
  registration adds none; exactly one passkey is added, for that user; sessions and external
  identities are untouched, and the ceremony is gone.
\<close>

theorem registration_outcome:
  assumes "run_state (FinishRegistration e cid t body) w = (Inr uid, w')"
  shows "\<exists>cer cred now new row. map_of (w_ceremonies w) cid = Some cer \<and> w_clock w \<le> ce_expires cer \<and>
    attest e cer body = Inr cred \<and> uid = ce_userID cer \<and> list_ex (consumable now t) (invites (w_st w)) \<and>
    w_st w' = (w_st w)\<lparr>users := users (w_st w) @ new, credentials := credentials (w_st w) @ [row],
      invites := map (\<lambda>i. if consumable now t i then i\<lparr>ir_UsedAt := now\<rparr> else i) (invites (w_st w))\<rparr> \<and>
    (if ce_existingUser cer then new = [] \<and> uid \<in> user_ids (w_st w)
     else (\<exists>u. new = [u] \<and> user_ID u = uid \<and> user_Name u = ce_name cer \<and> user_IsAdmin u = ce_isAdmin cer)) \<and>
    cr_UserID row = uid \<and> cr_CredID row = wa_ID cred \<and> map_of (w_ceremonies w') cid = None"
  using assms by (rule registration_state)

theorem registration_outcome_witness:
  "\<exists>w'. run_state (FinishRegistration demo_env ''c'' ''inv'' ''key'') bob_world = (Inr ''u9'', w') \<and>
     map user_ID (users (w_st w')) = [''u1'', ''u9''] \<and> map_of (w_ceremonies w') ''c'' = None"
proof -
  obtain w' where w': "run_state (FinishRegistration demo_env ''c'' ''inv'' ''key'') bob_world = (Inr ''u9'', w')"
    using bob_enrolls by blast
  have "map_of (w_ceremonies bob_world) ''c'' = Some bob_ceremony" "users (w_st bob_world) = [ada]"
    by (simp_all add: demo_defs)
  with registration_outcome [OF w'] w' show ?thesis
    by (auto simp: bob_ceremony_def ada_def)
qed

text \<open>
  \<^bold>\<open>C38\<close>. A ceremony is not tied to the invite it was begun with. If a registration that was begun
  with an admin invite is finished with another, ordinary invite, the new user is an admin all the
  same, the ordinary invite is the one marked as used, and the admin invite can be used again.
\<close>

theorem ceremony_not_bound_to_invite:
  assumes "run_state (FinishRegistration e cid t body) w = (Inr uid, w')"
    and "map_of (w_ceremonies w) cid = Some cer" "ce_isAdmin cer" "\<not> ce_existingUser cer"
    and "\<forall>i \<in> set (invites (w_st w)). ir_Token i = t \<longrightarrow> \<not> ir_IsAdmin i"
    and "adm \<in> set (invites (w_st w))" "ir_IsAdmin adm"
  shows "(\<exists>u \<in> set (users (w_st w')). user_ID u = uid \<and> user_IsAdmin u) \<and> adm \<in> set (invites (w_st w'))"
proof -
  obtain now new row where st: "w_st w' = (w_st w)\<lparr>users := users (w_st w) @ new,
      credentials := credentials (w_st w) @ [row],
      invites := map (\<lambda>i. if consumable now t i then i\<lparr>ir_UsedAt := now\<rparr> else i) (invites (w_st w))\<rparr>"
      and new: "\<exists>u. new = [u] \<and> user_ID u = uid \<and> user_Name u = ce_name cer \<and> user_IsAdmin u = ce_isAdmin cer"
    using registration_state [OF assms(1)] assms(2,4) by fastforce
  have "\<not> consumable now t adm" using assms(5-7) by (auto simp: consumable_def)
  with assms(6) have "adm \<in> (\<lambda>i. if consumable now t i then i\<lparr>ir_UsedAt := now\<rparr> else i) ` set (invites (w_st w))"
    by (intro image_eqI [of _ _ adm]) simp_all
  with new assms(3) show ?thesis by (auto simp: st)
qed

definition admin_invite :: invite_row where
  "admin_invite = bob_invite\<lparr>ir_Token := ''adm'', ir_IsAdmin := True\<rparr>"

theorem ceremony_not_bound_to_invite_witness:
  "\<exists>w'. run_state (FinishRegistration demo_env ''c'' ''inv'' ''key'')
      (bob_world\<lparr>w_st := (w_st bob_world)\<lparr>invites := [bob_invite, admin_invite]\<rparr>,
         w_ceremonies := [(''c'', bob_ceremony\<lparr>ce_isAdmin := True\<rparr>)]\<rparr>) = (Inr ''u9'', w') \<and>
    (\<exists>u \<in> set (users (w_st w')). user_ID u = ''u9'' \<and> user_IsAdmin u) \<and> admin_invite \<in> set (invites (w_st w'))"
proof -
  let ?w = "bob_world\<lparr>w_st := (w_st bob_world)\<lparr>invites := [bob_invite, admin_invite]\<rparr>,
         w_ceremonies := [(''c'', bob_ceremony\<lparr>ce_isAdmin := True\<rparr>)]\<rparr>"
  have "\<exists>w'. run_state (FinishRegistration demo_env ''c'' ''inv'' ''key'') ?w = (Inr ''u9'', w')"
    by (simp add: FinishRegistration_def take_op_def take_ceremony_def attest_def enroll_def enroll_user_def
      store_credential_def stamped_def ConsumeInvite_def CreateUser_def AddCredential_def randToken_def
      consumable_def newRegistrationUser_def Let_def admin_invite_def demo_defs)
  then obtain w' where w': "run_state (FinishRegistration demo_env ''c'' ''inv'' ''key'') ?w = (Inr ''u9'', w')" by blast
  have "(\<exists>u \<in> set (users (w_st w')). user_ID u = ''u9'' \<and> user_IsAdmin u) \<and> admin_invite \<in> set (invites (w_st w'))"
    by (rule ceremony_not_bound_to_invite [OF w', of "bob_ceremony\<lparr>ce_isAdmin := True\<rparr>"])
      (simp_all add: admin_invite_def bob_invite_def bob_ceremony_def)
  with w' show ?thesis by blast
qed

section \<open>External identities\<close>

lemma srv_notify_frame [simp]:
  "users (w_st (snd (run_state (srv_notify e ev t b) w))) = users (w_st w)"
  "oidc_identities (w_st (snd (run_state (srv_notify e ev t b) w))) = oidc_identities (w_st w)"
  "db_fault (w_st (snd (run_state (srv_notify e ev t b) w))) = db_fault (w_st w)"
  by (simp_all add: srv_notify_def stamped_def case_prod_unfold split: option.splits)

lemma syncOIDCAdmin_frame [simp]:
  "map user_ID (users (w_st (snd (run_state (syncOIDCAdmin u ident) w)))) = map user_ID (users (w_st w))"
  "oidc_identities (w_st (snd (run_state (syncOIDCAdmin u ident) w))) = oidc_identities (w_st w)"
  "db_fault (w_st (snd (run_state (syncOIDCAdmin u ident) w))) = db_fault (w_st w)"
  by (simp_all add: syncOIDCAdmin_def SetUserAdmin_def Let_def)

text \<open>The user an identity is linked to, in a database with consistent account tables.\<close>

definition linked :: "identity \<Rightarrow> string \<Rightarrow> store \<Rightarrow> bool" where
  "linked ident uid s \<longleftrightarrow> uid \<in> set (map user_ID (users s)) \<and>
     (\<exists>x. find (\<lambda>x. oi_Issuer x = id_Issuer ident \<and> oi_Subject x = id_Subject ident) (oidc_identities s) = Some x \<and>
        oi_UserID x = uid)"

lemma resolve_linked:
  assumes "linked ident uid (w_st w)" "\<not> db_fault (w_st w) ''OIDCIdentityBySubject''" "\<not> db_fault (w_st w) ''GetUser''"
  shows "\<exists>w'. run_state (resolveOIDCUser e ident) w = (Inr uid, w') \<and>
    map user_ID (users (w_st w')) = map user_ID (users (w_st w)) \<and> oidc_identities (w_st w') = oidc_identities (w_st w)"
proof -
  obtain x where x: "OIDCIdentityBySubject (id_Issuer ident) (id_Subject ident) (w_st w) = Inr x" "oi_UserID x = uid"
    using assms(1,2) by (auto simp: linked_def OIDCIdentityBySubject_def)
  obtain u where u: "GetUser uid (w_st w) = Inr u"
  proof -
    have "find (\<lambda>u. user_ID u = uid) (users (w_st w)) \<noteq> None"
      using assms(1) by (auto simp: linked_def find_None_iff)
    with assms(3) that show ?thesis by (auto simp: GetUser_def)
  qed
  have "user_ID u = uid" using GetUser_Inr [OF u] by simp
  with x u show ?thesis
    by (simp add: resolveOIDCUser_def case_prod_unfold)
qed

lemma link_new_user_linked:
  assumes "run_state (link_new_user e ident u) w = (Inr uid, w')" "user_ID u \<in> set (map user_ID (users (w_st w)))"
    and "find (\<lambda>x. oi_Issuer x = id_Issuer ident \<and> oi_Subject x = id_Subject ident) (oidc_identities (w_st w)) = None"
  shows "linked ident uid (w_st w') \<and> db_fault (w_st w') = db_fault (w_st w)"
proof -
  define w1 where "w1 = w\<lparr>w_draws := Suc (w_draws w), w_clock := w_clock w + pass e (w_reads w), w_reads := Suc (w_reads w)\<rparr>"
  define now' where "now' = int ((w_clock w + pass e (w_reads w)) div sec)"
  define t where "t = ''Account created: '' @ user_Name u"
  define b where "b = ''First sign-in via '' @ oidc_Name (w_oidc w) @ ''.''"
  let ?link = "LinkOIDCIdentity now' (rand_token e (w_draws w) 16) (user_ID u) (id_Issuer ident) (id_Subject ident)
    (id_Email ident) (w_st w)"
  obtain r s2 where link: "?link = (r, s2)" by (cases ?link)
  have "run_state (link_new_user e ident u) w = (case r of Inl err \<Rightarrow> (Inl err, w1\<lparr>w_st := s2\<rparr>)
      | Inr _ \<Rightarrow> (Inr (user_ID u), snd (run_state (srv_notify e EventAuth t b) (w1\<lparr>w_st := s2\<rparr>))))"
    using link by (cases r) (simp_all add: link_new_user_def randToken_def stamped_def w1_def now'_def t_def b_def
        case_prod_unfold)
  with assms(1) link have li: "?link = (Inr (), s2)"
      and w': "w' = snd (run_state (srv_notify e EventAuth t b) (w1\<lparr>w_st := s2\<rparr>))" "uid = user_ID u"
    by (cases r; simp)+
  obtain row where s2: "s2 = (w_st w)\<lparr>oidc_identities := oidc_identities (w_st w) @ [row]\<rparr>"
      "oi_UserID row = user_ID u" "oi_Issuer row = id_Issuer ident" "oi_Subject row = id_Subject ident"
    using li by (auto simp: LinkOIDCIdentity_def split: if_splits)
  show ?thesis
    unfolding w'(1) linked_def using assms(2,3) by (simp add: w'(2) s2 find_append)
qed

lemma provision_linked:
  assumes "run_state (provision e ident) w = (Inr uid, w')"
    and "find (\<lambda>x. oi_Issuer x = id_Issuer ident \<and> oi_Subject x = id_Subject ident) (oidc_identities (w_st w)) = None"
  shows "linked ident uid (w_st w') \<and> db_fault (w_st w') = db_fault (w_st w)"
proof -
  define w1 where "w1 = w\<lparr>w_draws := Suc (w_draws w), w_clock := w_clock w + pass e (w_reads w), w_reads := Suc (w_reads w)\<rparr>"
  define now where "now = int ((w_clock w + pass e (w_reads w)) div sec)"
  define name where "name = (if id_Name ident = '''' then id_Email ident else id_Name ident)"
  define adm where "adm = (if CountUsers (w_st w) = Inr 0 then True else oidc_IsAdmin (w_oidc w) (id_Groups ident))"
  let ?create = "CreateUser now (rand_token e (w_draws w) 16) name adm (w_st w)"
  obtain r s1 where create: "?create = (r, s1)" by (cases ?create)
  have "run_state (provision e ident) w = (case r of Inl err \<Rightarrow> (Inl err, w1\<lparr>w_st := s1\<rparr>)
      | Inr u \<Rightarrow> run_state (link_new_user e ident u) (w1\<lparr>w_st := s1\<rparr>))"
    using create by (cases r) (simp_all add: provision_def randToken_def stamped_def w1_def now_def name_def adm_def)
  with assms(1) obtain u where u: "r = Inr u" and li: "run_state (link_new_user e ident u) (w1\<lparr>w_st := s1\<rparr>) = (Inr uid, w')"
    by (cases r) simp_all
  note cu = create [unfolded u]
  have s1: "s1 = (w_st w)\<lparr>users := users (w_st w) @ [u]\<rparr>" using CreateUser_Inr [OF cu] by simp
  from link_new_user_linked [OF li] assms(2) show ?thesis by (simp add: s1)
qed


definition ada_identity :: identity where
  "ada_identity = \<lparr>id_Issuer = ''iss'', id_Subject = ''sub'', id_Email = '''', id_Name = ''Ada'', id_Groups = []\<rparr>"


end
