(* ===== verification/Hub.thy ===== *)
theory Hub
  imports Api_Types "HOL-Library.Sublist"
begin

text \<open>
  The fan-out of live messages to connected browsers (\<^verbatim>\<open>internal/server/ws.go\<close>).

  A client is known by a number (the pointer in the source). Its channel holds what was queued and not
  yet written, its wire what was written to the socket. Encoding is modelled by the message itself;
  \<open>enc\<close> says which messages JSON can encode (a number that is not finite cannot be).

  A connection's goroutine registers the client, sends the remembered messages it saw at that moment
  one by one without the lock, sends the job picture, and then writes queued messages to the socket;
  broadcasts of other goroutines fall in between. The runs below are the interleavings of these steps.
\<close>

section \<open>The hub\<close>

datatype ws_type = WSTypeMetrics | WSTypeStacks | WSTypeJob | WSTypeJobs | WSTypeEvent

fun ws_type_of :: "ws_message \<Rightarrow> ws_type" where
  "ws_type_of (WSMetrics _) = WSTypeMetrics"
| "ws_type_of (WSStacks _) = WSTypeStacks"
| "ws_type_of (WSJob _) = WSTypeJob"
| "ws_type_of (WSJobs _) = WSTypeJobs"
| "ws_type_of (WSEvent _) = WSTypeEvent"

record ws_client =
  cl_send :: "ws_message list"
  cl_admin :: bool
  cl_pending :: "ws_message list"
  cl_wire :: "ws_message list"

record hub =
  hb_clients :: "(nat \<times> ws_client) list"
  hb_last :: "(ws_type \<times> ws_message) list"

definition newHub :: hub where
  "newHub = \<lparr>hb_clients = [], hb_last = []\<rparr>"

text \<open>The channel's capacity, and a send that gives up when the channel is full.\<close>

definition send_cap :: nat where "send_cap = 32"

definition offer :: "ws_message \<Rightarrow> ws_client \<Rightarrow> ws_client" where
  "offer d c = (if length (cl_send c) < send_cap then c\<lparr>cl_send := cl_send c @ [d]\<rparr> else c)"

definition on_client :: "nat \<Rightarrow> (ws_client \<Rightarrow> ws_client) \<Rightarrow> hub \<Rightarrow> hub" where
  "on_client i f h = h\<lparr>hb_clients := map (\<lambda>(j, c). (j, if j = i then f c else c)) (hb_clients h)\<rparr>"

definition entitled :: "bool \<Rightarrow> ws_message \<Rightarrow> bool" where
  "entitled admin msg \<longleftrightarrow> \<not> (ws_type_of msg = WSTypeEvent \<and> \<not> admin)"

definition hub_Broadcast :: "(ws_message \<Rightarrow> bool) \<Rightarrow> ws_message \<Rightarrow> hub \<Rightarrow> hub" where
  "hub_Broadcast enc msg h =
     (if \<not> enc msg then h
      else h\<lparr>hb_last := (if ws_type_of msg = WSTypeStacks \<or> ws_type_of msg = WSTypeMetrics
                          then AList.update (ws_type_of msg) msg (hb_last h) else hb_last h),
             hb_clients := map (\<lambda>(j, c). (j, if entitled (cl_admin c) msg then offer msg c else c)) (hb_clients h)\<rparr>)"

text \<open>\<^verbatim>\<open>add\<close>: under the lock, and the loop after it one send at a time.\<close>

definition hub_register :: "nat \<Rightarrow> bool \<Rightarrow> hub \<Rightarrow> hub" where
  "hub_register i admin h = h\<lparr>hb_clients := AList.update i
     \<lparr>cl_send = [], cl_admin = admin, cl_pending = map snd (hb_last h), cl_wire = []\<rparr> (hb_clients h)\<rparr>"

definition replay_next :: "ws_client \<Rightarrow> ws_client" where
  "replay_next c = (case cl_pending c of [] \<Rightarrow> c | d # ds \<Rightarrow> offer d (c\<lparr>cl_pending := ds\<rparr>))"

text \<open>\<^verbatim>\<open>replayJobs\<close>, which runs when \<^verbatim>\<open>add\<close> has returned; the jobs are those of the manager's snapshot.\<close>

definition replayJobs :: "(ws_message \<Rightarrow> bool) \<Rightarrow> job_progress list \<Rightarrow> ws_client \<Rightarrow> ws_client" where
  "replayJobs enc jobs c = (if cl_pending c = [] \<and> enc (WSJobs jobs) then offer (WSJobs jobs) c else c)"

text \<open>The write loop of \<^verbatim>\<open>handleWS\<close>: one queued message goes to the socket.\<close>

definition write_one :: "ws_client \<Rightarrow> ws_client" where
  "write_one c = (case cl_send c of [] \<Rightarrow> c | d # ds \<Rightarrow> c\<lparr>cl_send := ds, cl_wire := cl_wire c @ [d]\<rparr>)"

definition hub_remove :: "nat \<Rightarrow> hub \<Rightarrow> hub" where
  "hub_remove i h = h\<lparr>hb_clients := AList.delete i (hb_clients h)\<rparr>"

section \<open>Runs\<close>

datatype hub_op =
    Publish ws_message
  | Register nat bool
  | ReplayNext nat
  | SendJobs nat "job_progress list"
  | WriteOne nat
  | Unregister nat

fun hub_exec :: "(ws_message \<Rightarrow> bool) \<Rightarrow> hub_op \<Rightarrow> hub \<Rightarrow> hub" where
  "hub_exec enc (Publish msg) h = hub_Broadcast enc msg h"
| "hub_exec enc (Register i admin) h = hub_register i admin h"
| "hub_exec enc (ReplayNext i) h = on_client i replay_next h"
| "hub_exec enc (SendJobs i jobs) h = on_client i (replayJobs enc jobs) h"
| "hub_exec enc (WriteOne i) h = on_client i write_one h"
| "hub_exec enc (Unregister i) h = hub_remove i h"

definition hub_run :: "(ws_message \<Rightarrow> bool) \<Rightarrow> hub_op list \<Rightarrow> hub \<Rightarrow> hub" where
  "hub_run enc ops h = fold (hub_exec enc) ops h"

section \<open>Who is told what\<close>

definition seen :: "ws_client \<Rightarrow> ws_message list" where
  "seen c = cl_wire c @ cl_send c"

lemma seen_write_one [simp]: "seen (write_one c) = seen c"
  by (simp add: seen_def write_one_def split: list.split)

lemma seen_offer: "seen (offer d c) = seen c @ (if length (cl_send c) < send_cap then [d] else [])"
  by (simp add: seen_def offer_def)

definition client_ok :: "ws_client \<Rightarrow> bool" where
  "client_ok c \<longleftrightarrow> length (cl_send c) \<le> send_cap \<and> (\<forall>d \<in> set (seen c @ cl_pending c). entitled (cl_admin c) d)"

definition hub_ok :: "hub \<Rightarrow> bool" where
  "hub_ok h \<longleftrightarrow> (\<forall>c \<in> snd ` set (hb_clients h). client_ok c) \<and>
     (\<forall>d \<in> snd ` set (hb_last h). ws_type_of d = WSTypeStacks \<or> ws_type_of d = WSTypeMetrics)"

lemma client_ok_offer: "\<lbrakk>client_ok c; entitled (cl_admin c) d\<rbrakk> \<Longrightarrow> client_ok (offer d c)"
  by (auto simp: client_ok_def offer_def seen_def)

lemma client_ok_write: "client_ok c \<Longrightarrow> client_ok (write_one c)"
  by (auto simp: client_ok_def write_one_def seen_def split: list.splits)

lemma client_ok_replay: "client_ok c \<Longrightarrow> client_ok (replay_next c)"
  by (auto simp: client_ok_def replay_next_def offer_def seen_def split: list.splits)

lemma client_ok_jobs: "client_ok c \<Longrightarrow> client_ok (replayJobs enc jobs c)"
  by (simp add: replayJobs_def client_ok_offer entitled_def)

lemma set_update: "set (AList.update k v m) \<subseteq> insert (k, v) (set m)"
  by (induction m) (auto split: if_splits)

lemma hub_ok_on_client:
  "\<lbrakk>hub_ok h; \<And>c. client_ok c \<Longrightarrow> client_ok (f c)\<rbrakk> \<Longrightarrow> hub_ok (on_client i f h)"
  by (force simp: hub_ok_def on_client_def)

lemma hub_ok_Broadcast: "hub_ok h \<Longrightarrow> hub_ok (hub_Broadcast enc msg h)"
proof -
  assume h: "hub_ok h"
  have "client_ok c" if "c \<in> snd ` set (map (\<lambda>(j, c). (j, if entitled (cl_admin c) msg then offer msg c else c)) (hb_clients h))" for c
    using h that by (force simp: hub_ok_def client_ok_offer)
  moreover have "ws_type_of d = WSTypeStacks \<or> ws_type_of d = WSTypeMetrics"
    if "d \<in> snd ` set (AList.update (ws_type_of msg) msg (hb_last h))" "ws_type_of msg = WSTypeStacks \<or> ws_type_of msg = WSTypeMetrics" for d
    using h that set_update [of "ws_type_of msg" msg "hb_last h"] by (force simp: hub_ok_def)
  ultimately show ?thesis using h by (simp add: hub_ok_def hub_Broadcast_def)
qed

lemma hub_ok_register: "hub_ok h \<Longrightarrow> hub_ok (hub_register i admin h)"
proof -
  assume h: "hub_ok h"
  have "entitled admin d" if "d \<in> snd ` set (hb_last h)" for d
    using h that by (auto simp: hub_ok_def entitled_def)
  then have "client_ok \<lparr>cl_send = [], cl_admin = admin, cl_pending = map snd (hb_last h), cl_wire = []\<rparr>"
    by (simp add: client_ok_def seen_def)
  with h set_update [of i "\<lparr>cl_send = [], cl_admin = admin, cl_pending = map snd (hb_last h), cl_wire = []\<rparr>" "hb_clients h"]
  show ?thesis unfolding hub_ok_def hub_register_def by force
qed

lemma hub_ok_remove: "hub_ok h \<Longrightarrow> hub_ok (hub_remove i h)"
  by (auto simp: hub_ok_def hub_remove_def AList.delete_eq)

lemma hub_ok_run: "hub_ok h \<Longrightarrow> hub_ok (hub_run enc ops h)"
proof (induction ops arbitrary: h)
  case (Cons p ops)
  then have "hub_ok (hub_exec enc p h)"
    by (cases p) (simp_all add: hub_ok_Broadcast hub_ok_register hub_ok_remove hub_ok_on_client client_ok_replay client_ok_jobs client_ok_write)
  with Cons show ?case by (simp add: hub_run_def)
qed (simp add: hub_run_def)

text \<open>
  \<^bold>\<open>C14\<close>. The event log is pushed to admins only, and nobody is waited for: in every run of connections and
  broadcasts, no message of the event log is written or queued to a client that did not connect as an
  admin, and no client has more than 32 messages queued.
\<close>

theorem events_only_to_admins:
  "(i, c) \<in> set (hb_clients (hub_run enc ops newHub)) \<Longrightarrow>
   length (cl_send c) \<le> 32 \<and> (\<not> cl_admin c \<longrightarrow> (\<forall>ev. WSEvent ev \<notin> set (cl_wire c @ cl_send c)))"
proof -
  assume c: "(i, c) \<in> set (hb_clients (hub_run enc ops newHub))"
  have "hub_ok newHub" by (simp add: hub_ok_def newHub_def)
  from hub_ok_run [OF this] c have "client_ok c" unfolding hub_ok_def by force
  then show ?thesis by (force simp: client_ok_def send_cap_def seen_def entitled_def)
qed

definition sample_event :: event where
  "sample_event = \<lparr>ev_ID = 1, ev_Event = EventAuth, ev_Title = ''Login'', ev_Body = ''ada'', ev_ContainerName = '''',
     ev_StackID = '''', ev_CreatedAt = 5\<rparr>"

theorem events_only_to_admins_witness:
  "let c = \<lparr>cl_send = [WSMetrics ''m''], cl_admin = False, cl_pending = [], cl_wire = []\<rparr>
   in (7, c) \<in> set (hb_clients (hub_run (\<lambda>_. True) [Register 7 False, Publish (WSEvent sample_event), Publish (WSMetrics ''m'')] newHub)) \<and>
      length (cl_send c) \<le> 32 \<and> (\<forall>ev. WSEvent ev \<notin> set (cl_wire c @ cl_send c))"
proof -
  let ?c = "\<lparr>cl_send = [WSMetrics ''m''], cl_admin = False, cl_pending = [], cl_wire = []\<rparr>"
  have c: "(7, ?c) \<in> set (hb_clients (hub_run (\<lambda>_. True) [Register 7 False, Publish (WSEvent sample_event), Publish (WSMetrics ''m'')] newHub))"
    by (simp add: hub_run_def hub_register_def hub_Broadcast_def newHub_def entitled_def offer_def send_cap_def)
  from events_only_to_admins [OF this] c show ?thesis by simp
qed

section \<open>In which order\<close>

text \<open>
  The abstract view of a connection is two sources merged without reordering either: the broadcasts
  since it registered that it is entitled to, and what its own goroutine sends (the remembered messages,
  then the job picture); messages may be dropped from both when the channel is full.
\<close>

definition published :: "(ws_message \<Rightarrow> bool) \<Rightarrow> bool \<Rightarrow> hub_op list \<Rightarrow> ws_message list" where
  "published enc admin ops = [m. Publish m \<leftarrow> ops, enc m \<and> entitled admin m]"

definition jobs_sent :: "nat \<Rightarrow> hub_op list \<Rightarrow> ws_message list" where
  "jobs_sent i ops = [WSJobs js. SendJobs j js \<leftarrow> ops, j = i]"

lemma published_simps [simp]:
  "published enc admin [] = []"
  "published enc admin (ops @ [p]) = published enc admin ops @ (case p of Publish m \<Rightarrow> if enc m \<and> entitled admin m then [m] else [] | _ \<Rightarrow> [])"
  by (simp_all add: published_def split: hub_op.split)

lemma jobs_sent_simps [simp]:
  "jobs_sent i [] = []"
  "jobs_sent i (ops @ [p]) = jobs_sent i ops @ (case p of SendJobs j js \<Rightarrow> if j = i then [WSJobs js] else [] | _ \<Rightarrow> [])"
  by (simp_all add: jobs_sent_def split: hub_op.split)

lemma shuffles_snoc: "xs \<in> shuffles ys zs \<Longrightarrow> xs @ [x] \<in> shuffles (ys @ [x]) zs"
proof (induction ys zs arbitrary: xs rule: shuffles.induct)
  case (1 ys)
  have "ys @ [x] \<in> shuffles [x] ys" by (induction ys) (auto simp: Cons_in_shuffles_iff)
  with 1 show ?case by simp
qed (auto simp: Cons_in_shuffles_iff)

lemma subseq_snoc: "subseq ys zs \<Longrightarrow> subseq (ys @ [x]) (zs @ [x])" "subseq ys zs \<Longrightarrow> subseq ys (zs @ ws)"
  using list_emb_append_mono [of "(=)" ys zs "[x]" "[x]"] list_emb_append_mono [of "(=)" ys zs "[]" ws] by simp_all

definition follows :: "ws_message list \<Rightarrow> bool \<Rightarrow> ws_message list \<Rightarrow> ws_message list \<Rightarrow> ws_client \<Rightarrow> bool" where
  "follows R admin L J c \<longleftrightarrow> cl_admin c = admin \<and>
     (\<exists>ys zs sent. R = sent @ cl_pending c \<and> seen c \<in> shuffles ys zs \<and> subseq ys L \<and> subseq zs (sent @ J) \<and>
        (cl_pending c \<noteq> [] \<longrightarrow> subseq zs sent))"

lemma follows_register: "follows (map snd (hb_last h)) admin [] []
    \<lparr>cl_send = [], cl_admin = admin, cl_pending = map snd (hb_last h), cl_wire = []\<rparr>"
  by (simp add: follows_def seen_def)

lemma follows_publish:
  assumes "follows R admin L J c"
  shows "follows R admin (L @ [m]) J (offer m c)" "follows R admin (L @ [m]) J c"
proof -
  obtain ys zs sent where f: "R = sent @ cl_pending c" "seen c \<in> shuffles ys zs" "subseq ys L" "subseq zs (sent @ J)"
      "cl_pending c \<noteq> [] \<longrightarrow> subseq zs sent" "cl_admin c = admin"
    using assms unfolding follows_def by blast
  then show *: "follows R admin (L @ [m]) J c"
    unfolding follows_def using subseq_snoc(2) by metis
  show "follows R admin (L @ [m]) J (offer m c)"
  proof (cases "length (cl_send c) < send_cap")
    case True
    have "seen (offer m c) \<in> shuffles (ys @ [m]) zs" using True f(2) shuffles_snoc by (simp add: seen_offer)
    with f show ?thesis
      unfolding follows_def using subseq_snoc(1) [OF f(3), of m] True
      by (intro conjI exI [of _ "ys @ [m]"] exI [of _ zs] exI [of _ sent]) (simp_all add: offer_def)
  next
    case False
    with * show ?thesis by (simp add: offer_def)
  qed
qed

lemma shuffles_snoc2: "xs \<in> shuffles ys zs \<Longrightarrow> xs @ [x] \<in> shuffles ys (zs @ [x])"
  using shuffles_snoc [of xs zs ys x] by (simp add: shuffles_commutes)

lemma follows_replay:
  assumes "follows R admin L J c"
  shows "follows R admin L J (replay_next c)"
proof (cases "cl_pending c")
  case (Cons d ds)
  then obtain ys zs sent where f: "R = sent @ d # ds" "seen c \<in> shuffles ys zs" "subseq ys L" "subseq zs sent" "cl_admin c = admin"
    using assms unfolding follows_def by auto
  let ?c = "c\<lparr>cl_pending := ds\<rparr>"
  have r: "replay_next c = offer d ?c" by (simp add: replay_next_def Cons)
  have s: "seen ?c = seen c" "length (cl_send ?c) = length (cl_send c)" by (simp_all add: seen_def)
  show ?thesis
  proof (cases "length (cl_send c) < send_cap")
    case True
    have "seen (replay_next c) \<in> shuffles ys (zs @ [d])" using True f(2) shuffles_snoc2 s by (simp add: r seen_offer)
    moreover have "subseq (zs @ [d]) (sent @ [d])" by (rule subseq_snoc(1) [OF f(4)])
    ultimately show ?thesis
      unfolding follows_def using f True subseq_snoc(2) [of "zs @ [d]" "sent @ [d]" J]
      by (intro conjI exI [of _ ys] exI [of _ "zs @ [d]"] exI [of _ "sent @ [d]"]) (simp_all add: r offer_def)
  next
    case False
    then show ?thesis
      unfolding follows_def using f subseq_snoc(2) [OF f(4), of "[d]"] subseq_snoc(2) [OF f(4), of "d # J"] s
      by (intro conjI exI [of _ ys] exI [of _ zs] exI [of _ "sent @ [d]"]) (simp_all add: r offer_def)
  qed
qed (use assms in \<open>simp add: replay_next_def\<close>)

lemma follows_jobs:
  assumes "follows R admin L J c"
  shows "follows R admin L (J @ [WSJobs js]) (replayJobs enc js c)"
proof -
  obtain ys zs sent where f: "R = sent @ cl_pending c" "seen c \<in> shuffles ys zs" "subseq ys L" "subseq zs (sent @ J)"
      "cl_pending c \<noteq> [] \<longrightarrow> subseq zs sent" "cl_admin c = admin"
    using assms unfolding follows_def by blast
  have z: "subseq zs (sent @ J @ [WSJobs js])" using subseq_snoc(2) [OF f(4), of "[WSJobs js]"] by simp
  then have *: "follows R admin L (J @ [WSJobs js]) c" unfolding follows_def using f
    by (intro conjI exI [of _ ys] exI [of _ zs] exI [of _ sent]) simp_all
  show ?thesis
  proof (cases "cl_pending c = [] \<and> enc (WSJobs js) \<and> length (cl_send c) < send_cap")
    case True
    then have "seen (replayJobs enc js c) \<in> shuffles ys (zs @ [WSJobs js])"
      using f(2) shuffles_snoc2 by (simp add: replayJobs_def seen_offer)
    moreover have "subseq (zs @ [WSJobs js]) (sent @ J @ [WSJobs js])" using subseq_snoc(1) [OF f(4)] by simp
    ultimately show ?thesis
      unfolding follows_def using f True
      by (intro conjI exI [of _ ys] exI [of _ "zs @ [WSJobs js]"] exI [of _ sent]) (simp_all add: replayJobs_def offer_def)
  next
    case False
    then have "replayJobs enc js c = c" by (auto simp: replayJobs_def offer_def)
    with * show ?thesis by simp
  qed
qed

lemma follows_write: "follows R admin L J c \<Longrightarrow> follows R admin L J (write_one c)"
proof -
  have "cl_pending (write_one c) = cl_pending c" "cl_admin (write_one c) = cl_admin c"
    by (simp_all add: write_one_def split: list.split)
  then show "follows R admin L J c \<Longrightarrow> follows R admin L J (write_one c)" by (simp add: follows_def)
qed

lemma map_of_map_snd: "map_of (map (\<lambda>(j, c). (j, f j c)) cs) i = map_option (f i) (map_of cs i)"
  by (induction cs) auto

lemma follows_exec:
  assumes "map_of (hb_clients h) i = Some c" "follows R admin L J c" "\<forall>b. p \<noteq> Register i b" "p \<noteq> Unregister i"
  shows "\<exists>c'. map_of (hb_clients (hub_exec enc p h)) i = Some c' \<and>
    follows R admin (L @ (case p of Publish m \<Rightarrow> if enc m \<and> entitled admin m then [m] else [] | _ \<Rightarrow> []))
      (J @ (case p of SendJobs j js \<Rightarrow> if j = i then [WSJobs js] else [] | _ \<Rightarrow> [])) c'"
proof (cases p)
  case (Publish m)
  have "cl_admin c = admin" using assms(2) by (simp add: follows_def)
  with assms(1,2) Publish show ?thesis
    by (auto simp: hub_Broadcast_def map_of_map_snd follows_publish)
qed (use assms in \<open>auto simp: hub_register_def hub_remove_def on_client_def map_of_map_snd follows_replay follows_jobs follows_write\<close>)


section \<open>A connection that races a broadcast\<close>

text \<open>
  A page can be left with an outdated list: the remembered messages are sent without the lock, so
  when a newer list is broadcast between a client's registration and its replay, the older one is
  written after the newer one and stays the last that the page was told until the next broadcast.
\<close>

theorem replay_can_overtake:
  "\<exists>ops. \<exists>c. map_of (hb_clients (hub_run (\<lambda>_. True) ops newHub)) 1 = Some c \<and>
     hb_last (hub_run (\<lambda>_. True) ops newHub) = [(WSTypeMetrics, WSMetrics ''new'')] \<and>
     cl_pending c = [] \<and> cl_send c = [] \<and> last (cl_wire c) = WSMetrics ''old''"
proof (intro exI conjI)
  let ?ops = "[Publish (WSMetrics ''old''), Register 1 False, Publish (WSMetrics ''new''), ReplayNext 1, WriteOne 1, WriteOne 1]"
  let ?c = "\<lparr>cl_send = [], cl_admin = False, cl_pending = [], cl_wire = [WSMetrics ''new'', WSMetrics ''old'']\<rparr>"
  show "map_of (hb_clients (hub_run (\<lambda>_. True) ?ops newHub)) 1 = Some ?c"
    by (simp add: hub_run_def hub_register_def hub_Broadcast_def newHub_def entitled_def offer_def send_cap_def on_client_def
        replay_next_def write_one_def)
  show "hb_last (hub_run (\<lambda>_. True) ?ops newHub) = [(WSTypeMetrics, WSMetrics ''new'')]"
    by (simp add: hub_run_def hub_register_def hub_Broadcast_def newHub_def on_client_def)
qed simp_all


end
