(* ===== verification/Server_Live.thy ===== *)
theory Server_Live
  imports Server_Theorems Hub
begin

text \<open>
  Where the server meets the other parts: opening the live connection (\<^verbatim>\<open>handleWS\<close> up to the
  registration with the hub), and the schedules the API stores for the RAID watcher.
\<close>

section \<open>Opening a live connection\<close>

text \<open>
  \<^verbatim>\<open>handleWS\<close> before its write loop: whether a client is registered with the hub, and as an admin or not.
  \<open>accept\<close> is the handshake of the WebSocket library with the origin check.
\<close>

definition open_ws :: "auth_env \<Rightarrow> (string \<Rightarrow> request \<Rightarrow> bool) \<Rightarrow> request \<Rightarrow> bool option act" where
  "open_ws e accept r = do {
     u \<leftarrow> currentUser e r;
     origin \<leftarrow> gets (\<lambda>w. TrimRight (cfg_Origin (w_cfg w)) (CHR ''/''));
     case u of
       None \<Rightarrow> do { _ \<leftarrow> writeErr 401 ''not authenticated''; State_Monad.return None }
     | Some (u, _) \<Rightarrow> State_Monad.return (if accept origin r then Some (user_IsAdmin u) else None)
   }"

lemma open_ws_session:
  assumes "run_state (open_ws e accept r) w = (Some admin, w')"
  shows "\<exists>u \<in> set (users (w_st w)). \<exists>x \<in> set (sessions (w_st w)). se_UserID x = user_ID u \<and> user_IsAdmin u = admin \<and>
    session_cookie r w = Some (se_Token x) \<and> int (w_clock w div sec) \<le> se_ExpiresAt x"
proof -
  obtain c w1 where cu: "run_state (currentUser e r) w = (c, w1)" by fastforce
  then obtain u tok where c: "c = Some (u, tok)" "user_IsAdmin u = admin"
    using assms by (auto simp: open_ws_def respond_defs split: option.splits if_splits)
  with currentUser_Some [of e r w u tok] cu show ?thesis
    by (auto simp: session_cookie_def)
qed

section \<open>Schedules\<close>

lemma clean_schedules_ok:
  "clean_schedules e m = Inr clean \<Longrightarrow>
   clean = filter (\<lambda>(_, sc). sched_RRule sc \<noteq> '''') m \<and> (\<forall>(_, sc) \<in> set clean. ValidateRRule (re e) (sched_RRule sc) = Inr ())"
  by (induction e m arbitrary: clean rule: clean_schedules.induct) (auto split: if_splits sum.splits)

lemma ValidateRRule_parses: "ValidateRRule e rule = Inr () \<Longrightarrow> \<exists>rr. parseRRule e rule = Inr rr"
  by (auto simp: ValidateRRule_def split: if_splits sum.splits)

text \<open>
  The watcher never meets a schedule it cannot evaluate: saving schedules answers 200 only after
  storing exactly the submitted ones that have a rule, each of which parses, so asking whether one is due
  never fails; every other answer leaves the stored settings as they were.
\<close>

theorem saved_schedules_evaluate:
  assumes "settings_readable (w_st w)" "rw_status (w_rw w) = None"
    and "w' = snd (run_state (handleSetMdadmSchedules e r) w)"
  shows "(rw_status (w_rw w') = Some 200 \<and>
      (\<exists>m. decode_schedules (rq_json r) = Some m \<and>
         LoadMdadmSchedules (w_st w') = Inr (filter (\<lambda>(_, sc). sched_RRule sc \<noteq> '''') m) \<and>
         (\<forall>(_, sc) \<in> set m. sched_RRule sc \<noteq> '''' \<longrightarrow> (\<forall>since now. \<exists>due. dueSince (re e) (sched_RRule sc) since now = Inr due)))) \<or>
    (rw_status (w_rw w') \<noteq> Some 200 \<and> settings_tbl (w_st w') = settings_tbl (w_st w))"
proof (cases "decode_schedules (rq_json r)")
  case None
  with assms(2,3) show ?thesis by (simp add: handleSetMdadmSchedules_def respond_defs)
next
  case (Some m)
  show ?thesis
  proof (cases "clean_schedules e m")
    case (Inl msg)
    with Some assms(2,3) show ?thesis by (simp add: handleSetMdadmSchedules_def respond_defs)
  next
    case (Inr clean)
    note ok = clean_schedules_ok [OF Inr]
    have due: "\<exists>due. dueSince (re e) (sched_RRule sc) since now = Inr due"
      if "(n, sc) \<in> set m" "sched_RRule sc \<noteq> ''''" for n sc since now
    proof -
      have "ValidateRRule (re e) (sched_RRule sc) = Inr ()" using ok that by auto
      then show ?thesis using ValidateRRule_parses by (fastforce simp: dueSince_def split: option.splits)
    qed
    show ?thesis
    proof (cases "SaveMdadmSchedules clean (w_st w)")
      case (Pair res s')
      show ?thesis
      proof (cases res)
        case (Inl err)
        have "s' = w_st w" using Pair Inl by (auto simp: SaveMdadmSchedules_def setJSON_def SetSetting_def split: if_splits)
        with Some Inr Pair Inl assms(2,3) show ?thesis by (simp add: handleSetMdadmSchedules_def respond_defs)
      next
        case (Inr u)
        have "LoadMdadmSchedules s' = Inr clean"
          using json_records_roundtrip(5) [OF assms(1)] Pair Inr by simp
        with ok due Some \<open>clean_schedules e m = Inr clean\<close> Pair Inr assms(2,3) show ?thesis
          by (auto simp: handleSetMdadmSchedules_def respond_defs)
      qed
    qed
  qed
qed

theorem saved_schedules_evaluate_witness:
  "let r = plain_request\<lparr>rq_json := BSchedules [(''md0'', \<lparr>sched_RRule = ''FREQ=DAILY'', sched_Enabled = True\<rparr>)]\<rparr>;
       w' = snd (run_state (handleSetMdadmSchedules demo_env r) ada_world)
   in rw_status (w_rw w') = Some 200 \<and>
      LoadMdadmSchedules (w_st w') = Inr [(''md0'', \<lparr>sched_RRule = ''FREQ=DAILY'', sched_Enabled = True\<rparr>)]"
proof -
  let ?r = "plain_request\<lparr>rq_json := BSchedules [(''md0'', \<lparr>sched_RRule = ''FREQ=DAILY'', sched_Enabled = True\<rparr>)]\<rparr>"
  let ?w = "snd (run_state (handleSetMdadmSchedules demo_env ?r) ada_world)"
  have "rw_status (w_rw ?w) = Some 200"
    by (simp add: handleSetMdadmSchedules_def respond_defs ValidateRRule_def parseRRule_def demo_env_def ada_world_def
        demo_world_def fresh_response_def SaveMdadmSchedules_def setJSON_def SetSetting_def empty_store_def decode_defs)
  moreover have "settings_readable (w_st ada_world)" "rw_status (w_rw ada_world) = None"
    by (simp_all add: settings_readable_def ada_world_def empty_store_def demo_world_def fresh_response_def)
  ultimately show ?thesis
    using saved_schedules_evaluate [of ada_world ?w demo_env ?r] by (simp add: decode_defs)
qed

end
