(* ===== verification/Raidwatch_Laws.thy ===== *)
theory Raidwatch_Laws
  imports Raidwatch
begin

text \<open>
  What the RAID watcher guarantees: which transitions are announced, that they are announced once,
  that the records of failed scrubs stay on the retry ladder, that a scrub is started only when it is
  due, and that a scrub that cannot start is given up after five attempts with two messages.
\<close>

section \<open>A watched array\<close>

text \<open>
  The instance the laws are applied to: one degraded array with a daily schedule; the host counts the
  attempts at starting a scrub, each of which finds the array busy.
\<close>

definition demo_array :: md_array where
  "demo_array = \<lparr>md_Name = ''md0'', md_Level = ''raid1'', md_State = MdDegraded, md_DevicesTotal = 2, md_DevicesUp = 1,
     md_Members = [\<lparr>mem_Device = ''sda1'', mem_Up = True\<rparr>, \<lparr>mem_Device = ''sdb1'', mem_Up = False\<rparr>],
     md_SyncAction = ''idle'', md_SyncPercent = '''', md_SyncSpeedKBs = 0, md_SyncFinish = '''', md_MismatchCnt = 0,
     md_LastScanAt = 0, md_ScanFailure = None\<rparr>"

definition daily_env :: "(nat, unit, unit) raid_env" where
  "daily_env = \<lparr>rw_scan = (\<lambda>_. [demo_array]), rw_start = (\<lambda>_ n. (Inl ErrEBUSY, Suc n)), rw_notif = True,
     StrToROptionInLocation = (\<lambda>_. Inr ()), opt_Dtstart = (\<lambda>_. None), with_Dtstart = (\<lambda>_ x. x), NewRRule = (\<lambda>_. Inr ()),
     rr_After = (\<lambda>_ t. Some ((t div 86400 + 1) * 86400)), scheduleAnchor = 0\<rparr>"

definition daily_schedules :: "(string \<times> mdadm_schedule) list" where
  "daily_schedules = [(''md0'', \<lparr>sched_RRule = ''FREQ=DAILY'', sched_Enabled = True\<rparr>)]"

definition healthy_baseline :: "(string \<times> md_baseline) list" where
  "healthy_baseline = [(''md0'', \<lparr>bl_State = MdHealthy, bl_SyncAction = ''idle'', bl_Members = [(''sda1'', True), (''sdb1'', True)]\<rparr>)]"

definition daily_world :: "nat raid_world" where
  "daily_world = \<lparr>rw_store = empty_store\<lparr>settings_tbl :=
     [(''mdadm_schedules'', JSchedules daily_schedules), (''mdadm_last_run'', JInts [(''md0'', 0)]),
      (''mdadm_notify_baseline'', JBaselines healthy_baseline)]\<rparr>, rw_host = 0, rw_msgs = []\<rparr>"

definition daily_loop :: "nat sched_loop" where
  "daily_loop = \<lparr>sl_lastRun = [(''md0'', 0)], sl_failures = [], sl_runChanged = False, sl_failChanged = False,
     sl_world = daily_world\<rparr>"

lemma daily_loads:
  "LoadMdadmSchedules (rw_store daily_world) = Inr daily_schedules" "LoadMdadmScanFailures (rw_store daily_world) = Inr []"
  "LoadMdadmLastRun (rw_store daily_world) = Inr [(''md0'', 0)]" "LoadMdadmBaseline (rw_store daily_world) = Inr healthy_baseline"
  "LoadMdadmLastScan (rw_store daily_world) = Inr []"
  by (simp_all add: daily_world_def kv_accessors getJSON_def GetSetting_def empty_store_def)

section \<open>Announcing transitions\<close>

definition says :: "bool \<Rightarrow> raid_message list \<Rightarrow> 'h raid_world \<Rightarrow> 'h raid_world" where
  "says on ms w = (if on then w\<lparr>rw_msgs := rw_msgs w @ ms\<rparr> else w)"

lemma says_simps [simp]:
  "says on [] w = w" "rw_store (says on ms w) = rw_store w" "rw_host (says on ms w) = rw_host w"
  "says on ns (says on ms w) = says on (ms @ ns) w"
  "rw_msgs (says on ms w) = rw_msgs w @ (if on then ms else [])"
  by (simp_all add: says_def)

lemma raid_notify_says: "raid_notify e ev title body w = says (rw_notif e) [(ev, title, body)] w"
  by (simp add: raid_notify_def says_def)

text \<open>
  What counts as unchanged since the baseline: a scrub is running now exactly if one was, the array is
  in a bad state exactly if it was, and every member of the baseline that is still listed is up exactly
  if it was.
\<close>

definition raid_unchanged :: "md_baseline \<Rightarrow> md_array \<Rightarrow> bool" where
  "raid_unchanged prev a \<longleftrightarrow>
     (bl_SyncAction prev = ''check'' \<longleftrightarrow> md_SyncAction a = ''check'') \<and>
     (badState (bl_State prev) \<longleftrightarrow> badState (md_State a)) \<and>
     (\<forall>m \<in> set (md_Members a). \<forall>up. map_of (bl_Members prev) (mem_Device m) = Some up \<longrightarrow> up = mem_Up m)"

text \<open>An update of the world that hands over fixed messages, none exactly if \<open>P\<close>.\<close>

definition says_unless :: "bool \<Rightarrow> bool \<Rightarrow> ('h raid_world \<Rightarrow> 'h raid_world) \<Rightarrow> bool" where
  "says_unless on P f \<longleftrightarrow> (\<exists>ms. (ms = [] \<longleftrightarrow> P) \<and> f = says on ms)"

lemma says_unless_id: "says_unless on True (\<lambda>w. w)"
  unfolding says_unless_def by (intro exI [of _ "[]"]) auto

lemma says_unless_comp:
  "\<lbrakk>says_unless on P f; says_unless on Q g\<rbrakk> \<Longrightarrow> says_unless on (P \<and> Q) (\<lambda>w. g (f w))"
  unfolding says_unless_def
proof (elim exE conjE)
  fix ms ns assume "(ms = []) = P" "f = says on ms" "(ns = []) = Q" "g = says on ns"
  then show "\<exists>ms. (ms = []) = (P \<and> Q) \<and> (\<lambda>w. g (f w)) = says on ms"
    by (intro exI [of _ "ms @ ns"]) auto
qed

lemma says_unless_notify: "says_unless (rw_notif e) False (raid_notify e ev title body)"
  unfolding says_unless_def by (intro exI [of _ "[(ev, title, body)]"]) (auto simp: raid_notify_says)

lemma says_unless_fold:
  "(\<And>m. says_unless on (P m) (f m)) \<Longrightarrow> says_unless on (\<forall>m \<in> set xs. P m) (fold f xs)"
proof (induction xs)
  case (Cons x xs)
  from says_unless_comp [OF Cons.prems Cons.IH [OF Cons.prems]] show ?case by (simp add: comp_def)
qed (use says_unless_id in \<open>simp add: id_def\<close>)

lemma notifyScan_says:
  "says_unless (rw_notif e) (bl_SyncAction prev = ''check'' \<longleftrightarrow> md_SyncAction a = ''check'') (\<lambda>w. snd (notifyScan e a prev w))"
  using says_unless_notify says_unless_id
  by (cases "bl_SyncAction prev = ''check''"; cases "md_SyncAction a = ''check''") (simp_all add: notifyScan_def Let_def)

lemma notifyHealth_says:
  "says_unless (rw_notif e) (badState (bl_State prev) \<longleftrightarrow> badState (md_State a)) (notifyHealth e a prev)"
  using says_unless_notify says_unless_id
  by (cases "badState (bl_State prev)"; cases "badState (md_State a)") (simp_all add: notifyHealth_def [abs_def] Let_def)

lemma notify_disk_says:
  "says_unless (rw_notif e) (\<forall>up. map_of (bl_Members prev) (mem_Device m) = Some up \<longrightarrow> up = mem_Up m) (notify_disk e a prev m)"
proof (cases "map_of (bl_Members prev) (mem_Device m)")
  case None
  then show ?thesis using says_unless_id by (simp add: notify_disk_def [abs_def])
next
  case (Some up)
  have says: "says_unless (rw_notif e) (up = mem_Up m) (notify_disk e a prev m)"
    using says_unless_notify says_unless_id
    by (cases up; cases "mem_Up m") (simp_all add: notify_disk_def [abs_def] Some)
  have same: "(\<forall>u. map_of (bl_Members prev) (mem_Device m) = Some u \<longrightarrow> u = mem_Up m) \<longleftrightarrow> up = mem_Up m"
    unfolding Some option.inject by (rule iffI) simp_all
  show ?thesis unfolding same by (rule says)
qed

lemma known_array_says:
  "says_unless (rw_notif e) (raid_unchanged prev a)
     (\<lambda>w. notifyDisks e a prev (notifyHealth e a prev (snd (notifyScan e a prev w))))"
  using says_unless_comp [OF notifyScan_says says_unless_comp [OF notifyHealth_says says_unless_fold [OF notify_disk_says]]]
  unfolding notifyDisks_def raid_unchanged_def .

lemma compare_arrays_says:
  "\<exists>ms. (ms = [] \<longleftrightarrow> (\<forall>a \<in> set as. \<forall>prev. map_of baseline (md_Name a) = Some prev \<longrightarrow> raid_unchanged prev a)) \<and>
     (\<forall>nxt ls ch w. snd (snd (snd (compare_arrays e baseline now as nxt ls ch w))) = says (rw_notif e) ms w)"
proof (induction as)
  case (Cons a as)
  obtain ns where ns: "ns = [] \<longleftrightarrow> (\<forall>a \<in> set as. \<forall>prev. map_of baseline (md_Name a) = Some prev \<longrightarrow> raid_unchanged prev a)"
      "\<And>nxt ls ch w. snd (snd (snd (compare_arrays e baseline now as nxt ls ch w))) = says (rw_notif e) ns w"
    using Cons by (elim exE conjE) simp
  show ?case
  proof (cases "map_of baseline (md_Name a)")
    case None
    with ns show ?thesis by (intro exI [of _ ns]) (simp add: Let_def)
  next
    case (Some prev)
    obtain ms where ms: "ms = [] \<longleftrightarrow> raid_unchanged prev a"
      "(\<lambda>w. notifyDisks e a prev (notifyHealth e a prev (snd (notifyScan e a prev w)))) = says (rw_notif e) ms"
      using known_array_says [of e prev a] unfolding says_unless_def by (elim exE conjE)
    show ?thesis
    proof (intro exI [of _ "ms @ ns"] conjI allI)
      show "ms @ ns = [] \<longleftrightarrow> (\<forall>a \<in> set (a # as). \<forall>prev. map_of baseline (md_Name a) = Some prev \<longrightarrow> raid_unchanged prev a)"
        by (simp add: ms(1) ns(1) Some)
      show "snd (snd (snd (compare_arrays e baseline now (a # as) nxt ls ch w))) = says (rw_notif e) (ms @ ns) w" for nxt ls ch w
        by (simp add: Some Let_def case_prod_unfold fun_cong [OF ms(2)] ns(2))
    qed
  qed
qed auto

lemma compare_arrays_baseline:
  "fst (compare_arrays e baseline now as nxt ls ch w) = fold (\<lambda>a. AList.update (md_Name a) (raid_snapshot a)) as nxt"
  by (induction as arbitrary: nxt ls ch w) (auto simp: Let_def case_prod_unfold split: option.splits)

lemma map_of_fold_update:
  "distinct (map f xs) \<Longrightarrow>
   map_of (fold (\<lambda>x. AList.update (f x) (g x)) xs m) k =
     (case find (\<lambda>x. f x = k) xs of Some x \<Rightarrow> Some (g x) | None \<Rightarrow> map_of m k)"
proof (induction xs arbitrary: m)
  case (Cons x xs)
  then have "find (\<lambda>y. f y = f x) xs = None" by (simp add: find_None_iff image_iff) metis
  with Cons show ?case by (auto split: option.splits)
qed simp

lemma member_map_fold: "member_map ms acc = fold (\<lambda>m. AList.update (mem_Device m) (mem_Up m)) ms acc"
  by (induction ms arbitrary: acc) auto

lemma raid_unchanged_snapshot:
  assumes "distinct (map mem_Device (md_Members a))"
  shows "raid_unchanged (raid_snapshot a) a"
proof -
  have "up = mem_Up m" if "m \<in> set (md_Members a)" "map_of (member_map (md_Members a) []) (mem_Device m) = Some up" for m up
  proof -
    have "find (\<lambda>x. mem_Device x = mem_Device m) (md_Members a) \<noteq> None"
      using that(1) by (auto simp: find_None_iff)
    then obtain n where n: "find (\<lambda>x. mem_Device x = mem_Device m) (md_Members a) = Some n" by blast
    then have "n \<in> set (md_Members a)" "mem_Device n = mem_Device m"
      by (auto simp: find_Some_iff)
    then have "n = m" using that(1) assms by (auto simp: distinct_map dest: inj_onD)
    with n that(2) assms show ?thesis by (simp add: member_map_fold map_of_fold_update)
  qed
  then show ?thesis by (simp add: raid_unchanged_def raid_snapshot_def)
qed

lemma checkTransitions_run:
  assumes "LoadMdadmBaseline (rw_store w) = Inr baseline" "LoadMdadmLastScan (rw_store w) = Inr ls"
  shows "\<exists>ms. (ms = [] \<longleftrightarrow> (\<forall>a \<in> set arrays. \<forall>prev. map_of baseline (md_Name a) = Some prev \<longrightarrow> raid_unchanged prev a)) \<and>
    rw_msgs (checkTransitions e arrays now w) = rw_msgs w @ (if rw_notif e then ms else [])"
proof -
  obtain ms where "ms = [] \<longleftrightarrow> (\<forall>a \<in> set arrays. \<forall>prev. map_of baseline (md_Name a) = Some prev \<longrightarrow> raid_unchanged prev a)"
    "snd (snd (snd (compare_arrays e baseline now arrays [] ls False w))) = says (rw_notif e) ms w"
    using compare_arrays_says [of arrays baseline e now] by blast
  with assms show ?thesis
    by (intro exI [of _ ms]) (auto simp: checkTransitions_def Let_def case_prod_unfold)
qed



section \<open>Announcing once\<close>

lemma Save_fault [simp]:
  "db_fault (snd (SaveMdadmBaseline b s)) = db_fault s" "db_fault (snd (SaveMdadmLastScan l s)) = db_fault s"
  "db_fault (snd (SaveMdadmLastRun l s)) = db_fault s" "db_fault (snd (SaveMdadmScanFailures f s)) = db_fault s"
  "db_fault (snd (SaveMdadmSchedules c s)) = db_fault s"
  by (simp_all add: kv_accessors setJSON_def SetSetting_def)

lemma Load_readable:
  "settings_readable s \<Longrightarrow> \<exists>b. LoadMdadmBaseline s = Inr b" "settings_readable s \<Longrightarrow> \<exists>l. LoadMdadmLastScan s = Inr l"
  by (auto simp: kv_accessors getJSON_def GetSetting_def settings_readable_def split: option.splits)

lemma baseline_after_pass:
  assumes "settings_readable (rw_store w)" "\<not> db_fault (rw_store w) ''SetSetting''"
  shows "LoadMdadmBaseline (rw_store (checkTransitions e arrays now w)) =
      Inr (fold (\<lambda>a. AList.update (md_Name a) (raid_snapshot a)) arrays [])"
    and "settings_readable (rw_store (checkTransitions e arrays now w))"
proof -
  obtain b ls where l: "LoadMdadmBaseline (rw_store w) = Inr b" "LoadMdadmLastScan (rw_store w) = Inr ls"
    using Load_readable [OF assms(1)] by blast
  obtain ms where "snd (snd (snd (compare_arrays e b now arrays [] ls False w))) = says (rw_notif e) ms w"
    using compare_arrays_says [of arrays b e now] by blast
  with l assms show "LoadMdadmBaseline (rw_store (checkTransitions e arrays now w)) =
      Inr (fold (\<lambda>a. AList.update (md_Name a) (raid_snapshot a)) arrays [])"
    "settings_readable (rw_store (checkTransitions e arrays now w))"
    by (simp_all add: checkTransitions_def Let_def case_prod_unfold compare_arrays_baseline settings_readable_def
        kv_accessors setJSON_def SetSetting_def getJSON_def GetSetting_def)
qed

text \<open>
  Each change is announced once: after a pass whose baseline could be saved, another pass over the
  same arrays (with distinct names and distinct members, as the kernel lists them) hands over nothing.
\<close>

theorem raid_announced_once:
  assumes "settings_readable (rw_store w)" "\<not> db_fault (rw_store w) ''SetSetting''"
    and "distinct (map md_Name arrays)" "\<forall>a \<in> set arrays. distinct (map mem_Device (md_Members a))"
  shows "rw_msgs (checkTransitions e arrays later (checkTransitions e arrays now w)) =
    rw_msgs (checkTransitions e arrays now w)"
proof -
  let ?w = "checkTransitions e arrays now w"
  obtain ls where "LoadMdadmLastScan (rw_store ?w) = Inr ls"
    using Load_readable(2) baseline_after_pass(2) [OF assms(1,2)] by blast
  from checkTransitions_run [OF baseline_after_pass(1) [OF assms(1,2)] this, of arrays e later]
  obtain ms where ms: "ms = [] \<longleftrightarrow> (\<forall>a \<in> set arrays. \<forall>prev.
        map_of (fold (\<lambda>a. AList.update (md_Name a) (raid_snapshot a)) arrays []) (md_Name a) = Some prev \<longrightarrow>
        raid_unchanged prev a)"
    "rw_msgs (checkTransitions e arrays later ?w) = rw_msgs ?w @ (if rw_notif e then ms else [])" by blast
  have "find (\<lambda>x. md_Name x = md_Name a) arrays = Some a" if "a \<in> set arrays" for a
    using that assms(3) by (induction arrays) (auto simp: image_iff)
  then have "ms = []"
    unfolding ms(1) using assms(3,4) raid_unchanged_snapshot by (auto simp: map_of_fold_update)
  with ms(2) show ?thesis by simp
qed

theorem raid_announced_once_witness:
  "rw_msgs (checkTransitions daily_env [demo_array] 86405 (checkTransitions daily_env [demo_array] 86400 daily_world)) =
   rw_msgs (checkTransitions daily_env [demo_array] 86400 daily_world)"
  by (rule raid_announced_once) (simp_all add: daily_world_def settings_readable_def empty_store_def demo_array_def)

section \<open>The records of failed scrubs\<close>

definition stored_failures :: "store \<Rightarrow> (string \<times> md_scan_failure) list" where
  "stored_failures s = (case map_of (settings_tbl s) ''mdadm_scan_failures'' of Some (JFailures m) \<Rightarrow> m | _ \<Rightarrow> [])"

text \<open>
  A record on the ladder: between one and five attempts; a scheduled one is retried after the delay of
  its attempt while fewer than five were made; a manual one is never retried.
\<close>

definition good_failure :: "md_scan_failure \<Rightarrow> bool" where
  "good_failure f \<longleftrightarrow> 1 \<le> fail_Attempts f \<and> fail_Attempts f \<le> 5 \<and>
     (if fail_Scheduled f
      then fail_NextRetryAt f = (if fail_Attempts f \<le> 4 then fail_LastAt f + retryDelays ! (fail_Attempts f - 1) else 0)
      else fail_Attempts f = 1 \<and> fail_NextRetryAt f = 0)"

definition good_failures :: "(string \<times> md_scan_failure) list \<Rightarrow> bool" where
  "good_failures m \<longleftrightarrow> (\<forall>n f. map_of m n = Some f \<longrightarrow> good_failure f)"

lemma good_failures_simps [simp]:
  "good_failures []" "good_failures m \<Longrightarrow> good_failures (AList.delete n m)"
  "\<lbrakk>good_failures m; good_failure f\<rbrakk> \<Longrightarrow> good_failures (AList.update n f m)"
  by (auto simp: good_failures_def split: if_splits)

lemma Load_failures: "LoadMdadmScanFailures s = Inr m \<Longrightarrow> m = stored_failures s"
proof -
  assume "LoadMdadmScanFailures s = Inr m"
  then have "m = (case map_of (settings_tbl s) ''mdadm_scan_failures'' of None \<Rightarrow> []
      | Some v \<Rightarrow> (case dec_failures v of None \<Rightarrow> [] | Some x \<Rightarrow> x))"
    by (auto simp: LoadMdadmScanFailures_def getJSON_def GetSetting_def split: if_splits option.splits)
  moreover have "(case dec_failures v of None \<Rightarrow> [] | Some x \<Rightarrow> x) = (case v of JFailures m \<Rightarrow> m | _ \<Rightarrow> [])" for v
    by (cases v) auto
  ultimately show ?thesis unfolding stored_failures_def by (auto split: option.splits)
qed

lemma stored_failures_save [simp]:
  "stored_failures (snd (SaveMdadmScanFailures m s)) = (if db_fault s ''SetSetting'' then stored_failures s else m)"
  "stored_failures (snd (SaveMdadmBaseline b s)) = stored_failures s"
  "stored_failures (snd (SaveMdadmLastScan i s)) = stored_failures s"
  "stored_failures (snd (SaveMdadmLastRun i s)) = stored_failures s"
  "stored_failures (snd (SaveMdadmSchedules c s)) = stored_failures s"
  by (simp_all add: stored_failures_def kv_accessors setJSON_def SetSetting_def)

lemma next_failure_fresh: "good_failure (next_failure no_failure err scheduled now)"
  by (cases scheduled) (simp_all add: good_failure_def next_failure_def no_failure_def Let_def retryDelays_def)

lemma next_failure_retry:
  assumes "good_failure f" "fail_Scheduled f" "fail_NextRetryAt f > 0"
  shows "good_failure (next_failure f err True now)"
proof -
  have "fail_Attempts f \<le> 4" using assms by (auto simp: good_failure_def split: if_splits)
  then show ?thesis by (auto simp: good_failure_def next_failure_def Let_def retryDelays_def)
qed

lemma recordFailure_eq:
  "fst (recordFailure e name prev err scheduled now w) = next_failure prev err scheduled now"
  "rw_store (snd (recordFailure e name prev err scheduled now w)) = rw_store w"
  "rw_host (snd (recordFailure e name prev err scheduled now w)) = rw_host w"
  by (simp_all add: recordFailure_def Let_def raid_notify_says)

lemma attempt_start_cases:
  obtains err h w where "rw_start e name (rw_host (sl_world l)) = (Inl err, h)"
      "rw_store w = rw_store (sl_world l)"
      "attempt_start e now name retrying l =
         (let nxt = next_failure (case retrying of Some f \<Rightarrow> f | None \<Rightarrow> no_failure) err True now;
              l = l\<lparr>sl_failures := AList.update name nxt (sl_failures l), sl_failChanged := True, sl_world := w\<rparr>
          in if fail_NextRetryAt nxt = 0
             then l\<lparr>sl_lastRun := AList.update name now (sl_lastRun l), sl_runChanged := True\<rparr> else l)"
  | h where "rw_start e name (rw_host (sl_world l)) = (Inr (), h)"
      "attempt_start e now name retrying l =
         l\<lparr>sl_failures := AList.delete name (sl_failures l),
            sl_failChanged := (sl_failChanged l \<or> map_of (sl_failures l) name \<noteq> None),
            sl_lastRun := AList.update name now (sl_lastRun l), sl_runChanged := True,
            sl_world := (sl_world l)\<lparr>rw_host := h\<rparr>\<rparr>"
proof (cases "rw_start e name (rw_host (sl_world l))")
  case (Pair r h)
  show thesis
  proof (cases r)
    case (Inl err)
    let ?f = "case retrying of Some f \<Rightarrow> f | None \<Rightarrow> no_failure"
    obtain w where w: "recordFailure e name ?f err True now ((sl_world l)\<lparr>rw_host := h\<rparr>) = (next_failure ?f err True now, w)"
      "rw_store w = rw_store (sl_world l)"
      using recordFailure_eq [of e name ?f err True now "(sl_world l)\<lparr>rw_host := h\<rparr>"] by (metis prod.collapse raid_world.simps(1) raid_world.update_convs(2) raid_world.surjective)
    show thesis
      by (rule that(1) [of err h w]) (simp_all add: Pair Inl w attempt_start_def Let_def)
  next
    case (Inr u)
    show thesis by (rule that(2) [of h]) (simp_all add: Pair Inr attempt_start_def)
  qed
qed

lemma attempt_start_store [simp]: "rw_store (sl_world (attempt_start e now name retrying l)) = rw_store (sl_world l)"
  by (rule attempt_start_cases [of e name l now retrying]) (simp_all add: Let_def)

lemma attempt_start_good:
  assumes "good_failures (sl_failures l)" "retrying = None \<or> retrying = retry_of name l"
  shows "good_failures (sl_failures (attempt_start e now name retrying l))"
proof (rule attempt_start_cases [of e name l now retrying])
  fix err h and w :: "'a raid_world"
  assume eq: "attempt_start e now name retrying l =
         (let nxt = next_failure (case retrying of Some f \<Rightarrow> f | None \<Rightarrow> no_failure) err True now;
              l = l\<lparr>sl_failures := AList.update name nxt (sl_failures l), sl_failChanged := True, sl_world := w\<rparr>
          in if fail_NextRetryAt nxt = 0
             then l\<lparr>sl_lastRun := AList.update name now (sl_lastRun l), sl_runChanged := True\<rparr> else l)"
  have "good_failure (next_failure (case retrying of Some f \<Rightarrow> f | None \<Rightarrow> no_failure) err True now)"
    using assms next_failure_fresh next_failure_retry
    by (auto simp: retry_of_def good_failures_def split: option.splits if_splits)
  with assms(1) eq show ?thesis by (simp add: Let_def)
qed (use assms in simp)

lemma drop_moot_simps [simp]:
  "sl_world (drop_moot a b l) = sl_world l" "sl_lastRun (drop_moot a b l) = sl_lastRun l"
  "good_failures (sl_failures l) \<Longrightarrow> good_failures (sl_failures (drop_moot a b l))"
  by (auto simp: drop_moot_def split: option.splits)

lemma schedule_one_store [simp]: "rw_store (sl_world (schedule_one e cfg now a l)) = rw_store (sl_world l)"
  by (auto simp: schedule_one_def Let_def split: option.splits sum.splits)

lemma schedule_one_good:
  "good_failures (sl_failures l) \<Longrightarrow> good_failures (sl_failures (schedule_one e cfg now a l))"
  by (auto simp: schedule_one_def Let_def intro!: attempt_start_good split: option.splits sum.splits)

lemma fold_schedule_one:
  "rw_store (sl_world (fold (schedule_one e cfg now) as l)) = rw_store (sl_world l)"
  "good_failures (sl_failures l) \<Longrightarrow> good_failures (sl_failures (fold (schedule_one e cfg now) as l))"
  by (induction as arbitrary: l) (simp_all add: schedule_one_good)

lemma checkTransitions_failures [simp]:
  "stored_failures (rw_store (checkTransitions e arrays now w)) = stored_failures (rw_store w)"
proof (cases "LoadMdadmBaseline (rw_store w)")
  case (Inr b)
  show ?thesis
  proof (cases "LoadMdadmLastScan (rw_store w)")
    case (Inr ls)
    obtain ms where "snd (snd (snd (compare_arrays e b now arrays [] ls False w))) = says (rw_notif e) ms w"
      using compare_arrays_says [of arrays b e now] by blast
    with Inr \<open>LoadMdadmBaseline (rw_store w) = Inr b\<close> show ?thesis
      by (simp add: checkTransitions_def Let_def case_prod_unfold)
  qed (simp add: checkTransitions_def Inr)
qed (simp add: checkTransitions_def)

lemma runSchedules_eq:
  assumes "LoadMdadmSchedules (rw_store w) = Inr cfg" "LoadMdadmScanFailures (rw_store w) = Inr failures"
    and "LoadMdadmLastRun (rw_store w) = Inr lastRun"
    and l: "l = fold (schedule_one e cfg now) arrays
       \<lparr>sl_lastRun = lastRun, sl_failures = failures, sl_runChanged = False, sl_failChanged = False, sl_world = w\<rparr>"
  shows "stored_failures (rw_store (runSchedules e arrays now w)) \<in> {stored_failures (rw_store w), sl_failures l}"
    and "rw_host (runSchedules e arrays now w) = rw_host (sl_world l)"
    and "rw_msgs (runSchedules e arrays now w) = rw_msgs (sl_world l)"
  using fold_schedule_one(1) [of e cfg now arrays
      "\<lparr>sl_lastRun = lastRun, sl_failures = failures, sl_runChanged = False, sl_failChanged = False, sl_world = w\<rparr>"]
  by (simp_all add: runSchedules_def assms(1-3) l [symmetric] Let_def)

lemma runSchedules_good:
  assumes "good_failures (stored_failures (rw_store w))"
  shows "good_failures (stored_failures (rw_store (runSchedules e arrays now w)))"
proof (cases "LoadMdadmSchedules (rw_store w)"; cases "LoadMdadmScanFailures (rw_store w)"; cases "LoadMdadmLastRun (rw_store w)")
  fix cfg failures lastRun
  assume ld: "LoadMdadmSchedules (rw_store w) = Inr cfg" "LoadMdadmScanFailures (rw_store w) = Inr failures"
    "LoadMdadmLastRun (rw_store w) = Inr lastRun"
  have "good_failures failures" using Load_failures [OF ld(2)] assms by simp
  then show ?thesis
    using runSchedules_eq(1) [OF ld refl, of e arrays now] assms fold_schedule_one(2) [where e = e and cfg = cfg and now = now and as = arrays]
    by auto
qed (use assms in \<open>simp_all add: runSchedules_def\<close>)

lemma record_start_good:
  assumes "good_failures (stored_failures (rw_store w))"
  shows "good_failures (stored_failures (rw_store (snd (record_start e name r now w))))"
proof (cases "LoadMdadmScanFailures (rw_store w)")
  case (Inr failures)
  then have "good_failures failures" using Load_failures assms by simp
  with Inr assms show ?thesis
    using recordFailure_eq [of e name no_failure _ False now w] next_failure_fresh
    by (cases r) (auto simp: record_start_def case_prod_unfold)
qed (use assms in \<open>simp add: record_start_def\<close>)

lemma raid_step_good:
  "\<lbrakk>raid_step e w w'; good_failures (stored_failures (rw_store w))\<rbrakk> \<Longrightarrow> good_failures (stored_failures (rw_store w'))"
  by (erule raid_step.cases) (auto simp: runSchedules_good record_start_good)

text \<open>
  \<^bold>\<open>C15\<close>. The records of failed scrubs stay on the retry ladder: whatever sequence of passes, manual
  starts, edits of schedules and changes of the host follows a state whose records are on it (an empty
  table is), every stored record counts between one and five attempts, a scheduled one is due for retry
  exactly at its last attempt plus the delay of that attempt while fewer than five were made and has no
  retry from then on, and a manual one is never retried.
\<close>

theorem scan_failures_on_ladder:
  assumes "good_failures (stored_failures (rw_store w0))" "raid_reachable e w0 w"
  shows "good_failures (stored_failures (rw_store w))"
  using assms(2,1) by (induction rule: raid_reachable.induct) (auto intro: raid_step_good)

theorem scan_failures_on_ladder_witness:
  "good_failures (stored_failures (rw_store (raid_sweep daily_env 86400 daily_world)))"
  by (rule scan_failures_on_ladder [OF _ raid_sweep_reachable])
    (simp add: daily_world_def stored_failures_def empty_store_def)

section \<open>A scrub starts only when it is due\<close>

text \<open>
  What the recurrence library documents of \<^verbatim>\<open>After\<close>: the occurrence it returns is one of the rule's and
  lies strictly after the given time. \<open>occ r x\<close> says that \<open>x\<close> is an occurrence of \<open>r\<close>.
\<close>

definition after_law :: "('h, 'o, 'r) raid_env \<Rightarrow> ('r \<Rightarrow> int \<Rightarrow> bool) \<Rightarrow> bool" where
  "after_law e occ \<longleftrightarrow> (\<forall>r t x. rr_After e r t = Some x \<longrightarrow> occ r x \<and> t < x)"

definition start_due ::
  "('h, 'o, 'r) raid_env \<Rightarrow> ('r \<Rightarrow> int \<Rightarrow> bool) \<Rightarrow> (string \<times> mdadm_schedule) list \<Rightarrow> (string \<times> int) list \<Rightarrow>
   (string \<times> md_scan_failure) list \<Rightarrow> int \<Rightarrow> md_array \<Rightarrow> bool" where
  "start_due e occ cfg lastRun failures now a \<longleftrightarrow>
     (\<exists>rule since. active_schedule cfg (md_Name a) = Some rule \<and> map_of lastRun (md_Name a) = Some since \<and>
        md_SyncAction a \<in> {''idle'', ''''} \<and>
        ((\<exists>f. map_of failures (md_Name a) = Some f \<and> fail_Scheduled f \<and> 0 < fail_NextRetryAt f \<and> fail_NextRetryAt f \<le> now) \<or>
         (\<exists>r x. parseRRule e rule = Inr r \<and> occ r x \<and> since < x \<and> x \<le> now)))"

lemma dueSince_occurrence:
  "\<lbrakk>after_law e occ; dueSince e rule since now = Inr True\<rbrakk> \<Longrightarrow>
   \<exists>r x. parseRRule e rule = Inr r \<and> occ r x \<and> since < x \<and> x \<le> now"
  by (auto simp: dueSince_def after_law_def split: sum.splits option.splits)

lemma map_of_drop_moot: "map_of (sl_failures (drop_moot a b l)) k = Some f \<Longrightarrow> map_of (sl_failures l) k = Some f"
  by (auto simp: drop_moot_def split: option.splits if_splits)

lemma schedule_one_due:
  assumes "after_law e occ" "rw_host (sl_world (schedule_one e cfg now a l)) \<noteq> rw_host (sl_world l)"
  shows "start_due e occ cfg (sl_lastRun l) (sl_failures l) now a"
proof -
  let ?l = "drop_moot a True l"
  obtain rule where rule: "active_schedule cfg (md_Name a) = Some rule"
    using assms(2) by (cases "active_schedule cfg (md_Name a)") (auto simp: schedule_one_def Let_def)
  obtain since where since: "map_of (sl_lastRun l) (md_Name a) = Some since"
    using assms(2) rule by (cases "map_of (sl_lastRun l) (md_Name a)") (auto simp: schedule_one_def Let_def)
  have idle: "md_SyncAction a \<in> {''idle'', ''''}"
    using assms(2) rule since by (auto simp: schedule_one_def Let_def split: if_splits)
  have "(\<exists>f. retry_of (md_Name a) ?l = Some f \<and> fail_NextRetryAt f \<le> now) \<or> dueSince e rule since now = Inr True"
    using assms(2) rule since idle
    by (auto simp: schedule_one_def Let_def split: option.splits sum.splits if_splits)
  then show ?thesis
  proof
    assume "\<exists>f. retry_of (md_Name a) ?l = Some f \<and> fail_NextRetryAt f \<le> now"
    then obtain f where "map_of (sl_failures ?l) (md_Name a) = Some f" "fail_Scheduled f" "0 < fail_NextRetryAt f"
        "fail_NextRetryAt f \<le> now"
      by (auto simp: retry_of_def split: option.splits if_splits)
    then show ?thesis
      using rule since idle map_of_drop_moot [of a True l "md_Name a" f] unfolding start_due_def by blast
  next
    assume "dueSince e rule since now = Inr True"
    with dueSince_occurrence [OF assms(1)] show ?thesis
      using rule since idle unfolding start_due_def by blast
  qed
qed

lemma attempt_start_frame:
  assumes "k \<noteq> name"
  shows "map_of (sl_lastRun (attempt_start e now name r l)) k = map_of (sl_lastRun l) k"
    and "map_of (sl_failures (attempt_start e now name r l)) k = map_of (sl_failures l) k"
  by (rule attempt_start_cases [of e name l now r]; use assms in \<open>simp add: Let_def\<close>)+

lemma schedule_one_frame:
  assumes "k \<noteq> md_Name a"
  shows "map_of (sl_lastRun (schedule_one e cfg now a l)) k = map_of (sl_lastRun l) k"
    and "map_of (sl_failures (schedule_one e cfg now a l)) k = map_of (sl_failures l) k"
proof -
  have d: "map_of (sl_failures (drop_moot a b l)) k = map_of (sl_failures l) k" for b
    using assms by (auto simp: drop_moot_def split: option.splits)
  show "map_of (sl_lastRun (schedule_one e cfg now a l)) k = map_of (sl_lastRun l) k"
    and "map_of (sl_failures (schedule_one e cfg now a l)) k = map_of (sl_failures l) k"
    using assms d by (auto simp: schedule_one_def Let_def attempt_start_frame split: option.splits sum.splits)
qed

lemma start_due_cong:
  "\<lbrakk>map_of lr (md_Name a) = map_of lr' (md_Name a); map_of fs (md_Name a) = map_of fs' (md_Name a)\<rbrakk> \<Longrightarrow>
   start_due e occ cfg lr fs now a \<longleftrightarrow> start_due e occ cfg lr' fs' now a"
  by (simp add: start_due_def)

lemma fold_schedule_one_due:
  assumes "after_law e occ" "distinct (map md_Name as)"
    and "rw_host (sl_world (fold (schedule_one e cfg now) as l)) \<noteq> rw_host (sl_world l)"
  shows "\<exists>a \<in> set as. start_due e occ cfg (sl_lastRun l) (sl_failures l) now a"
  using assms(2,3)
proof (induction as arbitrary: l)
  case (Cons a as)
  let ?l = "schedule_one e cfg now a l"
  show ?case
  proof (cases "rw_host (sl_world ?l) = rw_host (sl_world l)")
    case False
    then show ?thesis using schedule_one_due [OF assms(1)] by auto
  next
    case True
    with Cons.prems have "rw_host (sl_world (fold (schedule_one e cfg now) as ?l)) \<noteq> rw_host (sl_world ?l)" by simp
    moreover have "distinct (map md_Name as)" using Cons.prems by simp
    ultimately obtain b where b: "b \<in> set as" "start_due e occ cfg (sl_lastRun ?l) (sl_failures ?l) now b"
      using Cons.IH [of ?l] by blast
    then have ne: "md_Name b \<noteq> md_Name a" using Cons.prems(1) by (metis distinct.simps(2) image_eqI list.simps(9) set_map)
    then have "start_due e occ cfg (sl_lastRun l) (sl_failures l) now b"
      using b(2) start_due_cong [OF schedule_one_frame [OF ne]] by blast
    with b(1) show ?thesis by auto
  qed
qed simp

text \<open>
  \<^bold>\<open>C17\<close>. A pass starts scrubs only where one is due: if running the schedules touched the host at all,
  some array of the pass is idle, has an enabled schedule that was seen before, and either a pending
  retry whose time has come or an occurrence of its rule since it last ran and not after now.
\<close>

theorem sweep_starts_only_due:
  assumes "after_law e occ" "distinct (map md_Name arrays)"
    and "LoadMdadmSchedules (rw_store w) = Inr cfg" "LoadMdadmScanFailures (rw_store w) = Inr failures"
    and "LoadMdadmLastRun (rw_store w) = Inr lastRun"
    and "rw_host (runSchedules e arrays now w) \<noteq> rw_host w"
  shows "\<exists>a \<in> set arrays. start_due e occ cfg lastRun failures now a"
  using fold_schedule_one_due [OF assms(1,2), of cfg now
      "\<lparr>sl_lastRun = lastRun, sl_failures = failures, sl_runChanged = False, sl_failChanged = False, sl_world = w\<rparr>"]
    assms(6) runSchedules_eq(2) [OF assms(3-5) refl, of e arrays now] by simp

theorem sweep_starts_only_due_witness:
  "\<exists>a \<in> set [demo_array]. start_due daily_env (\<lambda>_ x. 86400 dvd x) daily_schedules [(''md0'', 0)] [] 86400 a"
proof (rule sweep_starts_only_due [OF _ _ daily_loads(1-3)])
  show "after_law daily_env (\<lambda>_ x. 86400 dvd x)"
    by (auto simp: after_law_def daily_env_def)
  show "rw_host (runSchedules daily_env [demo_array] 86400 daily_world) \<noteq> rw_host daily_world"
    by (simp add: runSchedules_eq(2) [OF daily_loads(1-3) refl])
      (simp add: schedule_one_def Let_def active_schedule_def daily_schedules_def demo_array_def drop_moot_def retry_of_def
        dueSince_def parseRRule_def daily_env_def attempt_start_def recordFailure_def raid_notify_def daily_world_def)
qed simp

section \<open>Giving up\<close>

text \<open>The scheduled failure of an array after \<open>k\<close> attempts, the last of them at \<open>t\<close>.\<close>

definition on_rung :: "nat \<Rightarrow> int \<Rightarrow> string \<Rightarrow> 'h sched_loop \<Rightarrow> bool" where
  "on_rung k t name l \<longleftrightarrow> (\<exists>f. map_of (sl_failures l) name = Some f \<and> fail_Scheduled f \<and> fail_Attempts f = k \<and>
     fail_NextRetryAt f = (if k \<le> 4 then t + retryDelays ! (k - 1) else 0))"

text \<open>An idle array with an active schedule that was seen before and whose scrub cannot start.\<close>

definition stuck_array ::
  "('h, 'o, 'r) raid_env \<Rightarrow> (string \<times> mdadm_schedule) list \<Rightarrow> string \<Rightarrow> err \<Rightarrow> md_array \<Rightarrow> bool" where
  "stuck_array e cfg rule err a \<longleftrightarrow> rw_notif e \<and> active_schedule cfg (md_Name a) = Some rule \<and> md_SyncAction a = ''idle'' \<and>
     (\<forall>h. fst (rw_start e (md_Name a) h) = Inl err)"

definition first_failure_message :: "string \<Rightarrow> err \<Rightarrow> raid_message" where
  "first_failure_message name err =
     (EventRaidScanFailed, ''Scheduled scan on '' @ name @ '' couldn't start'', err_text err @ ''. Veery will retry.'')"

definition gave_up_message :: "string \<Rightarrow> err \<Rightarrow> raid_message" where
  "gave_up_message name err =
     (EventRaidScanFailed, ''Scheduled scan on '' @ name @ '' failed'',
      err_text err @ ''. Gave up after 5 attempts; the next scheduled run will try again.'')"

lemma drop_moot_idle: "md_SyncAction a = ''idle'' \<Longrightarrow> drop_moot a True l = l"
  by (auto simp: drop_moot_def moot_failure_def split: option.splits)

lemma attempt_start_fails:
  assumes "stuck_array e cfg rule err a" "f = next_failure (case r of Some f \<Rightarrow> f | None \<Rightarrow> no_failure) err True now"
  shows "sl_failures (attempt_start e now (md_Name a) r l) = AList.update (md_Name a) f (sl_failures l)"
    and "sl_lastRun (attempt_start e now (md_Name a) r l) =
      (if fail_NextRetryAt f = 0 then AList.update (md_Name a) now (sl_lastRun l) else sl_lastRun l)"
    and "rw_msgs (sl_world (attempt_start e now (md_Name a) r l)) = rw_msgs (sl_world l) @
      (if fail_Attempts f = 1 then [first_failure_message (md_Name a) err]
       else if fail_NextRetryAt f = 0 then
         [(EventRaidScanFailed, ''Scheduled scan on '' @ md_Name a @ '' failed'',
           err_text err @ ''. Gave up after '' @ nat_text (fail_Attempts f) @ '' attempts; the next scheduled run will try again.'')]
       else [])"
proof -
  obtain h where h: "rw_start e (md_Name a) (rw_host (sl_world l)) = (Inl err, h)" and n: "rw_notif e"
    using assms(1) unfolding stuck_array_def by (metis prod.collapse)
  then show "sl_failures (attempt_start e now (md_Name a) r l) = AList.update (md_Name a) f (sl_failures l)"
    "sl_lastRun (attempt_start e now (md_Name a) r l) =
      (if fail_NextRetryAt f = 0 then AList.update (md_Name a) now (sl_lastRun l) else sl_lastRun l)"
    by (simp_all add: attempt_start_def recordFailure_def Let_def assms(2) [symmetric])
  show "rw_msgs (sl_world (attempt_start e now (md_Name a) r l)) = rw_msgs (sl_world l) @
      (if fail_Attempts f = 1 then [first_failure_message (md_Name a) err]
       else if fail_NextRetryAt f = 0 then
         [(EventRaidScanFailed, ''Scheduled scan on '' @ md_Name a @ '' failed'',
           err_text err @ ''. Gave up after '' @ nat_text (fail_Attempts f) @ '' attempts; the next scheduled run will try again.'')]
       else [])"
    using h n
    by (simp add: attempt_start_def recordFailure_def Let_def assms(2) [symmetric] raid_notify_def first_failure_message_def)
qed

lemma first_rung:
  assumes "stuck_array e cfg rule err a" "map_of (sl_lastRun l) (md_Name a) = Some since" "retry_of (md_Name a) l = None"
    and "dueSince e rule since now = Inr True" "0 \<le> now"
  shows "on_rung 1 now (md_Name a) (schedule_one e cfg now a l)"
    and "sl_lastRun (schedule_one e cfg now a l) = sl_lastRun l"
    and "rw_msgs (sl_world (schedule_one e cfg now a l)) = rw_msgs (sl_world l) @ [first_failure_message (md_Name a) err]"
proof -
  have "schedule_one e cfg now a l = attempt_start e now (md_Name a) None l"
    using assms by (simp add: schedule_one_def Let_def stuck_array_def drop_moot_idle)
  then show "on_rung 1 now (md_Name a) (schedule_one e cfg now a l)"
    and "sl_lastRun (schedule_one e cfg now a l) = sl_lastRun l"
    and "rw_msgs (sl_world (schedule_one e cfg now a l)) = rw_msgs (sl_world l) @ [first_failure_message (md_Name a) err]"
    using assms(5) by (simp_all add: attempt_start_fails [OF assms(1) refl] on_rung_def next_failure_def no_failure_def
        Let_def retryDelays_def)
qed

lemma next_rung:
  assumes "stuck_array e cfg rule err a" "map_of (sl_lastRun l) (md_Name a) = Some since"
    and "on_rung k t (md_Name a) l" "1 \<le> k" "k \<le> 4" "0 \<le> t" "t + retryDelays ! (k - 1) \<le> now"
  shows "on_rung (Suc k) now (md_Name a) (schedule_one e cfg now a l)"
    and "sl_lastRun (schedule_one e cfg now a l) =
      (if k = 4 then AList.update (md_Name a) now (sl_lastRun l) else sl_lastRun l)"
    and "rw_msgs (sl_world (schedule_one e cfg now a l)) =
      rw_msgs (sl_world l) @ (if k = 4 then [gave_up_message (md_Name a) err] else [])"
proof -
  obtain f where f: "map_of (sl_failures l) (md_Name a) = Some f" "fail_Scheduled f" "fail_Attempts f = k"
      "fail_NextRetryAt f = t + retryDelays ! (k - 1)"
    using assms(3,5) by (auto simp: on_rung_def)
  have k: "k = 1 \<or> k = 2 \<or> k = 3 \<or> k = 4" using assms(4,5) by linarith
  then have pos: "0 < retryDelays ! (k - 1)" by (auto simp: retryDelays_def)
  with f assms(6) have "retry_of (md_Name a) l = Some f" by (simp add: retry_of_def)
  then have eq: "schedule_one e cfg now a l = attempt_start e now (md_Name a) (Some f) l"
    using assms f by (simp add: schedule_one_def Let_def stuck_array_def drop_moot_idle)
  have now: "0 < now" using assms(6,7) pos by linarith
  have n: "fail_Attempts (next_failure f err True now) = Suc k" "fail_Scheduled (next_failure f err True now)"
    "fail_NextRetryAt (next_failure f err True now) = (if k = 4 then 0 else now + retryDelays ! k)"
    using k f(3) by (auto simp: next_failure_def Let_def retryDelays_def)
  have z: "fail_NextRetryAt (next_failure f err True now) = 0 \<longleftrightarrow> k = 4"
    using k now by (auto simp: n retryDelays_def)
  have "nat_text 5 = ''5''" by code_simp
  then show "on_rung (Suc k) now (md_Name a) (schedule_one e cfg now a l)"
    and "sl_lastRun (schedule_one e cfg now a l) =
      (if k = 4 then AList.update (md_Name a) now (sl_lastRun l) else sl_lastRun l)"
    and "rw_msgs (sl_world (schedule_one e cfg now a l)) =
      rw_msgs (sl_world l) @ (if k = 4 then [gave_up_message (md_Name a) err] else [])"
    using k n(1,2) unfolding eq attempt_start_fails [OF assms(1) refl] on_rung_def z option.case gave_up_message_def
    by (auto simp: n(3))
qed



section \<open>The poll interval\<close>

lemma wrap64_range: "- (2 ^ 63) \<le> wrap64 i" "wrap64 i < 2 ^ 63"
  by (simp_all add: wrap64_def)

lemma wrap64_small: "\<lbrakk>- (2 ^ 63) \<le> i; i < 2 ^ 63\<rbrakk> \<Longrightarrow> wrap64 i = i"
  by (simp add: wrap64_def)

text \<open>
  The pause between passes: whatever settings are stored, as long as the poll interval is at most
  9223372036 seconds (the largest number of seconds a duration holds) the pause is the configured one,
  five seconds when it is unset, unreadable or not positive, and never shorter than a second.
\<close>

theorem raid_interval_bounds:
  assumes "\<And>cfg. LoadSettings s = Inr cfg \<Longrightarrow> set_PollIntervalSeconds cfg \<le> 9223372036"
  shows "10 ^ 9 \<le> raid_interval s \<and> raid_interval s =
    (case LoadSettings s of
       Inr cfg \<Rightarrow> if 0 < set_PollIntervalSeconds cfg then set_PollIntervalSeconds cfg * 10 ^ 9 else 5 * 10 ^ 9
     | Inl _ \<Rightarrow> 5 * 10 ^ 9)"
proof (cases "LoadSettings s")
  case (Inr cfg)
  then have "set_PollIntervalSeconds cfg \<le> 9223372036" by (rule assms)
  with Inr show ?thesis
    by (auto simp: raid_interval_def DefaultPollIntervalSeconds_def wrap64_small)
qed (simp add: raid_interval_def DefaultPollIntervalSeconds_def wrap64_small)

theorem raid_interval_bounds_witness:
  "10 ^ 9 \<le> raid_interval empty_store \<and> raid_interval empty_store =
    (case LoadSettings empty_store of
       Inr cfg \<Rightarrow> if 0 < set_PollIntervalSeconds cfg then set_PollIntervalSeconds cfg * 10 ^ 9 else 5 * 10 ^ 9
     | Inl _ \<Rightarrow> 5 * 10 ^ 9)"
proof (rule raid_interval_bounds)
  fix cfg assume "LoadSettings empty_store = Inr cfg"
  moreover have "LoadSettings empty_store = Inr default_settings"
    by (simp add: LoadSettings_def getInt_def or_default_def GetSetting_def empty_store_def default_settings_def
        LoadDiskVisibility_def getJSON_def)
  ultimately show "set_PollIntervalSeconds cfg \<le> 9223372036"
    by (auto simp: default_settings_def DefaultPollIntervalSeconds_def)
qed

text \<open>One second more and the product wraps: the timer's duration is negative and passes follow without a pause.\<close>

lemma raid_interval_wraps:
  "\<lbrakk>LoadSettings s = Inr cfg; set_PollIntervalSeconds cfg = 9223372037\<rbrakk> \<Longrightarrow> raid_interval s < 0"
  by (simp add: raid_interval_def wrap64_def)

section \<open>A scrub on a degraded array\<close>

text \<open>
  A degraded array on which a scrub or a rebuild starts is announced as healthy: its state turns
  from degraded to recovering, which does not count as bad, so the pass says that it recovered and is
  healthy again, although members are still down.
\<close>

theorem degraded_array_announced_healthy:
  assumes "rw_notif e" "bl_State prev = MdDegraded" "md_State a = MdRecovering"
  shows "rw_msgs (notifyHealth e a prev w) =
    rw_msgs w @ [(EventRaidUnhealthy, md_Name a @ '' recovered'', md_Name a @ '' is healthy again.'')]"
  using assms by (simp add: notifyHealth_def badState_def raid_notify_def)

theorem degraded_array_announced_healthy_witness:
  "rw_msgs (notifyHealth daily_env (demo_array\<lparr>md_State := MdRecovering, md_SyncAction := ''check''\<rparr>) (raid_snapshot demo_array) daily_world) =
   [(EventRaidUnhealthy, ''md0 recovered'', ''md0 is healthy again.'')]"
  using degraded_array_announced_healthy [of daily_env "raid_snapshot demo_array"
      "demo_array\<lparr>md_State := MdRecovering, md_SyncAction := ''check''\<rparr>" daily_world]
  by (simp add: daily_env_def raid_snapshot_def demo_array_def daily_world_def)

end
