(* ===== verification/Server_Shape.thy ===== *)
theory Server_Shape
  imports Server_Enroll
begin

text \<open>
  The shape of the responses. An action is \<open>silent\<close> when it writes no status and no body, and
  \<open>answers P\<close> when on an unwritten response it ends with one that satisfies \<open>P\<close>. Both are
  established by rules, one per construct of the handlers, as in a type system; with them every
  route is shown to answer once, with an error text exactly under an error status.
\<close>

section \<open>Silent actions\<close>

definition unwritten :: "response \<Rightarrow> bool" where
  "unwritten rw \<longleftrightarrow> rw_status rw = None \<and> rw_bodies rw = []"

definition silent :: "'a act \<Rightarrow> bool" where
  "silent a \<longleftrightarrow> (\<forall>w. rw_status (w_rw (snd (run_state a w))) = rw_status (w_rw w) \<and>
     rw_bodies (w_rw (snd (run_state a w))) = rw_bodies (w_rw w))"

named_theorems silent_rules \<open>actions that write nothing\<close>

lemma silent_basic [silent_rules]:
  "silent (State_Monad.return x)" "silent (gets f)" "silent (store_op g)" "silent (store_read h)"
  "silent (time_Now e)" "silent (unix_Now e)" "silent (lib k)" "silent (randToken e n)" "silent (req_cookie r c)"
  by (simp_all add: silent_def randToken_def req_cookie_def case_prod_unfold)

lemma silent_bind [silent_rules]: "silent a \<Longrightarrow> (\<And>x. silent (f x)) \<Longrightarrow> silent (State_Monad.bind a f)"
  by (simp add: silent_def case_prod_unfold)

lemma silent_branches [silent_rules]:
  "silent a \<Longrightarrow> silent b \<Longrightarrow> silent (if c then a else b)"
  "(\<And>x. silent (f x)) \<Longrightarrow> (\<And>y. silent (g y)) \<Longrightarrow> silent (case s of Inl x \<Rightarrow> f x | Inr y \<Rightarrow> g y)"
  "silent a \<Longrightarrow> (\<And>x. silent (f x)) \<Longrightarrow> silent (case opt of None \<Rightarrow> a | Some x \<Rightarrow> f x)"
  "(\<And>x y. silent (p x y)) \<Longrightarrow> silent (case pr of (x, y) \<Rightarrow> p x y)"
  by (auto split: sum.splits option.splits prod.splits)

lemma silent_upd: "(\<And>w. rw_status (w_rw (f w)) = rw_status (w_rw w) \<and> rw_bodies (w_rw (f w)) = rw_bodies (w_rw w)) \<Longrightarrow> silent (upd f)"
  by (simp add: silent_def)

lemma silent_State:
  "(\<And>w. rw_status (w_rw (snd (f w))) = rw_status (w_rw w) \<and> rw_bodies (w_rw (snd (f w))) = rw_bodies (w_rw w)) \<Longrightarrow> silent (State f)"
  by (simp add: silent_def)

lemma silent_cookies [silent_rules]:
  "silent (setCookie b v n)" "silent (clearCookie b)" "silent (setCeremonyCookie cid)" "silent clearOIDCStateCookie"
  by (simp_all add: silent_def setCookie_def clearCookie_def setCeremonyCookie_def clearOIDCStateCookie_def)

lemma silent_stamped [silent_rules]: "silent (stamped e f)"
  unfolding stamped_def by (intro silent_rules)

section \<open>The operations behind the handlers\<close>

lemma silent_sessions [silent_rules]:
  "silent (NewSession e u)" "silent (NewInvite e by fu adm)" "silent (currentUser e r)" "silent (ceremonyID r)"
  "silent (setSessionCookie e tok exp)" "silent (validOIDCState r st)"
  unfolding NewSession_def NewInvite_def currentUser_def ceremonyID_def setSessionCookie_def validOIDCState_def
  by (intro silent_rules; auto simp: Let_def intro!: silent_rules)+

lemma silent_tables [silent_rules]: "silent (put e c)" "silent (take_op e cid)" "silent (takeFlow e st)" "silent (discover e)"
  unfolding put_def take_op_def takeFlow_def discover_def Let_def
  by (intro silent_rules silent_upd silent_State; simp add: case_prod_unfold)+

lemma silent_notify [silent_rules]: "silent (srv_notify e ev t b)" "silent (notifyAuth e t u d)"
  unfolding srv_notify_def notifyAuth_def by (intro silent_rules silent_upd; simp)+

lemma silent_registration [silent_rules]:
  "silent (beginRecoveryRegistration e tok)" "silent (BeginRegistration e tok nm)" "silent (store_credential e u c)"
  unfolding BeginRegistration_def beginRecoveryRegistration_def store_credential_def Let_def
  by (intro silent_rules)+

lemma silent_enroll [silent_rules]:
  "silent (enroll_user e cer c)" "silent (enroll e cer tok c)" "silent (FinishRegistration e cid tok body)"
  unfolding FinishRegistration_def enroll_def enroll_user_def Let_def by (intro silent_rules)+

lemma silent_devices [silent_rules]:
  "silent (BeginAddDevice e u n cs)" "silent (FinishAddDevice e cid u body)" "silent (BeginLogin e)" "silent (FinishLogin e cid body)"
  unfolding BeginAddDevice_def FinishAddDevice_def BeginLogin_def FinishLogin_def Let_def by (intro silent_rules)+

lemma silent_oidc [silent_rules]:
  "silent (oidc_Start e)" "silent (accept_token e p fl tok it)" "silent (oidc_Finish e st code)"
  unfolding oidc_Start_def accept_token_def oidc_Finish_def Let_def by (intro silent_rules silent_upd; simp)+

lemma silent_resolve [silent_rules]:
  "silent (syncOIDCAdmin u i)" "silent (link_new_user e i u)" "silent (provision e i)" "silent (resolveOIDCUser e i)"
  unfolding resolveOIDCUser_def provision_def link_new_user_def syncOIDCAdmin_def Let_def by (intro silent_rules)+

lemma silent_raid [silent_rules]:
  "silent (raid_Start e n)" "silent (bare_start e n)" "(\<And>m. silent (f m)) \<Longrightarrow> silent (notify_each f ms)"
proof -
  show "silent (raid_Start e n)" "silent (bare_start e n)"
    unfolding raid_Start_def bare_start_def by (intro silent_rules silent_State; simp add: case_prod_unfold)+
  show "(\<And>m. silent (f m)) \<Longrightarrow> silent (notify_each f ms)"
    by (induction ms) (auto intro!: silent_rules)
qed

section \<open>Answers\<close>

text \<open>
  A well-formed response: one body, which is an error text exactly when the status is one of the
  error statuses the server uses and anything else under 200, or a redirect without a body.
\<close>

definition well_formed :: "response \<Rightarrow> bool" where
  "well_formed rw \<longleftrightarrow>
     (\<exists>msg. rw_bodies rw = [RError msg] \<and> rw_status rw \<in> Some ` {400, 401, 403, 404, 409, 500, 502, 503}) \<or>
     (\<exists>v. rw_bodies rw = [v] \<and> rw_status rw = Some 200 \<and> (\<forall>msg. v \<noteq> RError msg)) \<or>
     (rw_bodies rw = [] \<and> rw_status rw = Some 302)"

definition answers :: "(response \<Rightarrow> bool) \<Rightarrow> unit act \<Rightarrow> bool" where
  "answers P a \<longleftrightarrow> (\<forall>w. unwritten (w_rw w) \<longrightarrow> P (w_rw (snd (run_state a w))))"

named_theorems answer_rules \<open>actions that answer once\<close>

lemma answers_bind [answer_rules]:
  assumes "silent a" "\<And>x. answers P (f x)"
  shows "answers P (State_Monad.bind a f)"
  using assms by (auto simp: answers_def silent_def unwritten_def case_prod_unfold)

lemma answers_branches [answer_rules]:
  "answers P a \<Longrightarrow> answers P b \<Longrightarrow> answers P (if c then a else b)"
  "(\<And>x. answers P (f x)) \<Longrightarrow> (\<And>y. answers P (g y)) \<Longrightarrow> answers P (case s of Inl x \<Rightarrow> f x | Inr y \<Rightarrow> g y)"
  "answers P a \<Longrightarrow> (\<And>x. answers P (f x)) \<Longrightarrow> answers P (case opt of None \<Rightarrow> a | Some x \<Rightarrow> f x)"
  "(\<And>x y. answers P (p x y)) \<Longrightarrow> answers P (case pr of (x, y) \<Rightarrow> p x y)"
  by (auto split: sum.splits option.splits prod.splits)

lemma answers_writeErr [answer_rules]:
  "code \<in> {400, 401, 403, 404, 409, 500, 502, 503} \<Longrightarrow> answers well_formed (writeErr code msg)"
  by (auto simp: answers_def unwritten_def writeErr_def writeJSON_def WriteHeader_def well_formed_def)

lemma answers_writeJSON [answer_rules]: "(\<And>msg. v \<noteq> RError msg) \<Longrightarrow> answers well_formed (writeJSON 200 v)"
  by (auto simp: answers_def unwritten_def writeJSON_def WriteHeader_def well_formed_def)

lemma answers_Redirect [answer_rules]: "answers well_formed (Redirect url 302)"
  by (auto simp: answers_def unwritten_def Redirect_def WriteHeader_def well_formed_def)

lemma answers_guards [answer_rules]:
  "(\<And>u. answers well_formed (h u)) \<Longrightarrow> answers well_formed (requireAuth e h r)"
  "(\<And>u. answers well_formed (h u)) \<Longrightarrow> answers well_formed (requireAdmin e h r)"
  "(\<And>n. answers well_formed (k n)) \<Longrightarrow> answers well_formed (notifyReady k)"
  unfolding requireAuth_def requireAdmin_def notifyReady_def by (intro answer_rules silent_rules; simp)+

section \<open>The handlers\<close>

lemma answers_passkeys [answer_rules]:
  "answers well_formed (handleRegisterBegin e r)" "answers well_formed (handleAddDeviceBegin e u)"
  "answers well_formed (handleAddDeviceFinish e r u)" "answers well_formed (handleLoginBegin e)"
  "answers well_formed (handleLogout e r)" "answers well_formed (handleMe e u)"
  unfolding handleRegisterBegin_def handleAddDeviceBegin_def handleAddDeviceFinish_def handleLoginBegin_def
    handleLogout_def handleMe_def
  by (intro answer_rules silent_rules; simp)+

lemma answers_invites [answer_rules]:
  "answers well_formed (handleListInvites e)" "answers well_formed (handleCreateInvite e r u)"
  "answers well_formed (handleRevokeInvite e r)" "answers well_formed (handleResetUser e r)"
  "answers well_formed (handleListUsers e)"
  unfolding handleListInvites_def handleCreateInvite_def handleRevokeInvite_def handleResetUser_def handleListUsers_def Let_def
  by (intro answer_rules silent_rules; simp)+

lemma answers_delete [answer_rules]: "answers well_formed (handleDeleteUser e r)"
proof -
  have "answers well_formed (case (if adm then (case admins of Inl _ \<Rightarrow> Some (500, m1)
      | Inr n \<Rightarrow> if n \<le> 1 then Some (400, m2) else None) else None) of Some (code, msg) \<Rightarrow> writeErr code msg | None \<Rightarrow> k)"
    if "answers well_formed k" for adm m1 m2 k and admins :: "nat res"
    using that by (auto split: sum.splits intro!: answer_rules)
  note refusal = this
  show ?thesis
    unfolding handleDeleteUser_def Let_def
    by (intro answers_bind refusal answers_branches answers_writeErr answers_writeJSON silent_rules) simp_all
qed

lemma answers_settings [answer_rules]:
  "answers well_formed handleGetSettings" "answers well_formed (handlePutSettings r)" "answers well_formed (handleListDisks e)"
  "answers well_formed (handleSetDiskVisibility e r)" "answers well_formed (handleSetAutoUpdate r)"
  unfolding handleGetSettings_def handlePutSettings_def handleListDisks_def handleSetDiskVisibility_def handleSetAutoUpdate_def
  by (intro answer_rules silent_rules; simp)+

lemma answers_raid [answer_rules]:
  "(\<And>m. silent (f m)) \<Longrightarrow> answers well_formed (handleStartMdadmScan e f r)" "answers well_formed (handleGetMdadmSchedules e)"
  "answers well_formed (handleSetMdadmSchedules e r)"
  unfolding handleStartMdadmScan_def handleGetMdadmSchedules_def handleSetMdadmSchedules_def with_zone_def
  by (intro answer_rules silent_rules; simp split: prod.splits)+

lemma answers_notifications [answer_rules]:
  "answers well_formed (handleListEvents r)" "answers well_formed handleGetNotifications"
  "answers well_formed (handlePutNotifications e r)" "answers well_formed (handleTestNotification e r)"
  unfolding handleListEvents_def handleGetNotifications_def handlePutNotifications_def handleTestNotification_def Let_def
  by (intro answer_rules silent_rules; simp)+

lemma answers_oidc [answer_rules]: "answers well_formed (handleAuthProviders e)" "answers well_formed (handleOIDCStart e)"
  unfolding handleAuthProviders_def handleOIDCStart_def by (intro answer_rules silent_rules; simp split: if_splits)+

section \<open>Handlers that issue a session\<close>

text \<open>\<^verbatim>\<open>issueSession\<close> answers 500 when the session cannot be stored, and its caller answers once more.\<close>

definition session_failed :: "response \<Rightarrow> bool" where
  "session_failed rw \<longleftrightarrow> rw_status rw = Some 500 \<and> (\<exists>rest. rw_bodies rw = RError ''session error'' # rest)"

abbreviation answered :: "response \<Rightarrow> bool" where
  "answered rw \<equiv> well_formed rw \<or> session_failed rw"

lemma answers_weaken: "answers well_formed a \<Longrightarrow> answers answered a"
  by (simp add: answers_def)

lemma answers_issued:
  assumes "answers well_formed a" "\<And>w. session_failed (w_rw w) \<Longrightarrow> session_failed (w_rw (snd (run_state a w)))"
  shows "answers answered (do { _ \<leftarrow> issueSession e uid; a })"
proof -
  have "answers answered (do { r \<leftarrow> NewSession e uid; _ \<leftarrow> (case r of
      Inl _ \<Rightarrow> writeErr 500 ''session error'' | Inr (token, exp) \<Rightarrow> setSessionCookie e token exp); a })"
  proof (rule answers_bind [OF silent_sessions(1)])
    fix r
    show "answers answered (do { _ \<leftarrow> (case r of
        Inl _ \<Rightarrow> writeErr 500 ''session error'' | Inr (token, exp) \<Rightarrow> setSessionCookie e token exp); a })"
    proof (cases r)
      case (Inl err)
      with assms(2) show ?thesis
        by (auto simp: answers_def unwritten_def writeErr_def writeJSON_def WriteHeader_def session_failed_def)
    next
      case (Inr te)
      with assms(1) show ?thesis
        by (cases te) (auto intro!: answers_weaken answers_bind silent_rules)
    qed
  qed
  then show ?thesis by (simp add: issueSession_def)
qed

lemma answers_issued_leaves:
  "answers answered (do { _ \<leftarrow> issueSession e uid; writeJSON 200 ROk })"
  "answers answered (do { _ \<leftarrow> issueSession e uid; Redirect url 302 })"
proof -
  have failed: "session_failed (w_rw w) \<Longrightarrow> session_failed (w_rw (snd (run_state (writeJSON 200 ROk) w)))"
    "session_failed (w_rw w) \<Longrightarrow> session_failed (w_rw (snd (run_state (Redirect url 302) w)))" for w
    by (auto simp: session_failed_def writeJSON_def WriteHeader_def Redirect_def)
  show "answers answered (do { _ \<leftarrow> issueSession e uid; writeJSON 200 ROk })"
    by (intro answers_issued answers_writeJSON failed) simp
  show "answers answered (do { _ \<leftarrow> issueSession e uid; Redirect url 302 })"
    by (intro answers_issued answers_Redirect failed)
qed

lemma answers_finish:
  "answers answered (handleRegisterFinish e r)" "answers answered (handleLoginFinish e r)" "answers answered (handleOIDCCallback e r)"
  unfolding handleRegisterFinish_def handleLoginFinish_def handleOIDCCallback_def redirectOIDCError_def Let_def
  by (intro answers_issued_leaves answers_bind answers_branches silent_rules answers_weaken [OF answers_writeErr]
      answers_weaken [OF answers_Redirect]; simp)+

section \<open>Every request\<close>


text \<open>
  The exception occurs: when a passkey login has been verified but the session cannot be stored,
  the client is sent status 500 with two bodies, the error and the confirmation.
\<close>

theorem failed_session_answers_twice:
  assumes "run_state (ceremonyID r) w = (Inr cid, w)" "run_state (FinishLogin e cid (rq_body r)) w = (Inr uid, w1)"
    and "db_fault (w_st w1) ''CreateSession''" "unwritten (w_rw w)"
  shows "rw_status (w_rw (snd (run_state (handleLoginFinish e r) w))) = Some 500 \<and>
    rw_bodies (w_rw (snd (run_state (handleLoginFinish e r) w))) = [RError ''session error'', ROk]"
proof -
  define w2 where "w2 = snd (run_state (notifyAuth e ''Signed in'' uid ''A passkey was used to sign in.'') w1)"
  have u1: "unwritten (w_rw w1)"
    using assms(4) silent_devices(4) [of e cid "rq_body r"] unfolding silent_def unwritten_def by (metis assms(2) snd_conv)
  have u2: "unwritten (w_rw w2)"
    using u1 silent_notify(2) unfolding silent_def unwritten_def w2_def by metis
  have "db_fault (w_st w2) ''CreateSession''"
    using assms(3) by (simp add: w2_def notifyAuth_def)
  with u2 show ?thesis
    using assms(1,2)
    by (simp add: handleLoginFinish_def w2_def [symmetric] case_prod_unfold) 
       (simp add: issueSession_def NewSession_def stamped_def CreateSession_def writeErr_def writeJSON_def
        WriteHeader_def unwritten_def randToken_def Let_def)
qed

definition full_disk_world :: world where
  "full_disk_world = login_world\<lparr>w_st := (w_st login_world)\<lparr>db_fault := (\<lambda>x. x = ''CreateSession'')\<rparr>\<rparr>"

definition login_request :: request where
  "login_request = plain_request\<lparr>rq_cookies := [(''__Host-veery_ceremony'', ''c'')], rq_body := ''key''\<rparr>"

theorem failed_session_answers_twice_witness:
  "rw_bodies (w_rw (snd (run_state (handleLoginFinish demo_env login_request) full_disk_world))) =
     [RError ''session error'', ROk]"
proof -
  have "run_state (ceremonyID login_request) full_disk_world = (Inr ''c'', full_disk_world)"
    by (simp add: ceremonyID_def req_cookie_def cookieName_def login_request_def full_disk_world_def login_world_def demo_defs)
  moreover have "\<exists>w1. run_state (FinishLogin demo_env ''c'' (rq_body login_request)) full_disk_world = (Inr ''u1'', w1) \<and>
      db_fault (w_st w1) ''CreateSession''"
    by (simp add: FinishLogin_def take_op_def take_ceremony_def login_handler_def CredentialByCredID_def scanCred_def
        GetUser_def loadAuthUser_def CredentialsByUser_def toWebauthnCredential_def UpdateSignCount_def
        full_disk_world_def login_request_def login_world_def ada_passkey_def new_ceremony_def demo_defs)
  moreover have "unwritten (w_rw full_disk_world)"
    by (simp add: full_disk_world_def login_world_def demo_defs unwritten_def fresh_response_def)
  ultimately show ?thesis using failed_session_answers_twice [of login_request full_disk_world] by blast
qed

end
