(* ===== verification/Server_Routes.thy ===== *)
theory Server_Routes
  imports Server_Shape Server_Live Docker_Handlers
begin

text \<open>
  The whole HTTP front (\<^verbatim>\<open>server.go\<close>): cross-origin protection, the route table and what each route
  runs, on one state with the accounts, the Docker manager, the hub and the jobs started in the
  background. The account and API handlers are those of \<open>Server_Auth\<close>, the Docker handlers those of
  \<open>Docker_Handlers\<close>, here behind the session check, on the store they share.

  Parameters: parsing of an origin, the WebSocket handshake, the embedded files with the static file
  server, the location and the status with which the mux redirects to a clean path, and what the
  handlers' own environments hold.
\<close>

section \<open>Requests and state\<close>

record http_request =
  hr_Method :: string
  hr_Path :: string
  hr_Host :: string
  hr_SecFetchSite :: string
  hr_Origin :: string
  hr_req :: request

record 'd http_env =
  he_auth :: auth_env
  he_docker :: "'d docker_env"
  he_accept :: "string \<Rightarrow> request \<Rightarrow> bool"
  he_origin_host :: "string \<Rightarrow> string option"
  he_trusted :: "string \<Rightarrow> bool"
  he_spa_open :: "string \<Rightarrow> bool"
  he_file_server :: "string \<Rightarrow> nat \<times> string"
  he_index :: "string option"
  he_redirect :: "http_request \<Rightarrow> string \<times> nat"

record 'd system =
  sy_world :: world
  sy_dkr :: "'d mgr option"
  sy_spawned :: "('d, unit) op list"
  sy_hub :: hub
  sy_next :: nat

section \<open>Cross-origin protection\<close>

text \<open>
  \<^verbatim>\<open>http.CrossOriginProtection\<close> with the configured origin trusted, if it is one: the check before any
  route.
\<close>

definition is_exempt :: "'d http_env \<Rightarrow> world \<Rightarrow> http_request \<Rightarrow> bool" where
  "is_exempt e w q \<longleftrightarrow>
     (let trusted = TrimRight (cfg_Origin (w_cfg w)) (CHR ''/'')
      in he_trusted e trusted \<and> hr_Origin q = trusted)"

definition csrf_Check :: "'d http_env \<Rightarrow> world \<Rightarrow> http_request \<Rightarrow> string option" where
  "csrf_Check e w q =
     (if hr_Method q \<in> {''GET'', ''HEAD'', ''OPTIONS''} then None
      else if hr_SecFetchSite q \<in> {''same-origin'', ''none''} then None
      else if hr_SecFetchSite q \<noteq> ''''
      then if is_exempt e w q then None else Some ''cross-origin request detected from Sec-Fetch-Site header''
      else if hr_Origin q = '''' then None
      else if he_origin_host e (hr_Origin q) = Some (hr_Host q) then None
      else if is_exempt e w q then None
      else Some ''cross-origin request detected, and/or browser is out of date: Sec-Fetch-Site is missing, and Origin does not match Host'')"

section \<open>Paths\<close>

definition clean_segments :: "string list \<Rightarrow> string list" where
  "clean_segments ss =
     fold (\<lambda>s acc. if s = '''' \<or> s = ''.'' then acc else if s = ''..'' then butlast acc else acc @ [s]) ss []"

definition cleanPath :: "string \<Rightarrow> string" where
  "cleanPath p =
     (if p = '''' then ''/''
      else let p = (if hd p = CHR ''/'' then p else CHR ''/'' # p);
               np = ''/'' @ Join (clean_segments (Split (tl p) (CHR ''/''))) ''/''
           in if last p = CHR ''/'' \<and> np \<noteq> ''/'' then np @ ''/'' else np)"

definition hex_val :: "char \<Rightarrow> nat option" where
  "hex_val c = (let n = of_char c :: nat in
     if 48 \<le> n \<and> n \<le> 57 then Some (n - 48)
     else if 97 \<le> n \<and> n \<le> 102 then Some (n - 87)
     else if 65 \<le> n \<and> n \<le> 70 then Some (n - 55) else None)"

fun PathUnescape :: "string \<Rightarrow> string option" where
  "PathUnescape [] = Some []"
| "PathUnescape (c # s) =
     (if c = CHR ''%''
      then case s of
          a # b # s' \<Rightarrow>
            (case (hex_val a, hex_val b, PathUnescape s') of
               (Some x, Some y, Some t) \<Rightarrow> Some (char_of (16 * x + y) # t)
             | _ \<Rightarrow> None)
        | _ \<Rightarrow> None
      else map_option (Cons c) (PathUnescape s))"

text \<open>The segments the mux matches, each unescaped when that is possible.\<close>

definition segments :: "string \<Rightarrow> string list" where
  "segments p = map (\<lambda>s. case PathUnescape s of Some t \<Rightarrow> t | None \<Rightarrow> s) (Split (tl p) (CHR ''/''))"

text \<open>The path the SPA handler reads is the whole one unescaped; \<open>hr_Path\<close> is as it was sent.\<close>

definition url_path :: "http_request \<Rightarrow> string" where
  "url_path q = (case PathUnescape (hr_Path q) of Some p \<Rightarrow> p | None \<Rightarrow> hr_Path q)"

section \<open>The route table\<close>

datatype pattern_segment = Lit string | Wild

datatype docker_endpoint =
    ListStacksEp | AdoptStackEp | StackActionEp string | ContainerActionEp string | ContainerUpdateEp
  | CheckContainerEp | CheckStackEp | CheckAllEp | ForgetContainerEp | ForgetStackEp

datatype target = ToHealthz | ToAccount endpoint | ToDocker docker_endpoint | ToWS | ToSPA

definition routes :: "(string \<times> pattern_segment list \<times> target) list" where
  "routes =
    [(''GET'', [Lit ''healthz''], ToHealthz),
     (''POST'', [Lit ''auth'', Lit ''register'', Lit ''begin''], ToAccount RegisterBegin),
     (''POST'', [Lit ''auth'', Lit ''register'', Lit ''finish''], ToAccount RegisterFinish),
     (''POST'', [Lit ''auth'', Lit ''register'', Lit ''device'', Lit ''begin''], ToAccount DeviceBegin),
     (''POST'', [Lit ''auth'', Lit ''register'', Lit ''device'', Lit ''finish''], ToAccount DeviceFinish),
     (''POST'', [Lit ''auth'', Lit ''login'', Lit ''begin''], ToAccount LoginBegin),
     (''POST'', [Lit ''auth'', Lit ''login'', Lit ''finish''], ToAccount LoginFinish),
     (''POST'', [Lit ''auth'', Lit ''logout''], ToAccount Logout),
     (''GET'', [Lit ''auth'', Lit ''me''], ToAccount Me),
     (''GET'', [Lit ''auth'', Lit ''providers''], ToAccount Providers),
     (''GET'', [Lit ''auth'', Lit ''oidc'', Lit ''start''], ToAccount OIDCStart),
     (''GET'', [Lit ''auth'', Lit ''oidc'', Lit ''callback''], ToAccount OIDCCallback),
     (''GET'', [Lit ''api'', Lit ''invites''], ToAccount ListInvites),
     (''POST'', [Lit ''api'', Lit ''invites''], ToAccount CreateInviteEp),
     (''DELETE'', [Lit ''api'', Lit ''invites'', Wild], ToAccount RevokeInvite),
     (''GET'', [Lit ''api'', Lit ''users''], ToAccount ListUsersEp),
     (''DELETE'', [Lit ''api'', Lit ''users'', Wild], ToAccount DeleteUserEp),
     (''POST'', [Lit ''api'', Lit ''users'', Wild, Lit ''reset''], ToAccount ResetUser),
     (''GET'', [Lit ''api'', Lit ''stacks''], ToDocker ListStacksEp),
     (''POST'', [Lit ''api'', Lit ''stacks'', Wild, Lit ''adopt''], ToDocker AdoptStackEp),
     (''POST'', [Lit ''api'', Lit ''stacks'', Wild, Lit ''start''], ToDocker (StackActionEp ''start'')),
     (''POST'', [Lit ''api'', Lit ''stacks'', Wild, Lit ''stop''], ToDocker (StackActionEp ''stop'')),
     (''POST'', [Lit ''api'', Lit ''stacks'', Wild, Lit ''restart''], ToDocker (StackActionEp ''restart'')),
     (''POST'', [Lit ''api'', Lit ''stacks'', Wild, Lit ''bringup''], ToDocker (StackActionEp ''bringup'')),
     (''POST'', [Lit ''api'', Lit ''containers'', Wild, Lit ''start''], ToDocker (ContainerActionEp ''start'')),
     (''POST'', [Lit ''api'', Lit ''containers'', Wild, Lit ''stop''], ToDocker (ContainerActionEp ''stop'')),
     (''POST'', [Lit ''api'', Lit ''containers'', Wild, Lit ''restart''], ToDocker (ContainerActionEp ''restart'')),
     (''POST'', [Lit ''api'', Lit ''containers'', Wild, Lit ''update''], ToDocker ContainerUpdateEp),
     (''POST'', [Lit ''api'', Lit ''containers'', Wild, Lit ''check-update''], ToDocker CheckContainerEp),
     (''POST'', [Lit ''api'', Lit ''stacks'', Wild, Lit ''check-update''], ToDocker CheckStackEp),
     (''POST'', [Lit ''api'', Lit ''updates'', Lit ''check''], ToDocker CheckAllEp),
     (''DELETE'', [Lit ''api'', Lit ''containers'', Wild, Lit ''managed''], ToDocker ForgetContainerEp),
     (''DELETE'', [Lit ''api'', Lit ''stacks'', Wild, Lit ''managed''], ToDocker ForgetStackEp),
     (''POST'', [Lit ''api'', Lit ''containers'', Lit ''autoupdate''], ToAccount SetAutoUpdateEp),
     (''GET'', [Lit ''api'', Lit ''settings''], ToAccount GetSettings),
     (''PUT'', [Lit ''api'', Lit ''settings''], ToAccount PutSettings),
     (''GET'', [Lit ''api'', Lit ''disks''], ToAccount ListDisks),
     (''PUT'', [Lit ''api'', Lit ''disks''], ToAccount PutDisks),
     (''POST'', [Lit ''api'', Lit ''mdadm'', Wild, Lit ''scan''], ToAccount StartMdadmScan),
     (''GET'', [Lit ''api'', Lit ''mdadm'', Lit ''schedules''], ToAccount GetMdadmSchedules),
     (''PUT'', [Lit ''api'', Lit ''mdadm'', Lit ''schedules''], ToAccount PutMdadmSchedules),
     (''GET'', [Lit ''api'', Lit ''events''], ToAccount ListEventsEp),
     (''GET'', [Lit ''api'', Lit ''notifications''], ToAccount GetNotifications),
     (''PUT'', [Lit ''api'', Lit ''notifications''], ToAccount PutNotifications),
     (''POST'', [Lit ''api'', Lit ''notifications'', Lit ''test''], ToAccount TestNotification),
     (''GET'', [Lit ''ws''], ToWS)]"

fun match_segments :: "pattern_segment list \<Rightarrow> string list \<Rightarrow> bool" where
  "match_segments [] ss \<longleftrightarrow> ss = []"
| "match_segments (p # ps) [] \<longleftrightarrow> False"
| "match_segments (Lit l # ps) (s # ss) \<longleftrightarrow> s = l \<and> match_segments ps ss"
| "match_segments (Wild # ps) (s # ss) \<longleftrightarrow> s \<noteq> '''' \<and> match_segments ps ss"

text \<open>A pattern for \<^verbatim>\<open>GET\<close> also takes \<^verbatim>\<open>HEAD\<close> requests.\<close>

definition match_method :: "string \<Rightarrow> string \<Rightarrow> bool" where
  "match_method pat meth \<longleftrightarrow> pat = meth \<or> pat = ''GET'' \<and> meth = ''HEAD''"

fun wild_value :: "pattern_segment list \<Rightarrow> string list \<Rightarrow> string" where
  "wild_value (Wild # ps) (s # ss) = s"
| "wild_value (Lit l # ps) (s # ss) = wild_value ps ss"
| "wild_value _ _ = ''''"

text \<open>The route of a request and its path value; the pattern \<^verbatim>\<open>/\<close> takes what no other does.\<close>

definition route :: "string \<Rightarrow> string list \<Rightarrow> target \<times> string" where
  "route meth ss =
     (case find (\<lambda>(m, ps, _). match_method m meth \<and> match_segments ps ss) routes of
        Some (_, ps, t) \<Rightarrow> (t, wild_value ps ss)
      | None \<Rightarrow> (ToSPA, ''''))"

section \<open>Serving\<close>

definition plain_error :: "nat \<Rightarrow> string \<Rightarrow> unit act" where
  "plain_error code msg = writeJSON code (RPlain msg)"

definition serveSPA :: "'d http_env \<Rightarrow> string \<Rightarrow> unit act" where
  "serveSPA e path =
     (let p = TrimPrefix path ''/''; p = (if p = '''' then ''index.html'' else p)
      in if he_spa_open e p then (case he_file_server e path of (code, body) \<Rightarrow> writeJSON code (RFile body))
         else case he_index e of
             None \<Rightarrow> plain_error 500 ''SPA not built''
           | Some index \<Rightarrow> writeJSON 200 (RFile index))"

fun reply_of :: "docker_reply \<Rightarrow> reply" where
  "reply_of (DError msg) = RError msg"
| "reply_of DOk = ROk"
| "reply_of (DStacks sts) = RStacks sts"
| "reply_of (DChecked n) = RChecked n"

text \<open>A Docker handler with the job it starts, if any.\<close>

fun docker_handler :: "'d docker_env \<Rightarrow> docker_endpoint \<Rightarrow> string \<Rightarrow> ('d, answer) op \<times> ('d, unit) op list" where
  "docker_handler e ListStacksEp x = (handleListStacks e, [])"
| "docker_handler e AdoptStackEp x = (handleAdoptStack e x, [])"
| "docker_handler e (StackActionEp a) x =
     (case handleStackAction e a x of (ans, bg) \<Rightarrow> (State_Monad.return ans, [bg]))"
| "docker_handler e (ContainerActionEp a) x =
     (case handleContainerAction e a x of (ans, bg) \<Rightarrow> (State_Monad.return ans, [bg]))"
| "docker_handler e ContainerUpdateEp x =
     (case handleContainerUpdate e x of (ans, bg) \<Rightarrow> (State_Monad.return ans, [bg]))"
| "docker_handler e CheckContainerEp x = (handleCheckContainerUpdate e x, [])"
| "docker_handler e CheckStackEp x = (handleCheckStackUpdate e x, [])"
| "docker_handler e CheckAllEp x = (handleCheckAllUpdates e, [])"
| "docker_handler e ForgetContainerEp x = (handleForgetContainer e x, [])"
| "docker_handler e ForgetStackEp x = (handleForgetStack e x, [])"

text \<open>A Docker handler runs on the server's store and clock.\<close>

definition run_docker :: "('d, answer) op \<Rightarrow> 'd mgr option \<Rightarrow> world \<Rightarrow> answer \<times> 'd mgr option \<times> world" where
  "run_docker h dkr w =
     (case dockerReady (map_option (\<lambda>m. m\<lparr>mg_st := w_st w, mg_clock := w_clock w\<rparr>) dkr) h of
        (ans, None) \<Rightarrow> (ans, None, w)
      | (ans, Some m) \<Rightarrow> (ans, Some m, w\<lparr>w_st := mg_st m, w_clock := mg_clock m\<rparr>))"

definition serve_docker :: "'d http_env \<Rightarrow> docker_endpoint \<Rightarrow> request \<Rightarrow> 'd system \<Rightarrow> 'd system" where
  "serve_docker e ep r s =
     (case run_state (currentUser (he_auth e) r) (sy_world s) of
        (None, w) \<Rightarrow> s\<lparr>sy_world := snd (run_state (writeErr 401 ''not authenticated'') w)\<rparr>
      | (Some _, w) \<Rightarrow>
          (case docker_handler (he_docker e) ep (rq_path r) of
             (h, jobs) \<Rightarrow>
               (case run_docker h (sy_dkr s) w of
                  ((code, body), dkr, w) \<Rightarrow>
                    s\<lparr>sy_world := snd (run_state (writeJSON code (reply_of body)) w), sy_dkr := dkr,
                      sy_spawned := sy_spawned s @ (if dkr = None then [] else jobs)\<rparr>)))"

definition serve_ws :: "'d http_env \<Rightarrow> request \<Rightarrow> 'd system \<Rightarrow> 'd system" where
  "serve_ws e r s =
     (case run_state (open_ws (he_auth e) (he_accept e) r) (sy_world s) of
        (None, w) \<Rightarrow> s\<lparr>sy_world := w\<rparr>
      | (Some admin, w) \<Rightarrow>
          s\<lparr>sy_world := w, sy_hub := hub_register (sy_next s) admin (sy_hub s), sy_next := Suc (sy_next s)\<rparr>)"

definition on_world :: "unit act \<Rightarrow> 'd system \<Rightarrow> 'd system" where
  "on_world a s = s\<lparr>sy_world := snd (run_state a (sy_world s))\<rparr>"

fun serve_target :: "'d http_env \<Rightarrow> target \<Rightarrow> string \<Rightarrow> request \<Rightarrow> 'd system \<Rightarrow> 'd system" where
  "serve_target e ToHealthz path r s = on_world (writeJSON 200 RHealth) s"
| "serve_target e (ToAccount ep) path r s = on_world (serve (he_auth e) ep r) s"
| "serve_target e (ToDocker ep) path r s = serve_docker e ep r s"
| "serve_target e ToWS path r s = serve_ws e r s"
| "serve_target e ToSPA path r s = on_world (serveSPA e path) s"

definition handle_http :: "'d http_env \<Rightarrow> http_request \<Rightarrow> 'd system \<Rightarrow> 'd system" where
  "handle_http e q s =
     (let s = s\<lparr>sy_world := (sy_world s)\<lparr>w_rw := fresh_response\<rparr>\<rparr>
      in case csrf_Check e (sy_world s) q of
           Some msg \<Rightarrow> on_world (plain_error 403 msg) s
         | None \<Rightarrow>
             if hr_Method q \<noteq> ''CONNECT'' \<and> cleanPath (hr_Path q) \<noteq> hr_Path q
             then on_world (case he_redirect e q of (loc, code) \<Rightarrow> Redirect loc code) s
             else (case route (hr_Method q) (segments (hr_Path q)) of
                     (t, x) \<Rightarrow> serve_target e t (url_path q) ((hr_req q)\<lparr>rq_path := x\<rparr>) s))"

section \<open>The table is unambiguous\<close>

fun overlap :: "pattern_segment list \<Rightarrow> pattern_segment list \<Rightarrow> bool" where
  "overlap [] qs \<longleftrightarrow> qs = []"
| "overlap (p # ps) [] \<longleftrightarrow> False"
| "overlap (Lit a # ps) (Lit b # qs) \<longleftrightarrow> a = b \<and> overlap ps qs"
| "overlap (p # ps) (q # qs) \<longleftrightarrow> overlap ps qs"

lemma overlap_matches: "match_segments ps ss \<Longrightarrow> match_segments qs ss \<Longrightarrow> overlap ps qs"
proof (induction ps qs arbitrary: ss rule: overlap.induct)
  case (3 a ps b qs)
  then show ?case by (cases ss) auto
qed (auto elim: match_segments.elims)

lemma routes_separate: "sorted_wrt (\<lambda>(m, ps, _) (n, qs, _). \<not> (m = n \<and> overlap ps qs)) routes"
  by code_simp

lemma routes_methods: "list_all (\<lambda>(m, _). m \<noteq> ''HEAD'') routes"
  unfolding routes_def by simp

lemma find_in: "find P xs = Some x \<Longrightarrow> x \<in> set xs \<and> P x"
  by (metis find_Some_iff nth_mem)

lemma routes_unique:
  assumes "r1 \<in> set routes" "r2 \<in> set routes"
    and "match_method (fst r1) meth" "match_segments (fst (snd r1)) ss"
    and "match_method (fst r2) meth" "match_segments (fst (snd r2)) ss"
  shows "r1 = r2"
proof -
  obtain i j where ij: "i < length routes" "routes ! i = r1" "j < length routes" "routes ! j = r2"
    using assms(1,2) by (auto simp: in_set_conv_nth)
  have "fst r1 \<noteq> ''HEAD''" "fst r2 \<noteq> ''HEAD''" using routes_methods assms(1,2) by (auto simp: list_all_iff)
  then have m: "fst r1 = fst r2" using assms(3,5) by (auto simp: match_method_def)
  have o: "overlap (fst (snd r1)) (fst (snd r2))" "overlap (fst (snd r2)) (fst (snd r1))"
    using overlap_matches assms(4,6) by blast+
  have "\<not> i < j" "\<not> j < i"
    using sorted_wrt_nth_less [OF routes_separate] ij m o by (fastforce simp: case_prod_unfold)+
  then show ?thesis using ij by simp
qed

lemma route_of_match:
  assumes "(m, ps, t) \<in> set routes" "match_method m meth" "match_segments ps ss"
  shows "route meth ss = (t, wild_value ps ss)"
proof -
  let ?P = "\<lambda>(m, ps, _). match_method m meth \<and> match_segments ps ss"
  obtain r where r: "find ?P routes = Some r" using assms find_None_iff [of ?P routes] by (cases "find ?P routes") auto
  from find_in [OF r] have "r \<in> set routes" "?P r" by simp_all
  then have "r = (m, ps, t)" using routes_unique [of r "(m, ps, t)" meth ss] assms by (auto split: prod.splits)
  with r show ?thesis by (simp add: route_def)
qed

text \<open>
  \<^bold>\<open>C28\<close>. The route table is unambiguous: whatever the method and the path, the handler of a registered
  pattern that matches is the one that runs, with that pattern's path value, wherever the pattern stands in
  the table.
\<close>

theorem matching_route_is_taken:
  assumes "(m, ps, t) \<in> set routes" "match_method m meth" "match_segments ps ss"
  shows "route meth ss = (t, wild_value ps ss)"
  using assms by (rule route_of_match)

theorem matching_route_is_taken_witness:
  "route ''DELETE'' [''api'', ''users'', ''u1''] = (ToAccount DeleteUserEp, ''u1'')"
  using matching_route_is_taken [of "''DELETE''" "[Lit ''api'', Lit ''users'', Wild]" "ToAccount DeleteUserEp" "''DELETE''"
      "[''api'', ''users'', ''u1'']"]
  by (simp add: routes_def match_method_def)

section \<open>Routes behind a session\<close>

fun guarded :: "target \<Rightarrow> bool" where
  "guarded (ToAccount ep) \<longleftrightarrow>
     ep \<notin> {RegisterBegin, RegisterFinish, LoginBegin, LoginFinish, Logout, Providers, OIDCStart, OIDCCallback}"
| "guarded (ToDocker ep) \<longleftrightarrow> True"
| "guarded ToWS \<longleftrightarrow> True"
| "guarded ToHealthz \<longleftrightarrow> False"
| "guarded ToSPA \<longleftrightarrow> False"

lemma guarded_serve: "guarded (ToAccount ep) \<Longrightarrow> \<exists>h. serve e ep r = requireAuth e h r \<or> serve e ep r = requireAdmin e h r"
  by (cases ep) auto

definition private_path :: "string list \<Rightarrow> bool" where
  "private_path ss \<longleftrightarrow> (\<exists>rest. ss = ''api'' # rest) \<or> ss = [''ws'']"

lemma private_routes:
  "list_all (\<lambda>(_, ps, t). guarded t \<or> (\<exists>l ps'. ps = Lit l # ps' \<and> l \<noteq> ''api'' \<and> l \<noteq> ''ws'')) routes"
  unfolding routes_def by simp

lemma private_guarded:
  assumes "private_path ss" "route meth ss = (t, x)"
  shows "guarded t \<or> t = ToSPA"
proof (cases "find (\<lambda>(m, ps, _). match_method m meth \<and> match_segments ps ss) routes")
  case None
  then show ?thesis using assms(2) by (simp add: route_def)
next
  case (Some r)
  then obtain m ps where r: "r = (m, ps, t)" using assms(2) by (cases r) (simp add: route_def)
  have "r \<in> set routes" "match_segments ps ss" using find_in [OF Some] r by auto
  then show ?thesis using private_routes assms(1) r by (fastforce simp: list_all_iff private_path_def)
qed

text \<open>What a request may change without a session: the response, the clock, and a session that has expired.\<close>

definition authenticated :: "request \<Rightarrow> world \<Rightarrow> bool" where
  "authenticated r w \<longleftrightarrow> (\<exists>u \<in> set (users (w_st w)). \<exists>x \<in> set (sessions (w_st w)). se_UserID x = user_ID u \<and>
     session_cookie r w = Some (se_Token x) \<and> int (w_clock w div sec) \<le> se_ExpiresAt x)"

definition common_part :: "world \<Rightarrow> world" where
  "common_part w = w\<lparr>w_st := (w_st w)\<lparr>sessions := []\<rparr>, w_clock := 0, w_reads := 0, w_rw := fresh_response\<rparr>"

definition world_untouched :: "world \<Rightarrow> world \<Rightarrow> bool" where
  "world_untouched w w' \<longleftrightarrow> set (sessions (w_st w')) \<subseteq> set (sessions (w_st w)) \<and> common_part w' = common_part w"

definition untouched :: "'d system \<Rightarrow> 'd system \<Rightarrow> bool" where
  "untouched s s' \<longleftrightarrow> world_untouched (sy_world s) (sy_world s') \<and> s' = s\<lparr>sy_world := sy_world s'\<rparr>"

lemma world_untouched_refl: "world_untouched w w"
  by (simp add: world_untouched_def)

lemma SessionUser_common: "(snd (SessionUser now tok st))\<lparr>sessions := []\<rparr> = st\<lparr>sessions := []\<rparr>"
  by (auto simp: SessionUser_def DeleteSession_def split: option.splits)

lemma currentUser_untouched: "world_untouched w (snd (run_state (currentUser e r) w))"
  using currentUser_sessions [of e r w]
  by (simp add: world_untouched_def common_part_def SessionUser_common
      currentUser_def req_cookie_def stamped_def case_prod_unfold split: option.splits)

lemma untouched_write: "world_untouched w w1 \<Longrightarrow> world_untouched w (w1\<lparr>w_rw := rw\<rparr>)"
  by (simp add: world_untouched_def common_part_def)

lemma untouched_response:
  "world_untouched (w\<lparr>w_rw := rw\<rparr>) w' \<Longrightarrow> world_untouched w w'"
  by (simp add: world_untouched_def common_part_def)

text \<open>What an answer without a session may hold: the refusal, a text of the mux, or a file.\<close>

fun public_body :: "reply \<Rightarrow> bool" where
  "public_body (RError msg) \<longleftrightarrow> msg = ''not authenticated''"
| "public_body (RPlain _) \<longleftrightarrow> True"
| "public_body (RFile _) \<longleftrightarrow> True"
| "public_body _ \<longleftrightarrow> False"

definition refused :: "world \<Rightarrow> world \<Rightarrow> bool" where
  "refused w w' \<longleftrightarrow> world_untouched w w' \<and> list_all public_body (rw_bodies (w_rw w'))"

lemma write_form:
  obtains rw where "snd (run_state (writeJSON code v) w) = w\<lparr>w_rw := rw\<rparr>" "rw_bodies rw = rw_bodies (w_rw w) @ [v]"
  by (rule that [of "w_rw (snd (run_state (writeJSON code v) w))"]) (simp_all add: respond_defs)

lemma refused_write:
  assumes "world_untouched w w1" "list_all public_body (rw_bodies (w_rw w1))" "public_body v"
  shows "refused w (snd (run_state (writeJSON code v) w1))"
  using untouched_write [OF assms(1)] assms(2,3) by (rule_tac write_form [of code v w1]) (simp add: refused_def)

lemma no_session:
  assumes "\<not> authenticated r w"
  shows "fst (run_state (currentUser e r) w) = None"
proof (rule ccontr)
  assume "fst (run_state (currentUser e r) w) \<noteq> None"
  then obtain u tok where "fst (run_state (currentUser e r) w) = Some (u, tok)" by auto
  from currentUser_Some [OF this] assms show False by (fastforce simp: authenticated_def)
qed

lemma refused_401:
  assumes "rw_bodies (w_rw w) = []"
  shows "refused w (snd (run_state (writeErr 401 ''not authenticated'') (snd (run_state (currentUser e r) w))))"
  unfolding writeErr_def using assms by (intro refused_write currentUser_untouched) simp_all

lemma guarded_refuses:
  assumes "guarded t" "\<not> authenticated r (sy_world s)" "rw_bodies (w_rw (sy_world s)) = []"
  shows "\<exists>w. refused (sy_world s) w \<and> serve_target e t path r s = s\<lparr>sy_world := w\<rparr>"
proof -
  let ?w = "sy_world s"
  obtain w1 where cu: "run_state (currentUser (he_auth e) r) ?w = (None, w1)"
    using no_session [OF assms(2), of "he_auth e"] by (metis prod.collapse)
  have ref: "refused ?w (snd (run_state (writeErr 401 ''not authenticated'') w1))"
    using refused_401 [OF assms(3), of "he_auth e" r] cu by simp
  show ?thesis
  proof (cases t)
    case (ToAccount ep)
    then obtain h where "serve (he_auth e) ep r = requireAuth (he_auth e) h r \<or> serve (he_auth e) ep r = requireAdmin (he_auth e) h r"
      using assms(1) guarded_serve by blast
    then have "run_state (serve (he_auth e) ep r) ?w = run_state (writeErr 401 ''not authenticated'') w1"
      using cu by (auto simp: requireAuth_def requireAdmin_def)
    then show ?thesis using ToAccount ref by (auto simp: on_world_def)
  next
    case (ToDocker ep)
    then show ?thesis using cu ref by (auto simp: serve_docker_def)
  next
    case ToWS
    then show ?thesis using cu ref by (auto simp: serve_ws_def open_ws_def case_prod_unfold)
  qed (use assms(1) in auto)
qed

lemma spa_refuses:
  assumes "rw_bodies (w_rw (sy_world s)) = []"
  shows "\<exists>w. refused (sy_world s) w \<and> on_world (serveSPA e path) s = s\<lparr>sy_world := w\<rparr>"
proof -
  have "refused (sy_world s) (snd (run_state (writeJSON code v) (sy_world s)))" if "public_body v" for code v
    using refused_write [OF world_untouched_refl] that assms by simp
  then have "refused (sy_world s) (snd (run_state (serveSPA e path) (sy_world s)))"
    by (auto simp: serveSPA_def plain_error_def Let_def split: prod.splits option.splits)
  then show ?thesis by (auto simp: on_world_def)
qed

lemma refused_plain:
  assumes "rw_bodies (w_rw (sy_world s)) = []"
  shows "\<exists>w. refused (sy_world s) w \<and> on_world (plain_error code msg) s = s\<lparr>sy_world := w\<rparr>"
  using refused_write [OF world_untouched_refl, of "sy_world s" "RPlain msg" code] assms
  by (auto simp: on_world_def plain_error_def)

lemma refused_redirect:
  assumes "rw_bodies (w_rw (sy_world s)) = []"
  shows "\<exists>w. refused (sy_world s) w \<and> on_world (Redirect loc code) s = s\<lparr>sy_world := w\<rparr>"
proof -
  have "refused (sy_world s) (snd (run_state (Redirect loc code) (sy_world s)))"
    using assms by (simp add: refused_def world_untouched_def common_part_def Redirect_def WriteHeader_def)
  then show ?thesis by (auto simp: on_world_def)
qed

definition fresh_system :: "'d system \<Rightarrow> 'd system" where
  "fresh_system s = s\<lparr>sy_world := (sy_world s)\<lparr>w_rw := fresh_response\<rparr>\<rparr>"

lemma fresh_system_simps [simp]:
  "rw_bodies (w_rw (sy_world (fresh_system s))) = []" "w_cfg (sy_world (fresh_system s)) = w_cfg (sy_world s)"
  "authenticated r (sy_world (fresh_system s)) = authenticated r (sy_world s)"
  "authenticated (r\<lparr>rq_path := x\<rparr>) w = authenticated r w"
  "(fresh_system s)\<lparr>sy_world := w\<rparr> = s\<lparr>sy_world := w\<rparr>"
  by (simp_all add: fresh_system_def fresh_response_def authenticated_def session_cookie_def)

lemma untouched_fresh: "world_untouched (sy_world (fresh_system s)) w \<Longrightarrow> world_untouched (sy_world s) w"
  by (auto simp: fresh_system_def dest: untouched_response)

text \<open>
  The three ways through \<open>handle_http\<close>: refused as cross-origin, redirected to the clean path, or routed.
\<close>

lemma handle_http_cases:
  obtains (answered) w where "refused (sy_world (fresh_system s)) w" "handle_http e q s = s\<lparr>sy_world := w\<rparr>"
  | (routed) t x where "route (hr_Method q) (segments (hr_Path q)) = (t, x)" "csrf_Check e (sy_world s) q = None"
      "handle_http e q s = serve_target e t (url_path q) ((hr_req q)\<lparr>rq_path := x\<rparr>) (fresh_system s)"
proof -
  note def = handle_http_def [of e q s, folded fresh_system_def, unfolded Let_def]
  have csrf: "csrf_Check e (sy_world (fresh_system s)) q = csrf_Check e (sy_world s) q"
    by (simp add: csrf_Check_def is_exempt_def)
  show ?thesis
  proof (cases "csrf_Check e (sy_world s) q")
    case (Some msg)
    then show ?thesis using answered refused_plain [of "fresh_system s" 403 msg] def csrf by auto
  next
    case None
    show ?thesis
    proof (cases "hr_Method q \<noteq> ''CONNECT'' \<and> cleanPath (hr_Path q) \<noteq> hr_Path q")
      case True
      obtain loc code where "he_redirect e q = (loc, code)" by fastforce
      then show ?thesis using answered refused_redirect [of "fresh_system s" loc code] def csrf None True by auto
    next
      case False
      obtain t x where "route (hr_Method q) (segments (hr_Path q)) = (t, x)" by fastforce
      with False show ?thesis using routed [of t x] def csrf None by auto
    qed
  qed
qed

lemma private_refuses:
  assumes "private_path (segments (hr_Path q))" "\<not> authenticated (hr_req q) (sy_world s)"
  shows "untouched s (handle_http e q s) \<and> list_all public_body (rw_bodies (w_rw (sy_world (handle_http e q s))))"
proof -
  have "\<exists>w. refused (sy_world (fresh_system s)) w \<and> handle_http e q s = s\<lparr>sy_world := w\<rparr>"
  proof (cases rule: handle_http_cases [of s e q])
    case (answered w)
    then show ?thesis by blast
  next
    case (routed t x)
    have "guarded t \<or> t = ToSPA" using private_guarded assms(1) routed(1) by blast
    moreover have "\<not> authenticated ((hr_req q)\<lparr>rq_path := x\<rparr>) (sy_world (fresh_system s))"
      using assms(2) by simp
    ultimately show ?thesis
      using guarded_refuses [of t _ "fresh_system s" e "url_path q"] spa_refuses [of "fresh_system s" e "url_path q"] routed(3) by auto
  qed
  then show ?thesis by (auto simp: untouched_def refused_def intro: untouched_fresh)
qed

text \<open>
  \<^bold>\<open>C22\<close>. A request for a path under \<^verbatim>\<open>/api\<close> or for \<^verbatim>\<open>/ws\<close>, whatever its method, that does not carry the
  cookie of a live session of a user changes nothing, apart from the removal of an expired session: no
  row, no container, no job, no subscriber, no notification; and it is answered with the refusal, a text of the
  mux, a redirect or a file of the web application, never with data.
\<close>

theorem api_needs_session:
  assumes "private_path (segments (hr_Path q))" "\<not> authenticated (hr_req q) (sy_world s)"
  shows "untouched s (handle_http e q s) \<and> list_all public_body (rw_bodies (w_rw (sy_world (handle_http e q s))))"
  using assms by (rule private_refuses)

definition demo_system :: "sim system" where
  "demo_system = \<lparr>sy_world = ada_world, sy_dkr = Some sim_mgr, sy_spawned = [], sy_hub = newHub, sy_next = 0\<rparr>"

definition demo_http :: "sim http_env" where
  "demo_http = \<lparr>he_auth = demo_env, he_docker = sim_env, he_accept = (\<lambda>_ _. True), he_origin_host = (\<lambda>_. None),
     he_trusted = (\<lambda>_. True), he_spa_open = (\<lambda>p. p = ''index.html''), he_file_server = (\<lambda>_. (200, ''file'')),
     he_index = Some ''index'', he_redirect = (\<lambda>q. (cleanPath (hr_Path q), 301))\<rparr>"

definition stop_request :: http_request where
  "stop_request = \<lparr>hr_Method = ''POST'', hr_Path = ''/api/containers/c1/stop'', hr_Host = ''veery.lan'',
     hr_SecFetchSite = ''same-site'', hr_Origin = ''https://evil.lan'', hr_req = plain_request\<rparr>"

definition anonymous_request :: http_request where
  "anonymous_request = stop_request\<lparr>hr_SecFetchSite := ''same-origin'', hr_req := plain_request\<lparr>rq_cookies := []\<rparr>\<rparr>"

theorem api_needs_session_witness:
  "untouched demo_system (handle_http demo_http anonymous_request demo_system) \<and>
   segments (hr_Path anonymous_request) = [''api'', ''containers'', ''c1'', ''stop'']"
proof -
  have seg: "segments (hr_Path anonymous_request) = [''api'', ''containers'', ''c1'', ''stop'']" by code_simp
  have "\<not> authenticated (hr_req anonymous_request) (sy_world demo_system)"
    by (simp add: authenticated_def session_cookie_def anonymous_request_def)
  then show ?thesis
    using api_needs_session [of anonymous_request demo_system demo_http] seg by (simp add: private_path_def)
qed

section \<open>Requests from other sites\<close>

lemma routes_get_only: "list_all (\<lambda>(m, _). m \<in> {''GET'', ''POST'', ''PUT'', ''DELETE''}) routes"
  unfolding routes_def by simp

lemma options_SPA: "fst (route ''OPTIONS'' ss) = ToSPA"
proof (cases "find (\<lambda>(m, ps, _). match_method m ''OPTIONS'' \<and> match_segments ps ss) routes")
  case (Some y)
  from find_in [OF Some] routes_get_only show ?thesis by (auto simp: list_all_iff match_method_def)
qed (simp add: route_def)

lemma get_routes:
  "list_all (\<lambda>(m, _, t). m = ''GET'' \<longrightarrow> t \<in> {ToHealthz, ToWS, ToDocker ListStacksEp} \<union>
     ToAccount ` {Me, Providers, OIDCStart, OIDCCallback, ListInvites, ListUsersEp, GetSettings, ListDisks, GetMdadmSchedules,
       ListEventsEp, GetNotifications}) routes"
  unfolding routes_def by simp

lemma write_untouched: "world_untouched w w1 \<Longrightarrow> world_untouched w (snd (run_state (writeJSON code v) w1))"
  by (rule write_form [of code v w1]) (simp add: untouched_write)

text \<open>Actions that change nothing but the response and the clock, by rules.\<close>

definition reading :: "'a act \<Rightarrow> bool" where
  "reading a \<longleftrightarrow> (\<forall>w. world_untouched w (snd (run_state a w)))"

named_theorems reading_rules \<open>actions that only read\<close>

lemma world_untouched_trans: "world_untouched a b \<Longrightarrow> world_untouched b c \<Longrightarrow> world_untouched a c"
  by (auto simp: world_untouched_def)

lemma reading_basic [reading_rules]:
  "reading (State_Monad.return x)" "reading (gets f)" "reading (store_read g)" "reading (unix_Now e)"
  "reading (currentUser e r)" "reading (writeJSON code v)" "reading (writeErr code msg)"
  using write_untouched [OF world_untouched_refl] currentUser_untouched
  by (simp_all add: reading_def writeErr_def world_untouched_refl) (simp add: world_untouched_def common_part_def)

lemma reading_bind [reading_rules]: "reading a \<Longrightarrow> (\<And>x. reading (f x)) \<Longrightarrow> reading (State_Monad.bind a f)"
  by (auto simp: reading_def case_prod_unfold intro: world_untouched_trans)

lemma reading_branches [reading_rules]:
  "reading a \<Longrightarrow> reading b \<Longrightarrow> reading (if c then a else b)"
  "(\<And>x. reading (f x)) \<Longrightarrow> (\<And>y. reading (g y)) \<Longrightarrow> reading (case s of Inl x \<Rightarrow> f x | Inr y \<Rightarrow> g y)"
  "reading a \<Longrightarrow> (\<And>x. reading (f x)) \<Longrightarrow> reading (case opt of None \<Rightarrow> a | Some x \<Rightarrow> f x)"
  "(\<And>x y. reading (p x y)) \<Longrightarrow> reading (case pr of (x, y) \<Rightarrow> p x y)"
  "reading (h v) \<Longrightarrow> reading (Let v h)"
  by (auto split: sum.splits option.splits prod.splits)

lemma reading_guards [reading_rules]:
  "(\<And>u. reading (h u)) \<Longrightarrow> reading (requireAuth e h r)" "(\<And>u. reading (h u)) \<Longrightarrow> reading (requireAdmin e h r)"
  unfolding requireAuth_def requireAdmin_def by (intro reading_rules; simp)+

lemma reading_handlers [reading_rules]:
  "reading (handleMe e u)" "reading (handleAuthProviders e)" "reading (handleListInvites e)" "reading (handleListUsers e)"
  "reading handleGetSettings" "reading (handleListDisks e)" "reading (handleGetMdadmSchedules e)" "reading (handleListEvents r)"
  "reading handleGetNotifications"
  unfolding handleMe_def handleAuthProviders_def handleListInvites_def handleListUsers_def handleGetSettings_def
    handleListDisks_def handleGetMdadmSchedules_def handleListEvents_def handleGetNotifications_def notifyReady_def
  by (intro reading_rules)+

lemma reading_serve:
  "ep \<in> {Me, Providers, ListInvites, ListUsersEp, GetSettings, ListDisks, GetMdadmSchedules, ListEventsEp, GetNotifications} \<Longrightarrow>
   reading (serve e ep r)"
  by (auto intro!: reading_rules)

lemma reading_SPA: "reading (serveSPA e path)"
  unfolding serveSPA_def plain_error_def by (intro reading_rules)

text \<open>The routes that a cross-site request of a safe method can use to change something.\<close>

definition cross_site_targets :: "target set" where
  "cross_site_targets = {ToDocker ListStacksEp, ToWS, ToAccount OIDCStart, ToAccount OIDCCallback}"

lemma safe_target:
  assumes "route meth ss = (t, x)" "meth \<in> {''GET'', ''HEAD'', ''OPTIONS''}" "t \<notin> cross_site_targets"
  shows "\<exists>a. reading a \<and> (\<forall>s. serve_target e t path r s = on_world a s)"
proof (cases "find (\<lambda>(m, ps, _). match_method m meth \<and> match_segments ps ss) routes")
  case None
  then have "t = ToSPA" using assms(1) by (simp add: route_def)
  then show ?thesis using reading_SPA by auto
next
  case (Some y)
  obtain m ps where y: "y = (m, ps, t)" using assms(1) Some by (cases y) (simp add: route_def)
  have "(m, ps, t) \<in> set routes" "match_method m meth" using find_in [OF Some] y by auto
  moreover from this have "m = ''GET''"
    using assms(2) routes_get_only by (auto simp: match_method_def list_all_iff)
  ultimately have "t \<in> {ToHealthz, ToWS, ToDocker ListStacksEp} \<union> ToAccount ` {Me, Providers, OIDCStart, OIDCCallback,
      ListInvites, ListUsersEp, GetSettings, ListDisks, GetMdadmSchedules, ListEventsEp, GetNotifications}"
    using get_routes by (auto simp: list_all_iff)
  then consider "t = ToHealthz" | ep where "t = ToAccount ep" "ep \<in> {Me, Providers, ListInvites, ListUsersEp, GetSettings,
      ListDisks, GetMdadmSchedules, ListEventsEp, GetNotifications}"
    using assms(3) by (auto simp: cross_site_targets_def)
  then show ?thesis
  proof cases
    case 1
    then show ?thesis using reading_basic(6) [of 200 RHealth] by auto
  next
    case 2
    then show ?thesis using reading_serve [OF 2(2), of "he_auth e" r] by auto
  qed
qed

text \<open>
  \<^bold>\<open>C23\<close>. A request that the browser marks as coming from another site (or another origin of this one), and not
  from the configured origin, changes nothing, apart from the removal of an expired session, unless it opens
  the live channel, which has an origin check of its own, lists the stacks, or is a step of the login at
  the identity provider; and those take only \<^verbatim>\<open>GET\<close> and \<^verbatim>\<open>HEAD\<close>.
\<close>

theorem cross_site_changes_nothing:
  assumes "hr_SecFetchSite q \<notin> {'''', ''same-origin'', ''none''}" "\<not> is_exempt e (sy_world s) q"
  shows "untouched s (handle_http e q s) \<or>
    hr_Method q \<in> {''GET'', ''HEAD''} \<and> fst (route (hr_Method q) (segments (hr_Path q))) \<in> cross_site_targets"
proof (cases rule: handle_http_cases [of s e q])
  case (answered w)
  then show ?thesis by (auto simp: untouched_def refused_def intro: untouched_fresh)
next
  case (routed t x)
  have safe: "hr_Method q \<in> {''GET'', ''HEAD'', ''OPTIONS''}"
    using routed(2) assms by (auto simp: csrf_Check_def split: if_splits)
  show ?thesis
  proof (cases "t \<in> cross_site_targets")
    case True
    then have "t \<noteq> ToSPA" by (auto simp: cross_site_targets_def)
    then have "hr_Method q \<noteq> ''OPTIONS''"
      using routed(1) options_SPA [of "segments (hr_Path q)"] by auto
    with True safe routed(1) show ?thesis by simp
  next
    case False
    then obtain a where "reading a" "handle_http e q s = on_world a (fresh_system s)"
      using safe_target [OF routed(1) safe] routed(3) by metis
    then show ?thesis
      by (auto simp: untouched_def on_world_def reading_def intro: untouched_fresh)
  qed
qed

theorem cross_site_changes_nothing_witness:
  "untouched demo_system (handle_http demo_http stop_request demo_system)"
proof -
  have "\<not> is_exempt demo_http ada_world stop_request"
    by (simp add: is_exempt_def demo_http_def stop_request_def ada_world_def demo_defs TrimRight_def TrimRightFunc_def)
  then show ?thesis
    using cross_site_changes_nothing [of stop_request demo_http demo_system] by (simp add: stop_request_def demo_system_def)
qed


end
