(* ===== verification/Float64.thy ===== *)
theory Float64
  imports Veery_Prelude "HOL-Library.Log_Nat"
begin

text \<open>
  Go's \<^verbatim>\<open>float64\<close> as the metrics use it: finite values in the normal range, each the rational it stands
  for, and every operation the exact one followed by rounding to 53 significant bits, to nearest with
  ties to even. Infinities, NaN, the sign of zero and subnormal numbers do not occur there: the inputs
  are 64-bit counters and CPU times in seconds, divisors are checked to be positive first.
\<close>

type_synonym float64 = rat

section \<open>Rounding\<close>

definition rint_even :: "rat \<Rightarrow> int" where
  "rint_even q =
     (let f = \<lfloor>q\<rfloor>; d = q - of_int f
      in if d < 1 / 2 then f else if d > 1 / 2 then f + 1 else if even f then f else f + 1)"

text \<open>The exponent of the last of the 53 bits of a number other than zero.\<close>

definition expo :: "rat \<Rightarrow> int" where
  "expo x =
     (case quotient_of \<bar>x\<bar> of
        (a, b) \<Rightarrow> let e = bitlen a - bitlen b - 53 in if \<bar>x\<bar> \<ge> 2 powi (e + 53) then e + 1 else e)"

definition rnd :: "rat \<Rightarrow> float64" where
  "rnd x = (if x = 0 then 0 else of_int (rint_even (x / 2 powi expo x)) * 2 powi expo x)"

section \<open>Operations\<close>

definition fadd :: "float64 \<Rightarrow> float64 \<Rightarrow> float64" where "fadd a b = rnd (a + b)"
definition fsub :: "float64 \<Rightarrow> float64 \<Rightarrow> float64" where "fsub a b = rnd (a - b)"
definition fmul :: "float64 \<Rightarrow> float64 \<Rightarrow> float64" where "fmul a b = rnd (a * b)"
definition fdiv :: "float64 \<Rightarrow> float64 \<Rightarrow> float64" where "fdiv a b = rnd (a / b)"

definition of_uint64 :: "'w::len word \<Rightarrow> float64" where
  "of_uint64 w = rnd (of_int (uint w))"

text \<open>
  Conversion to \<^verbatim>\<open>uint64\<close> drops the fraction; what a value outside the range becomes is left to the
  platform by the language, so it is a parameter.
\<close>

definition to_uint64 :: "(float64 \<Rightarrow> 64 word) \<Rightarrow> float64 \<Rightarrow> 64 word" where
  "to_uint64 outside x =
     (let t = (if x < 0 then \<lceil>x\<rceil> else \<lfloor>x\<rfloor>)
      in if 0 \<le> t \<and> t < 2 ^ 64 then of_int t else outside x)"

section \<open>The error of one rounding\<close>

lemma rint_even_error: "\<bar>of_int (rint_even q) - q\<bar> \<le> 1 / 2"
proof -
  define f where "f = \<lfloor>q\<rfloor>"
  have "of_int f \<le> q" "q < of_int f + 1" unfolding f_def using floor_correct [of q] by (simp_all only: of_int_add of_int_1)
  then show ?thesis unfolding rint_even_def Let_def f_def [symmetric] by (auto simp: abs_le_iff)
qed

lemma rint_even_of_int [simp]: "rint_even (of_int n) = n"
  by (simp add: rint_even_def)

lemma bitlen_powi:
  assumes "0 < a"
  shows "(2 :: rat) powi (bitlen a - 1) \<le> of_int a" "of_int a < (2 :: rat) powi bitlen a"
proof -
  have b: "2 ^ nat (bitlen a - 1) \<le> a" "a < 2 ^ nat (bitlen a)" using bitlen_bounds [OF assms] by auto
  have "1 \<le> bitlen a" using assms bitlen_nonneg [of a] bitlen_eq_zero_iff [of a] by linarith
  then have "(2 :: rat) powi (bitlen a - 1) = of_int (2 ^ nat (bitlen a - 1))" "(2 :: rat) powi bitlen a = of_int (2 ^ nat (bitlen a))"
    by (simp_all add: power_int_def)
  with b show "(2 :: rat) powi (bitlen a - 1) \<le> of_int a" "of_int a < (2 :: rat) powi bitlen a"
    by (simp_all only: of_int_le_iff of_int_less_iff)
qed

lemma expo_bounds:
  assumes "x \<noteq> 0"
  shows "2 powi (expo x + 52) \<le> \<bar>x\<bar>" "\<bar>x\<bar> < 2 powi (expo x + 53)"
proof -
  obtain a b where q: "quotient_of \<bar>x\<bar> = (a, b)" by (cases "quotient_of \<bar>x\<bar>")
  have x: "\<bar>x\<bar> = of_int a / of_int b" and b: "0 < b"
    using quotient_of_div [OF q] quotient_of_denom_pos [OF q] by auto
  have a: "0 < a"
  proof -
    have "0 < \<bar>x\<bar>" using assms by simp
    then show ?thesis using b unfolding x by (simp add: zero_less_divide_iff)
  qed
  define e where "e = bitlen a - bitlen b - 53"
  note A = bitlen_powi [OF a] and B = bitlen_powi [OF b]
  have lo: "2 powi (e + 52) \<le> \<bar>x\<bar>"
  proof -
    have "2 powi (e + 52) = (2 :: rat) powi (bitlen a - 1) / 2 powi bitlen b"
      using power_int_diff [of "2 :: rat" "bitlen a - 1" "bitlen b"] by (simp add: e_def algebra_simps)
    also have "\<dots> \<le> of_int a / of_int b" using A B a b by (intro frac_le) auto
    finally show ?thesis by (simp add: x)
  qed
  have hi: "\<bar>x\<bar> < 2 powi (e + 54)"
  proof -
    have "of_int a / of_int b < (2 :: rat) powi bitlen a / 2 powi (bitlen b - 1)" using A B a by (intro frac_less) auto
    also have "\<dots> = 2 powi (e + 54)"
      using power_int_diff [of "2 :: rat" "bitlen a" "bitlen b - 1"] by (simp add: e_def algebra_simps)
    finally show ?thesis by (simp add: x)
  qed
  have ex: "expo x = (if \<bar>x\<bar> \<ge> 2 powi (e + 53) then e + 1 else e)" by (simp add: expo_def q e_def Let_def)
  show "2 powi (expo x + 52) \<le> \<bar>x\<bar>" "\<bar>x\<bar> < 2 powi (expo x + 53)"
    using lo hi by (auto simp: ex add.assoc)
qed

lemma rnd_error: "\<bar>rnd x - x\<bar> \<le> \<bar>x\<bar> / 2 ^ 53"
proof (cases "x = 0")
  case False
  define p :: rat where "p = 2 powi expo x"
  have p: "0 < p" by (simp add: p_def)
  have "rnd x - x = (of_int (rint_even (x / p)) - x / p) * p"
    using False p by (simp add: rnd_def p_def [symmetric] algebra_simps)
  then have "\<bar>rnd x - x\<bar> \<le> 1 / 2 * p"
    using rint_even_error [of "x / p"] p by (simp add: abs_mult mult_right_mono)
  also have "\<dots> = 2 powi (expo x + 52) / 2 ^ 53"
    by (simp add: p_def power_int_add)
  also have "\<dots> \<le> \<bar>x\<bar> / 2 ^ 53" using expo_bounds(1) [OF False] by (simp add: divide_right_mono)
  finally show ?thesis .
qed (simp add: rnd_def)

lemma rnd_exact:
  assumes "x = of_int k * 2 powi expo x"
  shows "rnd x = x"
proof -
  have "x / 2 powi expo x = of_int k" using assms by (metis nonzero_mult_div_cancel_right power_int_eq_0_iff zero_neq_numeral)
  then show ?thesis using assms by (simp add: rnd_def)
qed

text \<open>Integers of up to 53 bits are not rounded.\<close>

lemma rnd_of_int:
  assumes "\<bar>n\<bar> \<le> 2 ^ 53"
  shows "rnd (of_int n) = of_int n"
proof (cases "n = 0")
  case False
  define e where "e = expo (of_int n)"
  have le: "(2 :: rat) powi (e + 52) \<le> of_int \<bar>n\<bar>" using expo_bounds(1) [of "of_int n"] False by (simp add: e_def)
  have n: "of_int \<bar>n\<bar> \<le> (2 :: rat) ^ 53" using assms by (metis of_int_le_iff of_int_numeral of_int_power)
  have "\<exists>k. (of_int n :: rat) = of_int k * 2 powi e"
  proof (cases "e \<le> 0")
    case True
    have "(of_int n :: rat) = of_int (n * 2 ^ nat (- e)) * 2 powi e"
      using True by (simp add: power_int_def field_simps)
    then show ?thesis by blast
  next
    case False
    then have "(2 :: rat) ^ 53 \<le> 2 powi (e + 52)" using power_int_increasing [of 53 "e + 52" "2 :: rat"] by simp
    with le n have e: "2 powi (e + 52) = (2 :: rat) ^ 53" and "of_int \<bar>n\<bar> = (2 :: rat) ^ 53" by linarith+
    then have "\<bar>n\<bar> = 2 ^ 53" by (metis of_int_eq_iff of_int_numeral of_int_power)
    moreover have "e = 1" using e False power_int_strict_increasing [of 53 "e + 52" "2 :: rat"] by (cases "e = 1") auto
    moreover have "n = 2 ^ 53 \<or> n = - (2 ^ 53)" using calculation(1) by linarith
    ultimately have "of_int n = of_int (2 ^ 52) * (2 :: rat) powi e \<or> of_int n = of_int (- (2 ^ 52)) * (2 :: rat) powi e" by auto
    then show ?thesis by blast
  qed
  then show ?thesis unfolding e_def by (blast intro: rnd_exact)
qed (simp add: rnd_def)

section \<open>The error of several roundings\<close>

text \<open>
  \<open>close_to k x y\<close>: \<open>y\<close> is what \<open>k\<close> roundings can make of the exact value \<open>x\<close> (none negative).
\<close>

definition ulp_half :: rat where "ulp_half = 1 / 2 ^ 53"

definition close_to :: "nat \<Rightarrow> rat \<Rightarrow> rat \<Rightarrow> bool" where
  "close_to k x y \<longleftrightarrow> 0 \<le> x \<and> (1 - ulp_half) ^ k * x \<le> y \<and> y \<le> (1 + ulp_half) ^ k * x"

lemma ulp_half_range: "0 < ulp_half" "ulp_half < 1"
  by (simp_all add: ulp_half_def)

lemma close_refl [simp]: "close_to 0 x x \<longleftrightarrow> 0 \<le> x"
  by (simp add: close_to_def)

lemma close_nonneg: "close_to k x y \<Longrightarrow> 0 \<le> y"
  unfolding close_to_def using ulp_half_range by (meson diff_ge_0_iff_ge less_imp_le mult_nonneg_nonneg order_trans zero_le_power)

lemma close_pos:
  assumes "close_to k x y" "0 < x"
  shows "0 < y"
proof -
  have "0 < (1 - ulp_half) ^ k * x" using assms(2) ulp_half_range by simp
  then show ?thesis using assms(1) by (simp add: close_to_def)
qed

lemma close_rnd:
  assumes "close_to k x y"
  shows "close_to (Suc k) x (rnd y)"
proof -
  have y: "0 \<le> y" using close_nonneg [OF assms] .
  have "\<bar>rnd y - y\<bar> \<le> ulp_half * y" using rnd_error [of y] y by (simp add: ulp_half_def)
  then have r: "(1 - ulp_half) * y \<le> rnd y" "rnd y \<le> (1 + ulp_half) * y"
    by (auto simp: abs_le_iff algebra_simps)
  have "(1 - ulp_half) * ((1 - ulp_half) ^ k * x) \<le> (1 - ulp_half) * y" "(1 + ulp_half) * y \<le> (1 + ulp_half) * ((1 + ulp_half) ^ k * x)"
    using assms ulp_half_range by (auto simp: close_to_def intro!: mult_left_mono)
  with r assms show ?thesis by (auto simp: close_to_def mult.assoc)
qed

lemma close_scale: "\<lbrakk>close_to k x y; 0 \<le> c\<rbrakk> \<Longrightarrow> close_to k (x * c) (y * c)"
  by (auto simp: close_to_def mult.assoc [symmetric] intro!: mult_right_mono)

lemma close_add_left:
  assumes "close_to k x y" "0 \<le> s"
  shows "close_to k (s + x) (s + y)"
proof -
  have "(1 - ulp_half) ^ k \<le> 1" "1 \<le> (1 + ulp_half) ^ k"
    using ulp_half_range by (auto intro: power_le_one)
  then have "(1 - ulp_half) ^ k * s \<le> s" "s \<le> (1 + ulp_half) ^ k * s"
    using mult_right_mono [OF _ assms(2), of "(1 - ulp_half) ^ k" 1] mult_right_mono [OF _ assms(2), of 1 "(1 + ulp_half) ^ k"]
    by auto
  with assms show ?thesis by (auto simp: close_to_def distrib_left)
qed

lemma rnd_nonneg: "0 \<le> x \<Longrightarrow> 0 \<le> rnd x"
  using close_nonneg [OF close_rnd [of 0 x x]] by simp

lemma rnd_pos: "0 < x \<Longrightarrow> 0 < rnd x"
  using close_pos [OF close_rnd [of 0 x x]] by simp

lemma rnd_0 [simp]: "rnd 0 = 0"
  by (simp add: rnd_def)

lemma of_uint64_close: "close_to 1 (of_int (uint w)) (of_uint64 w)"
  unfolding of_uint64_def One_nat_def by (intro close_rnd close_refl [THEN iffD2] of_int_nonneg) simp

lemma of_uint64_exact: "uint w \<le> 2 ^ 53 \<Longrightarrow> of_uint64 w = of_int (uint w)"
  unfolding of_uint64_def by (rule rnd_of_int) simp

text \<open>The error of a quotient whose two operands have been rounded.\<close>

lemma close_quotient:
  assumes "close_to j a a'" "close_to k b b'" "0 < b"
  shows "(1 - ulp_half) ^ j / (1 + ulp_half) ^ k * (a / b) \<le> a' / b'" "a' / b' \<le> (1 + ulp_half) ^ j / (1 - ulp_half) ^ k * (a / b)"
proof -
  have b': "0 < b'" using close_pos [OF assms(2,3)] .
  have u: "0 < 1 - ulp_half" "0 < 1 + ulp_half" using ulp_half_range by auto
  have "(1 - ulp_half) ^ j * a / ((1 + ulp_half) ^ k * b) \<le> a' / b'"
    using assms b' u by (intro frac_le) (auto simp: close_to_def close_nonneg)
  then show "(1 - ulp_half) ^ j / (1 + ulp_half) ^ k * (a / b) \<le> a' / b'" by simp
  have "a' / b' \<le> (1 + ulp_half) ^ j * a / ((1 - ulp_half) ^ k * b)"
    using assms b' u by (intro frac_le) (auto simp: close_to_def close_nonneg)
  then show "a' / b' \<le> (1 + ulp_half) ^ j / (1 - ulp_half) ^ k * (a / b)" by simp
qed

end
