(* ===== verification/Docker_Stats.thy ===== *)
theory Docker_Stats
  imports Docker_Stacks Float64
begin

text \<open>
  The resource use of the running containers (\<^verbatim>\<open>internal/docker/stats.go\<close>). The daemon's one-shot
  statistics are a parameter: a call that may fail, whose body may fail to decode. CPU counters are
  64-bit words of nanoseconds, the percentage is a \<^verbatim>\<open>float64\<close>.
\<close>

section \<open>Data\<close>

record cpu_stats =
  cs_TotalUsage :: "64 word"
  cs_PercpuUsage :: "64 word list"
  cs_SystemUsage :: "64 word"
  cs_OnlineCPUs :: "32 word"

record memory_stats =
  ms_Usage :: "64 word"
  ms_Limit :: "64 word"
  ms_Stats :: "(string \<times> 64 word) list"

record stats_response =
  sr_CPUStats :: cpu_stats
  sr_PreCPUStats :: cpu_stats
  sr_MemoryStats :: memory_stats

record container_metrics =
  cm_ID :: string
  cm_CPUPercent :: float64
  cm_MemUsed :: "64 word"
  cm_MemLimit :: "64 word"

type_synonym 'd stats_call = "string \<Rightarrow> 'd \<Rightarrow> stats_response res res \<times> 'd \<times> nat"

section \<open>Operations\<close>

definition cpuPercent :: "stats_response \<Rightarrow> float64" where
  "cpuPercent s =
     (let cpuDelta = fsub (of_uint64 (cs_TotalUsage (sr_CPUStats s))) (of_uint64 (cs_TotalUsage (sr_PreCPUStats s)));
          sysDelta = fsub (of_uint64 (cs_SystemUsage (sr_CPUStats s))) (of_uint64 (cs_SystemUsage (sr_PreCPUStats s)))
      in if sysDelta \<le> 0 \<or> cpuDelta < 0 then 0
         else let cpus = of_uint64 (cs_OnlineCPUs (sr_CPUStats s));
                  cpus = (if cpus = 0 then rnd (of_nat (length (cs_PercpuUsage (sr_CPUStats s)))) else cpus);
                  cpus = (if cpus = 0 then 1 else cpus)
              in fmul (fmul (fdiv cpuDelta sysDelta) cpus) 100)"

definition memUsed :: "memory_stats \<Rightarrow> 64 word" where
  "memUsed mem =
     (case map_of (ms_Stats mem) ''inactive_file'' of
        Some cache \<Rightarrow> if cache \<le> ms_Usage mem then ms_Usage mem - cache else ms_Usage mem
      | None \<Rightarrow> ms_Usage mem)"

definition containerStat :: "'d stats_call \<Rightarrow> string \<Rightarrow> ('d, container_metrics res) op" where
  "containerStat stats cid = do {
     r \<leftarrow> call (stats cid);
     State_Monad.return (case r of
         Inl err \<Rightarrow> Inl err
       | Inr (Inl err) \<Rightarrow> Inl err
       | Inr (Inr s) \<Rightarrow> Inr \<lparr>cm_ID = cid, cm_CPUPercent = cpuPercent s, cm_MemUsed = memUsed (sr_MemoryStats s),
           cm_MemLimit = ms_Limit (sr_MemoryStats s)\<rparr>)
   }"

fun stats_loop :: "'d stats_call \<Rightarrow> summary list \<Rightarrow> ('d, container_metrics list) op" where
  "stats_loop stats [] = State_Monad.return []"
| "stats_loop stats (c # cs) =
     (if sum_State c \<noteq> ''running'' then stats_loop stats cs
      else do {
        r \<leftarrow> containerStat stats (sum_ID c);
        rest \<leftarrow> stats_loop stats cs;
        State_Monad.return (case r of Inl _ \<Rightarrow> rest | Inr cm \<Rightarrow> cm # rest)
      })"

definition ContainerStats :: "'d docker_env \<Rightarrow> 'd stats_call \<Rightarrow> ('d, container_metrics list res) op" where
  "ContainerStats e stats = do {
     r \<leftarrow> call (ContainerList e False);
     case r of
       Inl err \<Rightarrow> State_Monad.return (Inl err)
     | Inr summaries \<Rightarrow> do { out \<leftarrow> stats_loop stats summaries; State_Monad.return (Inr out) }
   }"

section \<open>The percentage\<close>

text \<open>The number of CPUs the percentage is scaled by.\<close>

definition cpu_count :: "cpu_stats \<Rightarrow> int" where
  "cpu_count c = (if cs_OnlineCPUs c \<noteq> 0 then uint (cs_OnlineCPUs c)
     else if cs_PercpuUsage c \<noteq> [] then int (length (cs_PercpuUsage c)) else 1)"

lemma cpuPercent_nonneg: "0 \<le> cpuPercent s"
proof -
  have c: "0 \<le> of_uint64 w" for w :: "'w::len word"
    using close_nonneg [OF of_uint64_close] .
  show ?thesis
    by (auto simp: cpuPercent_def Let_def fmul_def fdiv_def c intro!: rnd_nonneg mult_nonneg_nonneg divide_nonneg_nonneg)
qed

lemma cpu_count_exact:
  assumes "length (cs_PercpuUsage c) \<le> 2 ^ 53"
  shows "(let cpus = of_uint64 (cs_OnlineCPUs c);
              cpus = (if cpus = 0 then rnd (of_nat (length (cs_PercpuUsage c))) else cpus)
          in if cpus = 0 then 1 else cpus) = of_int (cpu_count c)"
proof -
  have "uint (cs_OnlineCPUs c) < 2 ^ 32" using uint_lt2p [of "cs_OnlineCPUs c"] by simp
  then have "of_uint64 (cs_OnlineCPUs c) = of_int (uint (cs_OnlineCPUs c))" by (intro of_uint64_exact) simp
  moreover have "rnd (of_nat (length (cs_PercpuUsage c))) = of_int (int (length (cs_PercpuUsage c)))"
    using rnd_of_int [of "int (length (cs_PercpuUsage c))"] assms by simp
  moreover have "of_int (uint (cs_OnlineCPUs c)) = (0 :: rat) \<longleftrightarrow> cs_OnlineCPUs c = 0"
    by (simp only: of_int_eq_0_iff uint_0_iff)
  ultimately show ?thesis by (auto simp: cpu_count_def Let_def)
qed

text \<open>
  A container's CPU percentage is right up to three roundings: for counters below \<open>2\<^sup>5\<^sup>3\<close> nanoseconds
  that have not gone backwards, it is the share of the host's CPU time the container used, times the
  number of CPUs, in percent.
\<close>

theorem cpu_percent_accurate:
  assumes "uint (cs_TotalUsage (sr_CPUStats s)) \<le> 2 ^ 53" "uint (cs_SystemUsage (sr_CPUStats s)) \<le> 2 ^ 53"
    and "cs_TotalUsage (sr_PreCPUStats s) \<le> cs_TotalUsage (sr_CPUStats s)"
    and "cs_SystemUsage (sr_PreCPUStats s) < cs_SystemUsage (sr_CPUStats s)"
    and "length (cs_PercpuUsage (sr_CPUStats s)) \<le> 2 ^ 53"
  shows "close_to 3 (of_int (uint (cs_TotalUsage (sr_CPUStats s)) - uint (cs_TotalUsage (sr_PreCPUStats s))) /
     of_int (uint (cs_SystemUsage (sr_CPUStats s)) - uint (cs_SystemUsage (sr_PreCPUStats s))) *
     of_int (cpu_count (sr_CPUStats s)) * 100) (cpuPercent s)"
proof -
  define dc where "dc = uint (cs_TotalUsage (sr_CPUStats s)) - uint (cs_TotalUsage (sr_PreCPUStats s))"
  define ds where "ds = uint (cs_SystemUsage (sr_CPUStats s)) - uint (cs_SystemUsage (sr_PreCPUStats s))"
  define n where "n = cpu_count (sr_CPUStats s)"
  have le: "uint (cs_TotalUsage (sr_PreCPUStats s)) \<le> uint (cs_TotalUsage (sr_CPUStats s))"
    "uint (cs_SystemUsage (sr_PreCPUStats s)) < uint (cs_SystemUsage (sr_CPUStats s))"
    using assms(3,4) by (simp_all add: word_le_def word_less_def)
  have d: "0 \<le> dc" "dc \<le> 2 ^ 53" "0 < ds" "ds \<le> 2 ^ 53" "0 \<le> n"
    using assms(1,2) le by (auto simp: dc_def ds_def n_def cpu_count_def intro: order_trans [OF diff_left_mono])
  have sub: "fsub (of_uint64 a) (of_uint64 b) = of_int (uint a - uint b)"
    if "uint b \<le> uint a" "uint a \<le> 2 ^ 53" for a b :: "64 word"
  proof -
    have "\<bar>uint a - uint b\<bar> \<le> 2 ^ 53" using that by (simp add: abs_if) (smt (verit) uint_ge_0)
    then have "rnd (of_int (uint a - uint b)) = of_int (uint a - uint b)" by (rule rnd_of_int)
    moreover have "uint b \<le> 2 ^ 53" using that by linarith
    ultimately show ?thesis
      using that(2) unfolding fsub_def by (simp only: of_uint64_exact of_int_diff)
  qed
  have e: "fsub (of_uint64 (cs_TotalUsage (sr_CPUStats s))) (of_uint64 (cs_TotalUsage (sr_PreCPUStats s))) = of_int dc"
    "fsub (of_uint64 (cs_SystemUsage (sr_CPUStats s))) (of_uint64 (cs_SystemUsage (sr_PreCPUStats s))) = of_int ds"
    using sub le assms(1,2) by (simp_all only: dc_def ds_def order_less_imp_le)
  have "cpuPercent s = rnd (rnd (rnd (of_int dc / of_int ds) * of_int n) * 100)"
    using d cpu_count_exact [OF assms(5)]
    by (simp add: cpuPercent_def e Let_def fmul_def fdiv_def n_def)
  moreover have "close_to 0 (of_int dc / of_int ds) (of_int dc / of_int ds)" using d by simp
  from close_rnd [OF close_scale [OF close_rnd [OF close_scale [OF close_rnd [OF this], of "of_int n"]], of 100]]
  have "close_to 3 (of_int dc / of_int ds * of_int n * 100)
      (rnd (rnd (rnd (of_int dc / of_int ds) * of_int n) * 100))" using d by (simp add: numeral_3_eq_3)
  ultimately have "close_to 3 (of_int dc / of_int ds * of_int n * 100) (cpuPercent s)" by simp
  then show ?thesis by (simp only: dc_def ds_def n_def)
qed

definition busy_stats :: stats_response where
  "busy_stats =
     \<lparr>sr_CPUStats = \<lparr>cs_TotalUsage = 500, cs_PercpuUsage = [], cs_SystemUsage = 2000, cs_OnlineCPUs = 2\<rparr>,
      sr_PreCPUStats = \<lparr>cs_TotalUsage = 400, cs_PercpuUsage = [], cs_SystemUsage = 1000, cs_OnlineCPUs = 2\<rparr>,
      sr_MemoryStats = \<lparr>ms_Usage = 70, ms_Limit = 100, ms_Stats = [(''inactive_file'', 30)]\<rparr>\<rparr>"

theorem cpu_percent_accurate_witness: "close_to 3 20 (cpuPercent busy_stats)"
  using cpu_percent_accurate [of busy_stats] by (simp add: busy_stats_def cpu_count_def)

section \<open>The list\<close>

lemma stats_loop_entries:
  assumes "run_state (stats_loop stats cs) m = (out, m')"
  shows "subseq (map cm_ID out) (map sum_ID (filter (\<lambda>c. sum_State c = ''running'') cs))"
  using assms
proof (induction cs arbitrary: out m)
  case (Cons c cs)
  then show ?case
    by (auto simp: containerStat_def split: prod.splits sum.splits if_splits)
qed simp

lemma container_stats_running:
  assumes "run_state (ContainerStats e stats) m = (Inr out, m')"
  shows "\<exists>cs m1. run_state (call (ContainerList e False)) m = (Inr cs, m1) \<and>
    subseq (map cm_ID out) (map sum_ID (filter (\<lambda>c. sum_State c = ''running'') cs))"
  using assms by (auto simp: ContainerStats_def split: prod.splits sum.splits intro: stats_loop_entries)

lemma memUsed_le: "memUsed mem \<le> ms_Usage mem"
  by (auto simp: memUsed_def word_sub_le split: option.splits)

end
