(* ===== verification/Docker_Frame.thy ===== *)
theory Docker_Frame
  imports Docker_Handlers Docker_Stats
begin

text \<open>
  What the Docker manager leaves alone in the database. A part of the store that none of the manager's own
  statements touches is the same after every operation of the manager, whatever the daemon does: the
  handlers, the jobs, the pollers' rounds and the recovery at startup. The account tables are such a part.
\<close>

section \<open>Frames\<close>

text \<open>
  The interface: a part of the store, and that the eleven statements the manager makes leave it as it is.
\<close>

locale manager_frame =
  fixes part :: "store \<Rightarrow> 'p"
  assumes part_UpsertStack: "part (snd (UpsertStack n s)) = part s"
    and part_AddManagedContainer: "part (snd (AddManagedContainer now mc s)) = part s"
    and part_UpdateSnapshot: "part (snd (UpdateSnapshot cid js live s)) = part s"
    and part_DeleteManagedContainer: "part (snd (DeleteManagedContainer cid s)) = part s"
    and part_Unadopt: "part (snd (Unadopt sid s)) = part s"
    and part_SaveNotifiedUpdates: "part (snd (SaveNotifiedUpdates flags s)) = part s"
    and part_SaveNotifiedStatuses: "part (snd (SaveNotifiedStatuses sts s)) = part s"
    and part_StartUpdateJob: "part (snd (StartUpdateJob now j s)) = part s"
    and part_SetUpdateJobPhase: "part (snd (SetUpdateJobPhase jid ph ms s)) = part s"
    and part_MarkUpdateJobSelf: "part (snd (MarkUpdateJobSelf jid s)) = part s"
    and part_FinishUpdateJob: "part (snd (FinishUpdateJob now jid ph ms er s)) = part s"
begin

definition framed :: "('d, 'a) op \<Rightarrow> bool" where
  "framed f \<longleftrightarrow> (\<forall>m. part (mg_st (snd (run_state f m))) = part (mg_st m))"

lemmas statements = part_UpsertStack part_AddManagedContainer part_UpdateSnapshot part_DeleteManagedContainer part_Unadopt
  part_SaveNotifiedUpdates part_SaveNotifiedStatuses part_StartUpdateJob part_SetUpdateJobPhase part_MarkUpdateJobSelf
  part_FinishUpdateJob

lemma framed_db: "(\<And>s. part (snd (f s)) = part s) \<Longrightarrow> framed (db f)"
  by (simp add: framed_def case_prod_unfold)

lemmas framed_statements = statements [THEN framed_db]

lemma framed_basic:
  "framed (State_Monad.return a)" "framed (db_read g)" "framed (reads h)" "framed (call c)" "framed now_unix" "framed now_ns"
  "framed (sleep e t)" "framed (TryLock n)"
  by (simp_all add: framed_def now_unix_def now_ns_def sleep_def TryLock_def split: prod.splits)

lemma framed_bind: "framed f \<Longrightarrow> (\<And>a. framed (g a)) \<Longrightarrow> framed (State_Monad.bind f g)"
  by (simp add: framed_def case_prod_unfold)

lemma framed_branches:
  "framed f \<Longrightarrow> framed g \<Longrightarrow> framed (if b then f else g)"
  "(\<And>x. framed (h x)) \<Longrightarrow> (\<And>y. framed (k y)) \<Longrightarrow> framed (case s of Inl x \<Rightarrow> h x | Inr y \<Rightarrow> k y)"
  "framed f \<Longrightarrow> (\<And>x. framed (h x)) \<Longrightarrow> framed (case opt of None \<Rightarrow> f | Some x \<Rightarrow> h x)"
  "(\<And>x y. framed (p x y)) \<Longrightarrow> framed (case pr of (x, y) \<Rightarrow> p x y)"
  "framed (l v) \<Longrightarrow> framed (Let v l)"
  by (auto split: sum.splits option.splits prod.splits)

lemma framed_modify: "(\<And>m. mg_st (f m) = mg_st m) \<Longrightarrow> framed (modify f)"
  by (simp add: framed_def)

lemmas framed_core = framed_basic framed_bind framed_branches framed_statements

lemma framed_lists:
  "(\<And>x. framed (f x)) \<Longrightarrow> framed (for_each f xs)"
  "(\<And>x. framed (g x)) \<Longrightarrow> framed (try_each g ys)"
  "(\<And>x. framed (h x)) \<Longrightarrow> framed (any_each h zs)"
  by (induction xs, simp_all add: framed_core) (induction ys, simp_all add: framed_core, induction zs, simp_all add: framed_core)

lemma framed_flags:
  "framed (publish j)" "framed (notify ev ti bo me)" "framed (track j)" "framed (forget jid)" "framed (Lock n)" "framed (Unlock n)"
  "framed (setUpdateAvailable n b)" "framed (updateAvailableFor n)" "framed (genID e)" "framed (Ping e)"
  unfolding publish_def notify_def track_def forget_def Lock_def Unlock_def setUpdateAvailable_def updateAvailableFor_def
    genID_def Ping_def
  by (intro framed_core framed_modify; simp)+

lemmas frames = framed_core framed_lists framed_flags

lemma framed_locks:
  assumes "framed f"
  shows "framed (with_lock n f)" "framed (withContainerLock e r f)"
  unfolding with_lock_def withContainerLock_def by (intro frames assms)+

lemma framed_self: "framed (SelfContainerID e)" "framed (IsSelf e cid)"
proof -
  have "framed (first_inspected e refs)" for refs
    by (induction refs) (simp_all add: frames)
  then show self: "framed (SelfContainerID e)"
    unfolding SelfContainerID_def resolveSelf_def by (intro frames framed_modify) simp_all
  show "framed (IsSelf e cid)" unfolding IsSelf_def by (intro frames self)
qed

section \<open>The operations\<close>

lemma framed_stacks: "framed (ListStacks e)" "framed (BroadcastStacks e)"
proof -
  have "framed (live_stacks e rows upd cs sts)" for rows upd cs sts
    by (induction cs arbitrary: sts) (auto simp: live_container_def Let_def intro!: frames)
  then show l: "framed (ListStacks e)"
    unfolding ListStacks_def by (intro frames)
  have "framed (noteStatuses sts)" for sts
    unfolding noteStatuses_def status_baseline_def note_stack_def
    by (intro frames framed_modify) simp_all
  then show "framed (BroadcastStacks e)"
    unfolding BroadcastStacks_def by (intro frames l framed_modify) simp_all
qed

lemma framed_job:
  assumes "\<And>emit. (\<And>ph ms. framed (emit ph ms)) \<Longrightarrow> framed (fn emit)"
  shows "framed (jobWithID e jid kind target fn)" "framed (job e kind target fn)"
proof -
  have em: "framed (job_emit jid kind target ph ms)" for jid ph ms
    unfolding job_emit_def by (intro frames)
  show j: "framed (jobWithID e jid kind target fn)" for jid
    unfolding jobWithID_def by (intro frames em assms framed_stacks)
  show "framed (job e kind target fn)" unfolding job_def by (intro frames j)
qed

lemma framed_recreate: "framed (recreate e snap img)"
  unfolding recreate_def by (intro frames)

lemma framed_lifecycle:
  "framed (Start e cid)" "framed (Stop e cid)" "framed (Restart e cid)"
  "framed (StartStack e sid)" "framed (StopStack e sid)" "framed (RestartStack e sid)" "framed (BringUpStack e sid)"
  "framed (Adopt e sid)"
proof -
  show basic: "framed (Start e cid)" "framed (Stop e cid)" "framed (Restart e cid)" for cid
    unfolding Start_def Stop_def Restart_def awaitNotRunning_def by (intro frames)+
  show "framed (StartStack e sid)" "framed (StopStack e sid)" "framed (RestartStack e sid)"
    unfolding StartStack_def StopStack_def RestartStack_def on_stack_def containerIDsInStack_def
    by (intro frames basic)+
  show "framed (BringUpStack e sid)"
    unfolding BringUpStack_def bring_up_one_def by (intro frames framed_recreate framed_stacks)
  show "framed (Adopt e sid)"
    unfolding Adopt_def adopt_one_def by (intro frames framed_stacks)
qed

lemma framed_jobs:
  "framed (StartJob e cid)" "framed (StopJob e cid)" "framed (RestartJob e cid)"
  "framed (StartStackJob e sid)" "framed (StopStackJob e sid)" "framed (RestartStackJob e sid)" "framed (BringUpStackJob e sid)"
  unfolding StartJob_def StopJob_def RestartJob_def StartStackJob_def StopStackJob_def RestartStackJob_def BringUpStackJob_def
  by (intro framed_job framed_locks framed_lifecycle)+

lemma framed_remoteHasNewImage: "framed (remoteHasNewImage e mc)"
  unfolding remoteHasNewImage_def by (intro frames)

lemma framed_checkUpdates: "framed (checkUpdates e mcs)"
proof -
  have one: "framed (check_one e mc)" for mc
    unfolding check_one_def by (intro frames framed_remoteHasNewImage)
  have "framed (check_loop e mcs n c)" for mcs n c
    by (induction mcs arbitrary: n c) (auto intro!: frames one)
  then show ?thesis
    unfolding checkUpdates_def seedUpdateAvail_def persistUpdateAvail_def
    by (intro frames framed_stacks framed_modify) simp_all
qed

lemma framed_checks:
  "framed (CheckUpdates e)" "framed (CheckContainerUpdates e x)" "framed (CheckStackUpdates e x)" "framed (CheckAllUpdates e)"
  unfolding CheckUpdates_def CheckContainerUpdates_def CheckStackUpdates_def CheckAllUpdates_def
  by (intro frames framed_checkUpdates)+

lemma framed_recordSpec: "framed (recordSpec mc insp)" "framed (refreshIfRecreated mc insp)"
  unfolding refreshIfRecreated_def recordSpec_def by (intro frames)+

lemma framed_Reconcile: "framed (Reconcile e)"
proof -
  have "framed (rerecord e mc liveID)" for mc liveID
    unfolding rerecord_def by (intro frames framed_recordSpec framed_remoteHasNewImage)
  moreover have "framed (adoptNew e c name)" for c name
    unfolding adoptNew_def by (intro frames)
  moreover have "framed (forgetComposeTemp mc)" for mc
    unfolding forgetComposeTemp_def by (intro frames)
  ultimately show ?thesis
    unfolding Reconcile_def reconcile_live_def by (intro frames framed_stacks)
qed

section \<open>Updates and recovery\<close>

lemma framed_pullImage:
  assumes "\<And>ph ms. framed (emit ph ms)"
  shows "framed (pullImage e ref emit)"
proof -
  have "framed (drain_loop emit en evs ls p q l)" for en evs ls p q l
  proof (induction evs arbitrary: ls p q l)
    case Nil
    show ?case by (auto intro!: frames assms)
  next
    case (Cons x evs)
    then show ?case by (cases x) (auto simp: Let_def intro!: frames assms framed_modify)
  qed
  then show ?thesis unfolding pullImage_def drainPull_def by (intro frames assms)
qed

lemma framed_verifyHealthy: "framed (verifyHealthy e cid)"
proof -
  have "mg_st (snd (verify_loop e cid dl m)) = mg_st m" for dl m
  proof (induction e cid dl m rule: verify_loop.induct)
    case (1 e cid dl m)
    obtain r m1 where i: "run_state (call (ContainerInspect e cid)) m = (r, m1)"
      by (cases "run_state (call (ContainerInspect e cid)) m")
    obtain u m2 where sl: "run_state (sleep e second) m1 = (u, m2)"
      by (cases "run_state (sleep e second) m1")
    have "mg_st m1 = mg_st m" using i by (auto split: prod.splits)
    moreover have "mg_st m2 = mg_st m1" using sl by (auto simp: sleep_def split: prod.splits)
    ultimately show ?case
      using 1 [OF i [symmetric] _ _ _ _ _ sl [symmetric]]
      by (subst verify_loop.simps) (auto simp: i sl simp del: run_call split: sum.splits option.splits)
  qed
  then show ?thesis by (simp add: framed_def verifyHealthy_def)
qed

lemma framed_swap:
  assumes "\<And>ph ms. framed (emit ph ms)"
  shows "framed (rollback e new old nm emit)" "framed (swap e mc snap ref insp img emit)"
proof -
  show r: "framed (rollback e new old nm emit)" for new old nm
    unfolding rollback_def by (intro frames assms)
  show "framed (swap e mc snap ref insp img emit)"
    unfolding swap_def swap_commit_def by (intro frames assms framed_recreate framed_recordSpec framed_verifyHealthy r)
qed

lemma framed_doUpdate:
  assumes "\<And>ph ms. framed (emit ph ms)"
  shows "framed (doUpdate e mc jid emit)"
proof -
  have "framed (handOff e insp jid emit)" for insp
    unfolding handOff_def by (intro frames assms)
  then show ?thesis
    unfolding doUpdate_def do_update_locked_def
    by (intro framed_locks frames assms framed_recordSpec framed_pullImage framed_self framed_swap)
qed

lemma framed_Update: "framed (Update e x)" "framed (runAutoUpdates e)"
proof -
  have body: "framed (update_body e mc jid emit)" if em: "\<And>ph ms. framed (emit ph ms)" for mc jid emit
  proof -
    have "framed (record_emit jid emit ph ms)" for ph ms unfolding record_emit_def by (intro frames em)
    then show ?thesis unfolding update_body_def finish_job_def by (intro frames framed_doUpdate)
  qed
  show u: "framed (Update e x)" for x
    unfolding Update_def by (intro frames framed_job body)
  have "framed (auto_update_each e mcs)" for mcs
    by (induction mcs) (auto intro!: frames u)
  then show "framed (runAutoUpdates e)" unfolding runAutoUpdates_def by (intro frames)
qed

lemma framed_ApplyUpdate: "framed (ApplyUpdate e name jid)"
proof -
  have em: "framed (apply_emit jid ph ms)" for ph ms unfolding apply_emit_def by (intro frames)
  show ?thesis
    unfolding ApplyUpdate_def finishApply_def finish_job_def
    by (intro frames em framed_recordSpec framed_pullImage framed_swap)
qed

lemma framed_settle: "framed (settleJob e jid name)" "framed (watch_round e jid name)"
proof -
  show s: "framed (settleJob e jid name)"
    unfolding settleJob_def onSnapshotImage_def finish_job_def by (intro frames)
  show "framed (watch_round e jid name)"
    unfolding watch_round_def updaterFor_def runningUpdaters_def by (intro frames s framed_stacks)
qed

lemma framed_Recover: "framed (Recover e)"
proof -
  have "framed (quiet_emit ph ms)" for ph ms unfolding quiet_emit_def by (intro frames)
  then have "framed (reconcileOne e orig parked fresh)" for orig parked fresh
    unfolding reconcileOne_def healthy_def by (intro frames framed_self framed_verifyHealthy framed_swap)
  then have "framed (reconcileParked e)"
    unfolding reconcileParked_def by (intro frames)
  moreover have "framed (resume_each e us js)" for us js
    by (induction js) (auto intro!: frames framed_settle)
  ultimately show ?thesis
    unfolding Recover_def resumeJobs_def pruneUpdaters_def runningUpdaters_def by (intro frames)
qed

lemma framed_ContainerStats: "framed (ContainerStats e stats)"
proof -
  have "framed (containerStat stats cid)" for cid
    unfolding containerStat_def by (intro frames)
  then have "framed (stats_loop stats cs)" for cs
    by (induction cs) (auto intro!: frames)
  then show ?thesis unfolding ContainerStats_def by (intro frames)
qed

lemma framed_handlers:
  "framed (handleListStacks e)" "framed (handleAdoptStack e x)" "framed (handleForgetContainer e x)"
  "framed (handleForgetStack e x)" "framed (handleCheckContainerUpdate e x)" "framed (handleCheckStackUpdate e x)"
  "framed (handleCheckAllUpdates e)"
  "framed (snd (handleStackAction e a x))" "framed (snd (handleContainerAction e a x))" "framed (snd (handleContainerUpdate e x))"
  unfolding handleListStacks_def handleAdoptStack_def handleForgetContainer_def handleForgetStack_def
    handleCheckContainerUpdate_def handleCheckStackUpdate_def handleCheckAllUpdates_def
    handleStackAction_def handleContainerAction_def handleContainerUpdate_def snd_conv
  by (intro frames framed_stacks framed_lifecycle framed_checks framed_jobs framed_Update)+

end

section \<open>The account tables\<close>

definition account_part :: "store \<Rightarrow> user list \<times> credential_row list \<times> invite_row list \<times> session_row list \<times>
    oidc_identity list \<times> (string \<Rightarrow> bool)" where
  "account_part s = (users s, credentials s, invites s, sessions s, oidc_identities s, db_fault s)"

interpretation accounts: manager_frame account_part
  by unfold_locales
    (auto simp: account_part_def UpsertStack_def AddManagedContainer_def UpdateSnapshot_def DeleteManagedContainer_def Unadopt_def
      SaveNotifiedUpdates_def SaveNotifiedStatuses_def setJSON_def SetSetting_def StartUpdateJob_def SetUpdateJobPhase_def
      MarkUpdateJobSelf_def FinishUpdateJob_def Let_def split: if_splits option.splits)

end
