(* ===== verification/Disk_Laws.thy ===== *)
theory Disk_Laws
  imports Disks
begin

text \<open>
  What the dashboard's disk panel promises: the largest visible disks are the ones shown, the panel is
  never empty by default, and the throughput marks are the running maxima of the samples.
\<close>

section \<open>The order the panel relies on\<close>

text \<open>What \<^verbatim>\<open>sort.Slice\<close> guarantees with the two comparisons used: a rearrangement, largest first.\<close>

definition sort_law :: "disk_env \<Rightarrow> bool" where
  "sort_law e \<longleftrightarrow>
     (\<forall>xs. mset (sort_disks e xs) = mset xs \<and> sorted_wrt (\<lambda>a b. du_Total b \<le> du_Total a) (sort_disks e xs)) \<and>
     (\<forall>xs. mset (sort_mounts e xs) = mset xs)"

text \<open>A host with two mounts and one partition that is no real storage.\<close>

definition two_mounts :: disk_env where
  "two_mounts = \<lparr>disk_Partitions = Inr [\<lparr>part_Device = ''/dev/sda1'', part_Mountpoint = ''/'', part_Fstype = ''ext4''\<rparr>,
       \<lparr>part_Device = ''proc'', part_Mountpoint = ''/proc'', part_Fstype = ''proc''\<rparr>,
       \<lparr>part_Device = ''/dev/sdb1'', part_Mountpoint = ''/mnt/backup'', part_Fstype = ''ext4''\<rparr>],
     disk_Usage = (\<lambda>m. Inr (1, if m = ''/'' then 10 else 20)), disk_IOCounters = Inr [''sda'', ''sda1'', ''sdb''],
     sort_mounts = sort_key (\<lambda>m. - uint (mnt_Total m)), sort_disks = sort_key (\<lambda>m. - uint (du_Total m))\<rparr>"

lemma two_mounts_law: "sort_law two_mounts"
proof -
  have "sorted_wrt (\<lambda>a b. du_Total b \<le> du_Total a) (sort_key (\<lambda>m. - uint (du_Total m)) xs)" for xs :: "disk_usage list"
    using sorted_sort_key [of "\<lambda>m. - uint (du_Total m)" xs]
    by (simp add: sorted_map word_le_def)
  then show ?thesis by (simp add: sort_law_def two_mounts_def)
qed

section \<open>Visibility\<close>

lemma keys_disjoint [simp]: "MountKey m \<noteq> DeviceKey d" "DeviceKey d \<noteq> MountKey m"
  by (simp_all add: MountKey_def DeviceKey_def)

lemma MountKey_inject [simp]: "MountKey m = MountKey n \<longleftrightarrow> m = n"
  by (simp add: MountKey_def)

lemma map_of_Effective:
  "map_of (Effective defaults overrides) k =
     (case map_of defaults k of None \<Rightarrow> None | Some v \<Rightarrow> Some (case map_of overrides k of Some o' \<Rightarrow> o' | None \<Rightarrow> v))"
proof (induction defaults)
  case (Cons p ps)
  then show ?case by (cases p; cases "map_of overrides (fst p)") (simp_all add: Effective_def)
qed (simp add: Effective_def)

lemma fold_device_keys:
  "map_of (fold (\<lambda>d. AList.update (DeviceKey (dio_Device d)) True) ds def) (MountKey m) = map_of def (MountKey m)"
  by (induction ds arbitrary: def) auto

lemma fold_mount_keys:
  "\<lbrakk>distinct (map mnt_Mount ms); m \<in> set ms\<rbrakk> \<Longrightarrow>
   map_of (fold (\<lambda>m. AList.update (MountKey (mnt_Mount m)) (\<not> mnt_Noise m)) ms def) (MountKey (mnt_Mount m)) = Some (\<not> mnt_Noise m)"
proof (induction ms arbitrary: def)
  case (Cons n ms)
  have frame: "map_of (fold (\<lambda>m. AList.update (MountKey (mnt_Mount m)) (\<not> mnt_Noise m)) ms def) (MountKey k) = map_of def (MountKey k)"
    if "k \<notin> mnt_Mount ` set ms" for k def
    using that by (induction ms arbitrary: def) auto
  from Cons show ?case by (cases "m = n") (auto simp: frame)
qed simp

lemma largest_mount_in: "largest_mount m ms \<in> set (m # ms)"
proof (induction ms arbitrary: m)
  case (Cons n ms)
  from Cons [of "if mnt_Total n > mnt_Total m then n else m"] show ?case by (auto split: if_splits)
qed simp

lemma some_mount_shown:
  assumes "distinct (map mnt_Mount mounts)" "mounts \<noteq> []"
  shows "\<exists>m \<in> set mounts. map_of (DefaultVisibility mounts devices) (MountKey (mnt_Mount m)) = Some True"
proof (cases "list_ex (\<lambda>m. \<not> mnt_Noise m) mounts")
  case True
  then obtain m where m: "m \<in> set mounts" "\<not> mnt_Noise m" by (auto simp: list_ex_iff)
  then have "map_of (DefaultVisibility mounts devices) (MountKey (mnt_Mount m)) = Some True"
    using True fold_mount_keys [OF assms(1) m(1), of "[]"] by (cases mounts) (simp_all add: DefaultVisibility_def fold_device_keys Let_def)
  with m(1) show ?thesis by blast
next
  case False
  with assms(2) obtain m ms where m: "mounts = m # ms" by (cases mounts) auto
  with False have "map_of (DefaultVisibility mounts devices) (MountKey (mnt_Mount (largest_mount m ms))) = Some True"
    by (simp add: DefaultVisibility_def fold_device_keys Let_def)
  with m show ?thesis using largest_mount_in [of m ms] by blast
qed

section \<open>Listing the mounts\<close>

lemma mount_loop_distinct:
  "distinct (map mnt_Mount (mount_loop e ps ms ds)) \<and> mnt_Mount ` set (mount_loop e ps ms ds) \<inter> set ms = {}"
proof (induction ps arbitrary: ms ds)
  case (Cons p ps)
  consider "mount_loop e (p # ps) ms ds = mount_loop e ps ms ds"
    | m ds' where "mount_loop e (p # ps) ms ds = m # mount_loop e ps (mnt_Mount m # ms) ds'" "mnt_Mount m \<notin> set ms"
    by (cases "disk_Usage e (part_Mountpoint p)") (simp split: prod.split if_split, force split: prod.splits if_splits)
  then show ?case
  proof cases
    case (2 m ds')
    with Cons [of "mnt_Mount m # ms" ds'] show ?thesis by auto
  qed (use Cons in simp)
qed simp

lemma enumerateMounts_distinct: "sort_law e \<Longrightarrow> distinct (map mnt_Mount (enumerateMounts e))"
proof (cases "disk_Partitions e")
  case (Inr parts)
  assume "sort_law e"
  then have "mset (map mnt_Mount (enumerateMounts e)) = mset (map mnt_Mount (mount_loop e parts [] []))"
    by (simp add: sort_law_def enumerateMounts_def Inr)
  then show ?thesis using mount_loop_distinct by (metis mset_eq_imp_distinct_iff)
qed (simp add: enumerateMounts_def)

section \<open>The panel\<close>

lemma mset_filter_take_drop: "mset xs - mset (take n xs) = mset (drop n xs)"
  by (metis add_diff_cancel_left' append_take_drop_id mset_append)

text \<open>
  The panel shows the largest visible disks: at most twelve, all of them visible ones, in decreasing
  size, twelve of them unless fewer are visible, and no visible disk that is left out is larger than one
  that is shown.
\<close>

theorem panel_shows_largest:
  assumes "sort_law e" "shown = shown_disks (Effective (DefaultVisibility (smp_Mounts s) (smp_Devices s)) overrides) (smp_Mounts s)"
  shows "mset (hm_Disks (BuildHostMetrics e s overrides peaks)) \<subseteq># mset shown \<and>
    length (hm_Disks (BuildHostMetrics e s overrides peaks)) = min 12 (length shown) \<and>
    sorted_wrt (\<lambda>a b. du_Total b \<le> du_Total a) (hm_Disks (BuildHostMetrics e s overrides peaks)) \<and>
    (\<forall>x \<in># mset shown - mset (hm_Disks (BuildHostMetrics e s overrides peaks)).
       \<forall>y \<in> set (hm_Disks (BuildHostMetrics e s overrides peaks)). du_Total x \<le> du_Total y)"
proof -
  let ?s = "sort_disks e shown"
  have d: "hm_Disks (BuildHostMetrics e s overrides peaks) = take 12 ?s"
    by (simp add: BuildHostMetrics_def Let_def assms(2) maxDisks_def)
  have m: "mset ?s = mset shown" and so: "sorted_wrt (\<lambda>a b. du_Total b \<le> du_Total a) ?s"
    using assms(1) by (simp_all add: sort_law_def)
  have split: "\<forall>y \<in> set (take 12 ?s). \<forall>x \<in> set (drop 12 ?s). du_Total x \<le> du_Total y"
    using so by (metis append_take_drop_id sorted_wrt_append)
  have "mset (take 12 ?s) \<subseteq># mset shown" using m by (metis append_take_drop_id mset_append mset_subset_eq_add_left)
  moreover have "length ?s = length shown" using m by (metis size_mset)
  moreover have "mset shown - mset (take 12 ?s) = mset (drop 12 ?s)" using m mset_filter_take_drop by metis
  ultimately show ?thesis
    using split so by (simp add: d min.commute sorted_wrt_take)
qed

definition two_disk_sample :: "unit sample" where
  "two_disk_sample = \<lparr>smp_CPUPercent = (), smp_MemUsed = 1, smp_MemTotal = 2, smp_Mounts = enumerateMounts two_mounts,
     smp_Devices = snd (Enumerate two_mounts)\<rparr>"

lemma two_mounts_parts:
  "enumerateMounts two_mounts =
    [\<lparr>mnt_Mount = ''/mnt/backup'', mnt_Fstype = ''ext4'', mnt_Device = ''/dev/sdb1'', mnt_Used = 1, mnt_Total = 20, mnt_Noise = True\<rparr>,
     \<lparr>mnt_Mount = ''/'', mnt_Fstype = ''ext4'', mnt_Device = ''/dev/sda1'', mnt_Used = 1, mnt_Total = 10, mnt_Noise = False\<rparr>]"
  by code_simp

theorem panel_shows_largest_witness:
  "length (hm_Disks (BuildHostMetrics two_mounts two_disk_sample [(''mount:/mnt/backup'', True)] [])) = min 12 2"
proof -
  have "length (shown_disks (Effective (DefaultVisibility (smp_Mounts two_disk_sample) (smp_Devices two_disk_sample))
      [(''mount:/mnt/backup'', True)]) (smp_Mounts two_disk_sample)) = 2" by code_simp
  with panel_shows_largest [OF two_mounts_law refl, of two_disk_sample "[(''mount:/mnt/backup'', True)]" "[]"]
  show ?thesis by metis
qed

text \<open>
  The panel is never empty by default: on a host with at least one real mount, and no override that
  hides a mount, some disk is shown, also when every mount is of the kind that is hidden by default.
\<close>

theorem panel_never_empty_by_default:
  assumes "sort_law e" "smp_Mounts s = enumerateMounts e" "enumerateMounts e \<noteq> []"
    and "\<forall>m. map_of overrides (MountKey m) \<noteq> Some False"
  shows "hm_Disks (BuildHostMetrics e s overrides peaks) \<noteq> []"
proof -
  let ?def = "DefaultVisibility (smp_Mounts s) (smp_Devices s)"
  obtain m where m: "m \<in> set (smp_Mounts s)" "map_of ?def (MountKey (mnt_Mount m)) = Some True"
    using some_mount_shown [OF enumerateMounts_distinct [OF assms(1)] assms(3), of "smp_Devices s"] assms(2) by auto
  have "get_bool (Effective ?def overrides) (MountKey (mnt_Mount m))"
    using m(2) spec [OF assms(4), of "mnt_Mount m"]
    by (cases "map_of overrides (MountKey (mnt_Mount m))") (simp_all add: get_bool_def map_of_Effective)
  with m(1) have "shown_disks (Effective ?def overrides) (smp_Mounts s) \<noteq> []"
    by (auto simp: shown_disks_def filter_empty_conv)
  moreover have "mset (sort_disks e xs) = mset xs" for xs using assms(1) by (simp add: sort_law_def)
  ultimately have "sort_disks e (shown_disks (Effective ?def overrides) (smp_Mounts s)) \<noteq> []" by (metis mset_zero_iff)
  then show ?thesis by (simp add: BuildHostMetrics_def Let_def maxDisks_def)
qed

theorem panel_never_empty_by_default_witness:
  "hm_Disks (BuildHostMetrics two_mounts two_disk_sample [] []) \<noteq> []"
  by (rule panel_never_empty_by_default [OF two_mounts_law]) (simp_all add: two_disk_sample_def two_mounts_parts)

text \<open>
  A mount whose name starts with a letter outside ASCII: its first byte alone is upper-cased, so the label
  starts with the replacement character and the rest of the letter.
\<close>

lemma mountLabel_breaks_letters:
  "mountLabel (''/'' @ [CHR 0xC3, CHR 0xA9] @ ''t'') = [CHR 0xEF, CHR 0xBF, CHR 0xBD, CHR 0xA9] @ ''t disk''"
  by code_simp

section \<open>High-water marks\<close>

text \<open>The readings of a device in a sample, and the mark they call for.\<close>

definition mark :: "(device_io \<Rightarrow> 64 word) \<Rightarrow> 64 word \<Rightarrow> string \<Rightarrow> device_io list \<Rightarrow> 64 word" where
  "mark f old dev ds = fold max (map f (filter (\<lambda>d. dio_Device d = dev) ds)) old"

lemma mark_Cons: "mark f old dev (d # ds) = mark f (if dio_Device d = dev then max (f d) old else old) dev ds"
  by (simp add: mark_def)

lemma get_peak_update [simp]: "get_peak (AList.update k p m) dev = (if dev = k then p else get_peak m dev)"
  by (simp add: get_peak_def)

lemma UpdatePeaks_marks:
  "get_peak (snd (UpdatePeaks peaks ds)) dev =
     \<lparr>peak_Read = mark dio_ReadPerSec (peak_Read (get_peak peaks dev)) dev ds,
      peak_Write = mark dio_WritePerSec (peak_Write (get_peak peaks dev)) dev ds\<rparr>"
proof (induction ds arbitrary: peaks)
  case (Cons d ds)
  then show ?case
    by (auto simp: Let_def case_prod_unfold mark_Cons max_def)
qed (simp add: mark_def)

lemma mark_ge: "old \<le> mark f old dev ds"
proof (induction ds arbitrary: old)
  case (Cons d ds)
  have "old \<le> (if dio_Device d = dev then max (f d) old else old)" by simp
  also have "\<dots> \<le> mark f old dev (d # ds)" unfolding mark_Cons by (rule Cons)
  finally show ?case .
qed (simp add: mark_def)

lemma peak_le_eq: "(p :: device_peak) = q \<longleftrightarrow> peak_Read p = peak_Read q \<and> peak_Write p = peak_Write q"
  by (cases p; cases q) simp

lemma UpdatePeaks_changed:
  "fst (UpdatePeaks peaks ds) \<longleftrightarrow> (\<exists>dev. get_peak (snd (UpdatePeaks peaks ds)) dev \<noteq> get_peak peaks dev)"
proof (induction ds arbitrary: peaks)
  case (Cons d ds)
  let ?p = "get_peak peaks (dio_Device d)"
  let ?q = "\<lparr>peak_Read = (if dio_ReadPerSec d > peak_Read ?p then dio_ReadPerSec d else peak_Read ?p),
     peak_Write = (if dio_WritePerSec d > peak_Write ?p then dio_WritePerSec d else peak_Write ?p)\<rparr>"
  let ?ps = "AList.update (dio_Device d) ?q peaks"
  have run: "UpdatePeaks peaks (d # ds) =
      (dio_ReadPerSec d > peak_Read ?p \<or> dio_WritePerSec d > peak_Write ?p \<or> fst (UpdatePeaks ?ps ds), snd (UpdatePeaks ?ps ds))"
    by (simp add: Let_def case_prod_unfold)
  show ?case
  proof (cases "dio_ReadPerSec d > peak_Read ?p \<or> dio_WritePerSec d > peak_Write ?p")
    case False
    then have same: "get_peak ?ps dev = get_peak peaks dev" for dev by (simp add: peak_le_eq)
    from False show ?thesis unfolding run fst_conv snd_conv Cons [of ?ps] same by blast
  next
    case True
    have "get_peak (snd (UpdatePeaks ?ps ds)) (dio_Device d) \<noteq> ?p"
      using True mark_ge [of "peak_Read ?q" dio_ReadPerSec "dio_Device d" ds] mark_ge [of "peak_Write ?q" dio_WritePerSec "dio_Device d" ds]
      by (auto simp: UpdatePeaks_marks peak_le_eq split: if_splits)
    with True show ?thesis unfolding run by auto
  qed
qed simp

text \<open>
  The marks are the running maxima: after an update every device's marks are the maximum of its old
  marks and its readings in the sample, so they never fall and cover every reading, and the update
  reports a change exactly when some mark moved.
\<close>

theorem peaks_are_running_maxima:
  "peak_Read (get_peak (snd (UpdatePeaks peaks ds)) dev) =
     fold max (map dio_ReadPerSec (filter (\<lambda>d. dio_Device d = dev) ds)) (peak_Read (get_peak peaks dev)) \<and>
   peak_Write (get_peak (snd (UpdatePeaks peaks ds)) dev) =
     fold max (map dio_WritePerSec (filter (\<lambda>d. dio_Device d = dev) ds)) (peak_Write (get_peak peaks dev)) \<and>
   (fst (UpdatePeaks peaks ds) \<longleftrightarrow> (\<exists>dev. get_peak (snd (UpdatePeaks peaks ds)) dev \<noteq> get_peak peaks dev))"
  using UpdatePeaks_changed [of peaks ds] by (simp add: UpdatePeaks_marks mark_def)

end
