(* ===== verification/Command.thy ===== *)
theory Command
  imports Oidc Disk_Laws
begin

text \<open>
  The pieces of \<^verbatim>\<open>cmd/veery/main.go\<close> that compute: reading the configuration from the environment, the
  arguments of \<^verbatim>\<open>veery invite\<close>, the poll interval and one round of the metrics poller. The rest of the
  command wires the components together and runs the endless loops.
\<close>

section \<open>Configuration\<close>

definition env_or :: "string \<Rightarrow> string \<Rightarrow> string" where
  "env_or v def = (if v \<noteq> '''' then v else def)"

definition is_list_separator :: "char \<Rightarrow> bool" where
  "is_list_separator c \<longleftrightarrow> c \<in> set [CHR '','', CHR '' '', CHR 0x09, CHR 0x0A]"

definition splitList :: "string \<Rightarrow> string list" where
  "splitList v = filter (\<lambda>f. f \<noteq> '''') (map TrimSpace (FieldsFunc is_list_separator v))"

text \<open>The \<^verbatim>\<open>VEERY_OIDC_*\<close> variables.\<close>

record oidc_vars =
  var_ISSUER :: string
  var_CLIENT_ID :: string
  var_CLIENT_SECRET :: string
  var_REDIRECT_URL :: string
  var_SCOPES :: string
  var_ADMIN_GROUPS :: string
  var_NAME :: string

definition newOIDC :: "oidc_vars \<Rightarrow> string \<Rightarrow> oidc_manager option res" where
  "newOIDC v origin =
     (let issuer = TrimSpace (var_ISSUER v); clientID = TrimSpace (var_CLIENT_ID v)
      in if issuer = '''' \<and> clientID = '''' then Inr None
         else let redirect = TrimSpace (var_REDIRECT_URL v);
                  redirect = (if redirect = '''' then TrimRight origin (CHR ''/'') @ ''/auth/oidc/callback'' else redirect)
              in map_sum id Some (NewOIDC
                   \<lparr>oidc_Issuer = issuer, oidc_ClientID = clientID, oidc_ClientSecret = var_CLIENT_SECRET v,
                    oidc_RedirectURL = redirect, oidc_Scopes = splitList (var_SCOPES v),
                    oidc_AdminGroups = splitList (var_ADMIN_GROUPS v), oidc_ProviderName = TrimSpace (var_NAME v)\<rparr>))"

text \<open>Whether \<^verbatim>\<open>veery invite\<close> with these arguments mints an admin invite.\<close>

definition invite_isAdmin :: "string list \<Rightarrow> bool" where
  "invite_isAdmin args \<longleftrightarrow> \<not> list_ex (\<lambda>a. a = ''--normal'') args"

section \<open>Polling\<close>

definition pollInterval :: "store \<Rightarrow> int" where
  "pollInterval s =
     (let secs = (case LoadSettings s of
                    Inr cfg \<Rightarrow> if set_PollIntervalSeconds cfg > 0 then set_PollIntervalSeconds cfg else DefaultPollIntervalSeconds
                  | Inl _ \<Rightarrow> DefaultPollIntervalSeconds)
      in wrap64 (secs * 10 ^ 9))"

text \<open>The loop's last two steps on the RAID arrays: completion times and failures from the store.\<close>

definition annotate_arrays :: "store \<Rightarrow> md_array list \<Rightarrow> md_array list" where
  "annotate_arrays s arrays =
     (let arrays = (case LoadMdadmLastScan s of
                      Inl _ \<Rightarrow> arrays
                    | Inr m \<Rightarrow> map (\<lambda>a. a\<lparr>md_LastScanAt := get_int m (md_Name a)\<rparr>) arrays)
      in case LoadMdadmScanFailures s of
           Inl _ \<Rightarrow> arrays
         | Inr m \<Rightarrow> map (\<lambda>a. case map_of m (md_Name a) of None \<Rightarrow> a | Some f \<Rightarrow> a\<lparr>md_ScanFailure := Some f\<rparr>) arrays)"

text \<open>
  One round of \<^verbatim>\<open>pollMetrics\<close> after its timer: the sample is the collector's, the marks are the loop's
  variable. It returns the host part of the snapshot that is broadcast.
\<close>

definition metrics_round ::
  "disk_env \<Rightarrow> 'h md_host \<Rightarrow> 'h \<Rightarrow> 'f sample \<Rightarrow> (string \<times> device_peak) list \<Rightarrow> store \<Rightarrow>
   'f host_metrics \<times> (string \<times> device_peak) list \<times> store" where
  "metrics_round e k h sample peaks s =
     (case UpdatePeaks peaks (smp_Devices sample) of
        (changed, peaks) \<Rightarrow>
          let s = (if changed then snd (SaveDiskPeaks peaks s) else s);
              vis = (case LoadDiskVisibility s of Inl _ \<Rightarrow> [] | Inr vis \<Rightarrow> vis);
              host = BuildHostMetrics e sample vis peaks;
              arrays = ScanMdadm k h;
              arrays = (if arrays \<noteq> [] then annotate_arrays s arrays else arrays)
          in (host\<lparr>hm_Mdadm := arrays\<rparr>, peaks, s))"

definition initial_peaks :: "store \<Rightarrow> (string \<times> device_peak) list" where
  "initial_peaks s = (case LoadDiskPeaks s of Inl _ \<Rightarrow> [] | Inr peaks \<Rightarrow> peaks)"

section \<open>What they guarantee\<close>

lemma pollInterval_raid: "pollInterval = raid_interval"
  by (rule ext) (simp add: pollInterval_def raid_interval_def)

lemma set_TrimSpace: "set (TrimSpace s) \<subseteq> set s"
  using set_dropWhileD [of _ is_space "rev (dropWhile is_space s)"] set_dropWhileD [of _ is_space s]
  by (auto simp: TrimSpace_def TrimRightFunc_def)

lemma splitList_clean:
  assumes "f \<in> set (splitList v)"
  shows "f \<noteq> '''' \<and> (\<forall>c \<in> set f. \<not> is_list_separator c)"
  using assms FieldsFunc_aux_no_sep [of _ is_list_separator "[]" v] set_TrimSpace
  by (auto simp: splitList_def FieldsFunc_def list_all_iff)

lemma newOIDC_disabled_iff:
  "newOIDC v origin = Inr None \<longleftrightarrow> TrimSpace (var_ISSUER v) = '''' \<and> TrimSpace (var_CLIENT_ID v) = ''''"
  by (auto simp: newOIDC_def Let_def map_sum_def split: sum.splits)

text \<open>
  The marks survive a restart: when every round's save goes through, what a new process would load is,
  device by device, what the running one holds.
\<close>

lemma metrics_round_persists:
  assumes "settings_readable s" "\<not> db_fault s ''SetSetting''"
    and "\<forall>dev. get_peak (initial_peaks s) dev = get_peak peaks dev"
    and "metrics_round e k h sample peaks s = (host, peaks', s')"
  shows "\<forall>dev. get_peak (initial_peaks s') dev = get_peak peaks' dev"
proof -
  obtain changed where u: "UpdatePeaks peaks (smp_Devices sample) = (changed, peaks')"
    and s': "s' = (if changed then snd (SaveDiskPeaks peaks' s) else s)"
    using assms(4) by (auto simp: metrics_round_def Let_def split: prod.splits)
  show ?thesis
  proof (cases changed)
    case True
    obtain s1 where "SaveDiskPeaks peaks' s = (Inr (), s1)"
      using assms(2) by (auto simp: SaveDiskPeaks_def setJSON_def SetSetting_def)
    with json_records_roundtrip(2) [OF assms(1)] True s' show ?thesis by (simp add: initial_peaks_def)
  next
    case False
    with u UpdatePeaks_changed [of peaks "smp_Devices sample"] s' assms(3) show ?thesis by simp
  qed
qed

end
