(* ===== verification/Host_Sample.thy ===== *)
theory Host_Sample
  imports Disks Float64
begin

text \<open>
  The collector of host metrics (\<^verbatim>\<open>internal/metrics/host.go\<close>): CPU utilisation and disk throughput from
  the difference between two readings. What gopsutil and the clock return during one call of
  \<^verbatim>\<open>Sample\<close> is a parameter, a \<open>reading\<close>; the mounts and the device names come from the reading's
  \<open>disk_env\<close>.
\<close>

section \<open>Data\<close>

record cpu_times =
  ct_User :: float64
  ct_System :: float64
  ct_Idle :: float64
  ct_Nice :: float64
  ct_Iowait :: float64
  ct_Irq :: float64
  ct_Softirq :: float64
  ct_Steal :: float64

record dev_sample =
  ds_read :: "64 word"
  ds_write :: "64 word"
  ds_at :: int

record collector =
  col_lastCPUTotal :: float64
  col_lastCPUBusy :: float64
  col_haveCPU :: bool
  col_lastDev :: "(string \<times> dev_sample) list"

definition NewCollector :: collector where
  "NewCollector = \<lparr>col_lastCPUTotal = 0, col_lastCPUBusy = 0, col_haveCPU = False, col_lastDev = []\<rparr>"

record reading =
  rd_Times :: "cpu_times list res"
  rd_VirtualMemory :: "(64 word \<times> 64 word) res"
  rd_IOCounters :: "(string \<times> 64 word \<times> 64 word) list res"
  rd_Now :: int
  rd_disks :: disk_env
  rd_outside :: "float64 \<Rightarrow> 64 word"

section \<open>CPU\<close>

definition busy_time :: "cpu_times \<Rightarrow> float64" where
  "busy_time t = fadd (fadd (fadd (fadd (fadd (fadd (ct_User t) (ct_System t)) (ct_Nice t)) (ct_Iowait t)) (ct_Irq t))
     (ct_Softirq t)) (ct_Steal t)"

definition host_cpuPercent :: "reading \<Rightarrow> collector \<Rightarrow> float64 \<times> collector" where
  "host_cpuPercent rd c =
     (case rd_Times rd of
        Inl _ \<Rightarrow> (0, c)
      | Inr [] \<Rightarrow> (0, c)
      | Inr (t # _) \<Rightarrow>
          let busy = busy_time t; tot = fadd busy (ct_Idle t);
              c' = c\<lparr>col_lastCPUBusy := busy, col_lastCPUTotal := tot, col_haveCPU := True\<rparr>
          in if \<not> col_haveCPU c then (0, c')
             else let totalDelta = fsub tot (col_lastCPUTotal c); busyDelta = fsub busy (col_lastCPUBusy c)
                  in if totalDelta \<le> 0 then (0, c')
                     else let pct = fmul (fdiv busyDelta totalDelta) 100
                          in (if pct < 0 then 0 else if pct > 100 then 100 else pct, c'))"

section \<open>Devices\<close>

text \<open>\<^verbatim>\<open>Time.Sub\<close> saturates at the ends of a 64-bit \<^verbatim>\<open>Duration\<close>; \<^verbatim>\<open>Seconds\<close> adds the whole seconds to the fraction.\<close>

definition time_Sub :: "int \<Rightarrow> int \<Rightarrow> int" where
  "time_Sub t u = max (- (2 ^ 63)) (min (2 ^ 63 - 1) (t - u))"

definition Seconds :: "int \<Rightarrow> float64" where
  "Seconds d =
     (let sec = sgn d * (\<bar>d\<bar> div 1000000000); nsec = sgn d * (\<bar>d\<bar> mod 1000000000)
      in fadd (rnd (of_int sec)) (fdiv (rnd (of_int nsec)) 1000000000))"

definition rate :: "(float64 \<Rightarrow> 64 word) \<Rightarrow> float64 \<Rightarrow> 64 word \<Rightarrow> 64 word \<Rightarrow> 64 word" where
  "rate outside secs cur prev =
     (if prev \<le> cur then to_uint64 outside (fdiv (of_uint64 (cur - prev)) secs) else 0)"

definition device_rates :: "reading \<Rightarrow> dev_sample option \<Rightarrow> string \<Rightarrow> 64 word \<times> 64 word \<Rightarrow> device_io" where
  "device_rates rd prev name ct =
     (let d = \<lparr>dio_Device = name, dio_ReadPerSec = 0, dio_WritePerSec = 0\<rparr>
      in case prev of
           None \<Rightarrow> d
         | Some p \<Rightarrow>
             let secs = Seconds (time_Sub (rd_Now rd) (ds_at p))
             in if secs > 0
                then d\<lparr>dio_ReadPerSec := rate (rd_outside rd) secs (fst ct) (ds_read p),
                       dio_WritePerSec := rate (rd_outside rd) secs (snd ct) (ds_write p)\<rparr>
                else d)"

fun device_loop ::
  "reading \<Rightarrow> (string \<times> 64 word \<times> 64 word) list \<Rightarrow> string list \<Rightarrow> (string \<times> dev_sample) list \<Rightarrow>
   device_io list \<times> (string \<times> dev_sample) list" where
  "device_loop rd counters [] dev = ([], dev)"
| "device_loop rd counters (n # ns) dev =
     (case map_of counters n of
        None \<Rightarrow> device_loop rd counters ns dev
      | Some ct \<Rightarrow>
          let d = device_rates rd (map_of dev n) n ct;
              dev = AList.update n \<lparr>ds_read = fst ct, ds_write = snd ct, ds_at = rd_Now rd\<rparr> dev
          in case device_loop rd counters ns dev of (out, dev) \<Rightarrow> (d # out, dev))"

definition deviceIO :: "reading \<Rightarrow> collector \<Rightarrow> device_io list \<times> collector" where
  "deviceIO rd c =
     (case rd_IOCounters rd of
        Inl _ \<Rightarrow> ([], c)
      | Inr counters \<Rightarrow>
          (case device_loop rd counters (listDeviceNames (rd_disks rd)) (col_lastDev c) of
             (out, dev) \<Rightarrow> (out, c\<lparr>col_lastDev := dev\<rparr>)))"

definition Sample :: "reading \<Rightarrow> collector \<Rightarrow> float64 sample \<times> collector" where
  "Sample rd c =
     (case host_cpuPercent rd c of
        (pct, c) \<Rightarrow>
          let (used, tot) = (case rd_VirtualMemory rd of Inl _ \<Rightarrow> (0, 0) | Inr (tot, used) \<Rightarrow> (used, tot));
              mounts = enumerateMounts (rd_disks rd)
          in case deviceIO rd c of
               (devices, c) \<Rightarrow>
                 (\<lparr>smp_CPUPercent = pct, smp_MemUsed = used, smp_MemTotal = tot, smp_Mounts = mounts,
                   smp_Devices = devices\<rparr>, c))"

section \<open>What a sample says\<close>

lemma host_cpuPercent_range: "0 \<le> fst (host_cpuPercent rd c)" "fst (host_cpuPercent rd c) \<le> 100"
  by (simp_all add: host_cpuPercent_def Let_def split: sum.splits list.splits)

lemma Seconds_close:
  assumes "0 \<le> d" "d < 2 ^ 63"
  shows "close_to 2 (of_int d / 1000000000) (Seconds d)"
proof -
  define s n where "s = d div 1000000000" and "n = d mod 1000000000"
  have d: "d = s * 1000000000 + n" by (simp add: s_def n_def)
  have b: "0 \<le> s" "s \<le> 2 ^ 53" "0 \<le> n" "n < 1000000000" using assms by (auto simp: s_def n_def)
  have ex: "rnd (of_int s) = of_int s" "rnd (of_int n) = of_int n" using b by (auto intro!: rnd_of_int)
  have "Seconds d = rnd (of_int s + rnd (of_int n / 1000000000))"
    using assms(1) by (cases "d = 0") (simp_all add: Seconds_def Let_def s_def [symmetric] n_def [symmetric] ex fadd_def fdiv_def, simp add: s_def n_def)
  moreover have "close_to (Suc 0) (of_int s + of_int n / 1000000000) (of_int s + rnd (of_int n / 1000000000))"
    using b by (intro close_add_left close_rnd) simp_all
  then have "close_to 2 (of_int s + of_int n / 1000000000) (rnd (of_int s + rnd (of_int n / 1000000000)))"
    by (simp add: close_rnd numeral_2_eq_2)
  moreover have "of_int d / 1000000000 = (of_int s + of_int n / 1000000000 :: rat)" by (simp add: d field_simps)
  ultimately show ?thesis by (simp only:)
qed

text \<open>
  What the reported rate has to be: nothing when the counter went backwards; otherwise the bytes per
  second of the time between the readings, rounded down, up to four roundings, provided that it
  fits into 64 bits.
\<close>

definition rate_ok :: "int \<Rightarrow> 64 word \<Rightarrow> 64 word \<Rightarrow> 64 word \<Rightarrow> bool" where
  "rate_ok elapsed cur prev v \<longleftrightarrow>
     (if cur < prev then v = 0
      else let ideal = of_int (uint cur - uint prev) * 1000000000 / of_int elapsed :: rat;
               lo = (1 - ulp_half) ^ 2 / (1 + ulp_half) ^ 2 * ideal; hi = (1 + ulp_half) ^ 2 / (1 - ulp_half) ^ 2 * ideal
           in hi < 2 ^ 64 \<longrightarrow> lo - 1 < of_int (uint v) \<and> of_int (uint v) \<le> hi)"

lemma to_uint64_floor:
  assumes "0 \<le> x" "x < 2 ^ 64"
  shows "x - 1 < of_int (uint (to_uint64 o' x))" "of_int (uint (to_uint64 o' x)) \<le> x"
proof -
  have f: "0 \<le> \<lfloor>x\<rfloor>" "\<lfloor>x\<rfloor> < 2 ^ 64" using assms by (auto simp: floor_less_iff)
  then have "uint (to_uint64 o' x) = \<lfloor>x\<rfloor>"
    using assms(1) by (simp add: to_uint64_def Let_def uint_word_of_int take_bit_int_eq_self)
  then show "x - 1 < of_int (uint (to_uint64 o' x))" "of_int (uint (to_uint64 o' x)) \<le> x"
    using floor_correct [of x] by (simp_all only: of_int_add of_int_1) linarith
qed

lemma rate_accurate:
  assumes "close_to 2 (of_int d / 1000000000) secs" "0 < d"
  shows "rate_ok d cur prev (rate o' secs cur prev)"
proof (cases "prev \<le> cur")
  case True
  define b where "b = uint cur - uint prev"
  define q where "q = of_uint64 (cur - prev) / secs"
  have "uint (cur - prev) = b" using True by (simp add: b_def uint_minus_simple_alt)
  then have b: "close_to 1 (of_int b) (of_uint64 (cur - prev))" using of_uint64_close [of "cur - prev"] by simp
  have s: "0 < (of_int d / 1000000000 :: rat)" using assms(2) by simp
  have i: "(of_int b :: rat) / (of_int d / 1000000000) = of_int b * 1000000000 / of_int d" by simp
  note Q = close_quotient [OF b assms(1) s, folded q_def, unfolded i]
  have q0: "0 \<le> q" using close_nonneg [OF b] close_nonneg [OF assms(1)] by (simp add: q_def)
  from close_rnd [of 0 q q] q0 have R: "(1 - ulp_half) * q \<le> rnd q" "rnd q \<le> (1 + ulp_half) * q"
    by (auto simp: close_to_def)
  let ?I = "of_int b * 1000000000 / of_int d :: rat"
  have "(1 - ulp_half) * ((1 - ulp_half) ^ 1 / (1 + ulp_half) ^ 2 * ?I) \<le> (1 - ulp_half) * q"
    by (rule mult_left_mono [OF Q(1)]) (use ulp_half_range in simp)
  moreover have "(1 + ulp_half) * q \<le> (1 + ulp_half) * ((1 + ulp_half) ^ 1 / (1 - ulp_half) ^ 2 * ?I)"
    by (rule mult_left_mono [OF Q(2)]) (use ulp_half_range in simp)
  moreover note R
  ultimately have "(1 - ulp_half) ^ 2 / (1 + ulp_half) ^ 2 * ?I \<le> rnd q" "rnd q \<le> (1 + ulp_half) ^ 2 / (1 - ulp_half) ^ 2 * ?I"
    by (simp_all add: power2_eq_square mult.assoc)
  then have "rate_ok d cur prev (to_uint64 o' (rnd q))"
    using True to_uint64_floor [of "rnd q" o'] rnd_nonneg [OF q0]
    unfolding rate_ok_def Let_def b_def [symmetric] by (auto simp: not_le [symmetric])
  then show ?thesis using True by (simp add: rate_def fdiv_def q_def)
next
  case False
  then show ?thesis by (auto simp: rate_ok_def rate_def)
qed

lemma device_loop_keeps:
  "n \<notin> set ns \<Longrightarrow> map_of (snd (device_loop rd counters ns dev)) n = map_of dev n"
proof (induction ns arbitrary: dev)
  case (Cons k ns)
  then show ?case
    using Cons.IH [of "AList.update k _ dev"] by (auto simp: Let_def update_conv' case_prod_unfold split: option.splits)
qed simp

lemma device_loop_entry:
  assumes "map_of counters n = Some ct" "n \<in> set ns" "distinct ns"
  shows "device_rates rd (map_of dev n) n ct \<in> set (fst (device_loop rd counters ns dev)) \<and>
    map_of (snd (device_loop rd counters ns dev)) n = Some \<lparr>ds_read = fst ct, ds_write = snd ct, ds_at = rd_Now rd\<rparr>"
  using assms(2,3)
proof (induction ns arbitrary: dev)
  case (Cons k ns)
  show ?case
  proof (cases "k = n")
    case True
    with Cons.prems assms(1) show ?thesis by (simp add: Let_def case_prod_unfold device_loop_keeps update_conv')
  next
    case False
    then have "n \<in> set ns" "distinct ns" using Cons.prems by auto
    note IH = Cons.IH [OF this]
    show ?thesis
      using False IH [of dev] IH [of "AList.update k _ dev"]
      by (auto simp: Let_def case_prod_unfold update_conv' split: option.splits)
  qed
qed simp

lemma distinct_listDeviceNames: "distinct (listDeviceNames e)"
  by (simp add: listDeviceNames_def split: sum.splits)

lemma Sample_devices:
  assumes "rd_IOCounters rd = Inr counters" "map_of counters n = Some ct" "n \<in> set (listDeviceNames (rd_disks rd))"
  shows "device_rates rd (map_of (col_lastDev c) n) n ct \<in> set (smp_Devices (fst (Sample rd c)))"
    "map_of (col_lastDev (snd (Sample rd c))) n = Some \<lparr>ds_read = fst ct, ds_write = snd ct, ds_at = rd_Now rd\<rparr>"
proof -
  have "col_lastDev (snd (host_cpuPercent rd c)) = col_lastDev c"
    by (simp add: host_cpuPercent_def Let_def split: sum.splits list.splits)
  then show "device_rates rd (map_of (col_lastDev c) n) n ct \<in> set (smp_Devices (fst (Sample rd c)))"
    "map_of (col_lastDev (snd (Sample rd c))) n = Some \<lparr>ds_read = fst ct, ds_write = snd ct, ds_at = rd_Now rd\<rparr>"
    using device_loop_entry [OF assms(2,3) distinct_listDeviceNames, of rd "col_lastDev c"] assms(1)
    by (simp_all add: Sample_def deviceIO_def Let_def case_prod_unfold)
qed

text \<open>
  \<^bold>\<open>C35\<close>: The throughput the dashboard shows for a device is the true one: for two samples in a row, in each of
  which the device was listed and counted, the second reports for reads and for writes the bytes of
  the interval divided by its length, with the error of four roundings and of dropping the fraction;
  a counter that went backwards is reported as nothing.
\<close>

theorem device_rate_accurate:
  assumes "rd_IOCounters rd1 = Inr k1" "map_of k1 n = Some (r1, w1)" "n \<in> set (listDeviceNames (rd_disks rd1))"
    and "rd_IOCounters rd2 = Inr k2" "map_of k2 n = Some (r2, w2)" "n \<in> set (listDeviceNames (rd_disks rd2))"
    and "rd_Now rd1 < rd_Now rd2" "rd_Now rd2 - rd_Now rd1 < 2 ^ 63"
  shows "\<exists>d \<in> set (smp_Devices (fst (Sample rd2 (snd (Sample rd1 c))))). dio_Device d = n \<and>
    rate_ok (rd_Now rd2 - rd_Now rd1) r2 r1 (dio_ReadPerSec d) \<and> rate_ok (rd_Now rd2 - rd_Now rd1) w2 w1 (dio_WritePerSec d)"
proof -
  define t where "t = rd_Now rd2 - rd_Now rd1"
  have t: "0 < t" "t < 2 ^ 63" "time_Sub (rd_Now rd2) (rd_Now rd1) = t" using assms(7,8) by (auto simp: t_def time_Sub_def)
  have s: "close_to 2 (of_int t / 1000000000) (Seconds t)" using t by (intro Seconds_close) auto
  have "0 < Seconds t" using close_pos [OF s] t(1) by simp
  moreover note Sample_devices(2) [OF assms(1-3), of c]
  ultimately have "device_rates rd2 (map_of (col_lastDev (snd (Sample rd1 c))) n) n (r2, w2) =
      \<lparr>dio_Device = n, dio_ReadPerSec = rate (rd_outside rd2) (Seconds t) r2 r1,
       dio_WritePerSec = rate (rd_outside rd2) (Seconds t) w2 w1\<rparr>"
    by (simp add: device_rates_def Let_def t(3))
  with Sample_devices(1) [OF assms(4-6), of "snd (Sample rd1 c)"] show ?thesis
    unfolding t_def [symmetric] by (intro bexI) (auto intro: rate_accurate [OF s t(1)])
qed

text \<open>Two readings, two seconds apart, of a host with the one disk \<^verbatim>\<open>sda\<close>.\<close>

definition sda_reading :: "int \<Rightarrow> 64 word \<Rightarrow> reading" where
  "sda_reading now r =
     \<lparr>rd_Times = Inr [], rd_VirtualMemory = Inl ErrNotFound, rd_IOCounters = Inr [(''sda'', r, 0)], rd_Now = now,
      rd_disks = \<lparr>disk_Partitions = Inr [], disk_Usage = (\<lambda>_. Inl ErrNotFound), disk_IOCounters = Inr [''sda''],
        sort_mounts = id, sort_disks = id\<rparr>,
      rd_outside = (\<lambda>_. 0)\<rparr>"

lemma sda_listed: "''sda'' \<in> set (listDeviceNames (rd_disks (sda_reading now r)))"
proof -
  have "isWholeDisk ''sda''" by code_simp
  then show ?thesis by (simp add: sda_reading_def listDeviceNames_def)
qed

theorem device_rate_accurate_witness:
  "\<exists>d \<in> set (smp_Devices (fst (Sample (sda_reading 2000000000 5000) (snd (Sample (sda_reading 0 1000) NewCollector))))).
     dio_Device d = ''sda'' \<and> rate_ok 2000000000 5000 1000 (dio_ReadPerSec d) \<and> rate_ok 2000000000 0 0 (dio_WritePerSec d)"
  using device_rate_accurate [OF _ _ sda_listed _ _ sda_listed, of 0 1000 "[(''sda'', 1000, 0)]" 1000 0
      2000000000 5000 "[(''sda'', 5000, 0)]" 5000 0 NewCollector]
  by (simp add: sda_reading_def)

end
