(* ===== verification/Command_Run.thy ===== *)
theory Command_Run
  imports Command Docker_Update Docker_Stats Host_Sample
begin

text \<open>
  How \<^verbatim>\<open>cmd/veery/main.go\<close> drives the components: the choice of the command, the helper process of a
  self-update with its flags (the \<^verbatim>\<open>flag\<close> package as far as string flags go), the Docker manager's
  start, and one round of each of the two pollers. The endless loops, the HTTP listener and the
  shutdown are left out; a poller is represented by its rounds.
\<close>

section \<open>Commands\<close>

datatype command = InviteCmd bool | ApplyUpdateCmd "string list" | ServeCmd

definition command_of :: "string list \<Rightarrow> command" where
  "command_of args =
     (case args of
        [] \<Rightarrow> ServeCmd
      | a # rest \<Rightarrow>
          if a = ''invite'' then InviteCmd (invite_isAdmin rest)
          else if a = ''apply-update'' then ApplyUpdateCmd rest
          else ServeCmd)"

section \<open>The helper's flags\<close>

text \<open>
  \<^verbatim>\<open>flag.Parse\<close> with the two string flags of \<^verbatim>\<open>applyUpdate\<close>. A wrong flag ends the process
  (\<^verbatim>\<open>flag.ExitOnError\<close>) with status 2, a request for help with status 0; parsing stops at the first
  argument that is no flag.
\<close>

record apply_flags =
  fl_container :: string
  fl_job :: string

definition flag_text :: "string \<Rightarrow> string option option" where
  "flag_text s =
     (if length s < 2 \<or> s ! 0 \<noteq> CHR ''-'' then None
      else if s = ''--'' then None
      else Some (let name = (if s ! 1 = CHR ''-'' then drop 2 s else drop 1 s)
                 in if name = '''' \<or> hd name = CHR ''-'' \<or> hd name = CHR ''='' then None else Some name))"

definition set_flag :: "string \<Rightarrow> string \<Rightarrow> apply_flags \<Rightarrow> apply_flags option" where
  "set_flag name v f =
     (if name = ''container'' then Some (f\<lparr>fl_container := v\<rparr>)
      else if name = ''job'' then Some (f\<lparr>fl_job := v\<rparr>) else None)"

fun parse_flags :: "string list \<Rightarrow> apply_flags \<Rightarrow> nat + apply_flags" where
  "parse_flags [] f = Inr f"
| "parse_flags (s # args) f =
     (case flag_text s of
        None \<Rightarrow> Inr f
      | Some None \<Rightarrow> Inl 2
      | Some (Some text) \<Rightarrow>
          let name = takeWhile (\<lambda>c. c \<noteq> CHR ''='') text; given = drop (length name) text
          in case set_flag name '''' f of
               None \<Rightarrow> Inl (if name = ''help'' \<or> name = ''h'' then 0 else 2)
             | Some _ \<Rightarrow>
                 if given \<noteq> '''' then parse_flags args (the (set_flag name (tl given) f))
                 else case args of
                     [] \<Rightarrow> Inl 2
                   | v # args' \<Rightarrow> parse_flags args' (the (set_flag name v f)))"

datatype 'a process = Exited nat | Returned 'a

text \<open>
  The helper: a manager with no publisher, with the notifier, on the shared store. Its result is
  the error that \<^verbatim>\<open>main\<close> reports, and the state it leaves.
\<close>

definition applyUpdate ::
  "'d docker_env \<Rightarrow> store \<Rightarrow> 'd \<Rightarrow> nat \<Rightarrow> string list \<Rightarrow> (unit res \<times> 'd mgr option) process" where
  "applyUpdate e st d clock args =
     (case parse_flags args \<lparr>fl_container = '''', fl_job = ''''\<rparr> of
        Inl code \<Rightarrow> Exited code
      | Inr f \<Rightarrow>
          if fl_container f = '''' then Returned (Inl (Errorf ''--container is required''), None)
          else case run_state (ApplyUpdate e (fl_container f) (fl_job f)) (SetNotifier True (NewManager st d clock False)) of
              (r, m) \<Rightarrow> Returned (r, Some m))"

section \<open>The Docker manager's start and the pollers\<close>

text \<open>
  Before serving: half-done updates are settled, then what changed on the host meanwhile is picked
  up. It returns the jobs whose helper is still running, which are watched from then on.
\<close>

definition start_docker :: "'d docker_env \<Rightarrow> ('d, (string \<times> string) list) op" where
  "start_docker e = do {
     _ \<leftarrow> Ping e;
     watched \<leftarrow> Recover e;
     _ \<leftarrow> Reconcile e;
     State_Monad.return watched
   }"

definition stacks_round :: "'d docker_env \<Rightarrow> ('d, unit) op" where
  "stacks_round e = do { _ \<leftarrow> Reconcile e; BroadcastStacks e }"

record metrics_snapshot =
  mx_Host :: "float64 host_metrics"
  mx_Containers :: "container_metrics list"
  mx_At :: int

text \<open>One round of \<^verbatim>\<open>pollMetrics\<close>, from the reading to the snapshot; the collector and the marks are the loop's.\<close>

definition poll_metrics_round ::
  "'d docker_env \<Rightarrow> 'd stats_call \<Rightarrow> 'h md_host \<Rightarrow> 'h \<Rightarrow> reading \<Rightarrow> collector \<Rightarrow> (string \<times> device_peak) list \<Rightarrow>
   ('d, metrics_snapshot \<times> collector \<times> (string \<times> device_peak) list) op" where
  "poll_metrics_round e stats k h rd col peaks = do {
     let (smp, col) = Sample rd col;
     (host, peaks) \<leftarrow> State (\<lambda>m. case metrics_round (rd_disks rd) k h smp peaks (mg_st m) of
         (host, peaks, s) \<Rightarrow> ((host, peaks), m\<lparr>mg_st := s\<rparr>));
     r \<leftarrow> ContainerStats e stats;
     now \<leftarrow> now_unix;
     State_Monad.return
       (\<lparr>mx_Host = host, mx_Containers = (case r of Inl _ \<Rightarrow> [] | Inr cs \<Rightarrow> cs), mx_At = now\<rparr>, col, peaks)
   }"

section \<open>The hand-off reaches the helper\<close>

lemma parse_flag_pair:
  assumes "set_flag name v f = Some f'" "CHR ''='' \<notin> set name" "name \<noteq> ''''" "hd name \<noteq> CHR ''-''"
  shows "parse_flags ((''--'' @ name) # v # args) f = parse_flags args f'"
proof -
  have "hd name \<noteq> CHR ''=''" using assms(2,3) by (cases name) auto
  then have t: "flag_text (''--'' @ name) = Some (Some name)"
    using assms(3,4) by (simp add: flag_text_def)
  have n: "takeWhile (\<lambda>c. c \<noteq> CHR ''='') name = name" using assms(2) by (auto simp: takeWhile_eq_all_conv)
  obtain g where "set_flag name '''' f = Some g" using assms(1) by (auto simp: set_flag_def split: if_splits)
  then show ?thesis
    unfolding parse_flags.simps(2) [of "''--'' @ name"] t option.case Let_def n using assms(1) by simp
qed

text \<open>
  \<^bold>\<open>C34\<close>: The helper that \<^verbatim>\<open>handOff\<close> starts does what was handed off: with the arguments \<^verbatim>\<open>handOff\<close> puts into the
  helper's configuration, the command is \<^verbatim>\<open>apply-update\<close>, its flags parse, and what runs is
  \<^verbatim>\<open>ApplyUpdate\<close> for Veery's own container under the job that was handed off, whatever characters the
  name and the job id contain.
\<close>

theorem handoff_reaches_helper:
  assumes "containerName [insp_Name insp] \<noteq> ''''"
  shows "\<exists>args. command_of (cfg_Cmd (updater_config insp jid)) = ApplyUpdateCmd args \<and>
    applyUpdate e st d clock args =
      (case run_state (ApplyUpdate e (containerName [insp_Name insp]) jid) (SetNotifier True (NewManager st d clock False)) of
         (r, m) \<Rightarrow> Returned (r, Some m))"
proof -
  let ?name = "containerName [insp_Name insp]" and ?f = "\<lparr>fl_container = '''', fl_job = ''''\<rparr>"
  have "parse_flags [''--container'', ?name, ''--job'', jid] ?f = parse_flags [''--job'', jid] (?f\<lparr>fl_container := ?name\<rparr>)"
    using parse_flag_pair [of "''container''" ?name ?f _ "[''--job'', jid]"] by (simp add: set_flag_def)
  also have "\<dots> = parse_flags [] (?f\<lparr>fl_container := ?name, fl_job := jid\<rparr>)"
    using parse_flag_pair [of "''job''" jid "?f\<lparr>fl_container := ?name\<rparr>" _ "[]"] by (simp add: set_flag_def)
  finally have "parse_flags [''--container'', ?name, ''--job'', jid] ?f = Inr \<lparr>fl_container = ?name, fl_job = jid\<rparr>" by simp
  then show ?thesis
    using assms by (simp add: updater_config_def Let_def command_of_def applyUpdate_def)
qed

text \<open>A Veery container called \<^verbatim>\<open>veery\<close>, with a job id that looks like a flag.\<close>

definition veery_inspect :: inspect where
  "veery_inspect =
     \<lparr>insp_ID = ''c0ffee'', insp_Name = ''/veery'', insp_Image = ''sha256:1'', insp_State = None,
      insp_Config = \<lparr>cfg_Image = ''veery'', cfg_Labels = [], cfg_Entrypoint = [''/veery''], cfg_Cmd = [], cfg_Env = [],
        cfg_User = '''', cfg_WorkingDir = '''', cfg_Healthcheck = None, cfg_rest = ''''\<rparr>,
      insp_HostConfig = \<lparr>hc_Binds = [], hc_Mounts = [], hc_VolumesFrom = [], hc_GroupAdd = [], hc_Privileged = False,
        hc_RestartPolicy = ''always'', hc_rest = ''''\<rparr>,
      insp_Networks = [], insp_RestartCount = 0\<rparr>"

lemma veery_name: "containerName [insp_Name veery_inspect] = ''veery''"
  by (simp add: veery_inspect_def) code_simp

theorem handoff_reaches_helper_witness:
  "\<forall>(e :: unit docker_env) st clock. \<exists>args.
     command_of (cfg_Cmd (updater_config veery_inspect ''--job'')) = ApplyUpdateCmd args \<and>
     applyUpdate e st () clock args =
       (case run_state (ApplyUpdate e ''veery'' ''--job'') (SetNotifier True (NewManager st () clock False)) of
          (r, m) \<Rightarrow> Returned (r, Some m))"
  by (intro allI, rule handoff_reaches_helper [of veery_inspect, unfolded veery_name]) simp

end
