(* ===== verification/Store_Migrate.thy ===== *)
theory Store_Migrate
  imports Store_Base
begin

text \<open>
  Opening the database (\<^verbatim>\<open>internal/store/sqlite.go\<close>) and bringing its schema up to date
  (\<^verbatim>\<open>migrations.go\<close>). A schema holds the tables with their columns as declared, the indexes, and the
  \<^verbatim>\<open>meta\<close> table with the version. A statement fails when SQLite refuses it (an object of that name
  exists, a table or a column is missing) or for a reason outside the schema: a disk that is full, a file that
  is locked, a process that is killed. The parameter \<open>fault\<close> says for which statements the latter happens.
\<close>

section \<open>Statements\<close>

record schema =
  sc_tables :: "(string \<times> (string \<times> string) list) list"
  sc_indexes :: "(string \<times> bool \<times> string \<times> (string \<times> string) list) list"
  sc_meta :: "(string \<times> string) list option"

definition empty_schema :: schema where
  "empty_schema = \<lparr>sc_tables = [], sc_indexes = [], sc_meta = None\<rparr>"

datatype ddl =
    CreateTable string "(string \<times> string) list"
  | AddColumn string string string
  | CreateIndex bool string string "(string \<times> string) list"

definition taken_name :: "string \<Rightarrow> schema \<Rightarrow> bool" where
  "taken_name n s \<longleftrightarrow> map_of (sc_tables s) n \<noteq> None \<or> map_of (sc_indexes s) n \<noteq> None"

text \<open>\<^verbatim>\<open>Exec\<close> of one statement of the list, as SQLite does it.\<close>

fun exec_ddl :: "ddl \<Rightarrow> schema \<Rightarrow> schema res" where
  "exec_ddl (CreateTable n cols) s =
     (if taken_name n s then Inl (Errorf (''table '' @ n @ '' already exists''))
      else Inr (s\<lparr>sc_tables := sc_tables s @ [(n, cols)]\<rparr>))"
| "exec_ddl (AddColumn n c decl) s =
     (case map_of (sc_tables s) n of
        None \<Rightarrow> Inl (Errorf (''no such table: '' @ n))
      | Some cols \<Rightarrow>
          if map_of cols c \<noteq> None then Inl (Errorf (''duplicate column name: '' @ c))
          else Inr (s\<lparr>sc_tables := AList.update n (cols @ [(c, decl)]) (sc_tables s)\<rparr>))"
| "exec_ddl (CreateIndex unique n t cols) s =
     (if taken_name n s then Inl (Errorf (''index '' @ n @ '' already exists''))
      else case map_of (sc_tables s) t of
          None \<Rightarrow> Inl (Errorf (''no such table: '' @ t))
        | Some tcols \<Rightarrow>
            if list_all (\<lambda>(c, _). map_of tcols c \<noteq> None) cols
            then Inr (s\<lparr>sc_indexes := sc_indexes s @ [(n, unique, t, cols)]\<rparr>)
            else Inl (Errorf ''no such column''))"

section \<open>The migrations\<close>

abbreviation text_default :: string where "text_default \<equiv> ''TEXT NOT NULL DEFAULT '' @ [CHR 0x27, CHR 0x27]"
abbreviation cascade :: string where "cascade \<equiv> ''TEXT NOT NULL REFERENCES users(id) ON DELETE CASCADE''"

definition migrations :: "ddl list" where
  "migrations =
    [CreateTable ''users'' [(''id'', ''TEXT PRIMARY KEY''), (''name'', ''TEXT NOT NULL''),
       (''is_admin'', ''INTEGER NOT NULL DEFAULT 0''), (''created_at'', ''INTEGER NOT NULL'')],
     CreateTable ''credentials'' [(''id'', ''TEXT PRIMARY KEY''), (''user_id'', cascade),
       (''cred_id'', ''BLOB NOT NULL UNIQUE''), (''public_key'', ''BLOB NOT NULL''),
       (''sign_count'', ''INTEGER NOT NULL DEFAULT 0''), (''transports'', text_default),
       (''aaguid'', ''BLOB''), (''name'', text_default),
       (''backup_eligible'', ''INTEGER NOT NULL DEFAULT 0''), (''backup_state'', ''INTEGER NOT NULL DEFAULT 0''),
       (''created_at'', ''INTEGER NOT NULL'')],
     CreateTable ''invites'' [(''token'', ''TEXT PRIMARY KEY''),
       (''created_by'', ''TEXT REFERENCES users(id) ON DELETE SET NULL''),
       (''is_admin'', ''INTEGER NOT NULL DEFAULT 0''), (''expires_at'', ''INTEGER NOT NULL''),
       (''used_at'', ''INTEGER NOT NULL DEFAULT 0''), (''created_at'', ''INTEGER NOT NULL'')],
     CreateTable ''sessions'' [(''token'', ''TEXT PRIMARY KEY''), (''user_id'', cascade),
       (''expires_at'', ''INTEGER NOT NULL''), (''created_at'', ''INTEGER NOT NULL'')],
     CreateTable ''stacks'' [(''id'', ''TEXT PRIMARY KEY''), (''name'', ''TEXT NOT NULL UNIQUE'')],
     CreateTable ''managed_containers'' [(''id'', ''TEXT PRIMARY KEY''),
       (''stack_id'', ''TEXT NOT NULL REFERENCES stacks(id) ON DELETE CASCADE''), (''container_name'', ''TEXT NOT NULL''),
       (''snapshot_json'', ''TEXT NOT NULL''), (''auto_update'', ''INTEGER NOT NULL DEFAULT 0''),
       (''created_at'', ''INTEGER NOT NULL'')],
     CreateTable ''settings'' [(''key'', ''TEXT PRIMARY KEY''), (''value'', ''TEXT NOT NULL'')],
     AddColumn ''invites'' ''for_user'' ''TEXT REFERENCES users(id) ON DELETE CASCADE'',
     CreateTable ''update_jobs'' [(''id'', ''TEXT PRIMARY KEY''), (''container_name'', ''TEXT NOT NULL''),
       (''image'', text_default), (''phase'', text_default),
       (''message'', text_default), (''error'', text_default),
       (''is_self'', ''INTEGER NOT NULL DEFAULT 0''), (''done'', ''INTEGER NOT NULL DEFAULT 0''),
       (''started_at'', ''INTEGER NOT NULL''), (''finished_at'', ''INTEGER NOT NULL DEFAULT 0'')],
     AddColumn ''managed_containers'' ''container_id'' text_default,
     CreateTable ''events'' [(''id'', ''INTEGER PRIMARY KEY AUTOINCREMENT''), (''event'', ''TEXT NOT NULL''),
       (''title'', ''TEXT NOT NULL''), (''body'', text_default),
       (''container_name'', text_default), (''stack_id'', text_default),
       (''created_at'', ''INTEGER NOT NULL'')],
     CreateIndex False ''idx_events_created_at'' ''events'' [(''created_at'', ''DESC''), (''id'', ''DESC'')],
     CreateIndex False ''idx_events_container'' ''events'' [(''container_name'', '''')],
     CreateTable ''oidc_identities'' [(''id'', ''TEXT PRIMARY KEY''), (''user_id'', cascade),
       (''issuer'', ''TEXT NOT NULL''), (''subject'', ''TEXT NOT NULL''), (''email'', text_default),
       (''created_at'', ''INTEGER NOT NULL'')],
     CreateIndex True ''idx_oidc_identities_subject'' ''oidc_identities'' [(''issuer'', ''''), (''subject'', '''')],
     CreateIndex False ''idx_oidc_identities_user'' ''oidc_identities'' [(''user_id'', '''')]]"

section \<open>Running them\<close>

datatype statement = CreateMeta | SelectVersion | Migration nat | WriteVersion

datatype migrated = Migrated | MigrateError err | Panic

definition io_error :: err where "io_error = Errorf ''disk I/O error''"

definition create_meta :: "schema \<Rightarrow> schema" where
  "create_meta s = (case sc_meta s of None \<Rightarrow> s\<lparr>sc_meta := Some []\<rparr> | Some _ \<Rightarrow> s)"

abbreviation meta_rows :: "schema \<Rightarrow> (string \<times> string) list" where
  "meta_rows s \<equiv> (case sc_meta s of None \<Rightarrow> [] | Some rows \<Rightarrow> rows)"

text \<open>The version read back: zero when there is no row, when it cannot be read, or when it is no number.\<close>

definition schema_version :: "(statement \<Rightarrow> bool) \<Rightarrow> schema \<Rightarrow> int" where
  "schema_version fault s =
     (if fault SelectVersion then 0
      else case map_of (meta_rows s) ''schema_version'' of
          None \<Rightarrow> 0
        | Some v \<Rightarrow> (case Atoi v of None \<Rightarrow> 0 | Some n \<Rightarrow> n))"

text \<open>The loop from position \<open>i\<close>; it stops at the first statement that fails.\<close>

function apply_from :: "(statement \<Rightarrow> bool) \<Rightarrow> nat \<Rightarrow> schema \<Rightarrow> err option \<times> schema" where
  "apply_from fault i s =
     (if i < length migrations
      then if fault (Migration i) then (Some io_error, s)
           else case exec_ddl (migrations ! i) s of
               Inl err \<Rightarrow> (Some err, s)
             | Inr s \<Rightarrow> apply_from fault (Suc i) s
      else (None, s))"
  by auto
termination
  by (relation "measure (\<lambda>(_, i, _). length migrations - i)") auto

declare apply_from.simps [simp del]

definition write_version :: "schema \<Rightarrow> schema" where
  "write_version s = s\<lparr>sc_meta := Some (AList.update ''schema_version'' (Itoa (int (length migrations)))
     (meta_rows s))\<rparr>"

text \<open>A negative version would index the list below its start, which panics.\<close>

definition migrate :: "(statement \<Rightarrow> bool) \<Rightarrow> schema \<Rightarrow> migrated \<times> schema" where
  "migrate fault s =
     (if fault CreateMeta then (MigrateError io_error, s)
      else let s = create_meta s; current = schema_version fault s
           in if current < 0 then (Panic, s)
              else case apply_from fault (nat current) s of
                  (Some err, s) \<Rightarrow> (MigrateError err, s)
                | (None, s) \<Rightarrow>
                    if fault WriteVersion then (MigrateError io_error, s) else (Migrated, write_version s))"

text \<open>\<^verbatim>\<open>Open\<close>: the handle is opened, the schema migrated; \<open>open_err\<close> is what the driver answers.\<close>

definition store_Open :: "err option \<Rightarrow> (statement \<Rightarrow> bool) \<Rightarrow> schema \<Rightarrow> unit res option \<times> schema" where
  "store_Open open_err fault s =
     (case open_err of
        Some err \<Rightarrow> (Some (Inl (Wrap ''open sqlite: '' err '''')), s)
      | None \<Rightarrow>
          (case migrate fault s of
             (MigrateError err, s) \<Rightarrow> (Some (Inl (Wrap ''migrate: '' err '''')), s)
           | (Panic, s) \<Rightarrow> (None, s)
           | (Migrated, s) \<Rightarrow> (Some (Inr ()), s)))"

section \<open>Every version is brought up to date\<close>

text \<open>The schema after the first \<open>n\<close> migrations, and a database that has them, with its version row.\<close>

definition run_ddl :: "ddl \<Rightarrow> schema \<Rightarrow> schema" where
  "run_ddl d s = (case exec_ddl d s of Inl _ \<Rightarrow> s | Inr s \<Rightarrow> s)"

definition schema_after :: "nat \<Rightarrow> schema" where
  "schema_after n = fold run_ddl (take n migrations) empty_schema"

definition database_at :: "nat \<Rightarrow> schema" where
  "database_at n = (schema_after n)\<lparr>sc_meta := (if n = 0 then None else Some [(''schema_version'', Itoa (int n))])\<rparr>"

lemma migrations_length [simp]: "length migrations = 16"
  by (simp add: migrations_def)

lemma migrations_succeed_check: "list_all (\<lambda>n. \<not> isl (exec_ddl (migrations ! n) (schema_after n))) [0..<16]"
  by code_simp

lemma migrations_repeat_check:
  "list_all (\<lambda>i. list_all (\<lambda>k. isl (exec_ddl (migrations ! k) (schema_after i))) [0..<i]) [0..<17]"
  by code_simp

lemma migration_step:
  assumes "n < 16"
  shows "exec_ddl (migrations ! n) (schema_after n) = Inr (schema_after (Suc n))"
proof -
  have "\<not> isl (exec_ddl (migrations ! n) (schema_after n))"
    using migrations_succeed_check assms by (simp add: list_all_iff)
  then obtain s where s: "exec_ddl (migrations ! n) (schema_after n) = Inr s"
    by (cases "exec_ddl (migrations ! n) (schema_after n)") auto
  have "schema_after (Suc n) = run_ddl (migrations ! n) (schema_after n)"
    using assms by (simp add: schema_after_def take_Suc_conv_app_nth)
  with s show ?thesis by (simp add: run_ddl_def)
qed

lemma migration_repeats:
  assumes "k < i" "i \<le> 16"
  obtains err where "exec_ddl (migrations ! k) (schema_after i) = Inl err"
proof -
  have "isl (exec_ddl (migrations ! k) (schema_after i))"
    using migrations_repeat_check assms by (auto simp: list_all_iff)
  then show thesis using that by (auto simp: isl_def)
qed

text \<open>The statements of the list neither read nor write the version.\<close>

lemma exec_ddl_meta: "exec_ddl d (s\<lparr>sc_meta := m\<rparr>) = map_sum id (\<lambda>s. s\<lparr>sc_meta := m\<rparr>) (exec_ddl d s)"
  by (cases d) (auto simp: taken_name_def split: option.splits)

lemma apply_from_runs:
  assumes "k \<le> i" "i \<le> 16" "\<And>j. k \<le> j \<Longrightarrow> j < i \<Longrightarrow> \<not> fault (Migration j)"
  shows "apply_from fault k ((schema_after k)\<lparr>sc_meta := m\<rparr>) = apply_from fault i ((schema_after i)\<lparr>sc_meta := m\<rparr>)"
  using assms
proof (induction "i - k" arbitrary: k)
  case (Suc d)
  then have k: "k < i" "k < 16" by simp_all
  have "apply_from fault k ((schema_after k)\<lparr>sc_meta := m\<rparr>) = apply_from fault (Suc k) ((schema_after (Suc k))\<lparr>sc_meta := m\<rparr>)"
    using Suc.prems(3) [of k] k by (subst apply_from.simps) (simp add: exec_ddl_meta migration_step)
  with Suc.hyps(1) [of "Suc k"] Suc.hyps(2) Suc.prems k show ?case by simp
qed simp

lemma Atoi_Itoa: "int64_range i \<Longrightarrow> Atoi (Itoa i) = Some i"
  by (simp add: ParseInt_Itoa)

lemma version_read:
  assumes "k \<le> 16"
  shows "schema_version fault (create_meta (database_at k)) = (if fault SelectVersion then 0 else int k)"
  using assms
  by (simp add: schema_version_def create_meta_def database_at_def Atoi_Itoa int64_range_def)

lemma created:
  obtains m where "create_meta (database_at k) = (schema_after k)\<lparr>sc_meta := Some m\<rparr>"
    "map_of m ''schema_version'' = (if k = 0 then None else Some (Itoa (int k)))"
    "AList.update ''schema_version'' v m = [(''schema_version'', v)]"
  by (rule that [of "if k = 0 then [] else [(''schema_version'', Itoa (int k))]"])
    (simp_all add: create_meta_def database_at_def)

text \<open>
  \<^bold>\<open>C25\<close>. Whatever version a database is at, none included, opening it runs exactly the migrations it lacks and
  leaves the schema and the version of a database created today; opening that again changes nothing.
\<close>

theorem migrate_upgrades:
  assumes "k \<le> length migrations"
  shows "store_Open None (\<lambda>_. False) (database_at k) = (Some (Inr ()), database_at (length migrations))"
proof -
  obtain m where m: "create_meta (database_at k) = (schema_after k)\<lparr>sc_meta := Some m\<rparr>"
    "AList.update ''schema_version'' (Itoa 16) m = [(''schema_version'', Itoa 16)]" by (rule created)
  have "apply_from (\<lambda>_. False) k ((schema_after k)\<lparr>sc_meta := Some m\<rparr>) = (None, (schema_after 16)\<lparr>sc_meta := Some m\<rparr>)"
    using apply_from_runs [of k 16 "\<lambda>_. False" "Some m"] assms by (simp add: apply_from.simps [of _ 16])
  then show ?thesis
    using version_read [of k "\<lambda>_. False"] m assms
    by (simp add: store_Open_def migrate_def Let_def write_version_def database_at_def)
qed

theorem migrate_upgrades_witness:
  "store_Open None (\<lambda>_. False) (database_at 9) = (Some (Inr ()), database_at 16)"
  using migrate_upgrades [of 9] by simp

section \<open>An interrupted upgrade\<close>

definition step_of :: "nat \<Rightarrow> statement" where
  "step_of i = (if i < length migrations then Migration i else WriteVersion)"

lemma interrupted_state:
  assumes "k < i" "i \<le> 16" "\<And>st. fault st \<longleftrightarrow> st = step_of i"
  obtains m where "snd (migrate fault (database_at k)) = (schema_after i)\<lparr>sc_meta := Some m\<rparr>"
    "map_of m ''schema_version'' = (if k = 0 then None else Some (Itoa (int k)))"
proof -
  obtain m where m: "create_meta (database_at k) = (schema_after k)\<lparr>sc_meta := Some m\<rparr>"
    "map_of m ''schema_version'' = (if k = 0 then None else Some (Itoa (int k)))" by (rule created)
  have run: "apply_from fault k ((schema_after k)\<lparr>sc_meta := Some m\<rparr>) = apply_from fault i ((schema_after i)\<lparr>sc_meta := Some m\<rparr>)"
    using apply_from_runs [of k i fault "Some m"] assms by (simp add: step_of_def)
  have "snd (migrate fault (database_at k)) = (schema_after i)\<lparr>sc_meta := Some m\<rparr>"
    using run m(1) version_read [of k fault] assms
    by (simp add: migrate_def Let_def apply_from.simps [of _ i] step_of_def split: if_splits)
  from this m(2) show thesis by (rule that)
qed

text \<open>
  \<^bold>\<open>C40\<close>. The version is written once, after the last migration, and the migrations are not one transaction: when
  an upgrade is cut short after its first statement, every later start fails, whatever happens then, and leaves
  the database as it is.
\<close>

theorem interrupted_upgrade_blocks_every_start:
  assumes "k < i" "i \<le> length migrations" "\<And>st. fault st \<longleftrightarrow> st = step_of i"
  shows "let s = snd (store_Open None fault (database_at k))
    in \<forall>open_err fault'. \<exists>err. store_Open open_err fault' s = (Some (Inl err), s)"
proof -
  obtain m where s: "snd (migrate fault (database_at k)) = (schema_after i)\<lparr>sc_meta := Some m\<rparr>"
    and m: "map_of m ''schema_version'' = (if k = 0 then None else Some (Itoa (int k)))"
    using interrupted_state [of k i fault] assms by auto
  define s where "s = (schema_after i)\<lparr>sc_meta := Some m\<rparr>"
  have opened: "snd (store_Open None fault (database_at k)) = s"
    using s by (auto simp: store_Open_def s_def split: prod.splits migrated.splits)
  have stuck: "\<exists>err. migrate fault' s = (MigrateError err, s)" for fault'
  proof (cases "fault' CreateMeta")
    case False
    define j where "j = (if fault' SelectVersion then 0 else k)"
    have v: "schema_version fault' s = int j"
      using m assms(1,2) by (simp add: schema_version_def s_def j_def Atoi_Itoa int64_range_def)
    have j: "j < i" using assms(1) by (simp add: j_def)
    then obtain err where "exec_ddl (migrations ! j) (schema_after i) = Inl err"
      using migration_repeats assms(2) by auto
    then have "\<exists>err. apply_from fault' j s = (Some err, s)"
      using j assms(2) by (subst apply_from.simps) (simp add: s_def exec_ddl_meta)
    with False v show ?thesis by (auto simp: migrate_def Let_def create_meta_def s_def)
  qed (simp add: migrate_def)
  have "\<exists>err. store_Open open_err fault' s = (Some (Inl err), s)" for open_err fault'
  proof (cases open_err)
    case None
    obtain err where "migrate fault' s = (MigrateError err, s)" using stuck by blast
    then show ?thesis using None by (simp add: store_Open_def)
  qed (simp add: store_Open_def)
  then show ?thesis unfolding opened Let_def by blast
qed

theorem interrupted_upgrade_blocks_every_start_witness:
  "\<exists>err. store_Open None (\<lambda>_. False) (snd (store_Open None (\<lambda>st. st = Migration 3) empty_schema)) =
     (Some (Inl err), snd (store_Open None (\<lambda>st. st = Migration 3) empty_schema))"
proof -
  have "database_at 0 = empty_schema" by (simp add: database_at_def schema_after_def empty_schema_def)
  moreover have "(3::nat) \<le> length migrations" "step_of 3 = Migration 3" by (simp_all add: step_of_def)
  ultimately show ?thesis
    using interrupted_upgrade_blocks_every_start [of 0 3 "\<lambda>st. st = Migration 3"] by (simp only: Let_def)
qed

end
