(* ===== verification/System.thy ===== *)
theory System
  imports Server_Routes Docker_Frame Command_Run Store_Migrate
begin

text \<open>
  The running process (\<^verbatim>\<open>cmd/veery/main.go\<close> with the loops of \<^verbatim>\<open>autoupdate.go\<close>, \<^verbatim>\<open>updatecheck.go\<close>
  and \<^verbatim>\<open>raidwatch.go\<close>): how it starts, and what happens while it serves. Everything works on one store and one
  clock. A run is a sequence of events in any order: requests, jobs that requests started, rounds of the
  pollers, steps of the connections. A job and a round are one event each, so the model has the orders in which
  they follow each other, not the places inside them where the scheduler may switch.

  What an operation of the manager or of the watcher publishes and notifies is collected while it runs and
  dispatched when it has returned: published messages to the hub, notifications through the notifier to
  the event log, the services and, as events, to the hub.
\<close>

section \<open>State\<close>

record 'd sys_env =
  se_http :: "'d http_env"
  se_stats :: "'d stats_call"
  se_md :: "string md_host"
  se_enc :: "ws_message \<Rightarrow> bool"
  se_metrics :: "metrics_snapshot \<Rightarrow> string"

record 'd process_state =
  ps_sys :: "'d system"
  ps_watched :: "(string \<times> string) list"
  ps_collector :: collector
  ps_peaks :: "(string \<times> device_peak) list"

abbreviation se_auth :: "'d sys_env \<Rightarrow> auth_env" where "se_auth e \<equiv> he_auth (se_http e)"
abbreviation se_docker :: "'d sys_env \<Rightarrow> 'd docker_env" where "se_docker e \<equiv> he_docker (se_http e)"

section \<open>Dispatching\<close>

text \<open>\<^verbatim>\<open>Notify\<close> as the Docker manager calls it, with the container and the stack.\<close>

definition notify_meta :: "auth_env \<Rightarrow> notification_event \<Rightarrow> string \<Rightarrow> string \<Rightarrow> event_meta \<Rightarrow> unit act" where
  "notify_meta e ev title body meta = do {
     n \<leftarrow> gets w_notif;
     case n of
       None \<Rightarrow> State_Monad.return ()
     | Some n \<Rightarrow> do {
         outs \<leftarrow> stamped e (\<lambda>now. Notify (ne e) n now ev title body (Some meta));
         upd (\<lambda>w. w\<lparr>w_outs := w_outs w @ outs\<rparr>)
       }
   }"

fun dispatch_out :: "'d sys_env \<Rightarrow> out \<Rightarrow> 'd system \<Rightarrow> 'd system" where
  "dispatch_out e (Broadcast msg) s = s\<lparr>sy_hub := hub_Broadcast (se_enc e) msg (sy_hub s)\<rparr>"
| "dispatch_out e (Notified ev title body meta) s = on_world (notify_meta (se_auth e) ev title body meta) s"

text \<open>The events the notifier pushed go to the hub; what it handed to delivery stays in the record.\<close>

fun push_event :: "'d sys_env \<Rightarrow> delivery \<Rightarrow> hub \<Rightarrow> hub" where
  "push_event e (Pushed ev) h = hub_Broadcast (se_enc e) (WSEvent ev) h"
| "push_event e (Deliver ev urls title body) h = h"

definition is_pushed :: "delivery \<Rightarrow> bool" where
  "is_pushed d \<longleftrightarrow> (case d of Pushed _ \<Rightarrow> True | Deliver _ _ _ _ \<Rightarrow> False)"

definition push_events :: "'d sys_env \<Rightarrow> 'd system \<Rightarrow> 'd system" where
  "push_events e s = s\<lparr>sy_hub := fold (push_event e) (w_outs (sy_world s)) (sy_hub s),
     sy_world := (sy_world s)\<lparr>w_outs := filter (\<lambda>d. \<not> is_pushed d) (w_outs (sy_world s))\<rparr>\<rparr>"

definition dispatch :: "'d sys_env \<Rightarrow> 'd system \<Rightarrow> 'd system" where
  "dispatch e s =
     (case sy_dkr s of
        None \<Rightarrow> push_events e s
      | Some m \<Rightarrow> push_events e (fold (dispatch_out e) (mg_outs m) (s\<lparr>sy_dkr := Some (m\<lparr>mg_outs := []\<rparr>)\<rparr>)))"

section \<open>Operations on the shared store\<close>

text \<open>An operation of the manager, on the store and the clock of the process.\<close>

definition on_manager :: "('d, 'a) op \<Rightarrow> 'd system \<Rightarrow> 'a option \<times> 'd system" where
  "on_manager f s =
     (case sy_dkr s of
        None \<Rightarrow> (None, s)
      | Some m \<Rightarrow>
          (case run_state f (m\<lparr>mg_st := w_st (sy_world s), mg_clock := w_clock (sy_world s)\<rparr>) of
             (a, m) \<Rightarrow> (Some a, s\<lparr>sy_dkr := Some m, sy_world := (sy_world s)\<lparr>w_st := mg_st m, w_clock := mg_clock m\<rparr>\<rparr>)))"

text \<open>One pass of the RAID watcher; what it notifies goes through the notifier when it has returned.\<close>

definition raid_pass :: "auth_env \<Rightarrow> unit act" where
  "raid_pass e = do {
     t \<leftarrow> time_Now e;
     ms \<leftarrow> State (\<lambda>w. let rw = raid_sweep ((re e)\<lparr>rw_notif := True\<rparr>) (int (t div sec))
                              \<lparr>rw_store = w_st w, rw_host = w_host w, rw_msgs = []\<rparr>
                      in (rw_msgs rw, w\<lparr>w_st := rw_store rw, w_host := rw_host rw\<rparr>));
     notify_each (\<lambda>(ev, title, body). srv_notify e ev title body) ms
   }"

text \<open>
  The bodies of the two update loops, when their timer fires; the timer is then set again from the settings. The check is
  also made once before its loop.
\<close>

definition AutoUpdatePoller_round :: "'d docker_env \<Rightarrow> ('d, int) op" where
  "AutoUpdatePoller_round e = do { _ \<leftarrow> runAutoUpdates e; db_read autoUpdateInterval }"

definition UpdateCheckPoller_round :: "'d docker_env \<Rightarrow> ('d, int) op" where
  "UpdateCheckPoller_round e = do { _ \<leftarrow> CheckUpdates e; db_read autoUpdateInterval }"

section \<open>Events\<close>

datatype sys_event =
    Request http_request
  | JobRuns nat
  | WatchTick nat
  | StacksStart
  | StacksTick
  | MetricsTick reading
  | AutoUpdateTick
  | UpdateCheckTick
  | RaidTick
  | ClientReplays nat
  | ClientGetsJobs nat
  | ClientWrites nat
  | ClientLeaves nat

definition drop_nth :: "nat \<Rightarrow> 'a list \<Rightarrow> 'a list" where
  "drop_nth i xs = take i xs @ drop (Suc i) xs"

text \<open>A job that a request started runs, once.\<close>

definition run_job :: "nat \<Rightarrow> 'd system \<Rightarrow> 'd system" where
  "run_job i s =
     (if i < length (sy_spawned s)
      then snd (on_manager (sy_spawned s ! i) (s\<lparr>sy_spawned := drop_nth i (sy_spawned s)\<rparr>))
      else s)"

text \<open>A tick of \<^verbatim>\<open>watchJob\<close> for a job whose helper was running at startup.\<close>

definition watch_tick :: "'d sys_env \<Rightarrow> nat \<Rightarrow> 'd process_state \<Rightarrow> 'd process_state" where
  "watch_tick e i p =
     (if i < length (ps_watched p)
      then (case ps_watched p ! i of (jid, name) \<Rightarrow>
              (case on_manager (watch_round (se_docker e) jid name) (ps_sys p) of
                 (over, s) \<Rightarrow> p\<lparr>ps_sys := s, ps_watched := (if over = Some True then drop_nth i (ps_watched p) else ps_watched p)\<rparr>))
      else p)"

text \<open>A round of \<^verbatim>\<open>pollMetrics\<close>; it runs only when there is a manager.\<close>

definition metrics_tick :: "'d sys_env \<Rightarrow> reading \<Rightarrow> 'd process_state \<Rightarrow> 'd process_state" where
  "metrics_tick e rd p =
     (case on_manager (poll_metrics_round (se_docker e) (se_stats e) (se_md e) (w_host (sy_world (ps_sys p))) rd
                         (ps_collector p) (ps_peaks p)) (ps_sys p) of
        (None, s) \<Rightarrow> p
      | (Some (snap, col, peaks), s) \<Rightarrow>
          p\<lparr>ps_sys := s\<lparr>sy_hub := hub_Broadcast (se_enc e) (WSMetrics (se_metrics e snap)) (sy_hub s)\<rparr>,
            ps_collector := col, ps_peaks := peaks\<rparr>)"

definition client_op :: "'d sys_env \<Rightarrow> hub_op \<Rightarrow> 'd system \<Rightarrow> 'd system" where
  "client_op e op s = s\<lparr>sy_hub := hub_exec (se_enc e) op (sy_hub s)\<rparr>"

definition on_sys :: "('d system \<Rightarrow> 'd system) \<Rightarrow> 'd process_state \<Rightarrow> 'd process_state" where
  "on_sys f p = p\<lparr>ps_sys := f (ps_sys p)\<rparr>"

fun sys_action :: "'d sys_env \<Rightarrow> sys_event \<Rightarrow> 'd process_state \<Rightarrow> 'd process_state" where
  "sys_action e (Request q) p = on_sys (handle_http (se_http e) q) p"
| "sys_action e (JobRuns i) p = on_sys (run_job i) p"
| "sys_action e (WatchTick i) p = watch_tick e i p"
| "sys_action e StacksStart p = on_sys (\<lambda>s. snd (on_manager (BroadcastStacks (se_docker e)) s)) p"
| "sys_action e StacksTick p = on_sys (\<lambda>s. snd (on_manager (stacks_round (se_docker e)) s)) p"
| "sys_action e (MetricsTick rd) p = metrics_tick e rd p"
| "sys_action e AutoUpdateTick p = on_sys (\<lambda>s. snd (on_manager (AutoUpdatePoller_round (se_docker e)) s)) p"
| "sys_action e UpdateCheckTick p = on_sys (\<lambda>s. snd (on_manager (UpdateCheckPoller_round (se_docker e)) s)) p"
| "sys_action e RaidTick p = on_sys (on_world (raid_pass (se_auth e))) p"
| "sys_action e (ClientReplays i) p = on_sys (client_op e (ReplayNext i)) p"
| "sys_action e (ClientGetsJobs i) p = on_sys (\<lambda>s. case sy_dkr s of
      None \<Rightarrow> s
    | Some m \<Rightarrow> client_op e (SendJobs i (JobSnapshot (m\<lparr>mg_st := w_st (sy_world s), mg_clock := w_clock (sy_world s)\<rparr>))) s) p"
| "sys_action e (ClientWrites i) p = on_sys (client_op e (WriteOne i)) p"
| "sys_action e (ClientLeaves i) p = on_sys (client_op e (Unregister i)) p"

definition sys_step :: "'d sys_env \<Rightarrow> sys_event \<Rightarrow> 'd process_state \<Rightarrow> 'd process_state" where
  "sys_step e ev p = on_sys (dispatch e) (sys_action e ev p)"

inductive sys_runs :: "'d sys_env \<Rightarrow> 'd process_state \<Rightarrow> 'd process_state \<Rightarrow> bool" for e p0 where
  started: "sys_runs e p0 p0"
| event: "sys_runs e p0 p \<Longrightarrow> sys_runs e p0 (sys_step e ev p)"

inductive_cases sys_runs_cases: "sys_runs e p0 p"

section \<open>Starting\<close>

text \<open>
  What the start depends on: the variables (already defaulted), what the Docker client's constructor answers, and
  where the random source stands.
\<close>

record 'd boot_env =
  bt_sys :: "'d sys_env"
  bt_rpID :: string
  bt_origin :: string
  bt_oidc :: oidc_vars
  bt_client :: "'d res"
  bt_draws :: nat
  bt_clock :: nat
  bt_host :: string

definition initial_world :: "'d boot_env \<Rightarrow> store \<Rightarrow> world" where
  "initial_world b st =
     \<lparr>w_st = st, w_clock = bt_clock b, w_reads = 0, w_draws = bt_draws b, w_ceremonies = [], w_oidc = nil_oidc,
      w_cfg = \<lparr>cfg_RPID = bt_rpID b, cfg_Origin = bt_origin b, cfg_Secure = HasPrefix (bt_origin b) ''https://''\<rparr>,
      w_notif = None, w_rw = fresh_response, w_outs = [], w_raid = False, w_host = bt_host b\<rparr>"

datatype 'd main_result =
    Fatal string
  | PrintedLink bool string store
  | HelperDone "(unit res \<times> 'd mgr option) process"
  | Serving "string option" "'d process_state"

text \<open>The Docker part of the start: without a client the server runs without a manager.\<close>

definition attach_docker :: "'d boot_env \<Rightarrow> world \<Rightarrow> 'd process_state" where
  "attach_docker b w =
     (let none = \<lparr>ps_sys = \<lparr>sy_world = w, sy_dkr = None, sy_spawned = [], sy_hub = newHub, sy_next = 0\<rparr>, ps_watched = [],
                  ps_collector = NewCollector, ps_peaks = initial_peaks (w_st w)\<rparr>
      in case bt_client b of
           Inl _ \<Rightarrow> none
         | Inr d \<Rightarrow>
             let s = (ps_sys none)\<lparr>sy_dkr := Some (SetNotifier True (NewManager (w_st w) d (w_clock w) True))\<rparr>
             in case on_manager (start_docker (se_docker (bt_sys b))) s of
                  (watched, s) \<Rightarrow> none\<lparr>ps_sys := dispatch (bt_sys b) s,
                    ps_watched := (case watched of None \<Rightarrow> [] | Some ws \<Rightarrow> ws)\<rparr>)"

text \<open>The part of \<^verbatim>\<open>main\<close> that sets up the server, with its fatal errors in their order.\<close>

definition main_serve :: "'d boot_env \<Rightarrow> store \<Rightarrow> 'd main_result" where
  "main_serve b st =
     (let e = se_auth (bt_sys b) in
      case run_state (NewAuthManager e (bt_rpID b) (bt_origin b) '''') (initial_world b st) of
        (Inl err, _) \<Rightarrow> Fatal (''auth manager: '' @ err_text err)
      | (Inr _, w) \<Rightarrow>
          (case run_state (Bootstrap e (bt_origin b)) w of
             (Inl err, _) \<Rightarrow> Fatal (''bootstrap: '' @ err_text err)
           | (Inr url, w) \<Rightarrow>
               (case newOIDC (bt_oidc b) (bt_origin b) of
                  Inl err \<Rightarrow> Fatal (''oidc config: '' @ err_text err)
                | Inr m \<Rightarrow>
                    let w = (case m of None \<Rightarrow> w | Some m \<Rightarrow> w\<lparr>w_oidc := m\<rparr>);
                        w = w\<lparr>w_notif := Some (SetBroadcaster True (NewNotifier (ne e)))\<rparr>
                    in Serving (if url = '''' then None else Some url)
                         (on_sys (\<lambda>s. s\<lparr>sy_world := (sy_world s)\<lparr>w_raid := True\<rparr>\<rparr>) (attach_docker b w)))))"

definition main_invite :: "'d boot_env \<Rightarrow> bool \<Rightarrow> store \<Rightarrow> 'd main_result" where
  "main_invite b isAdmin st =
     (case run_state (NewInvite (se_auth (bt_sys b)) '''' '''' isAdmin) (initial_world b st) of
        (Inl err, _) \<Rightarrow> Fatal (''mint invite: '' @ err_text err)
      | (Inr (token, _), w) \<Rightarrow> PrintedLink isAdmin (InviteURL (bt_origin b) token) (w_st w))"

text \<open>
  \<^verbatim>\<open>main\<close> after the store was opened with the result \<open>opened\<close>. The helper parses its flags before it builds
  a client.
\<close>

definition main_cmd :: "'d boot_env \<Rightarrow> string list \<Rightarrow> store res \<Rightarrow> 'd main_result" where
  "main_cmd b args opened =
     (case opened of
        Inl err \<Rightarrow> Fatal (''open store: '' @ err_text err)
      | Inr st \<Rightarrow>
          (case command_of args of
             InviteCmd isAdmin \<Rightarrow> main_invite b isAdmin st
           | ApplyUpdateCmd rest \<Rightarrow>
               (case bt_client b of
                  Inl err \<Rightarrow>
                    (case parse_flags rest \<lparr>fl_container = '''', fl_job = ''''\<rparr> of
                       Inl code \<Rightarrow> HelperDone (Exited code)
                     | Inr f \<Rightarrow> Fatal (''apply-update: '' @
                         (if fl_container f = '''' then ''--container is required'' else err_text err)))
                | Inr d \<Rightarrow> (let r = applyUpdate (se_docker (bt_sys b)) st d (bt_clock b) rest
                            in case r of
                                 Returned (Inl err, _) \<Rightarrow> Fatal (''apply-update: '' @ err_text err)
                               | _ \<Rightarrow> HelperDone r))
           | ServeCmd \<Rightarrow> main_serve b st))"

end
