(* ===== verification/System_Laws.thy ===== *)
theory System_Laws
  imports System
begin

text \<open>
  What holds in every run of the process: the account invariants of the server extend to everything the process does,
  because the manager and the watcher leave the account tables alone; signing out ends access; and live channels
  are ended by nothing but their own connection.
\<close>

section \<open>What holds in every run\<close>

text \<open>
  The account invariants extend to the whole process when they depend on the account tables only: the manager
  and the watcher never write those.
\<close>

lemma account_part_settings [simp]: "account_part (s\<lparr>settings_tbl := t\<rparr>) = account_part s"
  by (simp add: account_part_def)

lemma accounts_ok_frame: "account_part s' = account_part s \<Longrightarrow> accounts_ok s' = accounts_ok s"
  by (simp add: account_part_def accounts_ok_def account_keys_def account_refs_def user_ids_def)

text \<open>The watcher and the metrics round write settings only.\<close>

lemma account_part_saves [simp]:
  "account_part (snd (SaveMdadmBaseline b s)) = account_part s" "account_part (snd (SaveMdadmLastScan l s)) = account_part s"
  "account_part (snd (SaveMdadmLastRun l s)) = account_part s" "account_part (snd (SaveMdadmScanFailures f s)) = account_part s"
  "account_part (snd (SaveDiskPeaks p s)) = account_part s"
  by (simp_all add: SaveMdadmBaseline_def SaveMdadmLastScan_def SaveMdadmLastRun_def SaveMdadmScanFailures_def SaveDiskPeaks_def
      setJSON_def SetSetting_def account_part_def)

lemma compare_arrays_rw_store [simp]:
  "rw_store (snd (snd (snd (compare_arrays e b now as nxt ls c w)))) = rw_store w"
proof -
  have disk: "rw_store (notifyDisks e a prev w) = rw_store w" for a prev w
  proof -
    have "rw_store (fold (notify_disk e a prev) ms w) = rw_store w" for ms
      by (induction ms arbitrary: w) (simp_all add: notify_disk_def raid_notify_def split: option.splits)
    then show ?thesis by (simp add: notifyDisks_def)
  qed
  have other: "rw_store (notifyHealth e a prev w) = rw_store w" "rw_store (snd (notifyScan e a prev w)) = rw_store w" for a prev w
    by (simp_all add: notifyHealth_def notifyScan_def raid_notify_def Let_def)
  show ?thesis
    by (induction as arbitrary: nxt ls c w) (simp_all add: Let_def case_prod_unfold disk other split: option.splits)
qed

lemma schedule_one_rw_store [simp]: "rw_store (sl_world (schedule_one e cfg now a l)) = rw_store (sl_world l)"
proof -
  have "rw_store (sl_world (attempt_start e now n rt l)) = rw_store (sl_world l)" for n rt and l :: "'a sched_loop"
    by (auto simp: attempt_start_def Let_def case_prod_unfold recordFailure_store split: sum.splits)
  moreover have "sl_world (drop_moot a sc l) = sl_world l" for sc and l :: "'a sched_loop"
    by (simp add: drop_moot_def split: option.splits)
  ultimately show ?thesis
    by (simp add: schedule_one_def Let_def split: option.splits sum.splits)
qed

lemma schedules_rw_store: "rw_store (sl_world (fold (schedule_one e cfg now) as l)) = rw_store (sl_world l)"
  by (induction as arbitrary: l) simp_all

lemma raid_sweep_accounts: "account_part (rw_store (raid_sweep e now w)) = account_part (rw_store w)"
proof -
  have "account_part (rw_store (checkTransitions e as now w)) = account_part (rw_store w)" for as w
    by (simp add: checkTransitions_def Let_def case_prod_unfold split: sum.splits)
  moreover have "account_part (rw_store (runSchedules e as now w)) = account_part (rw_store w)" for as w
    by (simp add: runSchedules_def Let_def schedules_rw_store split: sum.splits)
  ultimately show ?thesis by (simp add: raid_sweep_def Let_def)
qed

lemma framed_rounds: "accounts.framed (stacks_round e)" "accounts.framed (start_docker e)"
  "accounts.framed (poll_metrics_round e st k h rd col peaks)"
  "accounts.framed (AutoUpdatePoller_round e)" "accounts.framed (UpdateCheckPoller_round e)"
proof -
  show "accounts.framed (AutoUpdatePoller_round e)" "accounts.framed (UpdateCheckPoller_round e)"
    unfolding AutoUpdatePoller_round_def UpdateCheckPoller_round_def
    by (intro accounts.frames accounts.framed_Update accounts.framed_checks)+
  show "accounts.framed (stacks_round e)"
    unfolding stacks_round_def by (intro accounts.frames accounts.framed_Reconcile accounts.framed_stacks)
  show "accounts.framed (start_docker e)"
    unfolding start_docker_def by (intro accounts.frames accounts.framed_Reconcile accounts.framed_Recover)
  have "accounts.framed (State (\<lambda>m. case metrics_round (rd_disks rd) k h smp peaks (mg_st m) of
         (host, peaks, s) \<Rightarrow> ((host, peaks), m\<lparr>mg_st := s\<rparr>)))" for smp
    by (simp add: accounts.framed_def metrics_round_def Let_def case_prod_unfold)
  then show "accounts.framed (poll_metrics_round e st k h rd col peaks)"
    unfolding poll_metrics_round_def by (intro accounts.frames accounts.framed_ContainerStats)
qed

lemma docker_handler_framed:
  "accounts.framed (fst (docker_handler e ep x)) \<and> (\<forall>f \<in> set (snd (docker_handler e ep x)). accounts.framed f)"
  by (cases ep) (simp_all add: case_prod_unfold accounts.framed_handlers accounts.framed_basic)

locale system_invariant = account_invariant +
  assumes P_frame: "account_part s' = account_part s \<Longrightarrow> P s \<Longrightarrow> P s'"
begin

lemma Inv_frame: "\<lbrakk>Inv w; account_part (w_st w') = account_part (w_st w); w_draws w' = w_draws w\<rbrakk> \<Longrightarrow> Inv w'"
  using P_frame [of "w_st w'" "w_st w"] accounts_ok_frame [of "w_st w'" "w_st w"] by (simp add: Inv_def)

definition Good :: "'d system \<Rightarrow> bool" where
  "Good s \<longleftrightarrow> Inv (sy_world s) \<and> (\<forall>f \<in> set (sy_spawned s). accounts.framed f)"

lemma Good_on_world: "keeps a \<Longrightarrow> Good s \<Longrightarrow> Good (on_world a s)"
  by (simp add: Good_def on_world_def keepsD)

lemma Good_on_manager: "accounts.framed f \<Longrightarrow> Good s \<Longrightarrow> Good (snd (on_manager f s))"
  unfolding on_manager_def Good_def accounts.framed_def
  by (auto simp: case_prod_unfold split: option.splits intro!: Inv_frame [of "sy_world s"])

lemma keeps_notify_meta: "keeps (notify_meta e ev t b m)"
  unfolding notify_meta_def
  by (intro keep_rules keeps_stamped keeps_upd) (simp_all add: P_events)

lemma Good_dispatch_outs: "Good s \<Longrightarrow> Good (fold (dispatch_out e) xs s)"
proof (induction xs arbitrary: s)
  case (Cons x xs)
  have "Good (dispatch_out e x s)"
    using Cons.prems by (cases x) (simp_all add: Good_on_world keeps_notify_meta, simp add: Good_def)
  with Cons.IH show ?case by simp
qed simp

lemma Good_push_events: "Good s \<Longrightarrow> Good (push_events e s)"
  by (auto simp: Good_def push_events_def intro: Inv_frame)

lemma Good_hub: "Good (s\<lparr>sy_hub := h\<rparr>) = Good s" "Good (s\<lparr>sy_dkr := d\<rparr>) = Good s" "Good (s\<lparr>sy_next := n\<rparr>) = Good s"
  by (simp_all add: Good_def)

lemma Good_dispatch: "Good s \<Longrightarrow> Good (dispatch e s)"
  by (simp add: dispatch_def Good_dispatch_outs Good_push_events Good_hub split: option.splits)

text \<open>The HTTP front.\<close>

lemma Good_serve_docker:
  assumes "Good s"
  shows "Good (serve_docker e ep r s)"
proof -
  obtain u w where cu: "run_state (currentUser (he_auth e) r) (sy_world s) = (u, w)" by fastforce
  have w: "Inv w" using keepsD [OF keeps_currentUser, of "sy_world s" "he_auth e" r] assms cu by (simp add: Good_def)
  show ?thesis
  proof (cases u)
    case None
    then show ?thesis
      using cu keepsD [OF keeps_response(3) w] assms by (simp add: serve_docker_def Good_def)
  next
    case (Some v)
    obtain h jobs where h: "docker_handler (he_docker e) ep (rq_path r) = (h, jobs)" by fastforce
    have fr: "accounts.framed h" "\<forall>f \<in> set jobs. accounts.framed f"
      using docker_handler_framed [of "he_docker e" ep "rq_path r"] h by simp_all
    obtain code body dkr w' where run: "run_docker h (sy_dkr s) w = ((code, body), dkr, w')" by (metis surj_pair)
    have "Inv w'"
      using run w fr(1) unfolding run_docker_def dockerReady_def accounts.framed_def
      by (auto simp: case_prod_unfold split: option.splits intro!: Inv_frame [of w])
    from keepsD [OF keeps_response(2) this] show ?thesis
      using cu Some h run fr(2) assms by (auto simp: serve_docker_def Good_def)
  qed
qed

lemma keeps_open_ws: "keeps (open_ws e acc r)"
  unfolding open_ws_def by (intro keep_rules keeps_currentUser)

lemma keeps_serveSPA: "keeps (serveSPA e path)" "keeps (plain_error code msg)"
  unfolding serveSPA_def plain_error_def by (intro keep_rules)+

lemma Good_serve_target:
  assumes "\<And>k. d0 \<le> k \<Longrightarrow> inv_tok (rand_token (he_auth e) k 24)" "\<And>k. d0 \<le> k \<Longrightarrow> ses_tok (rand_token (he_auth e) k 32)"
    and "Good s"
  shows "Good (serve_target e t path r s)"
proof (cases t)
  case (ToAccount ep)
  then show ?thesis by simp (intro Good_on_world keeps_serve assms; assumption)
next
  case ToWS
  then show ?thesis
    using keepsD [OF keeps_open_ws, of "sy_world s" "he_auth e" "he_accept e" r] assms(3)
    by (auto simp: serve_ws_def Good_def case_prod_unfold split: option.splits)
qed (use assms(3) in \<open>simp_all add: Good_on_world keeps_response keeps_serveSPA Good_serve_docker\<close>)

lemma Good_handle_http:
  assumes "\<And>k. d0 \<le> k \<Longrightarrow> inv_tok (rand_token (he_auth e) k 24)" "\<And>k. d0 \<le> k \<Longrightarrow> ses_tok (rand_token (he_auth e) k 32)"
    and "Good s"
  shows "Good (handle_http e q s)"
proof -
  have "Good (s\<lparr>sy_world := (sy_world s)\<lparr>w_rw := fresh_response\<rparr>\<rparr>)"
    using assms(3) by (simp add: Good_def Inv_def)
  then show ?thesis
    using Good_serve_target [OF assms(1,2)]
    by (auto simp: handle_http_def Let_def case_prod_unfold keeps_serveSPA keeps_response intro!: Good_on_world split: option.splits)
qed

lemma keeps_raid_pass: "keeps (raid_pass e)"
proof -
  have "keeps (State (\<lambda>w. let rw = raid_sweep ((re e)\<lparr>rw_notif := True\<rparr>) now \<lparr>rw_store = w_st w, rw_host = w_host w, rw_msgs = []\<rparr>
      in (rw_msgs rw, w\<lparr>w_st := rw_store rw, w_host := rw_host rw\<rparr>)))" for now
    by (rule keepsI) (simp add: Let_def, erule Inv_frame, simp_all add: raid_sweep_accounts)
  moreover have "keeps (notify_each (\<lambda>(ev, title, body). srv_notify e ev title body) ms)" for ms
    by (induction ms) (auto intro!: keep_rules keeps_srv_notify split: prod.splits)
  ultimately show ?thesis unfolding raid_pass_def by (intro keep_rules)
qed

definition PGood :: "'d process_state \<Rightarrow> bool" where
  "PGood p \<longleftrightarrow> Good (ps_sys p)"

lemma PGood_on_sys: "(\<And>s. Good s \<Longrightarrow> Good (f s)) \<Longrightarrow> PGood p \<Longrightarrow> PGood (on_sys f p)"
  by (simp add: PGood_def on_sys_def)

lemma PGood_manager: "accounts.framed f \<Longrightarrow> PGood p \<Longrightarrow> PGood (on_sys (\<lambda>s. snd (on_manager f s)) p)"
  by (intro PGood_on_sys Good_on_manager)

lemma Good_run_job: "Good s \<Longrightarrow> Good (run_job i s)"
proof -
  assume s: "Good s"
  have "set (drop_nth i (sy_spawned s)) \<subseteq> set (sy_spawned s)"
    by (auto simp: drop_nth_def dest: in_set_takeD in_set_dropD)
  with s have "Good (s\<lparr>sy_spawned := drop_nth i (sy_spawned s)\<rparr>)" by (auto simp: Good_def)
  with s show ?thesis by (auto simp: run_job_def Good_def [of s] intro!: Good_on_manager)
qed

lemma PGood_step:
  assumes "\<And>k. d0 \<le> k \<Longrightarrow> inv_tok (rand_token (se_auth e) k 24)" "\<And>k. d0 \<le> k \<Longrightarrow> ses_tok (rand_token (se_auth e) k 32)"
    and p: "PGood p"
  shows "PGood (sys_step e ev p)"
proof -
  have cli: "PGood (on_sys (client_op e op) p)" for op
    using p by (intro PGood_on_sys) (simp_all add: client_op_def Good_hub)
  have "PGood (sys_action e ev p)"
  proof (cases ev)
    case (Request q)
    then show ?thesis using Good_handle_http [OF assms(1,2)] p by (simp add: PGood_on_sys)
  next
    case (JobRuns i)
    then show ?thesis using p by (simp add: PGood_on_sys Good_run_job)
  next
    case (WatchTick i)
    have "Good (snd (on_manager (watch_round (se_docker e) jid name) (ps_sys p)))" for jid name
      using p by (intro Good_on_manager accounts.framed_settle) (simp add: PGood_def)
    then show ?thesis using WatchTick p by (auto simp: watch_tick_def PGood_def case_prod_unfold)
  next
    case (MetricsTick rd)
    have "Good (snd (on_manager (poll_metrics_round (se_docker e) (se_stats e) (se_md e) (w_host (sy_world (ps_sys p))) rd
        (ps_collector p) (ps_peaks p)) (ps_sys p)))"
      using p by (intro Good_on_manager framed_rounds) (simp add: PGood_def)
    then show ?thesis
      using MetricsTick p by (auto simp: metrics_tick_def PGood_def Good_hub split: prod.splits option.splits)
  next
    case RaidTick
    then show ?thesis using p by (simp add: PGood_on_sys Good_on_world keeps_raid_pass)
  next
    case (ClientGetsJobs i)
    then show ?thesis using p by (auto simp: PGood_def on_sys_def client_op_def Good_hub split: option.splits)
  qed (simp_all add: p PGood_manager cli framed_rounds accounts.framed_stacks accounts.framed_Update accounts.framed_checks)
  then show ?thesis by (simp add: sys_step_def PGood_on_sys Good_dispatch)
qed

theorem runs_Inv:
  assumes "\<And>k. d0 \<le> k \<Longrightarrow> inv_tok (rand_token (se_auth e) k 24)" "\<And>k. d0 \<le> k \<Longrightarrow> ses_tok (rand_token (se_auth e) k 32)"
    and "sys_runs e p0 p" "PGood p0"
  shows "PGood p"
  using assms(3) by induction (use assms(4) PGood_step [OF assms(1,2)] in auto)

text \<open>The start establishes it from a store that satisfies it.\<close>

lemma keeps_Bootstrap:
  assumes "\<And>k. d0 \<le> k \<Longrightarrow> inv_tok (rand_token e k 24)"
  shows "keeps (Bootstrap e origin)"
  unfolding Bootstrap_def by (intro keep_rules keeps_NewInvite assms)

lemma Good_attach: "Inv w \<Longrightarrow> PGood (attach_docker b w)"
proof -
  assume w: "Inv w"
  then have g: "Good \<lparr>sy_world = w, sy_dkr = d, sy_spawned = [], sy_hub = h, sy_next = n\<rparr>" for d :: "'d mgr option" and h n
    by (simp add: Good_def)
  have "Good (snd (on_manager (start_docker (se_docker (bt_sys b)))
      \<lparr>sy_world = w, sy_dkr = d, sy_spawned = [], sy_hub = h, sy_next = n\<rparr>))" for d h n
    using w by (intro Good_on_manager framed_rounds) (simp add: Good_def)
  then show ?thesis
    using w by (simp add: attach_docker_def Let_def PGood_def case_prod_unfold Good_dispatch split: sum.splits) (simp add: Good_def)
qed

theorem serving_PGood:
  assumes "\<And>k. d0 \<le> k \<Longrightarrow> inv_tok (rand_token (se_auth (bt_sys b)) k 24)"
    and "main_serve b st = Serving url p" "accounts_ok st" "P st" "d0 \<le> bt_draws b"
  shows "PGood p"
proof -
  have w0: "Inv (initial_world b st)" using assms by (simp add: Inv_def initial_world_def)
  obtain w1 where w1: "run_state (NewAuthManager (se_auth (bt_sys b)) (bt_rpID b) (bt_origin b) '''') (initial_world b st) = (Inr (), w1)"
    and i1: "Inv w1"
    using assms(2) w0 by (auto simp: main_serve_def NewAuthManager_def Inv_def Let_def split: sum.splits prod.splits)
  obtain u w2 where w2: "run_state (Bootstrap (se_auth (bt_sys b)) (bt_origin b)) w1 = (u, w2)" by fastforce
  have i2: "Inv w2" using keepsD [OF keeps_Bootstrap i1, of "se_auth (bt_sys b)" "bt_origin b"] assms(1) w2 by simp
  obtain m where m: "newOIDC (bt_oidc b) (bt_origin b) = Inr m"
    using assms(2) w1 w2 by (auto simp: main_serve_def split: sum.splits)
  let ?w3 = "(case m of None \<Rightarrow> w2 | Some m \<Rightarrow> w2\<lparr>w_oidc := m\<rparr>)\<lparr>w_notif := Some (SetBroadcaster True (NewNotifier (ne (se_auth (bt_sys b)))))\<rparr>"
  have p: "p = on_sys (\<lambda>s. s\<lparr>sy_world := (sy_world s)\<lparr>w_raid := True\<rparr>\<rparr>) (attach_docker b ?w3)"
    using assms(2) w1 w2 m by (auto simp: main_serve_def Let_def split: sum.splits)
  have "PGood (attach_docker b ?w3)"
    using i2 by (intro Good_attach) (simp add: Inv_def split: option.splits)
  then show ?thesis unfolding p by (rule PGood_on_sys [rotated]) (simp add: Good_def Inv_def)
qed

end

section \<open>The accounts in every run\<close>

interpretation process_integrity: system_invariant "\<lambda>_. True" "\<lambda>_. True" "\<lambda>_. True" d0 for d0
  by unfold_locales

interpretation process_admins: system_invariant
  "\<lambda>s. has_admin s \<and> \<not> db_fault s ''CountAdmins''" "\<lambda>_. True" "\<lambda>_. True" d0 for d0
  by unfold_locales (auto simp: account_part_def has_admin_def)

interpretation process_spent: system_invariant "spent t" "\<lambda>x. x \<noteq> t" "\<lambda>_. True" d0 for t d0
  by unfold_locales (auto simp: account_part_def spent_def)

interpretation process_ended: system_invariant "ended tok" "\<lambda>_. True" "\<lambda>x. x \<noteq> tok" d0 for tok d0
  by unfold_locales (auto simp: account_part_def ended_def)

text \<open>
  \<^bold>\<open>C9\<close>. The account tables stay consistent in every run of the process: after a start on a consistent store, whatever
  requests, jobs, polling rounds and connection steps follow in whatever order, whatever the daemon, the host and the
  libraries answer and whichever statements fail, ids, tokens and credential ids are unique, and passkeys, sessions, invites and
  external identities refer to users that exist.
\<close>

theorem process_keeps_accounts:
  assumes "main_serve b st = Serving url p0" "accounts_ok st" "sys_runs (bt_sys b) p0 p"
  shows "accounts_ok (w_st (sy_world (ps_sys p)))"
proof -
  have "process_integrity.PGood 0 p0" using process_integrity.serving_PGood [of 0 b st url p0] assms by simp
  then have "process_integrity.PGood 0 p" using process_integrity.runs_Inv [of 0 "bt_sys b" p0 p] assms(3) by simp
  then show ?thesis
    by (simp add: process_integrity.PGood_def process_integrity.Good_def integrity.Inv_def)
qed


text \<open>A start with the simulated daemon on a store with one admin.\<close>

definition demo_sys :: "sim sys_env" where
  "demo_sys = \<lparr>se_http = demo_http, se_stats = (\<lambda>_ d. (Inl (Errorf ''no stats''), d, 0)), se_md = demo_host, se_enc = (\<lambda>_. True),
     se_metrics = (\<lambda>_. ''metrics'')\<rparr>"

definition demo_boot :: "sim boot_env" where
  "demo_boot = \<lparr>bt_sys = demo_sys, bt_rpID = ''v'', bt_origin = ''https://v'',
     bt_oidc = \<lparr>var_ISSUER = '''', var_CLIENT_ID = '''', var_CLIENT_SECRET = '''', var_REDIRECT_URL = '''', var_SCOPES = '''',
       var_ADMIN_GROUPS = '''', var_NAME = ''''\<rparr>,
     bt_client = Inr (mg_docker sim_mgr), bt_draws = 0, bt_clock = 100 * sec, bt_host = ''h''\<rparr>"

lemma demo_serves:
  obtains p where "main_serve demo_boot (w_st ada_world) = Serving None p"
proof -
  let ?e = "se_auth (bt_sys demo_boot)" and ?w = "initial_world demo_boot (w_st ada_world)"
  have "TrimSpace '''' = ''''" by code_simp
  then have o: "newOIDC (bt_oidc demo_boot) org = Inr None" for org
    by (simp add: newOIDC_def demo_boot_def)
  have "webauthn_New ?e a c d = Inr ()" for a c d
    by (simp add: demo_boot_def demo_sys_def demo_http_def demo_env_def)
  then have a: "run_state (NewAuthManager ?e rp org nm) ?w = (Inr (), ?w)" for rp org nm
    by (simp add: NewAuthManager_def initial_world_def)
  have b: "run_state (Bootstrap ?e org) ?w = (Inr '''', ?w)" for org
    by (simp add: Bootstrap_def CountUsers_def initial_world_def demo_defs)
  show thesis
    by (rule that) (simp add: main_serve_def a b o Let_def)
qed

theorem process_keeps_accounts_witness:
  "\<exists>p0. main_serve demo_boot (w_st ada_world) = Serving None p0 \<and>
     accounts_ok (w_st (sy_world (ps_sys (sys_step demo_sys AutoUpdateTick (sys_step demo_sys (Request stop_request) p0)))))"
proof -
  obtain p0 where p0: "main_serve demo_boot (w_st ada_world) = Serving None p0" by (rule demo_serves)
  have "bt_sys demo_boot = demo_sys" by (simp add: demo_boot_def)
  with process_keeps_accounts [OF p0 ada_world_ok sys_runs.event [OF sys_runs.event [OF sys_runs.started]], of AutoUpdateTick "Request stop_request"]
  show ?thesis using p0 by auto
qed


section \<open>Signing out\<close>

lemma runs_good:
  assumes "main_serve b st = Serving url p0" "accounts_ok st" "sys_runs (bt_sys b) p0 p"
  shows "process_integrity.Good 0 (ps_sys p)"
proof -
  have "process_integrity.PGood 0 p0" using process_integrity.serving_PGood [of 0 b st url p0] assms by simp
  then show ?thesis
    using process_integrity.runs_Inv [of 0 "bt_sys b" p0 p] assms(3) by (simp add: process_integrity.PGood_def)
qed

lemma logout_route: "route ''POST'' [''auth'', ''logout''] = (ToAccount Logout, '''')"
  using route_of_match [of "''POST''" "[Lit ''auth'', Lit ''logout'']" "ToAccount Logout" "''POST''" "[''auth'', ''logout'']"]
  by (simp add: routes_def match_method_def)

lemma logout_path: "segments ''/auth/logout'' = [''auth'', ''logout'']" "cleanPath ''/auth/logout'' = ''/auth/logout''"
  by code_simp+

lemma csrf_fresh: "csrf_Check e (w\<lparr>w_rw := rw\<rparr>) q = csrf_Check e w q"
  by (simp add: csrf_Check_def is_exempt_def)

lemma logout_request_form:
  assumes "hr_Method q = ''POST''" "hr_Path q = ''/auth/logout''" "csrf_Check e (sy_world s) q = None"
  shows "handle_http e q s = on_world (handleLogout (he_auth e) ((hr_req q)\<lparr>rq_path := ''''\<rparr>))
    (s\<lparr>sy_world := (sy_world s)\<lparr>w_rw := fresh_response\<rparr>\<rparr>)"
  using assms by (simp add: handle_http_def Let_def logout_path logout_route csrf_fresh)

lemma logout_request_ends:
  assumes "hr_Method q = ''POST''" "hr_Path q = ''/auth/logout''" "csrf_Check e (sy_world s) q = None"
    and "session_cookie (hr_req q) (sy_world s) = Some tok" "tok \<noteq> ''''" "\<not> db_fault (w_st (sy_world s)) ''DeleteSession''"
  shows "ended tok (w_st (sy_world (handle_http e q s)))"
  using assms(4-6) unfolding logout_request_form [OF assms(1-3)]
  by (auto simp: on_world_def handleLogout_def req_cookie_def session_cookie_def DeleteSession_def
      clearCookie_def setCookie_def writeJSON_def WriteHeader_def fresh_response_def ended_def)

lemma ended_not_authenticated:
  "ended tok (w_st w) \<Longrightarrow> session_cookie r w = Some tok \<Longrightarrow> \<not> authenticated r w"
  by (auto simp: ended_def authenticated_def)


text \<open>The same start on a machine without a Docker daemon, and the request that signs Ada out.\<close>

definition bare_boot :: "sim boot_env" where
  "bare_boot = demo_boot\<lparr>bt_client := Inl (Errorf ''no socket'')\<rparr>"

definition logout_http :: http_request where
  "logout_http = \<lparr>hr_Method = ''POST'', hr_Path = ''/auth/logout'', hr_Host = ''v'', hr_SecFetchSite = ''same-origin'',
     hr_Origin = '''', hr_req = plain_request\<rparr>"

lemma bare_serves:
  obtains p where "main_serve bare_boot (w_st ada_world) = Serving None p" "w_st (sy_world (ps_sys p)) = w_st ada_world"
    "w_cfg (sy_world (ps_sys p)) = w_cfg ada_world" "sy_dkr (ps_sys p) = None" "w_outs (sy_world (ps_sys p)) = []"
    "w_clock (sy_world (ps_sys p)) = 100 * sec"
proof -
  let ?e = "se_auth (bt_sys bare_boot)" and ?w = "initial_world bare_boot (w_st ada_world)"
  have t: "TrimSpace '''' = ''''" "HasPrefix ''https://v'' ''https://''" by code_simp+
  then have o: "newOIDC (bt_oidc bare_boot) org = Inr None" for org
    by (simp add: newOIDC_def bare_boot_def demo_boot_def)
  have "webauthn_New ?e a c d = Inr ()" for a c d
    by (simp add: bare_boot_def demo_boot_def demo_sys_def demo_http_def demo_env_def)
  then have a: "run_state (NewAuthManager ?e rp org nm) ?w = (Inr (), ?w)" for rp org nm
    by (simp add: NewAuthManager_def initial_world_def)
  have b: "run_state (Bootstrap ?e org) ?w = (Inr '''', ?w)" for org
    by (simp add: Bootstrap_def CountUsers_def initial_world_def demo_defs)
  show thesis
    by (rule that, simp add: main_serve_def a b o Let_def)
       (simp_all add: attach_docker_def bare_boot_def demo_boot_def on_sys_def initial_world_def Let_def ada_world_def demo_world_def t(2))
qed


section \<open>Live channels\<close>

text \<open>Whether a client is connected, and whether it was an admin when it connected.\<close>

definition channel :: "hub \<Rightarrow> nat \<Rightarrow> bool option" where
  "channel h i = map_option cl_admin (map_of (hb_clients h) i)"

lemma map_of_keyed: "map_of (map (\<lambda>(j, c). (j, f j c)) xs) i = map_option (f i) (map_of xs i)"
  by (induction xs) auto

lemma map_of_keyed_admin:
  "(\<And>j c. cl_admin (f j c) = cl_admin c) \<Longrightarrow> map_option cl_admin (map_of (map (\<lambda>(j, c). (j, f j c)) xs) i) = map_option cl_admin (map_of xs i)"
  by (simp add: map_of_keyed option.map_comp comp_def)

lemma channel_on_client: "(\<And>c. cl_admin (f c) = cl_admin c) \<Longrightarrow> channel (on_client j f h) i = channel h i"
  by (simp add: channel_def on_client_def map_of_keyed_admin)

lemma channel_hub [simp]:
  "channel (hub_Broadcast enc msg h) i = channel h i"
  "channel (hub_register j adm h) i = (if i = j then Some adm else channel h i)"
  "channel (on_client j replay_next h) i = channel h i" "channel (on_client j (replayJobs enc jobs) h) i = channel h i"
  "channel (on_client j write_one h) i = channel h i"
  "channel (hub_remove j h) i = (if i = j then None else channel h i)"
proof -
  show "channel (hub_Broadcast enc msg h) i = channel h i"
    by (simp add: channel_def hub_Broadcast_def map_of_keyed_admin offer_def)
  show "channel (hub_register j adm h) i = (if i = j then Some adm else channel h i)"
    by (simp add: channel_def hub_register_def update_conv)
  show "channel (hub_remove j h) i = (if i = j then None else channel h i)"
    by (simp add: channel_def hub_remove_def delete_conv)
qed (rule channel_on_client, simp add: replay_next_def replayJobs_def write_one_def offer_def split: list.splits)+

definition numbered :: "'d system \<Rightarrow> bool" where
  "numbered s \<longleftrightarrow> (\<forall>i. channel (sy_hub s) i \<noteq> None \<longrightarrow> i < sy_next s)"

text \<open>\<open>s'\<close> has the channels of \<open>s\<close>, and later ones.\<close>

definition channels_kept :: "'d system \<Rightarrow> 'd system \<Rightarrow> bool" where
  "channels_kept s s' \<longleftrightarrow> numbered s' \<and> (\<forall>i < sy_next s. channel (sy_hub s') i = channel (sy_hub s) i) \<and> sy_next s \<le> sy_next s'"

lemma channels_kept_same: "\<lbrakk>numbered s; \<And>i. channel (sy_hub s') i = channel (sy_hub s) i; sy_next s' = sy_next s\<rbrakk> \<Longrightarrow> channels_kept s s'"
  by (simp add: channels_kept_def numbered_def)

lemma channels_kept_trans: "channels_kept s s1 \<Longrightarrow> channels_kept s1 s2 \<Longrightarrow> channels_kept s s2"
  by (simp add: channels_kept_def)

lemma hub_frames [simp]:
  "sy_hub (on_world a s) = sy_hub s" "sy_next (on_world a s) = sy_next s"
  "sy_hub (snd (on_manager f s)) = sy_hub s" "sy_next (snd (on_manager f s)) = sy_next s"
  "sy_hub (serve_docker e ep r s) = sy_hub s" "sy_next (serve_docker e ep r s) = sy_next s"
  "sy_hub (run_job i s) = sy_hub s" "sy_next (run_job i s) = sy_next s"
  by (auto simp: on_world_def on_manager_def serve_docker_def run_job_def case_prod_unfold split: option.splits)

lemma dispatch_channels: "numbered s \<Longrightarrow> channels_kept s (dispatch e s)"
proof -
  assume n: "numbered s"
  have outs: "channel (sy_hub (fold (dispatch_out e) xs s)) i = channel (sy_hub s) i \<and> sy_next (fold (dispatch_out e) xs s) = sy_next s" for xs i s
  proof (induction xs arbitrary: s)
    case (Cons x xs)
    then show ?case by (cases x) simp_all
  qed simp
  have push: "channel (fold (push_event e) ds h) i = channel h i" for ds h i
  proof (induction ds arbitrary: h)
    case (Cons d ds)
    then show ?case by (cases d) simp_all
  qed simp
  show ?thesis
    by (rule channels_kept_same [OF n]) (simp_all add: dispatch_def push_events_def push outs split: option.splits)
qed

lemma handle_http_channels: "numbered s \<Longrightarrow> channels_kept s (handle_http e q s)"
proof -
  assume n: "numbered s"
  have ws: "channels_kept s (serve_ws e r s')" if "sy_hub s' = sy_hub s" "sy_next s' = sy_next s" for r s'
    using n that by (auto simp: serve_ws_def channels_kept_def numbered_def less_Suc_eq case_prod_unfold split: option.splits)
  have tgt: "channels_kept s (serve_target e t path r s')" if "sy_hub s' = sy_hub s" "sy_next s' = sy_next s" for t path r s'
    using that n by (cases t) (auto simp: ws intro!: channels_kept_same)
  show ?thesis
    using n by (auto simp: handle_http_def Let_def case_prod_unfold tgt intro!: channels_kept_same split: option.splits)
qed

lemma step_channels:
  assumes "numbered (ps_sys p)"
  shows "numbered (ps_sys (sys_step e ev p)) \<and>
    (\<forall>i. ev \<noteq> ClientLeaves i \<and> channel (sy_hub (ps_sys p)) i \<noteq> None \<longrightarrow>
       channel (sy_hub (ps_sys (sys_step e ev p))) i = channel (sy_hub (ps_sys p)) i)"
proof (cases "\<exists>j. ev = ClientLeaves j")
  case True
  then obtain j where ev: "ev = ClientLeaves j" by blast
  let ?s = "client_op e (Unregister j) (ps_sys p)"
  have "numbered ?s" using assms by (simp add: numbered_def client_op_def)
  from dispatch_channels [OF this, of e] assms show ?thesis
    by (auto simp: ev sys_step_def on_sys_def channels_kept_def client_op_def numbered_def)
next
  case False
  have "channels_kept (ps_sys p) (ps_sys (sys_action e ev p))"
  proof (cases ev)
    case (Request q)
    then show ?thesis using handle_http_channels [OF assms] by (simp add: on_sys_def)
  next
    case (WatchTick i)
    then show ?thesis
      using assms by (auto simp: watch_tick_def case_prod_unfold intro!: channels_kept_same)
  next
    case (MetricsTick rd)
    then show ?thesis
      using assms by (auto simp: metrics_tick_def case_prod_unfold intro!: channels_kept_same split: option.splits)
  next
    case (ClientGetsJobs i)
    then show ?thesis
      using assms by (auto simp: on_sys_def client_op_def intro!: channels_kept_same split: option.splits)
  qed (use False assms in \<open>auto simp: on_sys_def client_op_def intro!: channels_kept_same\<close>)
  moreover from this have "channels_kept (ps_sys (sys_action e ev p)) (ps_sys (sys_step e ev p))"
    using dispatch_channels by (auto simp: sys_step_def on_sys_def channels_kept_def)
  ultimately have "channels_kept (ps_sys p) (ps_sys (sys_step e ev p))" by (rule channels_kept_trans)
  then show ?thesis using assms by (auto simp: channels_kept_def numbered_def)
qed

lemma start_numbered:
  assumes "main_serve b st = Serving url p"
  shows "numbered (ps_sys p)"
proof -
  have n: "numbered (dispatch (bt_sys b) s)" if "sy_hub s = newHub" for s
    using that dispatch_channels [of s "bt_sys b"] by (simp add: numbered_def channel_def newHub_def channels_kept_def)
  then have "numbered (dispatch (bt_sys b) (snd (on_manager f s)))" if "sy_hub s = newHub" for s and f :: "('a, (string \<times> string) list) op"
    using that by simp
  then have att: "numbered (ps_sys (attach_docker b w))" for w
    by (simp add: attach_docker_def Let_def case_prod_unfold split: sum.splits) (simp add: numbered_def channel_def newHub_def)
  obtain w where "p = on_sys (\<lambda>s. s\<lparr>sy_world := (sy_world s)\<lparr>w_raid := True\<rparr>\<rparr>) (attach_docker b w)"
    using assms by (auto simp: main_serve_def Let_def split: sum.splits prod.splits)
  then show ?thesis using att [of w] by (simp add: on_sys_def numbered_def)
qed

text \<open>
  \<^bold>\<open>C39\<close>. Only its own connection ends a live channel. In every run, a client that is connected is still connected after
  any other event, and with the rights it connected with: no request takes it away, neither the logout
  of the session it was opened with, nor the deletion of its user, nor the loss of the user's admin rights.
\<close>

theorem live_channel_outlives_session:
  assumes "main_serve b st = Serving url p0" "sys_runs (bt_sys b) p0 p"
    and "channel (sy_hub (ps_sys p)) i = Some admin" "ev \<noteq> ClientLeaves i"
  shows "channel (sy_hub (ps_sys (sys_step (bt_sys b) ev p))) i = Some admin"
proof -
  have "numbered (ps_sys p)"
    using assms(2) by induction (use start_numbered [OF assms(1)] step_channels in auto)
  from step_channels [OF this, of "bt_sys b" ev] assms(3,4) show ?thesis by auto
qed

text \<open>Ada opens the live channel as an admin and signs out; the channel is still there, and still an admin's.\<close>

definition ws_http :: http_request where
  "ws_http = logout_http\<lparr>hr_Method := ''GET'', hr_Path := ''/ws''\<rparr>"

lemma ws_opens:
  assumes "w_st (sy_world s) = w_st ada_world" "w_cfg (sy_world s) = w_cfg ada_world" "w_clock (sy_world s) = 100 * sec"
  shows "channel (sy_hub (handle_http demo_http ws_http s)) (sy_next s) = Some True"
proof -
  have seg: "segments ''/ws'' = [''ws'']" "cleanPath ''/ws'' = ''/ws''" by code_simp+
  have r: "route ''GET'' [''ws''] = (ToWS, '''')"
    using route_of_match [of "''GET''" "[Lit ''ws'']" ToWS "''GET''" "[''ws'']"] by (simp add: routes_def match_method_def)
  let ?s = "s\<lparr>sy_world := (sy_world s)\<lparr>w_rw := fresh_response\<rparr>\<rparr>"
  have h: "handle_http demo_http ws_http s = serve_ws demo_http (plain_request\<lparr>rq_path := ''''\<rparr>) ?s"
    by (simp add: handle_http_def Let_def ws_http_def logout_http_def csrf_Check_def seg r)
  have "fst (run_state (currentUser demo_env (plain_request\<lparr>rq_path := ''''\<rparr>)) (sy_world ?s)) = Some (ada, ''s1'')"
    using assms
    by (simp add: currentUser_def req_cookie_def stamped_def SessionUser_def GetUser_def cookieName_def plain_request_def demo_defs)
  then obtain w where "run_state (currentUser demo_env (plain_request\<lparr>rq_path := ''''\<rparr>)) (sy_world ?s) = (Some (ada, ''s1''), w)"
    by (metis prod.collapse)
  moreover have "user_IsAdmin ada" by (simp add: ada_def)
  ultimately show ?thesis
    unfolding h by (simp add: serve_ws_def open_ws_def demo_http_def)
qed

theorem live_channel_outlives_session_witness:
  "\<exists>p0. main_serve bare_boot (w_st ada_world) = Serving None p0 \<and>
     (let p = sys_step demo_sys (Request ws_http) p0
      in channel (sy_hub (ps_sys p)) (sy_next (ps_sys p0)) = Some True \<and>
         channel (sy_hub (ps_sys (sys_step demo_sys (Request logout_http) p))) (sy_next (ps_sys p0)) = Some True)"
proof -
  obtain p0 where p0: "main_serve bare_boot (w_st ada_world) = Serving None p0" "w_st (sy_world (ps_sys p0)) = w_st ada_world"
    "w_cfg (sy_world (ps_sys p0)) = w_cfg ada_world" "sy_dkr (ps_sys p0) = None" "w_outs (sy_world (ps_sys p0)) = []"
    "w_clock (sy_world (ps_sys p0)) = 100 * sec"
    by (rule bare_serves)
  have e: "bt_sys bare_boot = demo_sys" "se_http demo_sys = demo_http" by (simp_all add: bare_boot_def demo_boot_def demo_sys_def)
  let ?s = "handle_http demo_http ws_http (ps_sys p0)"
  have k: "channels_kept (ps_sys p0) ?s" using handle_http_channels start_numbered [OF p0(1)] by blast
  then have "sy_next (ps_sys p0) < sy_next ?s"
    using ws_opens [OF p0(2,3,6)] by (auto simp: channels_kept_def numbered_def)
  then have c: "channel (sy_hub (ps_sys (sys_step demo_sys (Request ws_http) p0))) (sy_next (ps_sys p0)) = Some True"
    using dispatch_channels [of ?s demo_sys] k ws_opens [OF p0(2,3,6)]
    by (simp add: sys_step_def on_sys_def e channels_kept_def)
  moreover have "sys_runs demo_sys p0 (sys_step demo_sys (Request ws_http) p0)"
    by (intro sys_runs.event sys_runs.started)
  ultimately show ?thesis
    using live_channel_outlives_session [OF p0(1), of "sys_step demo_sys (Request ws_http) p0" _ True "Request logout_http"] p0(1)
    by (auto simp: e Let_def)
qed

end
