(* ===== verification/Fake_Idp.thy ===== *)
theory Fake_Idp
  imports Oidc
begin

text \<open>
  The identity provider of the tests (\<^verbatim>\<open>internal/oidc/fakeidp/fakeidp.go\<close>): its token endpoint mints an ID token from
  configured claims and checks the PKCE verifier. Discovery, the key set and the signature are those of
  \<^verbatim>\<open>oidctest\<close>; signing is the parameter \<open>sign\<close>, the encoded digest of a verifier the parameter \<open>hash\<close>. With a
  provider that answers like this one, a login that is begun is also finished.
\<close>

section \<open>The provider\<close>

datatype claim_value = ClaimText string | ClaimNumber int | ClaimTexts "string list"

type_synonym claim_map = "(string \<times> claim_value) list"

record fake_provider =
  fp_URL :: string
  fp_ClientID :: string
  fp_Claims :: claim_map
  fp_Nonce :: string
  fp_Challenge :: string
  fp_pkceOK :: bool

definition NewFake :: "string \<Rightarrow> string \<Rightarrow> fake_provider" where
  "NewFake url clientID =
     \<lparr>fp_URL = url, fp_ClientID = clientID, fp_Claims = [], fp_Nonce = '''', fp_Challenge = '''', fp_pkceOK = False\<rparr>"

definition minted_claims :: "int \<Rightarrow> fake_provider \<Rightarrow> claim_map" where
  "minted_claims now p =
     (let claims = AList.update ''iss'' (ClaimText (fp_URL p)) (fp_Claims p);
          claims = AList.update ''aud'' (ClaimText (fp_ClientID p)) claims;
          claims = AList.update ''exp'' (ClaimNumber (now + 3600)) claims
      in if fp_Nonce p \<noteq> '''' then AList.update ''nonce'' (ClaimText (fp_Nonce p)) claims else claims)"

text \<open>The response: the access token, its kind, the signed ID token and its lifetime.\<close>

definition handleToken ::
  "(string \<Rightarrow> string) \<Rightarrow> (claim_map \<Rightarrow> string) \<Rightarrow> int \<Rightarrow> string \<Rightarrow> fake_provider \<Rightarrow> (string \<times> claim_value) list \<times> fake_provider" where
  "handleToken hash sign now verifier p =
     (let p = (if verifier \<noteq> '''' \<and> fp_Challenge p \<noteq> '''' then p\<lparr>fp_pkceOK := (hash verifier = fp_Challenge p)\<rparr> else p)
      in ([(''access_token'', ClaimText ''at''), (''token_type'', ClaimText ''Bearer''),
           (''id_token'', ClaimText (sign (minted_claims now p))), (''expires_in'', ClaimNumber 3600)], p))"

section \<open>What the client libraries make of it\<close>

text \<open>
  The token response as \<^verbatim>\<open>oauth2\<close> returns it, and the ID token as \<^verbatim>\<open>go-oidc\<close> does: issuer and nonce, and the claims decoded
  into Veery's struct, which fails on a claim of another type.
\<close>

fun text_of :: "claim_value option \<Rightarrow> string option" where
  "text_of None = Some ''''"
| "text_of (Some (ClaimText t)) = Some t"
| "text_of (Some _) = None"

fun texts_of :: "claim_value option \<Rightarrow> string list option" where
  "texts_of None = Some []"
| "texts_of (Some (ClaimTexts ts)) = Some ts"
| "texts_of (Some _) = None"

definition text_or_empty :: "claim_map \<Rightarrow> string \<Rightarrow> string" where
  "text_or_empty cl k = (case text_of (map_of cl k) of Some t \<Rightarrow> t | None \<Rightarrow> '''')"

definition token_of :: "claim_map \<Rightarrow> oauth_token" where
  "token_of resp = \<lparr>ot_access = text_or_empty resp ''access_token'',
     ot_id_token = (case map_of resp ''id_token'' of Some (ClaimText t) \<Rightarrow> Some t | _ \<Rightarrow> None)\<rparr>"

definition decode_claims :: "claim_map \<Rightarrow> claims res" where
  "decode_claims cl =
     (case (text_of (map_of cl ''sub''), text_of (map_of cl ''name''), text_of (map_of cl ''preferred_username''),
            text_of (map_of cl ''display_name''), text_of (map_of cl ''email''), texts_of (map_of cl ''groups'')) of
        (Some sub, Some name, Some pref, Some disp, Some email, Some groups) \<Rightarrow>
          Inr \<lparr>cl_Sub = sub, cl_Name = name, cl_PreferredUsername = pref, cl_DisplayName = disp, cl_Email = email, cl_Groups = groups\<rparr>
      | _ \<Rightarrow> Inl (Errorf ''json: cannot unmarshal''))"

definition id_token_of :: "claim_map \<Rightarrow> id_token" where
  "id_token_of cl = \<lparr>it_Issuer = text_or_empty cl ''iss'', it_Nonce = text_or_empty cl ''nonce'', it_Claims = decode_claims cl\<rparr>"

text \<open>
  An environment whose provider is \<open>p\<close>: the exchange returns what the token endpoint answers, at whatever time; a token
  that \<open>p\<close> signed for the client that asks verifies, to what it says; a signed token is not empty.
\<close>

definition backed_by :: "auth_env \<Rightarrow> (string \<Rightarrow> string) \<Rightarrow> (claim_map \<Rightarrow> string) \<Rightarrow> fake_provider \<Rightarrow> bool" where
  "backed_by e hash sign p \<longleftrightarrow>
     (\<forall>k oauth code v. \<exists>now. Exchange e k oauth code v = Inr (token_of (fst (handleToken hash sign now v p)))) \<and>
     (\<forall>k prov now. Verify e k prov (fp_ClientID p) (sign (minted_claims now p)) = Inr (id_token_of (minted_claims now p))) \<and>
     (\<forall>cl. sign cl \<noteq> '''')"

section \<open>A login that is begun is finished\<close>

lemma minted_lookup:
  "map_of (minted_claims now p) k =
     (if k = ''nonce'' \<and> fp_Nonce p \<noteq> '''' then Some (ClaimText (fp_Nonce p))
      else if k = ''exp'' then Some (ClaimNumber (now + 3600))
      else if k = ''aud'' then Some (ClaimText (fp_ClientID p))
      else if k = ''iss'' then Some (ClaimText (fp_URL p))
      else map_of (fp_Claims p) k)"
  by (simp add: minted_claims_def Let_def update_conv)

lemma minted_pkce: "minted_claims now (p\<lparr>fp_pkceOK := b\<rparr>) = minted_claims now p"
  by (simp add: minted_claims_def Let_def)

lemma exchanged_id_token: "ot_id_token (token_of (fst (handleToken hash sign now v p))) = Some (sign (minted_claims now p))"
  by (simp add: handleToken_def token_of_def minted_pkce Let_def)

lemma minted_identity:
  "decode_claims (minted_claims now p) = decode_claims (fp_Claims p)"
  "it_Issuer (id_token_of (minted_claims now p)) = fp_URL p"
  "fp_Nonce p \<noteq> '''' \<Longrightarrow> it_Nonce (id_token_of (minted_claims now p)) = fp_Nonce p"
  by (simp_all add: decode_claims_def id_token_of_def text_or_empty_def minted_lookup)

text \<open>A flow that was begun is there when it is asked for in time.\<close>

lemma started_flow:
  assumes "run_state (oidc_Start e) w = (Inr (url, st), w1)" "\<And>n. pass e n \<le> flowTTL" "\<And>k. rand_token e k 24 \<noteq> ''''"
  obtains flow prov where "map_of (om_flows (w_oidc w1)) st = Some flow" "lf_nonce flow \<noteq> ''''"
    "om_provider (w_oidc w1) = Some prov" "om_cfg (w_oidc w1) = om_cfg (w_oidc w)"
proof -
  obtain r w' where d: "run_state (discover e) w = (r, w')" by fastforce
  then obtain p oauth where r: "r = Inr (p, oauth)" using assms(1) by (auto simp: oidc_Start_def split: sum.splits)
  have prov: "om_provider (w_oidc w') = Some (p, oauth)" "om_cfg (w_oidc w') = om_cfg (w_oidc w)"
    using d r by (auto simp: discover_def Let_def split: option.splits sum.splits)
  show thesis
    using assms(1) d r prov
    by (auto simp: oidc_Start_def randToken_def put_flow_def map_of_sweep update_conv assms(2,3) not_less le_diff_conv
        intro!: that [of "\<lparr>lf_nonce = _, lf_verifier = _, lf_expires = _\<rparr>"])
qed

lemma finish_with_provider:
  assumes "map_of (om_flows (w_oidc w)) st = Some flow" "w_clock w + pass e (w_reads w) \<le> lf_expires flow"
    and "om_provider (w_oidc w) = Some (prov, oauth)" "backed_by e hash sign p"
    and "fp_ClientID p = oidc_ClientID (om_cfg (w_oidc w))" "fp_Nonce p = lf_nonce flow" "lf_nonce flow \<noteq> ''''"
    and "decode_claims (fp_Claims p) = Inr c" "cl_Sub c \<noteq> ''''"
  shows "\<exists>ident w'. run_state (oidc_Finish e st code) w = (Inr ident, w') \<and> id_Issuer ident = fp_URL p \<and> id_Subject ident = cl_Sub c"
proof -
  obtain now where ex: "Exchange e (w_draws w) oauth code (lf_verifier flow) = Inr (token_of (fst (handleToken hash sign now (lf_verifier flow) p)))"
    using assms(4) unfolding backed_by_def by blast
  have ve: "Verify e k pv (oidc_ClientID (om_cfg (w_oidc w))) (sign (minted_claims now p)) = Inr (id_token_of (minted_claims now p))"
    "sign cl \<noteq> ''''" for k pv cl
    using assms(4,5) unfolding backed_by_def by metis+
  have id: "it_Nonce (id_token_of (minted_claims now p)) = lf_nonce flow" "it_Claims (id_token_of (minted_claims now p)) = Inr c"
    using minted_identity(1) [of now p] minted_identity(3) [of p now] assms(6-8) by (simp_all add: id_token_of_def)
  have sub: "cl_Sub (claims_merge c u) = cl_Sub c" for u using assms(9) by (simp add: claims_merge_def)
  have acc: "\<exists>ident w'. run_state (accept_token e pv flow tok (id_token_of (minted_claims now p))) w'' = (Inr ident, w') \<and>
      id_Issuer ident = fp_URL p \<and> id_Subject ident = cl_Sub c" for pv tok w''
    using assms(9) sub minted_identity(2) [of now p]
    by (auto simp: accept_token_def id identity_of_def Let_def split: sum.splits)
  show ?thesis
    using assms(1-3) ex acc
    by (simp add: oidc_Finish_def takeFlow_def take_flow_def discover_def exchanged_id_token ve not_less)
qed

text \<open>
  \<^bold>\<open>C26\<close>. A login at a provider that answers like the one of the tests succeeds: when it was begun and the provider puts
  the nonce of that login into the token, finishing it in time with the state from the redirect yields the identity with
  the provider's issuer and the subject it was configured with, whatever the code and the userinfo endpoint.
\<close>

theorem honest_login_succeeds:
  assumes "run_state (oidc_Start e) w = (Inr (url, st), w1)" "\<And>n. pass e n \<le> flowTTL" "\<And>k. rand_token e k 24 \<noteq> ''''"
    and "backed_by e hash sign p" "fp_ClientID p = oidc_ClientID (om_cfg (w_oidc w))"
    and "decode_claims (fp_Claims p) = Inr c" "cl_Sub c \<noteq> ''''"
  shows "\<exists>flow. map_of (om_flows (w_oidc w1)) st = Some flow \<and>
    (\<forall>w2 code. w_oidc w2 = w_oidc w1 \<and> w_clock w2 + pass e (w_reads w2) \<le> lf_expires flow \<and> fp_Nonce p = lf_nonce flow \<longrightarrow>
       (\<exists>ident w'. run_state (oidc_Finish e st code) w2 = (Inr ident, w') \<and>
          id_Issuer ident = fp_URL p \<and> id_Subject ident = cl_Sub c))"
proof (rule started_flow [OF assms(1-3)])
  fix flow prov
  assume f: "map_of (om_flows (w_oidc w1)) st = Some flow" "lf_nonce flow \<noteq> ''''"
    and pv: "om_provider (w_oidc w1) = Some prov" "om_cfg (w_oidc w1) = om_cfg (w_oidc w)"
  have "\<exists>ident w'. run_state (oidc_Finish e st code) w2 = (Inr ident, w') \<and> id_Issuer ident = fp_URL p \<and> id_Subject ident = cl_Sub c"
    if "w_oidc w2 = w_oidc w1" "w_clock w2 + pass e (w_reads w2) \<le> lf_expires flow" "fp_Nonce p = lf_nonce flow" for w2 code
    using finish_with_provider [of w2 st flow e "fst prov" "snd prov" hash sign p c code] assms(4-7) f pv that by simp
  with f(1) show ?thesis by blast
qed

text \<open>A provider with one user, and an environment that answers as it does.\<close>

definition fake_ada :: fake_provider where
  "fake_ada = (NewFake ''https://id'' ''veery'')\<lparr>fp_Claims := [(''sub'', ClaimText ''ada''), (''groups'', ClaimTexts [''admins''])],
     fp_Nonce := ''tok'' @ nat_text 2\<rparr>"

definition fake_env :: auth_env where
  "fake_env = demo_env\<lparr>
     Exchange := (\<lambda>k oauth code v. Inr (token_of (fst (handleToken id (\<lambda>_. ''signed'') 0 v fake_ada)))),
     Verify := (\<lambda>k prov client raw. Inr (id_token_of (minted_claims 0 fake_ada)))\<rparr>"

lemma fake_backed: "backed_by fake_env id (\<lambda>_. ''signed'') fake_ada"
proof -
  have "id_token_of (minted_claims now fake_ada) = id_token_of (minted_claims 0 fake_ada)" for now
    by (simp add: id_token_of_def text_or_empty_def minted_identity minted_lookup)
  from this [symmetric] show ?thesis by (simp add: backed_by_def fake_env_def) blast
qed

theorem honest_login_succeeds_witness:
  "\<exists>url st w1 ident w'. run_state (oidc_Start fake_env) demo_world = (Inr (url, st), w1) \<and>
     run_state (oidc_Finish fake_env st ''code'') w1 = (Inr ident, w') \<and> id_Subject ident = ''ada''"
proof -
  obtain url st w1 where s: "run_state (oidc_Start fake_env) demo_world = (Inr (url, st), w1)"
    and f: "map_of (om_flows (w_oidc w1)) st = Some \<lparr>lf_nonce = ''tok'' @ nat_text 2, lf_verifier = ''ver'', lf_expires = 700 * sec + 1\<rparr>"
    and c: "w_clock w1 + pass fake_env (w_reads w1) \<le> 700 * sec + 1"
    by (simp add: oidc_Start_def discover_def randToken_def put_flow_def map_of_sweep update_conv fake_env_def demo_env_def
        demo_world_def nil_oidc_def demo_oidc_config_def flowTTL_def Let_def numeral_2_eq_2)
  have "pass fake_env n \<le> flowTTL" "rand_token fake_env k 24 \<noteq> ''''" for n k
    by (simp_all add: fake_env_def demo_env_def flowTTL_def)
  moreover have "fp_ClientID fake_ada = oidc_ClientID (om_cfg (w_oidc demo_world))" "fp_Nonce fake_ada = ''tok'' @ nat_text 2"
    "decode_claims (fp_Claims fake_ada) = Inr (no_claims\<lparr>cl_Sub := ''ada'', cl_Groups := [''admins'']\<rparr>)"
    by (simp_all add: fake_ada_def NewFake_def demo_world_def nil_oidc_def demo_oidc_config_def decode_claims_def no_claims_def)
  ultimately show ?thesis
    using honest_login_succeeds [OF s _ _ fake_backed] f c s by fastforce
qed

end
