(* ===== verification/Spec2Isabelle.thy ===== *)
theory Spec2Isabelle
  imports Docker_Theorems Docker_Reports Docker_Handlers Server_Enroll Server_Live Raidwatch_Laws
    System_Laws Fake_Idp
begin

text \<open>
  \<^bold>\<open>Veery\<close> is a server that watches, controls and updates the Docker containers of one host. It keeps
  its records in SQLite, talks to the Docker daemon, signs users in with passkeys or an OpenID Connect
  provider, watches the host's software RAID, pushes live messages to browsers and notifies the user's
  channels. This development models the Go code under \<^verbatim>\<open>src/\<close> and proves what makes it correct.

  \<^bold>\<open>Conventions.\<close> An operation of the code is a function of the same name. Fallible operations return
  \<^verbatim>\<open>err + 'a\<close> (written \<^verbatim>\<open>'a res\<close>); every error branch of the source is a branch here. The database is the
  record \<^verbatim>\<open>store\<close>; each statement can fail, decided by the field \<^verbatim>\<open>db_fault\<close>, and a failed statement
  changes nothing. Go maps are association lists read with \<^verbatim>\<open>map_of\<close>. Texts are lists of bytes. Log output
  is left out. Machine integers appear where their width matters: byte counts are 64-bit words, the
  signature counter a 32-bit word, a duration a product wrapped to 64 bits.

  \<^bold>\<open>Shared ground.\<close>
  \<^item> \<^verbatim>\<open>Veery_Prelude\<close>: errors and \<^verbatim>\<open>errors.Is\<close>, the string functions of Go's library, numbers as texts,
    triples for the state monad.
  \<^item> \<^verbatim>\<open>Api_Types\<close>, \<^verbatim>\<open>Docker_Types\<close>: the types of \<^verbatim>\<open>internal/api\<close> and of the Docker client.

  \<^bold>\<open>The database\<close> (\<^verbatim>\<open>internal/store\<close>).
  \<^item> \<^verbatim>\<open>Store_Base\<close>: the tables and the settings table with its JSON accessors; the locale \<^verbatim>\<open>kv_table\<close> is the
    contract of a key/value table.
  \<^item> \<^verbatim>\<open>Store_Settings\<close> (\<^verbatim>\<open>settings.go\<close>, \<^verbatim>\<open>notifications.go\<close>, \<^verbatim>\<open>mdadm.go\<close>), \<^verbatim>\<open>Store_Accounts\<close> (\<^verbatim>\<open>accessors.go\<close>,
    \<^verbatim>\<open>oidc.go\<close>), \<^verbatim>\<open>Store_Docker\<close> (\<^verbatim>\<open>docker_store.go\<close>, \<^verbatim>\<open>update_jobs.go\<close>), \<^verbatim>\<open>Store_Events\<close> (\<^verbatim>\<open>events.go\<close>): every
    statement; saved values are loaded back, the account tables keep their keys and references, following
    the cursors of the event log visits every matching event once, the search pattern is containment.
  \<^item> \<^verbatim>\<open>Store_Migrate\<close> (\<^verbatim>\<open>sqlite.go\<close>, \<^verbatim>\<open>migrations.go\<close>): opening the database, the statements of the migrations on
    a schema, the version kept in it; an upgrade reaches the current schema, an interrupted one does not
    start again.

  \<^bold>\<open>The Docker manager\<close> (\<^verbatim>\<open>internal/docker\<close>). The daemon is a parameter, a record of functions on an opaque
  state; what Veery relies on of it is \<^verbatim>\<open>docker_laws\<close>, which hold of the small daemon of \<^verbatim>\<open>Docker_Sim\<close>.
  \<^item> \<^verbatim>\<open>Docker_Env\<close> (\<^verbatim>\<open>client.go\<close>, \<^verbatim>\<open>self.go\<close>), \<^verbatim>\<open>Docker_Stacks\<close> (\<^verbatim>\<open>lifecycle.go\<close>, \<^verbatim>\<open>notify.go\<close>), \<^verbatim>\<open>Docker_Ops\<close>
    (\<^verbatim>\<open>jobs.go\<close>, \<^verbatim>\<open>actions.go\<close>, \<^verbatim>\<open>snapshot.go\<close>, \<^verbatim>\<open>updatecheck.go\<close>, \<^verbatim>\<open>reconcile.go\<close>), \<^verbatim>\<open>Docker_Update\<close>
    (\<^verbatim>\<open>update.go\<close>, \<^verbatim>\<open>selfupdate.go\<close>, \<^verbatim>\<open>recover.go\<close>, \<^verbatim>\<open>autoupdate.go\<close>): the operations in the state monad. The
    health check is a total function whose measure is the time left to its deadline, since a sleep lasts
    at least as long as asked; the watch on a helper takes the number of rounds as its fuel, and says
    whether it ended.
  \<^item> \<^verbatim>\<open>Docker_Laws\<close>, \<^verbatim>\<open>Docker_Safety\<close>: the laws and the calculus; \<^verbatim>\<open>Docker_Theorems\<close>: swapping a container,
    a whole update and recovery after a crash never lose the service; \<^verbatim>\<open>Docker_Reports\<close>: job records,
    snapshots, notifications and what the dashboard shows.
  \<^item> \<^verbatim>\<open>Docker_Handlers\<close> (\<^verbatim>\<open>server/docker_handlers.go\<close>): the handlers that drive the manager; forgetting drops
    records, not services.
  \<^item> \<^verbatim>\<open>Docker_Frame\<close>: the locale \<^verbatim>\<open>manager_frame\<close>: a part of the database that the manager's own statements
    leave alone is left alone by every operation of the manager; interpreted on the account tables.

  \<^bold>\<open>Notifications\<close> (\<^verbatim>\<open>internal/notify\<close>), theory \<^verbatim>\<open>Notify\<close>: recording, pruning, live push and delivery; Shoutrrr
  is a parameter, delivery is recorded and not awaited.

  \<^bold>\<open>Accounts and the HTTP server\<close> (\<^verbatim>\<open>internal/auth\<close>, \<^verbatim>\<open>internal/oidc\<close>, \<^verbatim>\<open>internal/server\<close>). The clock, the random
  source, the WebAuthn library, the OIDC client with its provider, the recurrence library, the zone and
  the disks are fields of \<^verbatim>\<open>auth_env\<close>.
  \<^item> \<^verbatim>\<open>Server_Env\<close>: the world, requests and the response writer; the locale \<^verbatim>\<open>one_time_table\<close> is the contract
    of the tables of ceremonies and login flows, which \<^verbatim>\<open>Auth\<close> and \<^verbatim>\<open>Oidc\<close> interpret.
  \<^item> \<^verbatim>\<open>Auth\<close>, \<^verbatim>\<open>Oidc\<close>: sessions, invites, passkey ceremonies, OIDC login. \<^verbatim>\<open>Server_Api\<close>: settings, disks, RAID,
    events and notification handlers. \<^verbatim>\<open>Server_Auth\<close>: the middleware, the account handlers and the routes.
  \<^item> \<^verbatim>\<open>Server_Safety\<close>: the locale \<^verbatim>\<open>account_invariant\<close>: a property of the database that every statement keeps
    is kept by every request. \<^verbatim>\<open>Server_Theorems\<close>, \<^verbatim>\<open>Server_Enroll\<close>: its interpretations (integrity, an admin
    remains, used invites, ended sessions) and what signing in and enrolling do.
  \<^item> \<^verbatim>\<open>Server_Shape\<close>: every route answers once, with an error text exactly under an error status, but for the one
    path where issuing a session fails. \<^verbatim>\<open>Server_Routes\<close> (\<^verbatim>\<open>server.go\<close>): the routing table, the cross-origin
    protection and the request's way through them; no protected route answers without a session.
  \<^item> \<^verbatim>\<open>Fake_Idp\<close> (\<^verbatim>\<open>oidc/fakeidp\<close>): the provider used by the tests; an honest login against it succeeds.
  \<^item> \<^verbatim>\<open>Hub\<close> (\<^verbatim>\<open>ws.go\<close>): the fan-out of live messages as runs of interleaved steps; a connection refines a
    lossy ordered merge. \<^verbatim>\<open>Server_Live\<close>: opening a connection, and the schedules stored for the watcher.

  \<^bold>\<open>The host\<close> (\<^verbatim>\<open>internal/metrics\<close>, \<^verbatim>\<open>internal/raidwatch\<close>).
  \<^item> \<^verbatim>\<open>Mdadm\<close> (\<^verbatim>\<open>mdadm.go\<close>): the mdstat parser with its regular expressions as functions, health and starting
    a scrub; parsing inverts the kernel's rendering.
  \<^item> \<^verbatim>\<open>Raidwatch\<close>, \<^verbatim>\<open>Raidwatch_Laws\<close> (\<^verbatim>\<open>raidwatch.go\<close>, \<^verbatim>\<open>schedule.go\<close>): transitions, schedules and the retry
    ladder, with a step relation for the poller and the API side by side.
  \<^item> \<^verbatim>\<open>Disks\<close>, \<^verbatim>\<open>Disk_Laws\<close> (\<^verbatim>\<open>disks.go\<close>, \<^verbatim>\<open>build.go\<close>): which disks are shown, and the throughput marks.
  \<^item> \<^verbatim>\<open>Float64\<close>: the finite \<^verbatim>\<open>float64\<close> values as rationals, every operation rounded to 53 bits, and the error of
    one and of several roundings. \<^verbatim>\<open>Host_Sample\<close> (\<^verbatim>\<open>host.go\<close>): the collector; \<^verbatim>\<open>Docker_Stats\<close>
    (\<^verbatim>\<open>docker/stats.go\<close>): the containers' CPU and memory. The reported rates and percentages are the true
    ones up to those errors.
  \<^item> \<^verbatim>\<open>Command\<close>, \<^verbatim>\<open>Command_Run\<close> (\<^verbatim>\<open>cmd/veery/main.go\<close>): configuration, the choice of the command, the helper of a
    self-update with its flags, the start of the Docker manager, one round of each poller.

  \<^bold>\<open>The process.\<close>
  \<^item> \<^verbatim>\<open>System\<close>: the database, the manager, the server, the watcher and the hub in one state; the start of
    \<^verbatim>\<open>main.go\<close>, the dispatch of a request to its handler, the rounds of the pollers, and runs as sequences of
    these steps in any order. \<^verbatim>\<open>System_Laws\<close>: the locale \<^verbatim>\<open>system_invariant\<close> extends \<^verbatim>\<open>account_invariant\<close> to the
    process; in every run the accounts stay consistent, an admin remains and signing out ends access to the
    API, though not an open live channel.

  \<^bold>\<open>Granularity.\<close> Docker operations and requests are sequences of atomic calls; locks that other goroutines
  hold are part of the manager's state. The endless pollers are represented by their rounds. The watcher
  and the hub, where the interleaving is the point, are modelled at the granularity of their mutexes.

  \<^bold>\<open>Not modelled.\<close> Within a process run a request, a job and a round are one step each; finer interleavings
  are only those of the watcher and the hub. SQLite's file format and pragmas, the WebSocket handshake, the
  listener and its shutdown belong to libraries and the operating system. The embedded web assets are data.
\<close>

end
